(* ===== verification/Go_Lib.thy ===== *)
theory Go_Lib
  imports Main "HOL-Library.Char_ord" "HOL-Library.List_Lexorder" "HOL-Library.Multiset"
begin

text \<open>
  Shared vocabulary of the development: how Go's results, loops, maps, integers and clocks are
  read in HOL, with the generic lemmas the component theories rely on.

  \<^item> A Go \<open>error\<close> result is \<open>'e option\<close> (\<^const>\<open>None\<close> is \<open>nil\<close>); a Go pair \<open>(T, error)\<close> is
    \<open>'e + 'a\<close> with \<^const>\<open>Inl\<close> for the error.
  \<^item> A \<open>for ... range\<close> loop that leaves the function at its first error is \<open>first_error\<close>.
  \<^item> A Go map is a HOL map; where the source iterates over a map, the iteration order, which Go
    leaves unspecified, is an explicit list argument.
  \<^item> \<open>int64\<close> arithmetic is written on \<^typ>\<open>int\<close> with \<open>wrap64\<close> where it can overflow.
\<close>

named_theorems go_simps \<open>unfolding rules of the validation predicates\<close>
named_theorems go_intros \<open>preservation rules of the component invariants\<close>

section \<open>Errors as values\<close>

type_synonym 'e err = "'e option"

fun first_error :: "('a \<Rightarrow> 'e err) \<Rightarrow> 'a list \<Rightarrow> 'e err" where
  "first_error f [] = None"
| "first_error f (x # xs) = (case f x of Some e \<Rightarrow> Some e | None \<Rightarrow> first_error f xs)"

lemma first_error_None: "first_error f xs = None \<longleftrightarrow> (\<forall>x \<in> set xs. f x = None)"
  by (induction xs) (auto split: option.splits)

lemma first_error_Some: "first_error f xs = Some e \<Longrightarrow> \<exists>x \<in> set xs. f x = Some e"
  by (induction xs) (auto split: option.splits)

lemma first_error_append:
  "first_error f (xs @ ys) =
     (case first_error f xs of Some e \<Rightarrow> Some e | None \<Rightarrow> first_error f ys)"
  by (induction xs) (simp_all split: option.split)

text \<open>A chain of guards that each return an error is passed exactly when no guard fires.\<close>

lemma guard_None [simp]: "(if c then Some e else r) = None \<longleftrightarrow> \<not> c \<and> r = None"
  by simp

lemma guard_Inr [simp]: "(if c then Inl e else r) = Inr a \<longleftrightarrow> \<not> c \<and> r = Inr a"
  by simp

definition and_then :: "'e err \<Rightarrow> 'e err \<Rightarrow> 'e err" where
  "and_then a b = (case a of Some e \<Rightarrow> Some e | None \<Rightarrow> b)"

lemma and_then_None [simp]: "and_then a b = None \<longleftrightarrow> a = None \<and> b = None"
  by (cases a) (auto simp: and_then_def)

lemma and_then_Nil [simp]: "and_then None b = b" "and_then (Some e) b = Some e"
  by (simp_all add: and_then_def)

definition res_bind :: "'e + 'a \<Rightarrow> ('a \<Rightarrow> 'e + 'b) \<Rightarrow> 'e + 'b" where
  "res_bind r f = (case r of Inl e \<Rightarrow> Inl e | Inr a \<Rightarrow> f a)"

lemma res_bind_simps [simp]: "res_bind (Inl e) f = Inl e" "res_bind (Inr a) f = f a"
  by (simp_all add: res_bind_def)

lemma res_bind_Inr: "res_bind r f = Inr b \<longleftrightarrow> (\<exists>a. r = Inr a \<and> f a = Inr b)"
  by (cases r) auto

definition is_ok :: "'e + 'a \<Rightarrow> bool" where
  "is_ok r = (case r of Inl _ \<Rightarrow> False | Inr _ \<Rightarrow> True)"

lemma is_ok_simps [simp]: "\<not> is_ok (Inl e)" "is_ok (Inr a)"
  by (simp_all add: is_ok_def)

lemma is_ok_iff: "is_ok r \<longleftrightarrow> (\<exists>a. r = Inr a)"
  by (cases r) auto

text \<open>A loop that threads a state and may stop with an error.\<close>

fun fold_res :: "('a \<Rightarrow> 's \<Rightarrow> 'e + 's) \<Rightarrow> 'a list \<Rightarrow> 's \<Rightarrow> 'e + 's" where
  "fold_res f [] s = Inr s"
| "fold_res f (x # xs) s = (case f x s of Inl e \<Rightarrow> Inl e | Inr s' \<Rightarrow> fold_res f xs s')"

lemma fold_res_append:
  "fold_res f (xs @ ys) s =
     (case fold_res f xs s of Inl e \<Rightarrow> Inl e | Inr s' \<Rightarrow> fold_res f ys s')"
  by (induction xs arbitrary: s) (auto split: sum.splits)

lemma fold_res_inv:
  assumes "fold_res f xs s = Inr s'" and "I s"
    and "\<And>x s s'. x \<in> set xs \<Longrightarrow> I s \<Longrightarrow> f x s = Inr s' \<Longrightarrow> I s'"
  shows "I s'"
  using assms
proof (induction xs arbitrary: s)
  case Nil
  then show ?case by simp
next
  case (Cons x xs)
  then obtain t where t: "f x s = Inr t" "fold_res f xs t = Inr s'"
    by (auto split: sum.splits)
  have "I t" using Cons.prems t by auto
  with t(2) show ?case by (rule Cons.IH) (use Cons.prems(3) in auto)
qed

section \<open>Machine integers\<close>

definition wrap64 :: "int \<Rightarrow> int" where
  "wrap64 x = (x + 2 ^ 63) mod 2 ^ 64 - 2 ^ 63"

definition max_int64 :: int where
  "max_int64 = 2 ^ 63 - 1"

definition min_int64 :: int where
  "min_int64 = - (2 ^ 63)"

lemma wrap64_range: "min_int64 \<le> wrap64 x \<and> wrap64 x \<le> max_int64"
  by (simp add: wrap64_def min_int64_def max_int64_def)

lemma wrap64_id: "min_int64 \<le> x \<Longrightarrow> x \<le> max_int64 \<Longrightarrow> wrap64 x = x"
  by (simp add: wrap64_def min_int64_def max_int64_def)

lemma le_div_iff:
  fixes x m c :: int
  assumes "0 < c"
  shows "x \<le> m div c \<longleftrightarrow> x * c \<le> m"
proof
  assume "x \<le> m div c"
  then have "x * c \<le> (m div c) * c" using assms by (intro mult_right_mono) simp_all
  moreover have "(m div c) * c \<le> m" using assms by (simp add: div_mult_mod_eq minus_mod_eq_div_mult [symmetric])
  ultimately show "x * c \<le> m" by simp
next
  assume "x * c \<le> m"
  then have "(x * c) div c \<le> m div c" using assms by (rule zdiv_mono1)
  then show "x \<le> m div c" using assms by simp
qed

lemma div_le_iff:
  fixes x m c :: int
  assumes "0 < c"
  shows "m div c \<le> x \<longleftrightarrow> m < (x + 1) * c"
  using le_div_iff [OF assms, of "x + 1" m] by linarith

text \<open>\<open>uint64\<close> counters wrap at \<open>2 ^ 64\<close>.\<close>

definition succ_u64 :: "nat \<Rightarrow> nat" where
  "succ_u64 n = (n + 1) mod 2 ^ 64"

lemma succ_u64_lt: "succ_u64 n < 2 ^ 64"
  by (simp add: succ_u64_def)

lemma succ_u64_Suc: "n + 1 < 2 ^ 64 \<Longrightarrow> succ_u64 n = n + 1"
  by (simp add: succ_u64_def)

lemma succ_u64_neq: "succ_u64 n \<noteq> n"
proof
  assume eq: "succ_u64 n = n"
  then have "n < 2 ^ 64" using succ_u64_lt [of n] by simp
  then consider "n + 1 < 2 ^ 64" | "n + 1 = 2 ^ 64" by linarith
  then show False
    using eq by cases (simp_all add: succ_u64_def)
qed

section \<open>Clock\<close>

text \<open>
  A \<open>time.Time\<close> is its distance in nanoseconds from Go's zero instant, so \<open>t.IsZero()\<close> is
  \<open>t = 0\<close>; a \<open>time.Duration\<close> is a number of nanoseconds. \<open>t.Sub(u)\<close> saturates at the
  bounds of \<open>int64\<close>.
\<close>

type_synonym time = int
type_synonym duration = int

abbreviation second :: duration where "second \<equiv> 1000000000"
abbreviation minute :: duration where "minute \<equiv> 60000000000"
abbreviation hour :: duration where "hour \<equiv> 3600000000000"

definition time_sub :: "time \<Rightarrow> time \<Rightarrow> duration" where
  "time_sub t u = max min_int64 (min max_int64 (t - u))"

lemma time_sub_ge:
  "0 < d \<Longrightarrow> d \<le> max_int64 \<Longrightarrow> d \<le> time_sub t u \<longleftrightarrow> d \<le> t - u"
  by (auto simp: time_sub_def min_int64_def max_int64_def)

section \<open>Lists\<close>

text \<open>\<open>slices.Compact\<close>: runs of equal neighbours are reduced to their first element.\<close>

fun compact :: "'a list \<Rightarrow> 'a list" where
  "compact [] = []"
| "compact [x] = [x]"
| "compact (x # y # ys) = (if x = y then compact (x # ys) else x # compact (y # ys))"

lemma set_compact [simp]: "set (compact xs) = set xs"
  by (induction xs rule: compact.induct) auto

lemma compact_Nil [simp]: "compact xs = [] \<longleftrightarrow> xs = []"
  by (induction xs rule: compact.induct) auto

lemma sorted_compact: "sorted_wrt R xs \<Longrightarrow> sorted_wrt R (compact xs)"
  by (induction xs rule: compact.induct) auto

lemma distinct_compact:
  assumes "sorted_wrt (\<lambda>a b. k a \<le> (k b :: 'b :: linorder)) xs" and "inj_on k (set xs)"
  shows "distinct (compact xs)"
  using assms
proof (induction xs rule: compact.induct)
  case (3 x y ys)
  show ?case
  proof (cases "x = y")
    case True
    have "distinct (compact (x # ys))"
      using "3.prems" True by (intro "3.IH"(1)) (auto intro: inj_on_subset)
    with True show ?thesis by simp
  next
    case False
    have "x \<notin> set (y # ys)"
    proof
      assume "x \<in> set (y # ys)"
      with False have "x \<in> set ys" by simp
      with "3.prems"(1) have "k x \<le> k y" and "k y \<le> k x" by simp_all
      then have "k x = k y" by (rule order_antisym)
      from inj_onD [OF "3.prems"(2) this] have "x = y" by simp
      with False show False by simp
    qed
    moreover have "distinct (compact (y # ys))"
      using "3.prems" False by (intro "3.IH"(2)) (auto intro: inj_on_subset)
    ultimately show ?thesis using False by simp
  qed
qed simp_all

lemma compact_distinct: "distinct xs \<Longrightarrow> compact xs = xs"
  by (induction xs rule: compact.induct) auto

text \<open>The first element a search loop returns, and replacement of the elements it matches.\<close>

definition find_first :: "('a \<Rightarrow> bool) \<Rightarrow> 'a list \<Rightarrow> 'a option" where
  "find_first p xs = List.find p xs"

lemma find_first_simps [simp]:
  "find_first p [] = None"
  "find_first p (x # xs) = (if p x then Some x else find_first p xs)"
  by (simp_all add: find_first_def)

lemma find_first_None [simp]: "find_first p xs = None \<longleftrightarrow> (\<forall>x \<in> set xs. \<not> p x)"
  by (auto simp: find_first_def find_None_iff)

lemma find_first_SomeD: "find_first p xs = Some x \<Longrightarrow> x \<in> set xs \<and> p x"
  by (induction xs) (auto split: if_splits)

lemma find_first_unique:
  assumes "distinct (map k xs)" and "x \<in> set xs"
  shows "find_first (\<lambda>y. k y = k x) xs = Some x"
  using assms by (induction xs) auto

text \<open>Go's \<open>seen\<close> map loops: no key occurs twice.\<close>

fun first_dup :: "'a list \<Rightarrow> 'a list \<Rightarrow> 'a option" where
  "first_dup seen [] = None"
| "first_dup seen (x # xs) = (if x \<in> set seen then Some x else first_dup (x # seen) xs)"

lemma first_dup_None: "first_dup seen xs = None \<longleftrightarrow> distinct xs \<and> set xs \<inter> set seen = {}"
  by (induction xs arbitrary: seen) auto

lemma first_dup_distinct [simp]: "first_dup [] xs = None \<longleftrightarrow> distinct xs"
  by (simp add: first_dup_None)

section \<open>Loops that collect results until an error\<close>

fun map_res :: "('a \<Rightarrow> 'e + 'b) \<Rightarrow> 'a list \<Rightarrow> 'e + 'b list" where
  "map_res f [] = Inr []"
| "map_res f (x # xs) =
     (case f x of
        Inl e \<Rightarrow> Inl e
      | Inr y \<Rightarrow> (case map_res f xs of Inl e \<Rightarrow> Inl e | Inr ys \<Rightarrow> Inr (y # ys)))"

lemma map_res_Inr:
  "map_res f xs = Inr ys \<longleftrightarrow> list_all2 (\<lambda>x y. f x = Inr y) xs ys"
proof (induction xs arbitrary: ys)
  case (Cons x xs)
  show ?case
  proof (cases ys)
    case Nil
    then show ?thesis by (auto split: sum.split)
  next
    case (Cons y zs)
    then show ?thesis
      using Cons.IH [of zs] by (cases "f x"; cases "map_res f xs") auto
  qed
qed auto

lemma map_res_ok: "(\<forall>x \<in> set xs. f x = Inr (g x)) \<Longrightarrow> map_res f xs = Inr (map g xs)"
  by (induction xs) auto

lemma map_res_Inl: "map_res f xs = Inl e \<Longrightarrow> \<exists>x \<in> set xs. f x = Inl e"
  by (induction xs) (auto split: sum.split_asm)

section \<open>Sorting by byte order\<close>

text \<open>
  \<open>sort.Strings\<close> and \<open>slices.Sort\<close> order strings bytewise; \<^typ>\<open>string\<close> carries that order
  through \<^typ>\<open>char\<close>'s code order.  \<open>sort.Slice\<close> is not stable, but the keys it is called with
  here are unique, so the stable \<^const>\<open>sort_key\<close> gives the same list.
\<close>

lemma sort_key_perm_eq:
  fixes k :: "'a \<Rightarrow> 'b :: linorder"
  assumes "mset xs = mset ys" and "inj_on k (set xs)"
  shows "sort_key k xs = sort_key k ys"
proof (rule properties_for_sort_key)
  show "mset (sort_key k ys) = mset xs" using assms by simp
  show "sorted (map k (sort_key k ys))" by simp
  fix x
  assume x: "x \<in> set (sort_key k ys)"
  have "set xs = set ys" using assms(1) by (metis set_mset_mset)
  with x have x': "x \<in> set xs" by simp
  have eq: "filter (\<lambda>y. k x = k y) zs = replicate (count (mset zs) x) x" if "set zs = set xs" for zs
  proof -
    have "filter (\<lambda>y. k x = k y) zs = filter (\<lambda>y. y = x) zs"
      using x' that assms(2) by (intro filter_cong) (auto simp: inj_on_def)
    also have "\<dots> = replicate (count (mset zs) x) x"
      by (induction zs) auto
    finally show ?thesis .
  qed
  show "filter (\<lambda>y. k x = k y) (sort_key k ys) = filter (\<lambda>y. k x = k y) xs"
    using eq [of "sort_key k ys"] eq [of xs] \<open>set xs = set ys\<close> assms(1)
    by simp
qed

end
