(* ===== verification/Go_Strings.thy ===== *)
theory Go_Strings
  imports Go_Lib "HOL-Library.Sublist"
begin

text \<open>
  The parts of Go's \<open>strings\<close>, \<open>unicode\<close>, \<open>unicode/utf8\<close>, \<open>fmt\<close> and \<open>path/filepath\<close> packages
  the program uses.  A Go string is a sequence of bytes, a \<^typ>\<open>string\<close> here; \<open>len\<close> is
  \<^const>\<open>length\<close>.  A \<open>range\<close> loop visits the code points of the UTF-8 decoding, in which every
  byte that belongs to no valid sequence counts as one \<open>U+FFFD\<close>.
\<close>

section \<open>Bytes\<close>

definition byte :: "char \<Rightarrow> nat" where
  "byte c = of_char c"

lemma byte_inj: "byte a = byte b \<longleftrightarrow> a = b"
  by (simp add: byte_def)

lemma byte_lt: "byte c < 256"
  unfolding byte_def by (simp add: of_char_of)

definition is_digit :: "char \<Rightarrow> bool" where
  "is_digit c \<longleftrightarrow> 48 \<le> byte c \<and> byte c \<le> 57"

definition is_lower :: "char \<Rightarrow> bool" where
  "is_lower c \<longleftrightarrow> 97 \<le> byte c \<and> byte c \<le> 122"

definition is_upper :: "char \<Rightarrow> bool" where
  "is_upper c \<longleftrightarrow> 65 \<le> byte c \<and> byte c \<le> 90"

definition is_hex :: "char \<Rightarrow> bool" where
  "is_hex c \<longleftrightarrow> is_digit c \<or> 97 \<le> byte c \<and> byte c \<le> 102"

definition is_ascii :: "string \<Rightarrow> bool" where
  "is_ascii s \<longleftrightarrow> (\<forall>c \<in> set s. byte c < 128)"

lemmas byte_class_defs = byte_def is_digit_def is_lower_def is_upper_def is_hex_def

text \<open>\<open>isLowerHex\<close>-style loops over a whole string.\<close>

definition all_bytes :: "(char \<Rightarrow> bool) \<Rightarrow> string \<Rightarrow> bool" where
  "all_bytes p s = list_all p s"

lemma all_bytes_simps [simp]:
  "all_bytes p []" "all_bytes p (c # s) \<longleftrightarrow> p c \<and> all_bytes p s"
  "all_bytes p (s @ t) \<longleftrightarrow> all_bytes p s \<and> all_bytes p t"
  by (simp_all add: all_bytes_def)

lemma all_bytes_iff: "all_bytes p s \<longleftrightarrow> (\<forall>c \<in> set s. p c)"
  by (simp add: all_bytes_def list_all_iff)

section \<open>Prefixes, cutting and splitting\<close>

definition HasPrefix :: "string \<Rightarrow> string \<Rightarrow> bool" where
  "HasPrefix s p = prefix p s"

definition HasSuffix :: "string \<Rightarrow> string \<Rightarrow> bool" where
  "HasSuffix s p = suffix p s"

definition TrimPrefix :: "string \<Rightarrow> string \<Rightarrow> string" where
  "TrimPrefix s p = (if HasPrefix s p then drop (length p) s else s)"

definition TrimSuffix :: "string \<Rightarrow> string \<Rightarrow> string" where
  "TrimSuffix s p = (if HasSuffix s p then take (length s - length p) s else s)"

lemma HasPrefix_append [simp]: "HasPrefix (p @ s) p"
  by (simp add: HasPrefix_def)

lemma TrimPrefix_append [simp]: "TrimPrefix (p @ s) p = s"
  by (simp add: TrimPrefix_def)

lemma TrimSuffix_append [simp]: "TrimSuffix (s @ p) p = s"
  by (simp add: TrimSuffix_def HasSuffix_def suffix_def)

text \<open>\<open>strings.Cut\<close> with a one-byte separator.\<close>

definition Cut :: "string \<Rightarrow> char \<Rightarrow> string \<times> string \<times> bool" where
  "Cut s sep =
     (if sep \<in> set s
      then (takeWhile (\<lambda>c. c \<noteq> sep) s, tl (dropWhile (\<lambda>c. c \<noteq> sep) s), True)
      else (s, [], False))"

lemma Cut_append: "sep \<notin> set a \<Longrightarrow> Cut (a @ sep # b) sep = (a, b, True)"
proof -
  assume "sep \<notin> set a"
  then have "takeWhile (\<lambda>c. c \<noteq> sep) (a @ sep # b) = a"
    and "dropWhile (\<lambda>c. c \<noteq> sep) (a @ sep # b) = sep # b"
    by (induction a) auto
  then show ?thesis by (simp add: Cut_def)
qed

lemma Cut_foundD:
  assumes "Cut s sep = (a, b, True)"
  shows "s = a @ sep # b \<and> sep \<notin> set a"
proof -
  from assms have "sep \<in> set s" by (auto simp: Cut_def split: if_splits)
  then obtain x y where "s = x @ sep # y" "sep \<notin> set x" by (meson split_list_first)
  with assms show ?thesis by (simp add: Cut_append)
qed

lemma Cut_not_found: "sep \<notin> set s \<Longrightarrow> Cut s sep = (s, [], False)"
  by (simp add: Cut_def)

text \<open>\<open>strings.Split\<close> with a one-byte separator: one part more than there are separators.\<close>

fun Split :: "string \<Rightarrow> char \<Rightarrow> string list" where
  "Split [] sep = [[]]"
| "Split (c # s) sep =
     (if c = sep then [] # Split s sep
      else (case Split s sep of [] \<Rightarrow> [[c]] | p # ps \<Rightarrow> (c # p) # ps))"

lemma Split_nonempty [simp]: "Split s sep \<noteq> []"
  by (induction s) (auto split: list.splits)

lemma Split_no_sep: "sep \<notin> set s \<Longrightarrow> Split s sep = [s]"
  by (induction s) auto

lemma Split_append: "sep \<notin> set a \<Longrightarrow> Split (a @ sep # b) sep = a # Split b sep"
  by (induction a) auto

lemma Split_parts_no_sep: "p \<in> set (Split s sep) \<Longrightarrow> sep \<notin> set p"
  by (induction s arbitrary: p) (auto split: list.splits if_splits)

fun Join :: "string list \<Rightarrow> string \<Rightarrow> string" where
  "Join [] sep = []"
| "Join [p] sep = p"
| "Join (p # q # ps) sep = p @ sep @ Join (q # ps) sep"

lemma Join_Cons: "ps \<noteq> [] \<Longrightarrow> Join (p # ps) sep = p @ sep @ Join ps sep"
  by (cases ps) auto

lemma Split_Join:
  "ps \<noteq> [] \<Longrightarrow> \<forall>p \<in> set ps. sep \<notin> set p \<Longrightarrow> Split (Join ps [sep]) sep = ps"
proof (induction ps)
  case (Cons p ps)
  show ?case
  proof (cases "ps = []")
    case True
    with Cons.prems show ?thesis by (simp add: Split_no_sep)
  next
    case False
    with Cons show ?thesis by (simp add: Join_Cons Split_append)
  qed
qed simp

lemma Join_head: "Join ((c # p) # ps) sep = c # Join (p # ps) sep"
  by (cases ps) simp_all

lemma Join_Split: "Join (Split s sep) [sep] = s"
proof (induction s)
  case (Cons c s)
  show ?case
  proof (cases "Split s sep")
    case (Cons p ps)
    with Cons.IH show ?thesis
      by (simp add: Join_head)
  qed simp
qed simp

text \<open>\<open>strings.ContainsAny\<close> for an ASCII set of characters.\<close>

definition ContainsAny :: "string \<Rightarrow> string \<Rightarrow> bool" where
  "ContainsAny s chars = list_ex (\<lambda>c. c \<in> set chars) s"

lemma ContainsAny_iff: "ContainsAny s chars \<longleftrightarrow> set s \<inter> set chars \<noteq> {}"
  by (auto simp: ContainsAny_def list_ex_iff)

text \<open>\<open>strings.Trim(s, cutset)\<close> for an ASCII cutset.\<close>

definition Trim :: "string \<Rightarrow> string \<Rightarrow> string" where
  "Trim s cutset =
     rev (dropWhile (\<lambda>c. c \<in> set cutset) (rev (dropWhile (\<lambda>c. c \<in> set cutset) s)))"

lemma Trim_Nil: "Trim s cutset = [] \<longleftrightarrow> set s \<subseteq> set cutset"
proof -
  define P where "P = (\<lambda>c. c \<in> set cutset)"
  define d where "d = dropWhile P s"
  have "Trim s cutset = [] \<longleftrightarrow> dropWhile P (rev d) = []"
    by (simp only: Trim_def P_def d_def rev_is_Nil_conv)
  also have "\<dots> \<longleftrightarrow> (\<forall>c \<in> set d. P c)"
    by (simp only: dropWhile_eq_Nil_conv set_rev)
  also have "\<dots> \<longleftrightarrow> d = []"
    using hd_dropWhile [of P s] hd_in_set [of d] by (auto simp only: d_def list.set)
  also have "\<dots> \<longleftrightarrow> (\<forall>c \<in> set s. P c)"
    by (simp only: d_def dropWhile_eq_Nil_conv)
  finally show ?thesis by (auto simp only: P_def)
qed

section \<open>UTF-8\<close>

text \<open>
  \<open>utf8.DecodeRuneInString\<close>: the width of the sequence at the head of a non-empty string, with
  the second-byte ranges that exclude overlong forms, surrogates and values above \<open>U+10FFFF\<close>;
  width 0 marks an invalid sequence, which is consumed as one byte and read as \<open>U+FFFD\<close>.
\<close>

definition cont :: "string \<Rightarrow> nat \<Rightarrow> nat \<Rightarrow> nat \<Rightarrow> bool" where
  "cont s i lo hi \<longleftrightarrow> i < length s \<and> lo \<le> byte (s ! i) \<and> byte (s ! i) \<le> hi"

definition rune_width :: "string \<Rightarrow> nat" where
  "rune_width s =
     (let b = byte (s ! 0) in
      if b < 128 then 1
      else if 194 \<le> b \<and> b \<le> 223 then (if cont s 1 128 191 then 2 else 0)
      else if 224 \<le> b \<and> b \<le> 239 then
        (if cont s 1 (if b = 224 then 160 else 128) (if b = 237 then 159 else 191) \<and> cont s 2 128 191
         then 3 else 0)
      else if 240 \<le> b \<and> b \<le> 244 then
        (if cont s 1 (if b = 240 then 144 else 128) (if b = 244 then 143 else 191)
            \<and> cont s 2 128 191 \<and> cont s 3 128 191
         then 4 else 0)
      else 0)"

definition rune_error :: nat where
  "rune_error = 65533"

definition rune_value :: "string \<Rightarrow> nat" where
  "rune_value s =
     (let b = (\<lambda>i. byte (s ! i)); w = rune_width s in
      if w = 0 then rune_error
      else if w = 1 then b 0
      else if w = 2 then (b 0 mod 32) * 64 + b 1 mod 64
      else if w = 3 then (b 0 mod 16) * 4096 + (b 1 mod 64) * 64 + b 2 mod 64
      else (b 0 mod 8) * 262144 + (b 1 mod 64) * 4096 + (b 2 mod 64) * 64 + b 3 mod 64)"

text \<open>The decoding of a whole string: each code point with the bytes it came from.\<close>

fun chunks :: "string \<Rightarrow> (nat \<times> string) list" where
  "chunks [] = []"
| "chunks (c # s) =
     (let n = max 1 (rune_width (c # s))
      in (rune_value (c # s), take n (c # s)) # chunks (drop (n - 1) s))"

definition runes :: "string \<Rightarrow> nat list" where
  "runes s = map fst (chunks s)"

definition ValidString :: "string \<Rightarrow> bool" where
  "ValidString s = list_all (\<lambda>(r, bs). \<not> (r = rune_error \<and> length bs = 1)) (chunks s)"

lemma concat_chunks [simp]: "concat (map snd (chunks s)) = s"
proof (induction s rule: chunks.induct)
  case (2 c s)
  define n where "n = max 1 (rune_width (c # s))"
  have "n \<ge> 1" by (simp add: n_def)
  have "concat (map snd (chunks (c # s))) = take n (c # s) @ drop (n - 1) s"
    using "2.IH" [OF n_def] by (simp add: n_def Let_def)
  also have "\<dots> = take n (c # s) @ drop n (c # s)"
    using \<open>n \<ge> 1\<close> by (cases n) auto
  finally show ?case by simp
qed simp

lemma rune_width_ascii: "byte c < 128 \<Longrightarrow> rune_width (c # s) = 1"
  by (simp add: rune_width_def)

lemma chunks_ascii: "is_ascii s \<Longrightarrow> chunks s = map (\<lambda>c. (byte c, [c])) s"
  by (induction s) (auto simp: is_ascii_def rune_width_ascii rune_value_def)

lemma runes_ascii: "is_ascii s \<Longrightarrow> runes s = map byte s"
  by (simp add: runes_def chunks_ascii)

lemma ValidString_ascii: "is_ascii s \<Longrightarrow> ValidString s"
  by (auto simp: ValidString_def chunks_ascii list_all_iff is_ascii_def rune_error_def)

text \<open>\<open>unicode.IsControl\<close> and \<open>unicode.IsSpace\<close>.\<close>

definition IsControl :: "nat \<Rightarrow> bool" where
  "IsControl r \<longleftrightarrow> r < 32 \<or> 127 \<le> r \<and> r < 160"

definition IsSpace :: "nat \<Rightarrow> bool" where
  "IsSpace r \<longleftrightarrow> 9 \<le> r \<and> r \<le> 13 \<or> r = 32 \<or> r = 133 \<or> r = 160 \<or> r = 5760
     \<or> 8192 \<le> r \<and> r \<le> 8202 \<or> r = 8232 \<or> r = 8233 \<or> r = 8239 \<or> r = 8287 \<or> r = 12288"

definition ContainsControl :: "string \<Rightarrow> bool" where
  "ContainsControl s = list_ex IsControl (runes s)"

definition TrimSpace :: "string \<Rightarrow> string" where
  "TrimSpace s =
     concat (map snd (rev (dropWhile (\<lambda>(r, _). IsSpace r)
       (rev (dropWhile (\<lambda>(r, _). IsSpace r) (chunks s))))))"

text \<open>A string whose first and last code points are not spaces is left alone.\<close>

lemma trim_ends:
  assumes "xs = [] \<or> (\<not> P (hd xs) \<and> \<not> P (last xs))"
  shows "rev (dropWhile P (rev (dropWhile P xs))) = xs"
proof (cases "xs = []")
  case False
  with assms have "dropWhile P xs = xs" and "dropWhile P (rev xs) = rev xs"
    by (simp_all add: dropWhile_eq_self_iff hd_rev)
  then show ?thesis by simp
qed simp

lemma TrimSpace_no_space:
  assumes "is_ascii s" and "\<forall>c \<in> set s. \<not> IsSpace (byte c)"
  shows "TrimSpace s = s"
proof -
  have "chunks s = [] \<or> (\<not> (\<lambda>(r, _). IsSpace r) (hd (chunks s))
          \<and> \<not> (\<lambda>(r, _). IsSpace r) (last (chunks s)))"
    using assms by (auto simp: chunks_ascii hd_map last_map)
  then show ?thesis
    unfolding TrimSpace_def by (subst trim_ends) auto
qed

section \<open>Letter case\<close>

text \<open>
  \<open>strings.ToLower\<close>.  The letters beyond ASCII follow the Unicode case tables, data of the Go
  distribution, which are the argument \<open>ul\<close>; it is only consulted for strings that are not
  pure ASCII, as in the source's fast path.
\<close>

definition ascii_lower :: "char \<Rightarrow> char" where
  "ascii_lower c = (if is_upper c then char_of (byte c + 32) else c)"

definition encode_rune :: "nat \<Rightarrow> string" where
  "encode_rune r =
     map char_of
      (if r < 128 then [r]
       else if r < 2048 then [192 + r div 64, 128 + r mod 64]
       else if 55296 \<le> r \<and> r \<le> 57343 \<or> 1114111 < r then [239, 191, 189]
       else if r < 65536 then [224 + r div 4096, 128 + (r div 64) mod 64, 128 + r mod 64]
       else [240 + r div 262144, 128 + (r div 4096) mod 64, 128 + (r div 64) mod 64, 128 + r mod 64])"

definition rune_lower :: "(nat \<Rightarrow> nat) \<Rightarrow> nat \<Rightarrow> nat" where
  "rune_lower ul r = (if 65 \<le> r \<and> r \<le> 90 then r + 32 else if r < 128 then r else ul r)"

definition ToLower :: "(nat \<Rightarrow> nat) \<Rightarrow> string \<Rightarrow> string" where
  "ToLower ul s =
     (if is_ascii s then map ascii_lower s
      else concat (map (\<lambda>r. encode_rune (rune_lower ul r)) (runes s)))"

lemma byte_ascii_lower:
  "byte (ascii_lower c) = (if is_upper c then byte c + 32 else byte c)"
  by (auto simp: ascii_lower_def byte_def is_upper_def)

lemma ascii_lower_idem [simp]: "ascii_lower (ascii_lower c) = ascii_lower c"
  by (auto simp: ascii_lower_def byte_def is_upper_def)

lemma is_ascii_map_lower: "is_ascii s \<Longrightarrow> is_ascii (map ascii_lower s)"
  by (auto simp: is_ascii_def byte_ascii_lower is_upper_def)

lemma is_ascii_simps [simp]:
  "is_ascii []" "is_ascii (c # s) \<longleftrightarrow> byte c < 128 \<and> is_ascii s"
  "is_ascii (s @ t) \<longleftrightarrow> is_ascii s \<and> is_ascii t"
  by (auto simp: is_ascii_def)

lemma ToLower_ascii: "is_ascii s \<Longrightarrow> ToLower ul s = map ascii_lower s"
  by (simp add: ToLower_def)

section \<open>Decoding is local\<close>

text \<open>
  A byte sequence decodes the same wherever it stands: cutting a string between two code points
  leaves the code points on either side as they were.
\<close>

lemma cont_prefix: "prefix u s \<Longrightarrow> cont u i lo hi \<Longrightarrow> cont s i lo hi"
  by (auto simp: cont_def prefix_def nth_append)

lemma cont_restrict: "prefix u s \<Longrightarrow> cont s i lo hi \<Longrightarrow> i < length u \<Longrightarrow> cont u i lo hi"
  by (auto simp: cont_def prefix_def nth_append)

lemma nth_0_prefix: "prefix u s \<Longrightarrow> u \<noteq> [] \<Longrightarrow> s ! 0 = u ! 0"
  by (auto simp: prefix_def nth_append)

lemma rune_width_by_class:
  "byte (s ! 0) < 128 \<Longrightarrow> rune_width s = 1"
  "194 \<le> byte (s ! 0) \<Longrightarrow> byte (s ! 0) \<le> 223 \<Longrightarrow> rune_width s = (if cont s 1 128 191 then 2 else 0)"
  "224 \<le> byte (s ! 0) \<Longrightarrow> byte (s ! 0) \<le> 239 \<Longrightarrow> rune_width s =
     (if cont s 1 (if byte (s ! 0) = 224 then 160 else 128) (if byte (s ! 0) = 237 then 159 else 191)
         \<and> cont s 2 128 191 then 3 else 0)"
  "240 \<le> byte (s ! 0) \<Longrightarrow> byte (s ! 0) \<le> 244 \<Longrightarrow> rune_width s =
     (if cont s 1 (if byte (s ! 0) = 240 then 144 else 128) (if byte (s ! 0) = 244 then 143 else 191)
         \<and> cont s 2 128 191 \<and> cont s 3 128 191 then 4 else 0)"
  "128 \<le> byte (s ! 0) \<Longrightarrow> byte (s ! 0) < 194 \<Longrightarrow> rune_width s = 0"
  "244 < byte (s ! 0) \<Longrightarrow> rune_width s = 0"
  by (simp_all add: rune_width_def Let_def)

lemma lead_cases:
  obtains "n < 128" | "194 \<le> n" "n \<le> 223" | "224 \<le> n" "n \<le> 239" | "240 \<le> n" "n \<le> 244"
    | "128 \<le> n" "n < 194" | "244 < (n :: nat)"
  by linarith

lemma cont_le_length: "cont s i lo hi \<Longrightarrow> Suc i \<le> length s"
  by (simp add: cont_def)

lemma rune_width_extend:
  assumes "prefix u s" and "u \<noteq> []" and "rune_width u \<noteq> 0"
  shows "rune_width s = rune_width u"
proof -
  have eq: "s ! 0 = u ! 0" using assms nth_0_prefix by blast
  note c = cont_prefix [OF assms(1)]
  show ?thesis
  proof (cases "byte (u ! 0)" rule: lead_cases)
    case 3
    show ?thesis
      using assms(3) rune_width_by_class(3) [OF 3] rune_width_by_class(3) [of s] 3
      by (simp add: eq c split: if_split_asm)
  next
    case 4
    show ?thesis
      using assms(3) rune_width_by_class(4) [OF 4] rune_width_by_class(4) [of s] 4
      by (simp add: eq c split: if_split_asm)
  next
    case 2
    show ?thesis
      using assms(3) rune_width_by_class(2) [OF 2] rune_width_by_class(2) [of s] 2
      by (simp add: eq c split: if_split_asm)
  qed (use assms(3) in \<open>simp_all add: eq rune_width_by_class(1,5,6)\<close>)
qed

lemma rune_width_restrict:
  assumes "prefix u s" and "u \<noteq> []" and "rune_width s \<noteq> 0" and "rune_width s \<le> length u"
  shows "rune_width u = rune_width s"
proof -
  have eq: "s ! 0 = u ! 0" using assms nth_0_prefix by blast
  note c = cont_restrict [OF assms(1)]
  show ?thesis
  proof (cases "byte (u ! 0)" rule: lead_cases)
    case 3
    show ?thesis
      using assms(3,4) rune_width_by_class(3) [OF 3] rune_width_by_class(3) [of s] 3
      by (simp add: eq c split: if_split_asm)
  next
    case 4
    show ?thesis
      using assms(3,4) rune_width_by_class(4) [OF 4] rune_width_by_class(4) [of s] 4
      by (simp add: eq c split: if_split_asm)
  next
    case 2
    show ?thesis
      using assms(3,4) rune_width_by_class(2) [OF 2] rune_width_by_class(2) [of s] 2
      by (simp add: eq c split: if_split_asm)
  qed (use assms(3) in \<open>simp_all add: eq rune_width_by_class(1,5,6)\<close>)
qed

lemma rune_width_le4: "rune_width s \<le> 4"
  by (simp add: rune_width_def Let_def)

lemma rune_width_le_length:
  assumes "s \<noteq> []"
  shows "rune_width s \<le> length s"
proof (cases "byte (s ! 0)" rule: lead_cases)
  case 1
  then show ?thesis using assms by (simp add: rune_width_by_class Suc_le_eq)
next
  case 2
  show ?thesis unfolding rune_width_by_class(2) [OF 2] by (auto dest: cont_le_length)
next
  case 3
  show ?thesis unfolding rune_width_by_class(3) [OF 3] by (auto dest: cont_le_length)
next
  case 4
  show ?thesis unfolding rune_width_by_class(4) [OF 4] by (auto dest: cont_le_length)
qed (simp_all add: rune_width_by_class(5,6))

lemma rune_value_cong:
  assumes "prefix u s" and "u \<noteq> []" and "rune_width u = rune_width s"
  shows "rune_value u = rune_value s"
proof -
  have "\<And>i. i < rune_width s \<Longrightarrow> s ! i = u ! i"
    using assms rune_width_le_length [OF assms(2)] by (auto simp: prefix_def nth_append)
  then show ?thesis
    using rune_width_le4 [of s] assms(3) by (simp add: rune_value_def Let_def)
qed

lemma chunks_unfold:
  assumes "s \<noteq> []"
  shows "chunks s = (rune_value s, take (max 1 (rune_width s)) s) # chunks (drop (max 1 (rune_width s)) s)"
proof -
  obtain c t where s: "s = c # t" using assms by (cases s) auto
  have "drop (max 1 k) (c # t) = drop (max 1 k - 1) t" for k
    by (cases k) simp_all
  then show ?thesis by (simp add: s Let_def)
qed

lemma chunks_prefix:
  "chunks s = xs @ ys \<Longrightarrow> chunks (concat (map snd xs)) = xs"
proof (induction xs arbitrary: s)
  case Nil
  then show ?case by simp
next
  case (Cons x xs)
  then obtain c t where s: "s = c # t" by (cases s) auto
  define n where "n = max 1 (rune_width s)"
  have "s \<noteq> []" by (simp add: s)
  from chunks_unfold [OF this] Cons.prems
  have x: "x = (rune_value s, take n s)" and rest: "chunks (drop n s) = xs @ ys"
    by (simp_all add: n_def)
  define u where "u = concat (map snd (x # xs))"
  have "s = u @ concat (map snd ys)"
    using concat_chunks [of s] Cons.prems by (simp add: u_def)
  then have pre: "prefix u s" by simp
  have nlen: "n \<le> length s" using rune_width_le_length [of s] by (simp add: n_def s)
  have u: "u = take n s @ concat (map snd xs)" by (simp add: u_def x)
  have "n \<ge> 1" by (simp add: n_def)
  have ulen: "n \<le> length u" unfolding u using nlen by simp
  with \<open>n \<ge> 1\<close> have une: "u \<noteq> []" by (cases u) simp_all
  have w: "rune_width u = rune_width s"
  proof (cases "rune_width s = 0")
    case True
    then show ?thesis using rune_width_extend [OF pre une] by fastforce
  next
    case False
    have "rune_width s \<le> length u" using ulen by (simp add: n_def)
    with False show ?thesis by (rule rune_width_restrict [OF pre une])
  qed
  have d: "chunks (drop n u) = xs"
    unfolding u using Cons.IH [OF rest] nlen by simp
  have "chunks u = (rune_value u, take n u) # chunks (drop n u)"
    using chunks_unfold [OF une] w by (simp add: n_def)
  also have "\<dots> = (rune_value s, take n s) # xs"
    using d rune_value_cong [OF pre une w] nlen unfolding u by simp
  finally show ?case by (simp only: u_def x)
qed

lemma chunks_suffix: "chunks s = xs @ ys \<Longrightarrow> chunks (concat (map snd ys)) = ys"
proof (induction xs arbitrary: s)
  case Nil
  then show ?case using concat_chunks [of s] by simp
next
  case (Cons x xs)
  then obtain c t where s: "s = c # t" by (cases s) auto
  then have "chunks (drop (max 1 (rune_width s) - 1) t) = xs @ ys"
    using Cons.prems by (simp add: Let_def)
  then show ?case by (rule Cons.IH)
qed

lemma trim_split:
  obtains as bs where "xs = as @ rev (dropWhile P (rev (dropWhile P xs))) @ bs"
proof
  let ?d = "dropWhile P xs"
  have "xs = takeWhile P xs @ ?d" by simp
  moreover have "?d = rev (dropWhile P (rev ?d)) @ rev (takeWhile P (rev ?d))"
    by (metis rev_append rev_rev_ident takeWhile_dropWhile_id)
  ultimately show "xs = takeWhile P xs @ rev (dropWhile P (rev ?d)) @ rev (takeWhile P (rev ?d))"
    by metis
qed

lemma chunks_TrimSpace:
  "chunks (TrimSpace s) =
     rev (dropWhile (\<lambda>(r, _). IsSpace r) (rev (dropWhile (\<lambda>(r, _). IsSpace r) (chunks s))))"
proof -
  let ?m = "rev (dropWhile (\<lambda>(r, _). IsSpace r) (rev (dropWhile (\<lambda>(r, _). IsSpace r) (chunks s))))"
  obtain as bs where eq: "chunks s = as @ ?m @ bs" by (rule trim_split)
  have "chunks (concat (map snd (?m @ bs))) = ?m @ bs" by (rule chunks_suffix [OF eq])
  then have "chunks (concat (map snd ?m)) = ?m" by (rule chunks_prefix)
  then show ?thesis by (simp only: TrimSpace_def)
qed

lemma trim_trim:
  fixes P xs
  defines "m \<equiv> rev (dropWhile P (rev (dropWhile P xs)))"
  shows "rev (dropWhile P (rev (dropWhile P m))) = m"
proof (rule trim_ends)
  show "m = [] \<or> \<not> P (hd m) \<and> \<not> P (last m)"
  proof (cases "m = []")
    case False
    have d: "dropWhile P xs \<noteq> []"
    proof
      assume "dropWhile P xs = []"
      then have "m = []" unfolding m_def by (simp only: rev.simps dropWhile.simps)
      with False show False by contradiction
    qed
    have "last m = hd (dropWhile P (rev (dropWhile P xs)))"
      using False by (simp add: m_def last_rev)
    then have "\<not> P (last m)"
      using False hd_dropWhile [of P "rev (dropWhile P xs)"] by (simp add: m_def)
    moreover have "\<not> P (hd m)"
    proof -
      obtain bs where "dropWhile P xs = m @ bs"
        by (metis m_def rev_append rev_rev_ident takeWhile_dropWhile_id)
      with False have "hd m = hd (dropWhile P xs)" by simp
      with d show ?thesis using hd_dropWhile [of P xs] by simp
    qed
    ultimately show ?thesis by simp
  qed simp
qed

lemma TrimSpace_idem [simp]: "TrimSpace (TrimSpace s) = TrimSpace s"
  by (subst TrimSpace_def, simp only: chunks_TrimSpace trim_trim, simp only: TrimSpace_def)

lemma ContainsControl_TrimSpace: "ContainsControl (TrimSpace s) \<Longrightarrow> ContainsControl s"
  unfolding ContainsControl_def runes_def chunks_TrimSpace list_ex_iff
  by (auto dest!: set_dropWhileD)

text \<open>Evaluation on ASCII literals by the simplifier.\<close>

lemma TrimSpace_ascii:
  "is_ascii s \<Longrightarrow> TrimSpace s =
     rev (dropWhile (\<lambda>c. IsSpace (byte c)) (rev (dropWhile (\<lambda>c. IsSpace (byte c)) s)))"
  by (simp add: TrimSpace_def chunks_ascii dropWhile_map rev_map comp_def)

lemma ContainsControl_ascii: "is_ascii s \<Longrightarrow> ContainsControl s \<longleftrightarrow> (\<exists>c \<in> set s. IsControl (byte c))"
  by (simp add: ContainsControl_def runes_ascii list_ex_iff)

lemmas string_eval = TrimSpace_ascii ContainsControl_ascii is_ascii_def byte_class_defs IsSpace_def
  IsControl_def

end
