(* ===== verification/Go_Format.thy ===== *)
theory Go_Format
  imports Go_Strings
begin

text \<open>
  \<open>fmt\<close> verbs for integers (\<open>%d\<close>, \<open>%03d\<close>, \<open>%012d\<close>, \<open>%02x\<close>), \<open>strconv.Atoi\<close>, and the lexical
  path functions of \<open>path/filepath\<close> on Unix.
\<close>

section \<open>Decimal numerals\<close>

definition digit_char :: "nat \<Rightarrow> char" where
  "digit_char d = char_of (48 + d)"

fun dec :: "nat \<Rightarrow> string" where
  "dec n = (if n < 10 then [digit_char n] else dec (n div 10) @ [digit_char (n mod 10)])"

declare dec.simps [simp del]

definition undec :: "string \<Rightarrow> nat" where
  "undec s = foldl (\<lambda>n c. 10 * n + (byte c - 48)) 0 s"

lemma byte_digit_char: "d < 10 \<Longrightarrow> byte (digit_char d) = 48 + d"
  by (simp add: byte_def digit_char_def)

lemma is_digit_digit_char: "d < 10 \<Longrightarrow> is_digit (digit_char d)"
  by (simp add: is_digit_def byte_digit_char)

lemma dec_digits: "c \<in> set (dec n) \<Longrightarrow> is_digit c"
proof (induction n arbitrary: c rule: dec.induct)
  case (1 n)
  show ?case
  proof (cases "n < 10")
    case True
    with "1.prems" show ?thesis by (simp add: dec.simps [of n] is_digit_digit_char)
  next
    case False
    with "1.prems" "1.IH" show ?thesis
      by (auto simp: dec.simps [of n] is_digit_digit_char)
  qed
qed

lemma dec_nonempty [simp]: "dec n \<noteq> []"
  by (subst dec.simps) simp

lemma undec_dec [simp]: "undec (dec n) = n"
proof (induction n rule: dec.induct)
  case (1 n)
  show ?case
  proof (cases "n < 10")
    case True
    then show ?thesis by (simp add: dec.simps [of n] undec_def byte_digit_char)
  next
    case False
    with 1 have "foldl (\<lambda>n c. 10 * n + (byte c - 48)) 0 (dec (n div 10)) = n div 10"
      by (simp add: undec_def)
    with False show ?thesis
      by (simp add: dec.simps [of n] undec_def byte_digit_char)
  qed
qed

lemma dec_inj: "dec m = dec n \<longleftrightarrow> m = n"
  by (metis undec_dec)

lemma length_dec_le: "n < 10 ^ Suc k \<Longrightarrow> length (dec n) \<le> Suc k"
proof (induction k arbitrary: n)
  case 0
  then show ?case by (simp add: dec.simps [of n])
next
  case (Suc k)
  show ?case
  proof (cases "n < 10")
    case True
    then show ?thesis by (simp add: dec.simps [of n])
  next
    case False
    have "n div 10 < 10 ^ Suc k"
      using Suc.prems by (simp add: less_mult_imp_div_less)
    then have "length (dec (n div 10)) \<le> Suc k" by (rule Suc.IH)
    with False show ?thesis by (simp add: dec.simps [of n])
  qed
qed

text \<open>\<open>%0\<close>\<^emph>\<open>w\<close>\<open>d\<close>: zero padding counts the sign in the width.\<close>

definition pad_zero :: "nat \<Rightarrow> string \<Rightarrow> string" where
  "pad_zero w s = replicate (w - length s) CHR ''0'' @ s"

definition fmt_0d :: "nat \<Rightarrow> int \<Rightarrow> string" where
  "fmt_0d w n =
     (if n < 0 then ''-'' @ pad_zero (w - 1) (dec (nat (- n))) else pad_zero w (dec (nat n)))"

definition fmt_d :: "int \<Rightarrow> string" where
  "fmt_d n = (if n < 0 then ''-'' @ dec (nat (- n)) else dec (nat n))"

lemma undec_zeros: "undec (replicate k CHR ''0'' @ s) = undec s"
  by (induction k) (simp_all add: undec_def byte_def)

lemma undec_pad_zero [simp]: "undec (pad_zero w s) = undec s"
  by (simp add: pad_zero_def undec_zeros)

lemma pad_zero_inj: "pad_zero w (dec m) = pad_zero w (dec n) \<longleftrightarrow> m = n"
  by (metis undec_dec undec_pad_zero)

lemma pad_zero_digits: "c \<in> set (pad_zero w (dec n)) \<Longrightarrow> is_digit c"
proof -
  have "is_digit (CHR ''0'')" by (simp add: is_digit_def byte_def)
  moreover assume "c \<in> set (pad_zero w (dec n))"
  ultimately show ?thesis
    by (auto simp: pad_zero_def dec_digits)
qed

text \<open>
  \<open>strconv.Atoi\<close>: an optional sign and at least one decimal digit, within \<open>int64\<close>.
\<close>

definition Atoi :: "string \<Rightarrow> int option" where
  "Atoi s =
     (let neg = HasPrefix s ''-'';
          body = (if HasPrefix s ''-'' \<or> HasPrefix s ''+'' then drop 1 s else s);
          value = (if neg then - int (undec body) else int (undec body))
      in if body = [] \<or> \<not> all_bytes is_digit body \<or> value < min_int64 \<or> max_int64 < value
         then None else Some value)"

lemma digit_not_sign:
  assumes "s \<noteq> []" and "\<forall>c \<in> set s. is_digit c"
  shows "\<not> HasPrefix s ''-''" and "\<not> HasPrefix s ''+''"
  using assms by (cases s; auto simp: HasPrefix_def is_digit_def byte_def)+

lemma Atoi_digits:
  assumes "s \<noteq> []" and "\<forall>c \<in> set s. is_digit c" and "int (undec s) \<le> max_int64"
  shows "Atoi s = Some (int (undec s))"
  using assms digit_not_sign [OF assms(1,2)]
  by (simp add: Atoi_def Let_def all_bytes_iff min_int64_def)

lemma Atoi_pad_dec: "int n \<le> max_int64 \<Longrightarrow> Atoi (pad_zero w (dec n)) = Some (int n)"
  using Atoi_digits [of "pad_zero w (dec n)"] pad_zero_digits [of _ w n]
  by (simp add: pad_zero_def undec_zeros)

section \<open>Hexadecimal\<close>

definition hex_digit :: "nat \<Rightarrow> char" where
  "hex_digit d = char_of (if d < 10 then 48 + d else 87 + d)"

definition hex2 :: "nat \<Rightarrow> string" where
  "hex2 v = [hex_digit (v div 16), hex_digit (v mod 16)]"

definition unhex :: "char \<Rightarrow> nat" where
  "unhex c = (if byte c < 58 then byte c - 48 else byte c - 87)"

lemma unhex_hex_digit: "d < 16 \<Longrightarrow> unhex (hex_digit d) = d"
  by (simp add: unhex_def hex_digit_def byte_def)

lemma hex_digit_inj: "a < 16 \<Longrightarrow> b < 16 \<Longrightarrow> hex_digit a = hex_digit b \<longleftrightarrow> a = b"
  by (metis unhex_hex_digit)

lemma is_hex_hex_digit: "d < 16 \<Longrightarrow> is_hex (hex_digit d)"
  by (simp add: is_hex_def is_digit_def hex_digit_def byte_def)

lemma hex2_inj: "a < 256 \<Longrightarrow> b < 256 \<Longrightarrow> hex2 a = hex2 b \<longleftrightarrow> a = b"
proof -
  assume "a < 256" "b < 256"
  then have "a div 16 < 16" "b div 16 < 16" by auto
  then have "hex2 a = hex2 b \<longleftrightarrow> a div 16 = b div 16 \<and> a mod 16 = b mod 16"
    by (simp add: hex2_def hex_digit_inj)
  then show ?thesis by (metis div_mult_mod_eq)
qed

lemma length_hex2 [simp]: "length (hex2 v) = 2"
  by (simp add: hex2_def)

section \<open>Lexical paths\<close>

abbreviation slash :: char where "slash \<equiv> CHR ''/''"

definition IsAbs :: "string \<Rightarrow> bool" where
  "IsAbs p = HasPrefix p ''/''"

text \<open>\<open>filepath.Clean\<close> on the list of path elements; the accumulator is the output, last first.\<close>

fun clean_elems :: "bool \<Rightarrow> string list \<Rightarrow> string list \<Rightarrow> string list" where
  "clean_elems rooted out [] = rev out"
| "clean_elems rooted out (e # es) =
     (if e = [] \<or> e = ''.'' then clean_elems rooted out es
      else if e = ''..'' then
        (case out of
           [] \<Rightarrow> if rooted then clean_elems rooted [] es else clean_elems rooted [''..''] es
         | x # xs \<Rightarrow> if x = ''..'' then clean_elems rooted (''..'' # out) es
                    else clean_elems rooted xs es)
      else clean_elems rooted (e # out) es)"

definition Clean :: "string \<Rightarrow> string" where
  "Clean p =
     (let rooted = IsAbs p; es = clean_elems rooted [] (Split p slash)
      in if rooted then slash # Join es [slash]
         else if es = [] then ''.'' else Join es [slash])"

definition path_Join :: "string list \<Rightarrow> string" where
  "path_Join ps =
     (let qs = filter (\<lambda>p. p \<noteq> []) ps in if qs = [] then [] else Clean (Join qs ''/''))"

text \<open>An element that \<open>Clean\<close> keeps as it is.\<close>

definition plain_elem :: "string \<Rightarrow> bool" where
  "plain_elem e \<longleftrightarrow> e \<noteq> [] \<and> e \<noteq> ''.'' \<and> e \<noteq> ''..'' \<and> slash \<notin> set e"

lemma clean_elems_plain:
  "\<forall>e \<in> set es. plain_elem e \<Longrightarrow> clean_elems rooted out es = rev out @ es"
  by (induction es arbitrary: out) (auto simp: plain_elem_def)

text \<open>What \<open>Clean\<close> produces from a rooted path are plain elements only.\<close>

lemma clean_elems_rooted:
  assumes "\<forall>e \<in> set es. slash \<notin> set e" and "\<forall>e \<in> set out. plain_elem e"
  shows "\<forall>e \<in> set (clean_elems True out es). plain_elem e"
  using assms
proof (induction es arbitrary: out)
  case Nil
  then show ?case by simp
next
  case (Cons e es)
  consider "e = [] \<or> e = ''.''" | "e = ''..''" "out = []" | x xs where "e = ''..''" "out = x # xs"
    | "plain_elem e"
    using Cons.prems(1) by (cases out) (auto simp: plain_elem_def)
  then show ?case
  proof cases
    case 1
    have "\<forall>e \<in> set (clean_elems True out es). plain_elem e"
      using Cons.prems by (intro Cons.IH) simp_all
    with 1 show ?thesis by simp
  next
    case 2
    have "\<forall>e \<in> set (clean_elems True [] es). plain_elem e"
      using Cons.prems(1) by (intro Cons.IH) simp_all
    with 2 show ?thesis by simp
  next
    case (3 x xs)
    then have x: "x \<noteq> ''..''" using Cons.prems(2) by (simp add: plain_elem_def)
    have "\<forall>e \<in> set (clean_elems True xs es). plain_elem e"
      using Cons.prems 3 by (intro Cons.IH) simp_all
    with 3 x show ?thesis by simp
  next
    case 4
    have "\<forall>f \<in> set (clean_elems True (e # out) es). plain_elem f"
      using Cons.prems 4 by (intro Cons.IH) simp_all
    with 4 show ?thesis by (simp add: plain_elem_def)
  qed
qed

lemma Split_slash_Join:
  "\<forall>e \<in> set es. plain_elem e \<Longrightarrow> es \<noteq> [] \<Longrightarrow> Split (Join es [slash]) slash = es"
  by (rule Split_Join) (auto simp: plain_elem_def)

lemma Clean_rooted_elems:
  assumes "\<forall>e \<in> set es. plain_elem e"
  shows "Clean (slash # Join es [slash]) = slash # Join es [slash]"
proof -
  have "clean_elems True [] (Split (slash # Join es [slash]) slash) = es"
    using assms clean_elems_plain [of es True "[]"] Split_slash_Join [of es]
    by (cases "es = []") simp_all
  then show ?thesis by (simp add: Clean_def IsAbs_def HasPrefix_def Let_def)
qed

lemma Clean_rooted_form:
  assumes "IsAbs p"
  obtains es where "Clean p = slash # Join es [slash]" and "\<forall>e \<in> set es. plain_elem e"
proof
  let ?es = "clean_elems True [] (Split p slash)"
  show "Clean p = slash # Join ?es [slash]"
    using assms by (simp add: Clean_def Let_def)
  show "\<forall>e \<in> set ?es. plain_elem e"
    by (rule clean_elems_rooted) (auto simp: Split_parts_no_sep)
qed

text \<open>Cleaning an absolute path twice changes nothing more, and it stays absolute.\<close>

lemma Clean_idem: "IsAbs p \<Longrightarrow> Clean (Clean p) = Clean p"
  by (erule Clean_rooted_form) (simp add: Clean_rooted_elems)

lemma IsAbs_Clean: "IsAbs p \<Longrightarrow> IsAbs (Clean p)"
  by (erule Clean_rooted_form) (simp add: IsAbs_def HasPrefix_def)

text \<open>Joining a path to a clean rooted directory continues the cleaning behind its elements.\<close>

lemma clean_elems_append:
  "\<forall>e \<in> set es. plain_elem e \<Longrightarrow> clean_elems rooted out (es @ xs) = clean_elems rooted (rev es @ out) xs"
  by (induction es arbitrary: out) (auto simp: plain_elem_def)

lemma Split_Join_append:
  "\<forall>e \<in> set es. plain_elem e \<Longrightarrow> es \<noteq> [] \<Longrightarrow> Split (Join es [slash] @ slash # q) slash = es @ Split q slash"
proof (induction es)
  case (Cons e es)
  then have e: "slash \<notin> set e" by (simp add: plain_elem_def)
  show ?case
  proof (cases "es = []")
    case True
    with e show ?thesis by (simp add: Split_append)
  next
    case False
    with e Cons show ?thesis by (simp add: Join_Cons Split_append)
  qed
qed simp

lemma path_Join_rooted:
  assumes "\<forall>e \<in> set es. plain_elem e" and "q \<noteq> []"
  shows "path_Join [slash # Join es [slash], q] = slash # Join (clean_elems True (rev es) (Split q slash)) [slash]"
proof -
  have "clean_elems True [] (Split (slash # Join es [slash] @ slash # q) slash) = clean_elems True (rev es) (Split q slash)"
    using assms(1) Split_Join_append [of es q] clean_elems_append [of es True "[]"]
    by (cases "es = []") simp_all
  then show ?thesis
    using assms(2) by (simp add: path_Join_def Clean_def IsAbs_def HasPrefix_def Let_def)
qed

lemma path_Join_plain:
  assumes "\<forall>e \<in> set es. plain_elem e" and "plain_elem q"
  shows "path_Join [slash # Join es [slash], q] = slash # Join (es @ [q]) [slash]"
proof -
  have "q \<noteq> []" "Split q slash = [q]" using assms(2) by (simp_all add: plain_elem_def Split_no_sep)
  with path_Join_rooted [OF assms(1), of q] clean_elems_plain [of "[q]" True "rev es"] assms(2)
  show ?thesis by simp
qed

lemma rooted_inj:
  assumes "\<forall>e \<in> set es. plain_elem e" and "\<forall>e \<in> set fs. plain_elem e" and "es \<noteq> []" and "fs \<noteq> []"
  shows "slash # Join es [slash] = slash # Join fs [slash] \<longleftrightarrow> es = fs"
  using Split_slash_Join assms by (metis list.inject)

end
