(* ===== verification/Identity.thy ===== *)
theory Identity
  imports Go_Format
begin

text \<open>
  \<open>internal/domain/types.go\<close> and \<open>internal/domain/yard_identity.go\<close>: the identifier classes every
  other component validates against, yard references and selectors, project records, and the
  normalised yard context.
\<close>

section \<open>Identifier classes\<close>

text \<open>
  A \<open>range\<close> loop over a string that accepts ASCII characters only may be read bytewise: every code
  point that the decoding produces from a byte above 127 is itself above 127.
\<close>

lemma mod_between:
  fixes x k n :: nat
  assumes "n * k \<le> x" and "x < n * k + k"
  shows "x mod k = x - n * k"
proof -
  have "x = (x - n * k) + k * n" using assms by (simp add: mult.commute)
  then have "x mod k = (x - n * k) mod k" by (metis mod_mult_self2)
  with assms show ?thesis by simp
qed

lemma rune_width_2D: "rune_width (c # s) = 2 \<Longrightarrow> 194 \<le> byte c \<and> byte c \<le> 223"
  unfolding rune_width_def Let_def by (simp split: if_splits)

lemma rune_width_3D:
  "rune_width (c # s) = 3 \<Longrightarrow> 224 \<le> byte c \<and> byte c \<le> 239
     \<and> cont (c # s) 1 (if byte c = 224 then 160 else 128) (if byte c = 237 then 159 else 191)"
  unfolding rune_width_def Let_def by (simp split: if_split_asm)

lemma rune_width_4D:
  "rune_width (c # s) = 4 \<Longrightarrow> 240 \<le> byte c \<and> byte c \<le> 244
     \<and> cont (c # s) 1 (if byte c = 240 then 144 else 128) (if byte c = 244 then 143 else 191)"
  unfolding rune_width_def Let_def by (simp split: if_split_asm)

lemma rune_width_cases:
  "rune_width (c # s) = 0 \<or> (rune_width (c # s) = 1 \<and> byte c < 128)
     \<or> rune_width (c # s) = 2 \<or> rune_width (c # s) = 3 \<or> rune_width (c # s) = 4"
  unfolding rune_width_def Let_def by simp

lemma rune_value_ge:
  assumes "128 \<le> byte c"
  shows "128 \<le> rune_value (c # s)"
proof -
  consider "rune_width (c # s) = 0" | "rune_width (c # s) = 2" | "rune_width (c # s) = 3"
    | "rune_width (c # s) = 4"
    using assms rune_width_cases [of c s] by linarith
  then show ?thesis
  proof cases
    case 1
    then show ?thesis by (simp add: rune_value_def rune_error_def)
  next
    case 2
    then have "2 \<le> byte c mod 32"
      using rune_width_2D [OF 2] mod_between [of 6 32 "byte c"] by auto
    with 2 show ?thesis by (simp add: rune_value_def)
  next
    case 3
    have v: "rune_value (c # s) =
        (byte c mod 16) * 4096 + (byte (s ! 0) mod 64) * 64 + byte (s ! 1) mod 64"
      using 3 by (simp add: rune_value_def)
    show ?thesis
    proof (cases "byte c = 224")
      case True
      then have "160 \<le> byte (s ! 0)" "byte (s ! 0) \<le> 191"
        using rune_width_3D [OF 3] by (simp_all add: cont_def)
      then have "32 \<le> byte (s ! 0) mod 64"
        using mod_between [of 2 64 "byte (s ! 0)"] by simp
      with v show ?thesis by simp
    next
      case False
      then have "1 \<le> byte c mod 16"
        using rune_width_3D [OF 3] mod_between [of 14 16 "byte c"] by auto
      with v show ?thesis by simp
    qed
  next
    case 4
    have v: "rune_value (c # s) = (byte c mod 8) * 262144 + (byte (s ! 0) mod 64) * 4096
        + (byte (s ! 1) mod 64) * 64 + byte (s ! 2) mod 64"
      using 4 by (simp add: rune_value_def)
    show ?thesis
    proof (cases "byte c = 240")
      case True
      then have "144 \<le> byte (s ! 0)" "byte (s ! 0) \<le> 191"
        using rune_width_4D [OF 4] by (simp_all add: cont_def)
      then have "16 \<le> byte (s ! 0) mod 64"
        using mod_between [of 2 64 "byte (s ! 0)"] by simp
      with v show ?thesis by simp
    next
      case False
      then have "1 \<le> byte c mod 8"
        using rune_width_4D [OF 4] mod_between [of 30 8 "byte c"] by auto
      with v show ?thesis by simp
    qed
  qed
qed

lemma range_ascii:
  assumes "\<And>r. P r \<Longrightarrow> r < 128"
  shows "list_all P (runes s) \<longleftrightarrow> all_bytes (\<lambda>c. P (byte c)) s"
proof (induction s)
  case Nil
  show ?case by (simp add: runes_def)
next
  case (Cons c s)
  show ?case
  proof (cases "byte c < 128")
    case True
    then have "runes (c # s) = byte c # runes s"
      by (simp add: runes_def rune_value_def rune_width_ascii)
    with Cons show ?thesis by simp
  next
    case False
    then have "\<not> P (byte c)" "\<not> P (rune_value (c # s))"
      using assms rune_value_ge [of c s] by force+
    then show ?thesis by (simp add: runes_def Let_def)
  qed
qed

definition SafeID :: "string \<Rightarrow> bool" where
  "SafeID value =
     (if value = '''' \<or> value = ''.'' \<or> value = ''..'' \<or> HasPrefix value ''-'' then False
      else list_all (\<lambda>char. 97 \<le> char \<and> char \<le> 122 \<or> 65 \<le> char \<and> char \<le> 90
             \<or> 48 \<le> char \<and> char \<le> 57 \<or> char = 46 \<or> char = 95 \<or> char = 45) (runes value))"

definition SafeProjectName :: "string \<Rightarrow> bool" where
  "SafeProjectName value \<longleftrightarrow> length value \<le> 50 \<and> SafeID value"

definition ProjectNameKey :: "(nat \<Rightarrow> nat) \<Rightarrow> string \<Rightarrow> string" where
  "ProjectNameKey ul value = ToLower ul value"

definition ProjectNamesEqual :: "(nat \<Rightarrow> nat) \<Rightarrow> string \<Rightarrow> string \<Rightarrow> bool" where
  "ProjectNamesEqual ul left right \<longleftrightarrow> ProjectNameKey ul left = ProjectNameKey ul right"

definition SafeName :: "string \<Rightarrow> bool" where
  "SafeName value =
     (case value of
        [] \<Rightarrow> False
      | c # _ \<Rightarrow>
          (is_lower c \<or> is_digit c)
          \<and> list_all (\<lambda>char. 97 \<le> char \<and> char \<le> 122 \<or> 48 \<le> char \<and> char \<le> 57
                \<or> char = 95 \<or> char = 45) (runes value))"

definition SafeSSHTarget :: "string \<Rightarrow> bool" where
  "SafeSSHTarget value =
     (case value of
        [] \<Rightarrow> False
      | c # _ \<Rightarrow>
          c \<noteq> CHR ''-''
          \<and> \<not> list_ex (\<lambda>char. \<not> (97 \<le> char \<and> char \<le> 122) \<and> \<not> (65 \<le> char \<and> char \<le> 90)
                \<and> \<not> (48 \<le> char \<and> char \<le> 57) \<and> char \<notin> set (runes ''_.@:[]+-'')) (runes value))"

text \<open>Bytewise forms of the two classes, for the simplifier.\<close>

definition id_char :: "char \<Rightarrow> bool" where
  "id_char c \<longleftrightarrow> is_lower c \<or> is_upper c \<or> is_digit c \<or> byte c \<in> {46, 95, 45}"

definition name_char :: "char \<Rightarrow> bool" where
  "name_char c \<longleftrightarrow> is_lower c \<or> is_digit c \<or> byte c \<in> {95, 45}"

lemma SafeID_bytes [go_simps]:
  "SafeID s \<longleftrightarrow> s \<noteq> '''' \<and> s \<noteq> ''.'' \<and> s \<noteq> ''..'' \<and> \<not> HasPrefix s ''-'' \<and> all_bytes id_char s"
proof -
  have eq: "(97 \<le> byte c \<and> byte c \<le> 122 \<or> 65 \<le> byte c \<and> byte c \<le> 90 \<or> 48 \<le> byte c \<and> byte c \<le> 57
        \<or> byte c = 46 \<or> byte c = 95 \<or> byte c = 45) \<longleftrightarrow> id_char c" for c
    by (simp add: id_char_def is_lower_def is_upper_def is_digit_def)
  show ?thesis
    unfolding SafeID_def by (subst range_ascii) (auto simp: eq)
qed

lemma SafeName_bytes [go_simps]:
  "SafeName s \<longleftrightarrow> s \<noteq> [] \<and> (is_lower (hd s) \<or> is_digit (hd s)) \<and> all_bytes name_char s"
proof -
  have eq: "(97 \<le> byte c \<and> byte c \<le> 122 \<or> 48 \<le> byte c \<and> byte c \<le> 57
        \<or> byte c = 95 \<or> byte c = 45) \<longleftrightarrow> name_char c" for c
    by (simp add: name_char_def is_lower_def is_digit_def)
  show ?thesis
    unfolding SafeName_def by (subst range_ascii) (auto simp: eq split: list.split)
qed

lemma SafeID_chars: "SafeID s \<Longrightarrow> c \<in> set s \<Longrightarrow> id_char c"
  by (auto simp: SafeID_bytes all_bytes_iff)

lemma SafeName_chars: "SafeName s \<Longrightarrow> c \<in> set s \<Longrightarrow> name_char c"
  by (auto simp: SafeName_bytes all_bytes_iff)

lemma id_char_ascii: "id_char c \<Longrightarrow> byte c < 128"
  by (auto simp: id_char_def is_lower_def is_upper_def is_digit_def)

lemma name_char_id_char: "name_char c \<Longrightarrow> id_char c"
  by (auto simp: name_char_def id_char_def)

lemma SafeID_ascii: "SafeID s \<Longrightarrow> is_ascii s"
  by (auto simp: is_ascii_def dest: SafeID_chars id_char_ascii)

lemma SafeName_ascii: "SafeName s \<Longrightarrow> is_ascii s"
  unfolding is_ascii_def by (auto dest: SafeName_chars name_char_id_char id_char_ascii)

lemma id_char_not_slash: "\<not> id_char slash"
  by (simp add: id_char_def byte_class_defs)

lemma id_char_not_space: "id_char c \<Longrightarrow> \<not> IsSpace (byte c)"
  by (auto simp: id_char_def is_lower_def is_upper_def is_digit_def IsSpace_def)

text \<open>A safe ID is one plain path element: it can neither leave nor split a directory.\<close>

lemma SafeID_plain: "SafeID s \<Longrightarrow> plain_elem s"
  using SafeID_chars id_char_not_slash by (auto simp: plain_elem_def SafeID_bytes)

lemma SafeName_plain: "SafeName s \<Longrightarrow> plain_elem s"
  using SafeName_chars [of s] id_char_not_slash name_char_id_char
  by (auto simp: plain_elem_def SafeName_bytes byte_class_defs)

section \<open>Yard references and selectors\<close>

datatype identity_error =
    InvalidHostID string
  | InvalidYardName string
  | SelectorRequired
  | InvalidSelector string
  | InvalidSelectorRef string identity_error

record YardRef =
  yr_HostID :: string
  yr_YardName :: string

definition YardRef_Validate :: "YardRef \<Rightarrow> identity_error err" where
  "YardRef_Validate ref =
     (if \<not> SafeID (yr_HostID ref) \<or> ContainsAny (yr_HostID ref) [slash, CHR 0x5C]
      then Some (InvalidHostID (yr_HostID ref))
      else if \<not> SafeName (yr_YardName ref) then Some (InvalidYardName (yr_YardName ref))
      else None)"

definition YardRef_String :: "YardRef \<Rightarrow> string" where
  "YardRef_String ref = yr_HostID ref @ ''/'' @ yr_YardName ref"

text \<open>A \<open>YardSelector\<close> has the same two fields; an unqualified selector leaves the host empty.\<close>

type_synonym YardSelector = YardRef

definition ParseYardSelector :: "string \<Rightarrow> identity_error + YardSelector" where
  "ParseYardSelector input =
     (let value = TrimSpace input in
      if value = '''' then Inl SelectorRequired
      else case Split value slash of
        [name] \<Rightarrow>
          if \<not> SafeName name then Inl (InvalidSelector value)
          else Inr \<lparr>yr_HostID = '''', yr_YardName = name\<rparr>
      | [host, name] \<Rightarrow>
          (let ref = \<lparr>yr_HostID = host, yr_YardName = name\<rparr> in
           case YardRef_Validate ref of
             Some e \<Rightarrow> Inl (InvalidSelectorRef value e)
           | None \<Rightarrow> Inr ref)
      | _ \<Rightarrow> Inl (InvalidSelector value))"

lemma YardRef_Validate_None:
  "YardRef_Validate ref = None \<Longrightarrow> SafeID (yr_HostID ref) \<and> SafeName (yr_YardName ref)"
  by (simp add: YardRef_Validate_def split: if_splits)

lemma SafeName_not_space: "SafeName s \<Longrightarrow> c \<in> set s \<Longrightarrow> \<not> IsSpace (byte c) \<and> byte c < 128"
  using SafeName_chars name_char_id_char id_char_not_space id_char_ascii by blast

lemma SafeID_not_space: "SafeID s \<Longrightarrow> c \<in> set s \<Longrightarrow> \<not> IsSpace (byte c) \<and> byte c < 128"
  using SafeID_chars id_char_not_space id_char_ascii by blast

lemma TrimSpace_ref:
  assumes "SafeID h" and "SafeName n"
  shows "TrimSpace (h @ slash # n) = h @ slash # n"
proof (rule TrimSpace_no_space)
  have "\<not> IsSpace (byte slash) \<and> byte slash < 128" by (simp add: IsSpace_def byte_def)
  then show "is_ascii (h @ slash # n)" "\<forall>c \<in> set (h @ slash # n). \<not> IsSpace (byte c)"
    using SafeID_not_space [OF assms(1)] SafeName_not_space [OF assms(2)]
    by (auto simp: is_ascii_def)
qed

lemma Split_ref:
  assumes "SafeID h" and "SafeName n"
  shows "Split (h @ slash # n) slash = [h, n]"
  using SafeID_plain [OF assms(1)] SafeName_plain [OF assms(2)]
  by (simp add: plain_elem_def Split_append Split_no_sep)

text \<open>
  The printed form of a valid yard reference parses back to exactly that reference.
\<close>

theorem yard_selector_roundtrip:
  assumes "YardRef_Validate ref = None"
  shows "ParseYardSelector (YardRef_String ref) = Inr ref"
proof -
  have ok: "SafeID (yr_HostID ref)" "SafeName (yr_YardName ref)"
    using YardRef_Validate_None [OF assms] by simp_all
  show ?thesis
    using assms ok
    by (cases ref) (simp add: ParseYardSelector_def YardRef_String_def TrimSpace_ref Split_ref)
qed

theorem yard_selector_roundtrip_witness:
  "ParseYardSelector ''build.host-1/default'' = Inr \<lparr>yr_HostID = ''build.host-1'', yr_YardName = ''default''\<rparr>"
proof -
  let ?ref = "\<lparr>yr_HostID = ''build.host-1'', yr_YardName = ''default''\<rparr>"
  have "YardRef_Validate ?ref = None"
    by (simp add: YardRef_Validate_def SafeID_bytes SafeName_bytes HasPrefix_def ContainsAny_def
        id_char_def name_char_def byte_class_defs)
  from yard_selector_roundtrip [OF this] show ?thesis by (simp add: YardRef_String_def)
qed

section \<open>Project records\<close>

datatype ProjectMode = ProjectSync | ProjectGit | ProjectBind | OtherMode string

record ProjectRecord =
  pr_Schema :: int
  pr_IdentityVersion :: int
  pr_ProjectID :: string
  pr_Name :: string
  pr_HostPath :: string
  pr_SourceKey :: string
  pr_YardPath :: string
  pr_Mode :: ProjectMode
  pr_SSHHost :: string
  pr_ImportedAt :: string
  pr_Target :: string
  pr_Profile :: string
  pr_RegistrySource :: string

datatype record_error =
    UnsupportedSchema int
  | InvalidProjectID string
  | UnsupportedIdentityVersion int
  | NonCanonicalIdentity
  | FilenameMismatch string string
  | MissingRecordField
  | InvalidSourceKey
  | WrongYardPath string
  | InvalidMode ProjectMode
  | InvalidTarget string
  | InvalidProfile string
  | InvalidRegistrySource string

definition ProjectRecord_Validate :: "ProjectRecord \<Rightarrow> string \<Rightarrow> record_error err" where
  "ProjectRecord_Validate record expectedID =
    (let expectedPath = path_Join [''/srv/workspaces'', pr_ProjectID record, ''src''] in
     if pr_Schema record \<noteq> 1 then Some (UnsupportedSchema (pr_Schema record))
     else if \<not> SafeID (pr_ProjectID record) then Some (InvalidProjectID (pr_ProjectID record))
     else if pr_IdentityVersion record \<noteq> 0 \<and> pr_IdentityVersion record \<noteq> 2
       then Some (UnsupportedIdentityVersion (pr_IdentityVersion record))
     else if pr_IdentityVersion record = 2
         \<and> (pr_ProjectID record \<noteq> pr_Name record \<or> \<not> SafeProjectName (pr_Name record))
       then Some NonCanonicalIdentity
     else if expectedID \<noteq> '''' \<and> pr_ProjectID record \<noteq> expectedID
       then Some (FilenameMismatch (pr_ProjectID record) expectedID)
     else if pr_Name record = '''' \<or> pr_YardPath record = '''' \<or> pr_SSHHost record = ''''
       then Some MissingRecordField
     else if pr_SourceKey record \<noteq> '''' \<and> length (pr_SourceKey record) \<noteq> 64
       then Some InvalidSourceKey
     else if pr_SourceKey record \<noteq> ''''
         \<and> \<not> list_all (\<lambda>character. character \<in> set (runes ''0123456789abcdef'')) (runes (pr_SourceKey record))
       then Some InvalidSourceKey
     else if pr_YardPath record \<noteq> expectedPath then Some (WrongYardPath expectedPath)
     else if pr_Mode record \<noteq> ProjectSync \<and> pr_Mode record \<noteq> ProjectGit \<and> pr_Mode record \<noteq> ProjectBind
       then Some (InvalidMode (pr_Mode record))
     else if pr_Target record \<noteq> '''' \<and> pr_Target record \<noteq> ''yard'' \<and> \<not> SafeName (pr_Target record)
       then Some (InvalidTarget (pr_Target record))
     else if pr_Profile record \<noteq> '''' \<and> \<not> SafeName (pr_Profile record)
       then Some (InvalidProfile (pr_Profile record))
     else if pr_RegistrySource record \<noteq> '''' \<and> pr_RegistrySource record \<noteq> ''yard''
       then Some (InvalidRegistrySource (pr_RegistrySource record))
     else None)"

text \<open>
  The workspace path of a safe project ID is never rewritten by \<open>filepath.Join\<close>, so it names one
  directory below \<open>/srv/workspaces\<close>, and different IDs have different workspaces.
\<close>

lemma path_Join_workspace:
  assumes "plain_elem pid"
  shows "path_Join [''/srv/workspaces'', pid, ''src''] = ''/srv/workspaces/'' @ pid @ ''/src''"
proof -
  let ?es = "[''srv'', ''workspaces'', pid, ''src'']"
  have "Clean (slash # Join ?es [slash]) = slash # Join ?es [slash]"
    using assms by (intro Clean_rooted_elems) (simp add: plain_elem_def)
  then show ?thesis
    using assms by (simp add: path_Join_def plain_elem_def)
qed

lemma ProjectRecord_Validate_facts:
  assumes "ProjectRecord_Validate r pid = None"
  shows "SafeID (pr_ProjectID r)" and "pid \<noteq> '''' \<Longrightarrow> pr_ProjectID r = pid"
    and "pr_YardPath r = ''/srv/workspaces/'' @ pr_ProjectID r @ ''/src''"
    and "pr_IdentityVersion r = 2 \<Longrightarrow> pr_ProjectID r = pr_Name r"
    and "pr_Name r \<noteq> ''''"
proof -
  show s: "SafeID (pr_ProjectID r)"
    using assms by (simp add: ProjectRecord_Validate_def Let_def)
  show "pid \<noteq> '''' \<Longrightarrow> pr_ProjectID r = pid"
    using assms by (simp add: ProjectRecord_Validate_def Let_def)
  have "pr_YardPath r = path_Join [''/srv/workspaces'', pr_ProjectID r, ''src'']"
    using assms by (simp add: ProjectRecord_Validate_def Let_def)
  then show "pr_YardPath r = ''/srv/workspaces/'' @ pr_ProjectID r @ ''/src''"
    using path_Join_workspace [OF SafeID_plain [OF s]] by simp
  show "pr_IdentityVersion r = 2 \<Longrightarrow> pr_ProjectID r = pr_Name r"
    using assms by (simp add: ProjectRecord_Validate_def Let_def)
  show "pr_Name r \<noteq> ''''"
    using assms by (simp add: ProjectRecord_Validate_def Let_def)
qed

lemma Validate_expected:
  "ProjectRecord_Validate r pid = None \<Longrightarrow> ProjectRecord_Validate r (pr_ProjectID r) = None"
  unfolding ProjectRecord_Validate_def Let_def guard_None by blast



section \<open>Yard context\<close>

datatype AccessKind = AccessLocal | AccessRemote | OtherAccess string
datatype YardKind = YardContainer | YardVM | OtherYardKind string

record RuntimePaths =
  rp_RepositoryRoot :: string
  rp_ConfigDir :: string
  rp_OperatorHome :: string
  rp_ConfigHome :: string
  rp_DataHome :: string
  rp_StoragePath :: string
  rp_HostBase :: string
  rp_StateDir :: string

record Context =
  cx_YardName :: string
  cx_AccessKind :: AccessKind
  cx_YardKind :: YardKind
  cx_YardInstanceName :: string
  cx_IncusProject :: string
  cx_IncusBridge :: string
  cx_SSHHost :: string
  cx_DevUser :: string
  cx_SSHPort :: int
  cx_OwnerEndpoint :: string
  cx_OwnerYardName :: string
  cx_YardImageRef :: string
  cx_ShiftMode :: string
  cx_ForwardSSHAgent :: bool
  cx_DevSudo :: bool
  cx_NestedE2EVMs :: bool
  cx_DevUID :: int
  cx_Paths :: RuntimePaths

datatype context_error =
    NotAbsolute string
  | YardNameRequired
  | BadAccessKind
  | BadYardKind
  | NestedRequiresContainer
  | MissingContextField
  | BadShiftMode
  | NegativeDevUID
  | HostBaseNotNormalized
  | DataHomeNotNormalized
  | HostBaseTooBroad string
  | DataHomeTooBroad string
  | BadSSHPort
  | OwnerEndpointRequired
  | OwnerYardRequired
  | ConflictingField string string

definition broadHostPath :: "string \<Rightarrow> string \<Rightarrow> bool" where
  "broadHostPath path operatorHome \<longleftrightarrow>
     path \<in> set [''/'', ''/boot'', ''/dev'', ''/etc'', ''/home'', ''/opt'', ''/proc'', ''/root'',
                ''/run'', ''/srv'', ''/sys'', ''/usr'', ''/var''] \<or> path = operatorHome"

definition Context_Validate :: "Context \<Rightarrow> context_error err" where
  "Context_Validate ctx =
    (let p = cx_Paths ctx in
     if cx_YardName ctx = '''' then Some YardNameRequired
     else if cx_AccessKind ctx \<noteq> AccessLocal \<and> cx_AccessKind ctx \<noteq> AccessRemote then Some BadAccessKind
     else if cx_YardKind ctx \<noteq> YardContainer \<and> cx_YardKind ctx \<noteq> YardVM then Some BadYardKind
     else if cx_NestedE2EVMs ctx \<and> cx_YardKind ctx \<noteq> YardContainer then Some NestedRequiresContainer
     else if cx_YardInstanceName ctx = '''' \<or> cx_IncusProject ctx = '''' \<or> cx_SSHHost ctx = ''''
         \<or> cx_DevUser ctx = '''' then Some MissingContextField
     else if cx_ShiftMode ctx \<noteq> ''shift'' \<and> cx_ShiftMode ctx \<noteq> ''acl'' then Some BadShiftMode
     else if cx_DevUID ctx < 0 then Some NegativeDevUID
     else if rp_HostBase p \<noteq> Clean (rp_HostBase p) then Some HostBaseNotNormalized
     else if rp_DataHome p \<noteq> Clean (rp_DataHome p) then Some DataHomeNotNormalized
     else if broadHostPath (rp_HostBase p) (rp_OperatorHome p) then Some (HostBaseTooBroad (rp_HostBase p))
     else if broadHostPath (rp_DataHome p) (rp_OperatorHome p) then Some (DataHomeTooBroad (rp_DataHome p))
     else if cx_AccessKind ctx = AccessLocal \<and> (cx_SSHPort ctx < 1 \<or> cx_SSHPort ctx > 65535)
       then Some BadSSHPort
     else if cx_AccessKind ctx = AccessRemote \<and> \<not> SafeSSHTarget (cx_OwnerEndpoint ctx)
       then Some OwnerEndpointRequired
     else if cx_AccessKind ctx = AccessRemote \<and> \<not> SafeName (cx_OwnerYardName ctx)
       then Some OwnerYardRequired
     else None)"

text \<open>
  \<open>NormalizeContext\<close> cleans the eight paths in the order of its field table, stopping at the first
  relative one, and validates the result.
\<close>

definition path_fields :: "RuntimePaths \<Rightarrow> (string \<times> string) list" where
  "path_fields p =
     [(''repository root'', rp_RepositoryRoot p), (''config dir'', rp_ConfigDir p),
      (''operator home'', rp_OperatorHome p), (''config home'', rp_ConfigHome p),
      (''data home'', rp_DataHome p), (''storage path'', rp_StoragePath p),
      (''host base'', rp_HostBase p), (''state dir'', rp_StateDir p)]"

definition clean_paths :: "RuntimePaths \<Rightarrow> RuntimePaths" where
  "clean_paths p =
     \<lparr>rp_RepositoryRoot = Clean (rp_RepositoryRoot p), rp_ConfigDir = Clean (rp_ConfigDir p),
      rp_OperatorHome = Clean (rp_OperatorHome p), rp_ConfigHome = Clean (rp_ConfigHome p),
      rp_DataHome = Clean (rp_DataHome p), rp_StoragePath = Clean (rp_StoragePath p),
      rp_HostBase = Clean (rp_HostBase p), rp_StateDir = Clean (rp_StateDir p)\<rparr>"

definition path_error :: "string \<times> string \<Rightarrow> context_error err" where
  "path_error f = (if IsAbs (snd f) then None else Some (NotAbsolute (fst f)))"

definition NormalizeContext :: "Context \<Rightarrow> context_error + Context" where
  "NormalizeContext ctx =
     (let ctx1 = (if cx_DevUser ctx = '''' then ctx\<lparr>cx_DevUser := ''dev''\<rparr> else ctx) in
      case first_error path_error (path_fields (cx_Paths ctx1)) of
        Some e \<Rightarrow> Inl e
      | None \<Rightarrow>
          (let ctx2 = ctx1\<lparr>cx_Paths := clean_paths (cx_Paths ctx1)\<rparr> in
           case Context_Validate ctx2 of Some e \<Rightarrow> Inl e | None \<Rightarrow> Inr ctx2))"

definition abs_paths :: "RuntimePaths \<Rightarrow> bool" where
  "abs_paths p \<longleftrightarrow> first_error path_error (path_fields p) = None"

lemma abs_paths_iff:
  "abs_paths p \<longleftrightarrow> IsAbs (rp_RepositoryRoot p) \<and> IsAbs (rp_ConfigDir p) \<and> IsAbs (rp_OperatorHome p)
     \<and> IsAbs (rp_ConfigHome p) \<and> IsAbs (rp_DataHome p) \<and> IsAbs (rp_StoragePath p)
     \<and> IsAbs (rp_HostBase p) \<and> IsAbs (rp_StateDir p)"
  by (simp add: abs_paths_def first_error_None path_fields_def path_error_def)

lemma clean_paths_idem: "abs_paths p \<Longrightarrow> clean_paths (clean_paths p) = clean_paths p"
  by (simp add: abs_paths_iff clean_paths_def Clean_idem)

lemma clean_paths_abs: "abs_paths p \<Longrightarrow> abs_paths (clean_paths p)"
  by (simp add: abs_paths_iff clean_paths_def IsAbs_Clean)

lemma NormalizeContext_ok:
  assumes "NormalizeContext ctx = Inr c"
  shows "Context_Validate c = None \<and> (\<exists>p. abs_paths p \<and> cx_Paths c = clean_paths p)"
  using assms unfolding NormalizeContext_def Let_def
  by (auto simp flip: abs_paths_def split: option.split_asm if_split_asm)

text \<open>
  A normalised context satisfies every rule of \<open>Context.Validate\<close> (so it has a usable SSH port
  or a safe owner endpoint, and neither managed directory is a broad host path), and normalising it
  again changes nothing.
\<close>

theorem normalize_context_stable:
  assumes "NormalizeContext ctx = Inr c"
  shows "Context_Validate c = None \<and> NormalizeContext c = Inr c"
proof -
  obtain p where v: "Context_Validate c = None" and abs: "abs_paths p" and p: "cx_Paths c = clean_paths p"
    using NormalizeContext_ok [OF assms] by blast
  have dev: "cx_DevUser c \<noteq> []"
    using v by (simp add: Context_Validate_def Let_def)
  have "first_error path_error (path_fields (cx_Paths c)) = None"
    using clean_paths_abs [OF abs] p by (simp add: abs_paths_def)
  moreover have "c\<lparr>cx_Paths := clean_paths (cx_Paths c)\<rparr> = c"
    using clean_paths_idem [OF abs] p by simp
  ultimately show ?thesis
    using v dev by (simp add: NormalizeContext_def Let_def)
qed

definition demo_context :: Context where
  "demo_context =
     \<lparr>cx_YardName = ''default'', cx_AccessKind = AccessLocal, cx_YardKind = YardContainer,
      cx_YardInstanceName = ''yard'', cx_IncusProject = ''subyard'', cx_IncusBridge = ''br0'',
      cx_SSHHost = ''yard'', cx_DevUser = '''', cx_SSHPort = 2222, cx_OwnerEndpoint = '''',
      cx_OwnerYardName = '''', cx_YardImageRef = '''', cx_ShiftMode = ''shift'',
      cx_ForwardSSHAgent = False, cx_DevSudo = True, cx_NestedE2EVMs = False, cx_DevUID = 1000,
      cx_Paths = \<lparr>rp_RepositoryRoot = ''/o/r'', rp_ConfigDir = ''/o/r/c'', rp_OperatorHome = ''/h/me'',
        rp_ConfigHome = ''/h/c'', rp_DataHome = ''/h/me/./d'', rp_StoragePath = ''/s'',
        rp_HostBase = ''/h/x/../b/'', rp_StateDir = ''/h/s''\<rparr>\<rparr>"

theorem normalize_context_stable_witness:
  "Context_Validate (demo_context\<lparr>cx_DevUser := ''dev'', cx_Paths := clean_paths (cx_Paths demo_context)\<rparr>) = None
   \<and> rp_HostBase (clean_paths (cx_Paths demo_context)) = ''/h/b''"
proof -
  have "NormalizeContext demo_context =
      Inr (demo_context\<lparr>cx_DevUser := ''dev'', cx_Paths := clean_paths (cx_Paths demo_context)\<rparr>)"
    by code_simp
  from normalize_context_stable [OF this] show ?thesis
    by (simp add: demo_context_def clean_paths_def Clean_def IsAbs_def HasPrefix_def Let_def)
qed

text \<open>
  \<open>Context.UnmarshalJSON\<close> accepts the field names of earlier releases.  The JSON decoder's outcome
  is the argument: the canonical fields as decoded, the exact keys present in the document, and the
  legacy fields where they are present and not null.
\<close>

record context_wire =
  cw_Canonical :: Context
  cw_Fields :: "string list"
  cw_yardType :: "AccessKind option"
  cw_instanceType :: "YardKind option"
  cw_instanceName :: "string option"
  cw_remoteDest :: "string option"
  cw_remoteYard :: "string option"

definition legacy_field ::
  "string list \<Rightarrow> string \<Rightarrow> string \<Rightarrow> 'a \<Rightarrow> 'a option \<Rightarrow> context_error + 'a" where
  "legacy_field present new old canonical legacy =
     (case legacy of
        None \<Rightarrow> Inr canonical
      | Some l \<Rightarrow>
          if new \<in> set present \<and> canonical \<noteq> l then Inl (ConflictingField new old)
          else if new \<notin> set present then Inr l else Inr canonical)"

definition Context_UnmarshalJSON :: "context_wire \<Rightarrow> context_error + Context" where
  "Context_UnmarshalJSON w =
    (let c = cw_Canonical w; fs = cw_Fields w in
     res_bind (legacy_field fs ''accessKind'' ''yardType'' (cx_AccessKind c) (cw_yardType w)) (\<lambda>access.
     res_bind (legacy_field fs ''yardKind'' ''instanceType'' (cx_YardKind c) (cw_instanceType w)) (\<lambda>kind.
     res_bind (legacy_field fs ''yardInstanceName'' ''instanceName'' (cx_YardInstanceName c)
                 (cw_instanceName w)) (\<lambda>name.
     res_bind (legacy_field fs ''ownerEndpoint'' ''remoteDest'' (cx_OwnerEndpoint c)
                 (cw_remoteDest w)) (\<lambda>endpoint.
     res_bind (legacy_field fs ''ownerYardName'' ''remoteYard'' (cx_OwnerYardName c)
                 (cw_remoteYard w)) (\<lambda>yard.
       Inr (c\<lparr>cx_AccessKind := access, cx_YardKind := kind, cx_YardInstanceName := name,
             cx_OwnerEndpoint := endpoint, cx_OwnerYardName := yard\<rparr>)))))))"

lemma legacy_field_Inr:
  "legacy_field fs new old c l = Inr v \<Longrightarrow>
     (l = None \<longrightarrow> v = c) \<and> (new \<in> set fs \<longrightarrow> v = c) \<and> (\<forall>x. l = Some x \<longrightarrow> v = x)"
  by (auto simp: legacy_field_def split: option.splits if_splits)

text \<open>
  A context document that is accepted never drops an earlier release's field: the decoded value
  is the legacy one wherever that field is present, and the canonical one wherever that is; a
  document in which the two disagree is refused.
\<close>

theorem context_legacy_fields_agree:
  assumes "Context_UnmarshalJSON w = Inr c"
  shows "(\<forall>k. cw_yardType w = Some k \<longrightarrow> cx_AccessKind c = k)
    \<and> (\<forall>k. cw_instanceType w = Some k \<longrightarrow> cx_YardKind c = k)
    \<and> (\<forall>n. cw_instanceName w = Some n \<longrightarrow> cx_YardInstanceName c = n)
    \<and> (\<forall>e. cw_remoteDest w = Some e \<longrightarrow> cx_OwnerEndpoint c = e)
    \<and> (\<forall>y. cw_remoteYard w = Some y \<longrightarrow> cx_OwnerYardName c = y)
    \<and> (''ownerEndpoint'' \<in> set (cw_Fields w) \<longrightarrow> cx_OwnerEndpoint c = cx_OwnerEndpoint (cw_Canonical w))"
proof -
  let ?f = "legacy_field (cw_Fields w)" and ?c = "cw_Canonical w"
  from assms obtain a k n e y where
      f: "?f ''accessKind'' ''yardType'' (cx_AccessKind ?c) (cw_yardType w) = Inr a"
         "?f ''yardKind'' ''instanceType'' (cx_YardKind ?c) (cw_instanceType w) = Inr k"
         "?f ''yardInstanceName'' ''instanceName'' (cx_YardInstanceName ?c) (cw_instanceName w) = Inr n"
         "?f ''ownerEndpoint'' ''remoteDest'' (cx_OwnerEndpoint ?c) (cw_remoteDest w) = Inr e"
         "?f ''ownerYardName'' ''remoteYard'' (cx_OwnerYardName ?c) (cw_remoteYard w) = Inr y"
    and c: "c = ?c\<lparr>cx_AccessKind := a, cx_YardKind := k, cx_YardInstanceName := n,
                  cx_OwnerEndpoint := e, cx_OwnerYardName := y\<rparr>"
    unfolding Context_UnmarshalJSON_def Let_def res_bind_Inr by blast
  show ?thesis
    using f [THEN legacy_field_Inr] by (simp add: c)
qed

theorem context_legacy_fields_agree_witness:
  "cx_OwnerEndpoint (demo_context\<lparr>cx_AccessKind := AccessRemote, cx_OwnerEndpoint := ''me@srv''\<rparr>) = ''me@srv''"
proof -
  let ?w = "\<lparr>cw_Canonical = demo_context, cw_Fields = [''yardName''], cw_yardType = Some AccessRemote,
      cw_instanceType = None, cw_instanceName = None, cw_remoteDest = Some ''me@srv'',
      cw_remoteYard = None\<rparr>"
  have "Context_UnmarshalJSON ?w =
      Inr (demo_context\<lparr>cx_AccessKind := AccessRemote, cx_OwnerEndpoint := ''me@srv''\<rparr>)"
    by (simp add: Context_UnmarshalJSON_def legacy_field_def demo_context_def)
  from context_legacy_fields_agree [OF this] show ?thesis by simp
qed

end
