(* ===== verification/Action_Policy.thy ===== *)
theory Action_Policy
  imports Identity
begin

text \<open>
  \<open>internal/domain/action_policy.go\<close>, \<open>confirmation.go\<close> and \<open>refusals.go\<close>: the registry of actions,
  the assessment of one action, and the confirmation policy it resolves to.
\<close>

section \<open>Data\<close>

datatype ActionEffect =
    ActionRead | ActionSession | ActionBoundedWrite | ActionMutation | ActionDestruction
  | OtherEffect string

datatype ActionImpact =
    ImpactLocalMetadata | ImpactYardRuntime | ImpactHostOS | ImpactHostNetwork | ImpactHostIncus
  | ImpactSecurity | ImpactTrust | ImpactAccess | ImpactExternalSystem | ImpactSharedWorkload
  | ImpactPersistentData | OtherImpact string

datatype RecoveryClass =
    RecoveryNotNeeded | RecoveryReversible | RecoveryRecreatable | RecoveryIrreversible
  | OtherRecovery string

datatype ConfirmationPolicy =
    ConfirmationNever | ConfirmationPromptDefaultYes | ConfirmationPromptDefaultNo
  | OtherConfirmation string

datatype ConfirmationDefault =
    ConfirmationDefaultYes | ConfirmationDefaultNo | ConfirmationDefaultUnset | OtherDefault string

text \<open>The wire value of an impact, by which impacts are sorted.\<close>

fun impact_string :: "ActionImpact \<Rightarrow> string" where
  "impact_string ImpactLocalMetadata = ''local-metadata''"
| "impact_string ImpactYardRuntime = ''yard-runtime''"
| "impact_string ImpactHostOS = ''host-os''"
| "impact_string ImpactHostNetwork = ''host-network''"
| "impact_string ImpactHostIncus = ''host-incus''"
| "impact_string ImpactSecurity = ''security''"
| "impact_string ImpactTrust = ''trust''"
| "impact_string ImpactAccess = ''access''"
| "impact_string ImpactExternalSystem = ''external-system''"
| "impact_string ImpactSharedWorkload = ''shared-workload''"
| "impact_string ImpactPersistentData = ''persistent-data''"
| "impact_string (OtherImpact s) = s"

record ActionAssessment =
  as_Action :: string
  as_Effect :: ActionEffect
  as_Changed :: bool
  as_Impacts :: "ActionImpact list"
  as_Recovery :: RecoveryClass
  as_Consequences :: "string list"

record ConfirmationRequest =
  rq_Summary :: string
  rq_Consequences :: "string list"
  rq_Default :: ConfirmationDefault

record ActionDefinition =
  ad_Action :: string
  ad_Summary :: string
  ad_Effect :: ActionEffect
  ad_Impacts :: "ActionImpact list"
  ad_Recovery :: RecoveryClass

record ActionDelta =
  dl_Changed :: bool
  dl_Consequences :: "string list"

text \<open>Every error of this file wraps \<open>ErrActionPolicyInvalid\<close>.\<close>

datatype policy_error =
    DuplicateAction string
  | RegistryRequired
  | InvalidActionID string
  | UnknownAction string
  | ConsequenceRequired string
  | InvalidSummary string
  | InvalidEffect string
  | InvalidRecovery string
  | RecoveryMustBeNotNeeded
  | ImpactRequired
  | RecoveryRequired
  | AssessmentMismatch string
  | ImpactsMismatch string
  | ConsequencesNotNormalized
  | InvalidImpact ActionImpact
  | InvalidConsequence

type_synonym ActionRegistry = "string \<rightharpoonup> ActionDefinition"

section \<open>Validation helpers\<close>

definition safeText :: "string \<Rightarrow> bool" where
  "safeText value = (if TrimSpace value = '''' then False else \<not> ContainsControl value)"

definition isStateChanging :: "ActionEffect \<Rightarrow> bool" where
  "isStateChanging effect \<longleftrightarrow> effect = ActionMutation \<or> effect = ActionDestruction"

definition validActionEffect :: "ActionEffect \<Rightarrow> bool" where
  "validActionEffect effect \<longleftrightarrow> effect = ActionRead \<or> effect = ActionSession \<or> effect = ActionBoundedWrite
     \<or> effect = ActionMutation \<or> effect = ActionDestruction"

definition validActionImpact :: "ActionImpact \<Rightarrow> bool" where
  "validActionImpact impact = (case impact of OtherImpact _ \<Rightarrow> False | _ \<Rightarrow> True)"

definition validRecoveryClass :: "RecoveryClass \<Rightarrow> bool" where
  "validRecoveryClass recovery \<longleftrightarrow> recovery = RecoveryNotNeeded \<or> recovery = RecoveryReversible
     \<or> recovery = RecoveryRecreatable \<or> recovery = RecoveryIrreversible"

definition normalizeImpacts :: "ActionImpact list \<Rightarrow> policy_error + ActionImpact list" where
  "normalizeImpacts impacts =
     (case first_error (\<lambda>i. if validActionImpact i then None else Some (InvalidImpact i)) impacts of
        Some e \<Rightarrow> Inl e
      | None \<Rightarrow> Inr (compact (sort_key impact_string impacts)))"

definition normalizeConsequences :: "string list \<Rightarrow> policy_error + string list" where
  "normalizeConsequences consequences =
     (case first_error (\<lambda>c. if safeText c then None else Some InvalidConsequence) consequences of
        Some e \<Rightarrow> Inl e
      | None \<Rightarrow> Inr (map TrimSpace consequences))"

definition normalizeDefinition :: "ActionDefinition \<Rightarrow> policy_error + ActionDefinition" where
  "normalizeDefinition d =
     (if \<not> SafeID (ad_Action d) then Inl (InvalidActionID (ad_Action d))
      else if \<not> safeText (ad_Summary d) then Inl (InvalidSummary (ad_Action d))
      else if \<not> validActionEffect (ad_Effect d) then Inl (InvalidEffect (ad_Action d))
      else if \<not> validRecoveryClass (ad_Recovery d) then Inl (InvalidRecovery (ad_Action d))
      else case normalizeImpacts (ad_Impacts d) of
        Inl e \<Rightarrow> Inl e
      | Inr impacts \<Rightarrow>
          (let d' = d\<lparr>ad_Summary := TrimSpace (ad_Summary d), ad_Impacts := impacts\<rparr> in
           if ad_Effect d' = ActionRead \<or> ad_Effect d' = ActionSession \<or> ad_Effect d' = ActionBoundedWrite
           then (if ad_Recovery d' \<noteq> RecoveryNotNeeded then Inl RecoveryMustBeNotNeeded else Inr d')
           else if ad_Impacts d' = [] then Inl ImpactRequired
           else if ad_Recovery d' = RecoveryNotNeeded then Inl RecoveryRequired
           else Inr d'))"

definition validateAssessment :: "ActionDefinition \<Rightarrow> ActionAssessment \<Rightarrow> policy_error err" where
  "validateAssessment d a =
     (if \<not> SafeID (as_Action a) \<or> as_Action a \<noteq> ad_Action d
          \<or> as_Effect a \<noteq> ad_Effect d \<or> as_Recovery a \<noteq> ad_Recovery d
      then Some (AssessmentMismatch (ad_Action d))
      else case normalizeImpacts (as_Impacts a) of
        Inl e \<Rightarrow> Some e
      | Inr impacts \<Rightarrow>
          if impacts \<noteq> ad_Impacts d then Some (ImpactsMismatch (ad_Action d))
          else case normalizeConsequences (as_Consequences a) of
            Inl e \<Rightarrow> Some e
          | Inr consequences \<Rightarrow>
              if consequences \<noteq> as_Consequences a then Some ConsequencesNotNormalized
              else if as_Changed a \<and> isStateChanging (as_Effect a) \<and> consequences = []
                then Some (ConsequenceRequired (as_Action a))
              else None)"

section \<open>The registry\<close>

definition register_one :: "ActionDefinition \<Rightarrow> ActionRegistry \<Rightarrow> policy_error + ActionRegistry" where
  "register_one d registry =
     (case normalizeDefinition d of
        Inl e \<Rightarrow> Inl e
      | Inr d' \<Rightarrow>
          if registry (ad_Action d') \<noteq> None then Inl (DuplicateAction (ad_Action d'))
          else Inr (registry(ad_Action d' \<mapsto> d')))"

definition NewActionRegistry :: "ActionDefinition list \<Rightarrow> policy_error + ActionRegistry" where
  "NewActionRegistry ds = fold_res register_one ds Map.empty"

text \<open>
  \<open>With\<close> walks the receiver's map; \<open>order\<close> is the order in which that walk meets its definitions.
\<close>

definition With :: "ActionRegistry option \<Rightarrow> string list \<Rightarrow> ActionDefinition list
    \<Rightarrow> policy_error + ActionRegistry" where
  "With registry order ds =
     (case registry of
        None \<Rightarrow> Inl RegistryRequired
      | Some m \<Rightarrow> NewActionRegistry (List.map_filter m order @ ds))"

definition Assess :: "ActionRegistry option \<Rightarrow> string \<Rightarrow> ActionDelta \<Rightarrow> policy_error + ActionAssessment" where
  "Assess registry action delta =
     (case registry of
        None \<Rightarrow> Inl RegistryRequired
      | Some m \<Rightarrow>
          if \<not> SafeID action then Inl (InvalidActionID action)
          else case m action of
            None \<Rightarrow> Inl (UnknownAction action)
          | Some d \<Rightarrow>
              (case normalizeConsequences (dl_Consequences delta) of
                 Inl e \<Rightarrow> Inl e
               | Inr consequences \<Rightarrow>
                   if dl_Changed delta \<and> isStateChanging (ad_Effect d) \<and> consequences = []
                   then Inl (ConsequenceRequired action)
                   else Inr \<lparr>as_Action = ad_Action d, as_Effect = ad_Effect d,
                          as_Changed = dl_Changed delta, as_Impacts = ad_Impacts d,
                          as_Recovery = ad_Recovery d, as_Consequences = consequences\<rparr>))"

definition Resolve :: "ActionRegistry option \<Rightarrow> ActionAssessment
    \<Rightarrow> policy_error + ConfirmationPolicy \<times> ConfirmationRequest option" where
  "Resolve registry a =
     (case registry of
        None \<Rightarrow> Inl RegistryRequired
      | Some m \<Rightarrow>
          (case m (as_Action a) of
             None \<Rightarrow> Inl (UnknownAction (as_Action a))
           | Some d \<Rightarrow>
               (case validateAssessment d a of
                  Some e \<Rightarrow> Inl e
                | None \<Rightarrow>
                    if \<not> as_Changed a then Inr (ConfirmationNever, None)
                    else if ad_Effect d = ActionRead \<or> ad_Effect d = ActionSession
                        \<or> ad_Effect d = ActionBoundedWrite
                      then Inr (ConfirmationNever, None)
                    else
                      (let request = (\<lambda>default. \<lparr>rq_Summary = ad_Summary d,
                              rq_Consequences = as_Consequences a, rq_Default = default\<rparr>) in
                       case ad_Recovery d of
                         RecoveryReversible \<Rightarrow>
                           Inr (ConfirmationPromptDefaultYes, Some (request ConfirmationDefaultYes))
                       | RecoveryRecreatable \<Rightarrow>
                           Inr (ConfirmationPromptDefaultYes, Some (request ConfirmationDefaultYes))
                       | RecoveryIrreversible \<Rightarrow>
                           Inr (ConfirmationPromptDefaultNo, Some (request ConfirmationDefaultNo))
                       | _ \<Rightarrow> Inl (InvalidRecovery (as_Action a))))))"

section \<open>Normal forms\<close>

lemma impact_string_inj: "inj_on impact_string {i. validActionImpact i}"
proof (rule inj_onI)
  fix i j
  assume "i \<in> {i. validActionImpact i}" "j \<in> {i. validActionImpact i}" "impact_string i = impact_string j"
  then show "i = j" by (cases i; cases j) (simp_all add: validActionImpact_def)
qed

lemma normalizeImpacts_Inr:
  "normalizeImpacts is = Inr js \<longleftrightarrow>
     (\<forall>i \<in> set is. validActionImpact i) \<and> js = compact (sort_key impact_string is)"
  unfolding normalizeImpacts_def
  by (auto simp: first_error_None split: option.split dest: first_error_Some)

lemma normalizeImpacts_idem:
  assumes "normalizeImpacts is = Inr js"
  shows "normalizeImpacts js = Inr js"
proof -
  have v: "\<forall>i \<in> set is. validActionImpact i" and js: "js = compact (sort_key impact_string is)"
    using assms by (simp_all add: normalizeImpacts_Inr)
  have inj: "inj_on impact_string (set is)"
    using impact_string_inj v by (auto intro: inj_on_subset)
  have s0: "sorted_wrt (\<lambda>a b. impact_string a \<le> impact_string b) (sort_key impact_string is)"
    using sorted_sort_key [of impact_string "is"] by (simp only: sorted_map)
  then have s: "sorted_wrt (\<lambda>a b. impact_string a \<le> impact_string b) js"
    unfolding js by (rule sorted_compact)
  have d: "distinct js"
    unfolding js using s0 inj by (intro distinct_compact [where k = impact_string]) simp_all
  have "sort_key impact_string js = js"
    using s by (intro sort_key_id_if_sorted) (simp only: sorted_map)
  with v d js show ?thesis by (simp add: normalizeImpacts_Inr compact_distinct)
qed

lemma safeText_TrimSpace: "safeText s \<Longrightarrow> safeText (TrimSpace s)"
  using ContainsControl_TrimSpace by (auto simp: safeText_def split: if_splits)

lemma normalizeConsequences_Inr:
  "normalizeConsequences cs = Inr ds \<longleftrightarrow> (\<forall>c \<in> set cs. safeText c) \<and> ds = map TrimSpace cs"
  unfolding normalizeConsequences_def
  by (auto simp: first_error_None split: option.split dest: first_error_Some)

lemma normalizeConsequences_idem:
  "normalizeConsequences cs = Inr ds \<Longrightarrow> normalizeConsequences ds = Inr ds"
  by (auto simp: normalizeConsequences_Inr safeText_TrimSpace)

lemma normalizeDefinition_Inr:
  assumes "normalizeDefinition d = Inr d'"
  shows "SafeID (ad_Action d)" and "safeText (ad_Summary d)" and "validActionEffect (ad_Effect d)"
    and "validRecoveryClass (ad_Recovery d)"
    and "\<exists>is. normalizeImpacts (ad_Impacts d) = Inr is
           \<and> d' = d\<lparr>ad_Summary := TrimSpace (ad_Summary d), ad_Impacts := is\<rparr>"
    and "isStateChanging (ad_Effect d) \<longleftrightarrow> ad_Recovery d \<noteq> RecoveryNotNeeded"
    and "isStateChanging (ad_Effect d) \<Longrightarrow> ad_Impacts d' \<noteq> []"
proof -
  obtain "is" where i: "normalizeImpacts (ad_Impacts d) = Inr is"
    using assms by (auto simp: normalizeDefinition_def split: sum.split_asm)
  note u = assms [unfolded normalizeDefinition_def i guard_Inr sum.case Let_def]
  show "SafeID (ad_Action d)" "safeText (ad_Summary d)" "validRecoveryClass (ad_Recovery d)"
    using u by simp_all
  show e: "validActionEffect (ad_Effect d)" using u by simp
  show "\<exists>is. normalizeImpacts (ad_Impacts d) = Inr is
           \<and> d' = d\<lparr>ad_Summary := TrimSpace (ad_Summary d), ad_Impacts := is\<rparr>"
    using u i by (auto split: if_split_asm)
  show "isStateChanging (ad_Effect d) \<longleftrightarrow> ad_Recovery d \<noteq> RecoveryNotNeeded"
    using u e by (auto simp: isStateChanging_def validActionEffect_def split: if_split_asm)
  show "isStateChanging (ad_Effect d) \<Longrightarrow> ad_Impacts d' \<noteq> []"
    using u by (auto simp: isStateChanging_def split: if_split_asm)
qed

lemma normalizeDefinition_idem:
  assumes "normalizeDefinition d = Inr d'"
  shows "normalizeDefinition d' = Inr d'" and "ad_Action d' = ad_Action d"
proof -
  note f = normalizeDefinition_Inr [OF assms]
  from f(5) obtain "is" where i: "normalizeImpacts (ad_Impacts d) = Inr is"
    and d': "d' = d\<lparr>ad_Summary := TrimSpace (ad_Summary d), ad_Impacts := is\<rparr>" by blast
  show "ad_Action d' = ad_Action d" by (simp add: d')
  have ne: "isStateChanging (ad_Effect d) \<Longrightarrow> is \<noteq> []" using f(7) by (simp add: d')
  show "normalizeDefinition d' = Inr d'"
  proof (cases "isStateChanging (ad_Effect d)")
    case True
    then have "ad_Effect d \<noteq> ActionRead" "ad_Effect d \<noteq> ActionSession" "ad_Effect d \<noteq> ActionBoundedWrite"
      by (auto simp: isStateChanging_def)
    with True f ne i show ?thesis
      by (simp add: normalizeDefinition_def d' normalizeImpacts_idem [OF i] safeText_TrimSpace)
  next
    case False
    then have "ad_Effect d = ActionRead \<or> ad_Effect d = ActionSession \<or> ad_Effect d = ActionBoundedWrite"
      using f(3) by (auto simp: isStateChanging_def validActionEffect_def)
    with False f i show ?thesis
      by (simp add: normalizeDefinition_def d' normalizeImpacts_idem [OF i] safeText_TrimSpace)
  qed
qed

section \<open>Well-formed registries\<close>

definition registry_wf :: "ActionRegistry \<Rightarrow> bool" where
  "registry_wf m \<longleftrightarrow> (\<forall>k d. m k = Some d \<longrightarrow> ad_Action d = k \<and> normalizeDefinition d = Inr d)"

lemma registry_wf_empty: "registry_wf Map.empty"
  by (simp add: registry_wf_def)

lemma registry_wfD:
  "registry_wf m \<Longrightarrow> m k = Some d \<Longrightarrow> ad_Action d = k \<and> normalizeDefinition d = Inr d"
  by (simp add: registry_wf_def)

lemma register_one_Inr:
  "register_one d m = Inr m' \<longleftrightarrow>
     is_ok (normalizeDefinition d) \<and> m (ad_Action d) = None
     \<and> m' = m(ad_Action d \<mapsto> projr (normalizeDefinition d))"
  by (cases "normalizeDefinition d")
    (auto simp: register_one_def dest: normalizeDefinition_idem(2))

lemma register_one_wf:
  assumes "register_one d m = Inr m'" and "registry_wf m"
  shows "registry_wf m'"
proof -
  obtain d' where "normalizeDefinition d = Inr d'" and "m' = m(ad_Action d \<mapsto> d')"
    using assms(1) by (auto simp: register_one_Inr is_ok_iff)
  then show ?thesis
    using assms(2) normalizeDefinition_idem [of d d'] by (simp add: registry_wf_def)
qed

lemma NewActionRegistry_wf: "NewActionRegistry ds = Inr m \<Longrightarrow> registry_wf m"
  unfolding NewActionRegistry_def
  by (erule fold_res_inv) (auto simp: registry_wf_empty dest: register_one_wf)

text \<open>A registry is the set of the normalised definitions, each under its action.\<close>

definition def_table :: "ActionDefinition list \<Rightarrow> ActionRegistry" where
  "def_table ds = map_of (map (\<lambda>d. (ad_Action d, projr (normalizeDefinition d))) ds)"

lemma def_table_simps [simp]:
  "def_table [] = Map.empty"
  "def_table (d # ds) = (def_table ds)(ad_Action d \<mapsto> projr (normalizeDefinition d))"
  "def_table (ds @ es) = def_table es ++ def_table ds"
  by (simp_all add: def_table_def)

lemma dom_def_table: "dom (def_table ds) = ad_Action ` set ds"
  by (auto simp: def_table_def dom_map_of_conv_image_fst image_image)

lemma register_fold_char:
  "fold_res register_one ds m = Inr m' \<longleftrightarrow>
     (\<forall>d \<in> set ds. is_ok (normalizeDefinition d))
     \<and> distinct (map ad_Action ds) \<and> dom m \<inter> ad_Action ` set ds = {} \<and> m' = m ++ def_table ds"
proof (induction ds arbitrary: m)
  case Nil
  show ?case by auto
next
  case (Cons d ds)
  let ?v = "projr (normalizeDefinition d)"
  have upd: "ad_Action d \<notin> ad_Action ` set ds \<Longrightarrow>
      m(ad_Action d \<mapsto> ?v) ++ def_table ds = (m ++ def_table ds)(ad_Action d \<mapsto> ?v)"
    by (simp add: map_add_upd_left dom_def_table)
  show ?case
  proof (cases "register_one d m")
    case (Inl e)
    then have "\<not> (is_ok (normalizeDefinition d) \<and> m (ad_Action d) = None)"
      using register_one_Inr [of d m] by auto
    with Inl show ?thesis by auto
  next
    case (Inr m1)
    then have ok: "is_ok (normalizeDefinition d)" "m (ad_Action d) = None"
      and m1: "m1 = m(ad_Action d \<mapsto> ?v)"
      by (simp_all add: register_one_Inr)
    have step: "fold_res register_one (d # ds) m = fold_res register_one ds m1"
      using Inr by simp
    show ?thesis
    proof (cases "ad_Action d \<in> ad_Action ` set ds")
      case True
      then show ?thesis unfolding step Cons.IH by (auto simp: m1)
    next
      case False
      then have "dom m1 \<inter> ad_Action ` set ds = {} \<longleftrightarrow> dom m \<inter> ad_Action ` set (d # ds) = {}"
        using ok(2) by (auto simp: m1)
      moreover have "m ++ def_table (d # ds) = m1 ++ def_table ds"
        unfolding m1 upd [OF False] def_table_simps(2) by (rule map_add_upd)
      ultimately show ?thesis
        unfolding step Cons.IH using False ok(1) by (simp del: def_table_simps)
    qed
  qed
qed

lemma map_filter_dom:
  assumes "registry_wf m" and "set order = dom m" and "distinct order"
  shows "map ad_Action (List.map_filter m order) = order"
    and "set (List.map_filter m order) = ran m"
proof -
  have "set xs \<subseteq> dom m \<Longrightarrow> map ad_Action (List.map_filter m xs) = xs" for xs
    using assms(1) by (induction xs) (auto simp: List.map_filter_simps registry_wf_def)
  then show "map ad_Action (List.map_filter m order) = order" using assms(2) by simp
  have "set (List.map_filter m xs) = {d. \<exists>k \<in> set xs. m k = Some d}" for xs
    by (induction xs) (auto simp: List.map_filter_simps split: option.split)
  then show "set (List.map_filter m order) = ran m"
    using assms(2) by (auto simp: ran_def)
qed

text \<open>
  Whatever order the map walk takes, \<open>With\<close> keeps every definition of the receiver exactly as it
  was, adds only new actions, and gives a well-formed registry; the outcome is the same for every
  order.
\<close>

theorem with_extends_registry:
  assumes "registry_wf m" and "set o1 = dom m" and "distinct o1" and "set o2 = dom m" and "distinct o2"
    and "With (Some m) o1 ds = Inr m'"
  shows "m \<subseteq>\<^sub>m m' \<and> dom m' = dom m \<union> ad_Action ` set ds \<and> registry_wf m'
    \<and> With (Some m) o2 ds = Inr m'"
proof -
  have fixpoint: "normalizeDefinition d = Inr d" if "d \<in> ran m" for d
    using that assms(1) by (auto simp: ran_def registry_wf_def)
  have tab_order: "def_table (List.map_filter m ord) = m" if "set ord = dom m" "distinct ord" for ord
  proof
    fix k
    note mf = map_filter_dom [OF assms(1) that]
    have "distinct (map fst (map (\<lambda>d. (ad_Action d, projr (normalizeDefinition d))) (List.map_filter m ord)))"
      using mf(1) that(2) by (simp add: comp_def)
    then have "def_table (List.map_filter m ord) k = Some d \<longleftrightarrow> d \<in> ran m \<and> ad_Action d = k" for d
      using mf(2) fixpoint by (auto simp: def_table_def map_of_eq_Some_iff)
    moreover have "m k = Some d \<longleftrightarrow> d \<in> ran m \<and> ad_Action d = k" for d
      using assms(1) by (auto simp: ran_def registry_wf_def)
    ultimately show "def_table (List.map_filter m ord) k = m k" by (metis option.exhaust)
  qed
  have with_iff: "With (Some m) ord ds = Inr n \<longleftrightarrow>
      (\<forall>d \<in> set ds. is_ok (normalizeDefinition d)) \<and> distinct (map ad_Action ds)
      \<and> dom m \<inter> ad_Action ` set ds = {} \<and> n = m ++ def_table ds"
    if "set ord = dom m" "distinct ord" for ord n
  proof -
    note mf = map_filter_dom [OF assms(1) that]
    have ok: "\<forall>d \<in> set (List.map_filter m ord). is_ok (normalizeDefinition d)"
      using mf(2) fixpoint by simp
    have comm: "dom m \<inter> ad_Action ` set ds = {} \<Longrightarrow> def_table ds ++ m = m ++ def_table ds"
      by (rule map_add_comm) (auto simp: dom_def_table)
    show ?thesis
      using ok mf(1) that comm tab_order [OF that]
      by (auto simp: With_def NewActionRegistry_def register_fold_char)
  qed
  from assms(6) with_iff [OF assms(2,3)] have m': "m' = m ++ def_table ds" and disj: "dom m \<inter> ad_Action ` set ds = {}"
    by simp_all
  have "registry_wf m'"
    using assms(6) by (auto simp: With_def dest: NewActionRegistry_wf)
  moreover have "With (Some m) o2 ds = Inr m'"
    using assms(6) with_iff [OF assms(2,3)] with_iff [OF assms(4,5)] by simp
  moreover have "m \<subseteq>\<^sub>m m'"
    using disj by (auto simp: m' map_le_def map_add_def dom_def_table domIff split: option.split)
      (metis disj dom_def_table disjoint_iff domI option.distinct(1))
  ultimately show ?thesis by (auto simp: m' dom_def_table)
qed

text \<open>
  An assessment that the registry itself produced always resolves, and the policy is decided by
  the delta and the definition alone: nothing is asked for an unchanged or a non-state-changing
  action; a change asks with the default \<open>yes\<close> when it can be undone or recreated and with the default
  \<open>no\<close> exactly when it is irreversible, and the request then carries at least one consequence.
\<close>

theorem assessment_resolves:
  assumes "registry_wf m" and "m action = Some d" and "Assess (Some m) action delta = Inr a"
  shows "\<exists>policy request. Resolve (Some m) a = Inr (policy, request)
    \<and> (policy = ConfirmationNever \<longleftrightarrow> \<not> (dl_Changed delta \<and> isStateChanging (ad_Effect d)))
    \<and> (policy = ConfirmationPromptDefaultNo \<longleftrightarrow>
         dl_Changed delta \<and> isStateChanging (ad_Effect d) \<and> ad_Recovery d = RecoveryIrreversible)
    \<and> (case request of
         None \<Rightarrow> policy = ConfirmationNever
       | Some r \<Rightarrow> policy \<noteq> ConfirmationNever \<and> rq_Consequences r = map TrimSpace (dl_Consequences delta)
           \<and> rq_Consequences r \<noteq> []
           \<and> rq_Default r = (if policy = ConfirmationPromptDefaultNo then ConfirmationDefaultNo
                             else ConfirmationDefaultYes))"
proof -
  have act: "ad_Action d = action" and nd: "normalizeDefinition d = Inr d"
    using registry_wfD [OF assms(1,2)] by simp_all
  note f = normalizeDefinition_Inr [OF nd]
  obtain cs where cs: "normalizeConsequences (dl_Consequences delta) = Inr cs"
    and need: "\<not> (dl_Changed delta \<and> isStateChanging (ad_Effect d) \<and> cs = [])"
    and a: "a = \<lparr>as_Action = ad_Action d, as_Effect = ad_Effect d, as_Changed = dl_Changed delta,
        as_Impacts = ad_Impacts d, as_Recovery = ad_Recovery d, as_Consequences = cs\<rparr>"
    using assms(2,3) by (auto simp: Assess_def split: if_split_asm sum.split_asm)
  have imp: "normalizeImpacts (ad_Impacts d) = Inr (ad_Impacts d)"
    using f(5) by (metis ActionDefinition.select_convs(4) ActionDefinition.surjective
        ActionDefinition.update_convs(2,4))
  have va: "validateAssessment d a = None"
    using f(1) imp normalizeConsequences_idem [OF cs] need
    by (auto simp: validateAssessment_def a)
  have cs': "cs = map TrimSpace (dl_Consequences delta)"
    using cs by (simp add: normalizeConsequences_Inr)
  consider "\<not> dl_Changed delta" | "dl_Changed delta" "\<not> isStateChanging (ad_Effect d)"
    | "dl_Changed delta" "isStateChanging (ad_Effect d)" by blast
  then show ?thesis
  proof cases
    case 1
    then show ?thesis using assms(2) va act by (auto simp: Resolve_def a)
  next
    case 2
    then have "ad_Effect d = ActionRead \<or> ad_Effect d = ActionSession \<or> ad_Effect d = ActionBoundedWrite"
      using f(3) by (auto simp: isStateChanging_def validActionEffect_def)
    with 2 show ?thesis using assms(2) va act by (auto simp: Resolve_def a)
  next
    case 3
    then have "ad_Effect d \<noteq> ActionRead" "ad_Effect d \<noteq> ActionSession" "ad_Effect d \<noteq> ActionBoundedWrite"
      by (auto simp: isStateChanging_def)
    moreover have "cs \<noteq> []" using need 3 by blast
    moreover have "ad_Recovery d \<in> {RecoveryReversible, RecoveryRecreatable, RecoveryIrreversible}"
      using f(4,6) 3 by (auto simp: validRecoveryClass_def)
    ultimately show ?thesis
      using assms(2) va act 3 by (auto simp: Resolve_def a cs')
  qed
qed

definition demo_destroy :: ActionDefinition where
  "demo_destroy = \<lparr>ad_Action = ''yard.destroy'', ad_Summary = ''Destroy'', ad_Effect = ActionDestruction,
     ad_Impacts = [ImpactPersistentData], ad_Recovery = RecoveryIrreversible\<rparr>"

definition demo_stop :: ActionDefinition where
  "demo_stop = \<lparr>ad_Action = ''yard.stop'', ad_Summary = '' Stop'', ad_Effect = ActionMutation,
     ad_Impacts = [ImpactYardRuntime, ImpactSharedWorkload, ImpactYardRuntime],
     ad_Recovery = RecoveryReversible\<rparr>"

lemmas policy_eval = normalizeDefinition_def normalizeImpacts_def safeText_def validActionEffect_def
  validRecoveryClass_def validActionImpact_def SafeID_bytes id_char_def HasPrefix_def string_eval

lemma demo_destroy_normal: "normalizeDefinition demo_destroy = Inr demo_destroy"
  by (simp add: demo_destroy_def policy_eval)

lemma demo_stop_normal: "normalizeDefinition demo_stop = Inr (demo_stop\<lparr>ad_Summary := ''Stop'',
    ad_Impacts := [ImpactSharedWorkload, ImpactYardRuntime]\<rparr>)"
  by (simp add: demo_stop_def policy_eval)

lemma demo_registry_wf: "registry_wf [''yard.destroy'' \<mapsto> demo_destroy]"
  by (simp add: registry_wf_def demo_destroy_normal) (simp add: demo_destroy_def)

theorem with_extends_registry_witness:
  "\<exists>m'. With (Some [''yard.destroy'' \<mapsto> demo_destroy]) [''yard.destroy''] [demo_stop] = Inr m'
     \<and> [''yard.destroy'' \<mapsto> demo_destroy] \<subseteq>\<^sub>m m' \<and> dom m' = {''yard.destroy'', ''yard.stop''}"
proof -
  let ?m = "[''yard.destroy'' \<mapsto> demo_destroy]"
  obtain m' where w: "With (Some ?m) [''yard.destroy''] [demo_stop] = Inr m'"
    using demo_destroy_normal demo_stop_normal
    by (simp add: With_def NewActionRegistry_def List.map_filter_simps register_one_def
        demo_destroy_def demo_stop_def)
  have "?m \<subseteq>\<^sub>m m' \<and> dom m' = dom ?m \<union> ad_Action ` set [demo_stop]"
    using with_extends_registry [OF demo_registry_wf _ _ _ _ w, of "[''yard.destroy'']"] by simp
  with w show ?thesis by (auto simp: demo_stop_def)
qed

theorem assessment_resolves_witness:
  "\<exists>a r. Assess (Some [''yard.destroy'' \<mapsto> demo_destroy]) ''yard.destroy''
       \<lparr>dl_Changed = True, dl_Consequences = [''data is deleted'']\<rparr> = Inr a
     \<and> Resolve (Some [''yard.destroy'' \<mapsto> demo_destroy]) a = Inr (ConfirmationPromptDefaultNo, Some r)"
proof -
  let ?m = "[''yard.destroy'' \<mapsto> demo_destroy]"
  let ?delta = "\<lparr>dl_Changed = True, dl_Consequences = [''data is deleted'']\<rparr>"
  have "SafeID ''yard.destroy''" by (simp add: policy_eval)
  moreover have "normalizeConsequences [''data is deleted''] = Inr [''data is deleted'']"
    by (simp add: normalizeConsequences_def policy_eval)
  ultimately obtain a where a: "Assess (Some ?m) ''yard.destroy'' ?delta = Inr a"
    by (simp add: Assess_def)
  from assessment_resolves [OF demo_registry_wf _ a, of demo_destroy]
  obtain policy request where "Resolve (Some ?m) a = Inr (policy, request)"
    and "policy = ConfirmationPromptDefaultNo" and "request \<noteq> None"
    by (auto simp: demo_destroy_def isStateChanging_def split: option.split_asm)
  with a show ?thesis by auto
qed

section \<open>Collected refusals\<close>

text \<open>
  \<open>CollectRefusals\<close>; \<open>text\<close> is the error's \<open>Error()\<close> string and a \<open>nil\<close> cause is \<^const>\<open>None\<close>.
\<close>

fun compact_by :: "('e \<Rightarrow> 'k) \<Rightarrow> 'e list \<Rightarrow> 'e list" where
  "compact_by k [] = []"
| "compact_by k [x] = [x]"
| "compact_by k (x # y # ys) =
     (if k x = k y then compact_by k (x # ys) else x # compact_by k (y # ys))"

datatype 'e refusal = NoRefusal | LoneRefusal 'e | Refusals "'e list"

definition CollectRefusals :: "('e \<Rightarrow> string) \<Rightarrow> 'e option list \<Rightarrow> 'e refusal" where
  "CollectRefusals text causes =
     (case compact_by text (sort_key text (List.map_filter (\<lambda>c. c) causes)) of
        [] \<Rightarrow> NoRefusal
      | [c] \<Rightarrow> LoneRefusal c
      | cs \<Rightarrow> Refusals cs)"

fun refusal_messages :: "('e \<Rightarrow> string) \<Rightarrow> 'e refusal \<Rightarrow> string list" where
  "refusal_messages text NoRefusal = []"
| "refusal_messages text (LoneRefusal c) = [text c]"
| "refusal_messages text (Refusals cs) = map text cs"

lemma map_compact_by: "map k (compact_by k xs) = compact (map k xs)"
  by (induction k xs rule: compact_by.induct) auto

lemma map_sort_key: "map k (sort_key k xs) = sort (map k xs)"
  by (metis mset_map mset_sort properties_for_sort sorted_sort_key)

lemma compact_sort_unique: "compact (sort xs) = sorted_list_of_set (set (xs :: 'a :: linorder list))"
proof (rule sorted_distinct_set_unique)
  show "sorted (compact (sort xs))" by (rule sorted_compact) simp
  show "distinct (compact (sort xs))" by (rule distinct_compact [where k = "\<lambda>x. x"]) simp_all
qed simp_all

lemma refusal_messages_Collect:
  "refusal_messages text (CollectRefusals text causes) = sorted_list_of_set (text ` {c. Some c \<in> set causes})"
proof -
  let ?cs = "List.map_filter (\<lambda>c. c) causes"
  have "set ?cs = {c. Some c \<in> set causes}"
    by (induction causes) (auto simp: List.map_filter_simps split: option.split)
  then have "map text (compact_by text (sort_key text ?cs)) = sorted_list_of_set (text ` {c. Some c \<in> set causes})"
    by (simp add: map_compact_by map_sort_key compact_sort_unique)
  moreover have "refusal_messages text (CollectRefusals text causes) = map text (compact_by text (sort_key text ?cs))"
    by (auto simp: CollectRefusals_def split: list.split)
  ultimately show ?thesis by simp
qed

text \<open>The text of the resulting error: \<open>Refusals.Error\<close> joins the messages of its causes.\<close>

fun refusal_error :: "('e \<Rightarrow> string) \<Rightarrow> 'e refusal \<Rightarrow> string option" where
  "refusal_error text NoRefusal = None"
| "refusal_error text (LoneRefusal c) = Some (text c)"
| "refusal_error text (Refusals cs) = Some (Join (map text cs) ''; '')"

lemma refusal_error_Collect:
  "refusal_error text (CollectRefusals text causes) =
     (let messages = refusal_messages text (CollectRefusals text causes) in
      if messages = [] then None else Some (Join messages ''; ''))"
  by (auto simp: CollectRefusals_def split: list.split)

text \<open>
  The collected refusal is one line with exactly the distinct messages of the non-nil causes, in
  byte order, so neither the order in which they were found nor repetition changes it, and there is
  no error exactly when there is no cause.
\<close>

theorem refusals_independent_of_order:
  "refusal_error text (CollectRefusals text causes) =
     (let causes' = {c. Some c \<in> set causes} in
      if causes' = {} then None else Some (Join (sorted_list_of_set (text ` causes')) ''; ''))"
proof -
  have "finite {c. Some c \<in> set causes}"
    by (rule finite_subset [of _ "the ` set causes"]) (auto intro: image_eqI [of _ _ "Some _"])
  then show ?thesis
    by (simp add: refusal_error_Collect refusal_messages_Collect Let_def)
qed

end
