(* ===== verification/Operation_Steps.thy ===== *)
theory Operation_Steps
  imports Action_Policy
begin

text \<open>
  \<open>internal/domain/operation_steps.go\<close>: the authorized steps of an operation, their validation, and
  the recheck that compares an approved step list with a fresh one before work starts.
\<close>

section \<open>Data and operations\<close>

datatype StepDecision = StepApply | StepSkip | StepConditional | OtherDecision string

record OperationStep =
  st_ID :: string
  st_Target :: string
  st_Observed :: string
  st_Desired :: string
  st_Decision :: StepDecision
  st_Preconditions :: "string list"
  st_DependsOn :: "string list"
  st_Verify :: string
  st_Consequence :: string

datatype step_error =
    TooManySteps | InvalidOrDuplicateStepID | InvalidStepDecision | InvalidStepFact
  | InvalidStepConsequence | TooManyGuards | InvalidStepPrecondition | DependencyNotBefore
  | StepSetChanged | StepScopeChanged string | StepNeedsNewWork string

definition operationStepText :: "string \<Rightarrow> bool" where
  "operationStepText value \<longleftrightarrow>
     value \<noteq> '''' \<and> length value \<le> 512 \<and> ValidString value \<and> TrimSpace value = value
     \<and> \<not> ContainsControl value"

text \<open>The loop over the dependencies of one step, with the local map of those already met.\<close>

fun check_dependencies :: "string list \<Rightarrow> string list \<Rightarrow> string list \<Rightarrow> step_error err" where
  "check_dependencies seen met [] = None"
| "check_dependencies seen met (d # ds) =
     (if d \<notin> set seen \<or> d \<in> set met then Some DependencyNotBefore
      else check_dependencies seen (d # met) ds)"

text \<open>The body of the loop over the steps; \<open>seen\<close> is the map of the identifiers before this one.\<close>

definition check_step :: "string list \<Rightarrow> OperationStep \<Rightarrow> step_error err" where
  "check_step seen step =
     (if \<not> SafeID (st_ID step) \<or> st_ID step \<in> set seen then Some InvalidOrDuplicateStepID
      else if st_Decision step \<noteq> StepApply \<and> st_Decision step \<noteq> StepSkip \<and> st_Decision step \<noteq> StepConditional
      then Some InvalidStepDecision
      else if \<not> list_all operationStepText [st_Target step, st_Observed step, st_Desired step, st_Verify step]
      then Some InvalidStepFact
      else if st_Consequence step \<noteq> '''' \<and> \<not> operationStepText (st_Consequence step)
      then Some InvalidStepConsequence
      else if length (st_Preconditions step) > 64 \<or> length (st_DependsOn step) > 64
      then Some TooManyGuards
      else if \<not> list_all operationStepText (st_Preconditions step) then Some InvalidStepPrecondition
      else check_dependencies seen [] (st_DependsOn step))"

fun check_steps :: "string list \<Rightarrow> OperationStep list \<Rightarrow> step_error err" where
  "check_steps seen [] = None"
| "check_steps seen (step # steps) =
     (case check_step seen step of
        Some e \<Rightarrow> Some e
      | None \<Rightarrow> check_steps (st_ID step # seen) steps)"

definition ValidateOperationSteps :: "OperationStep list \<Rightarrow> step_error err" where
  "ValidateOperationSteps steps =
     (if length steps > 256 then Some TooManySteps else check_steps [] steps)"

definition equal_step :: "OperationStep \<Rightarrow> OperationStep \<Rightarrow> bool" where
  "equal_step a b \<longleftrightarrow>
     st_ID a = st_ID b \<and> st_Target a = st_Target b \<and> st_Observed a = st_Observed b
     \<and> st_Desired a = st_Desired b \<and> st_Decision a = st_Decision b \<and> st_Verify a = st_Verify b
     \<and> st_Consequence a = st_Consequence b \<and> st_Preconditions a = st_Preconditions b
     \<and> st_DependsOn a = st_DependsOn b"

definition EqualOperationSteps :: "OperationStep list \<Rightarrow> OperationStep list \<Rightarrow> bool" where
  "EqualOperationSteps left right = list_all2 equal_step left right"

definition same_scope :: "OperationStep \<Rightarrow> OperationStep \<Rightarrow> bool" where
  "same_scope before after \<longleftrightarrow>
     st_ID before = st_ID after \<and> st_Target before = st_Target after
     \<and> st_Desired before = st_Desired after \<and> st_Verify before = st_Verify after
     \<and> st_Consequence before = st_Consequence after
     \<and> st_Preconditions before = st_Preconditions after \<and> st_DependsOn before = st_DependsOn after"

definition check_fresh :: "OperationStep \<times> OperationStep \<Rightarrow> step_error err" where
  "check_fresh p =
     (let before = fst p; after = snd p in
      if \<not> same_scope before after then Some (StepScopeChanged (st_ID before))
      else if st_Decision after = StepSkip then None
      else if st_Decision before = StepSkip
          \<or> st_Decision before = StepApply
              \<and> (st_Decision after \<noteq> StepApply \<or> st_Observed before \<noteq> st_Observed after)
      then Some (StepNeedsNewWork (st_ID before))
      else None)"

definition CheckOperationSteps :: "OperationStep list \<Rightarrow> OperationStep list \<Rightarrow> step_error err" where
  "CheckOperationSteps approved fresh =
     and_then (ValidateOperationSteps approved)
       (and_then (ValidateOperationSteps fresh)
          (if length approved \<noteq> length fresh then Some StepSetChanged
           else first_error check_fresh (zip approved fresh)))"

fun OperationStepConsequences :: "OperationStep list \<Rightarrow> string list" where
  "OperationStepConsequences [] = []"
| "OperationStepConsequences (step # steps) =
     (if st_Decision step = StepSkip \<or> st_Consequence step = '''' then OperationStepConsequences steps
      else st_Consequence step # OperationStepConsequences steps)"

section \<open>Validation\<close>

lemma check_dependencies_None:
  "check_dependencies seen met ds = None \<longleftrightarrow>
     set ds \<subseteq> set seen \<and> distinct ds \<and> set ds \<inter> set met = {}"
  by (induction ds arbitrary: met) auto

text \<open>What one step must satisfy on its own, apart from its place in the list.\<close>

definition step_facts :: "OperationStep \<Rightarrow> bool" where
  "step_facts step \<longleftrightarrow>
     SafeID (st_ID step) \<and> st_Decision step \<in> {StepApply, StepSkip, StepConditional}
     \<and> operationStepText (st_Target step) \<and> operationStepText (st_Observed step)
     \<and> operationStepText (st_Desired step) \<and> operationStepText (st_Verify step)
     \<and> (st_Consequence step = '''' \<or> operationStepText (st_Consequence step))
     \<and> length (st_Preconditions step) \<le> 64 \<and> length (st_DependsOn step) \<le> 64
     \<and> (\<forall>g \<in> set (st_Preconditions step). operationStepText g) \<and> distinct (st_DependsOn step)"

lemma check_step_None:
  "check_step seen step = None \<longleftrightarrow>
     step_facts step \<and> st_ID step \<notin> set seen \<and> set (st_DependsOn step) \<subseteq> set seen"
  unfolding check_step_def guard_None check_dependencies_None step_facts_def list_all_iff
  by auto

lemma check_steps_None:
  "check_steps seen steps = None \<longleftrightarrow>
     (\<forall>step \<in> set steps. step_facts step) \<and> distinct (map st_ID steps)
     \<and> st_ID ` set steps \<inter> set seen = {}
     \<and> (\<forall>i < length steps. set (st_DependsOn (steps ! i)) \<subseteq> set seen \<union> st_ID ` set (take i steps))"
proof (induction steps arbitrary: seen)
  case Nil
  show ?case by simp
next
  case (Cons s ss)
  have "(\<forall>i < length (s # ss). set (st_DependsOn ((s # ss) ! i)) \<subseteq> set seen \<union> st_ID ` set (take i (s # ss)))
      \<longleftrightarrow> set (st_DependsOn s) \<subseteq> set seen
        \<and> (\<forall>i < length ss. set (st_DependsOn (ss ! i)) \<subseteq> set (st_ID s # seen) \<union> st_ID ` set (take i ss))"
    by (simp add: All_less_Suc2 insert_commute)
  moreover have "check_steps seen (s # ss) = None \<longleftrightarrow>
      check_step seen s = None \<and> check_steps (st_ID s # seen) ss = None"
    by (auto split: option.split)
  ultimately show ?case
    unfolding check_step_None Cons.IH by auto
qed

text \<open>
  C25: a step list passes validation exactly when it has at most 256 steps, every step is well formed,
  the identifiers are pairwise different, and each step depends only on steps listed before it, so
  the dependency relation has no cycle and the list order is an execution order.
\<close>

theorem validated_steps_are_ordered:
  "ValidateOperationSteps steps = None \<longleftrightarrow>
     length steps \<le> 256 \<and> (\<forall>step \<in> set steps. step_facts step) \<and> distinct (map st_ID steps)
     \<and> (\<forall>i < length steps. \<forall>d \<in> set (st_DependsOn (steps ! i)). \<exists>j < i. st_ID (steps ! j) = d)"
proof -
  have "set (st_DependsOn (steps ! i)) \<subseteq> st_ID ` set (take i steps) \<longleftrightarrow>
      (\<forall>d \<in> set (st_DependsOn (steps ! i)). \<exists>j < i. st_ID (steps ! j) = d)" if "i < length steps" for i
  proof -
    have "st_ID ` set (take i steps) = (\<lambda>j. st_ID (steps ! j)) ` {0..<i}"
      using that by (simp add: image_image flip: nth_image)
    then show ?thesis by fastforce
  qed
  then show ?thesis
    by (simp add: ValidateOperationSteps_def check_steps_None not_less)
qed

section \<open>Rechecking\<close>

lemma EqualOperationSteps_eq: "EqualOperationSteps left right \<longleftrightarrow> left = right"
proof -
  have "equal_step = (=)"
    by (intro ext) (auto simp: equal_step_def intro: OperationStep.equality)
  then show ?thesis by (simp add: EqualOperationSteps_def list.rel_eq)
qed

text \<open>The fresh decision and observation a recheck accepts.\<close>

definition converges :: "OperationStep \<Rightarrow> OperationStep \<Rightarrow> bool" where
  "converges before after \<longleftrightarrow>
     same_scope before after
     \<and> (st_Decision after = StepSkip
        \<or> st_Decision before \<noteq> StepSkip
          \<and> (st_Decision before = StepApply \<longrightarrow>
               st_Decision after = StepApply \<and> st_Observed after = st_Observed before))"

lemma check_fresh_None: "check_fresh (before, after) = None \<longleftrightarrow> converges before after"
  by (auto simp: check_fresh_def converges_def Let_def)

lemma CheckOperationSteps_None:
  "CheckOperationSteps approved fresh = None \<longleftrightarrow>
     ValidateOperationSteps approved = None \<and> ValidateOperationSteps fresh = None
     \<and> list_all2 converges approved fresh"
  by (auto simp: CheckOperationSteps_def first_error_None check_fresh_None list_all2_iff
      simp flip: check_fresh_None)

lemma converges_refl: "converges s s"
  by (simp add: converges_def same_scope_def)

lemma converges_trans: "converges a b \<Longrightarrow> converges b c \<Longrightarrow> converges a c"
  unfolding converges_def same_scope_def by force

lemma consequences_subseq:
  "list_all2 converges approved fresh \<Longrightarrow>
     subseq (OperationStepConsequences fresh) (OperationStepConsequences approved)"
  by (induction rule: list_all2_induct) (auto simp: converges_def same_scope_def)

text \<open>
  C24: a recheck accepts only the approved effects or less.  Whatever sequence of fresh step lists is
  accepted one after another, the last one is accepted against the first: same steps, targets,
  desired states and guards; no step does work that the approved list skipped; an approved
  \<open>apply\<close> still sees what was observed at approval; and the consequences are a subsequence of the
  approved ones.
\<close>

theorem rechecks_never_widen:
  assumes "approved # fresh = rounds" and "ValidateOperationSteps approved = None"
    and "\<forall>i < length fresh. CheckOperationSteps (rounds ! i) (rounds ! Suc i) = None"
  shows "CheckOperationSteps approved (last rounds) = None
    \<and> list_all2 converges approved (last rounds)
    \<and> subseq (OperationStepConsequences (last rounds)) (OperationStepConsequences approved)"
proof -
  have "ValidateOperationSteps (rounds ! k) = None \<and> list_all2 converges approved (rounds ! k)"
    if "k < length rounds" for k
    using that
  proof (induction k)
    case 0
    then show ?case using assms(1,2) by (auto simp: list_all2_same converges_refl)
  next
    case (Suc k)
    then have "CheckOperationSteps (rounds ! k) (rounds ! Suc k) = None" using assms(1,3) by auto
    with Suc show ?case
      by (auto simp: CheckOperationSteps_None intro: list_all2_trans [OF converges_trans])
  qed
  moreover have "last rounds = rounds ! (length rounds - 1)" "length rounds - 1 < length rounds"
    using assms(1) by (auto simp: last_conv_nth)
  ultimately have "ValidateOperationSteps (last rounds) = None \<and> list_all2 converges approved (last rounds)"
    by presburger
  then show ?thesis
    using assms(2) by (simp add: CheckOperationSteps_None consequences_subseq)
qed

definition demo_step :: OperationStep where
  "demo_step = \<lparr>st_ID = ''stop'', st_Target = ''yard'', st_Observed = ''running'', st_Desired = ''stopped'',
     st_Decision = StepApply, st_Preconditions = [''owned''], st_DependsOn = [], st_Verify = ''state'',
     st_Consequence = ''sessions end''\<rparr>"

definition demo_step2 :: OperationStep where
  "demo_step2 = demo_step\<lparr>st_ID := ''delete'', st_DependsOn := [''stop''], st_Decision := StepConditional,
     st_Consequence := ''data is lost''\<rparr>"

lemmas step_eval = ValidateOperationSteps_def check_step_def operationStepText_def ValidString_ascii
  SafeID_bytes id_char_def HasPrefix_def string_eval demo_step_def demo_step2_def

lemma demo_steps_check:
  "ValidateOperationSteps [demo_step, demo_step2] = None"
  "ValidateOperationSteps [demo_step\<lparr>st_Decision := StepSkip, st_Observed := ''stopped''\<rparr>,
     demo_step2\<lparr>st_Decision := StepApply\<rparr>] = None"
  by (simp_all add: step_eval)

theorem rechecks_never_widen_witness:
  "subseq (OperationStepConsequences [demo_step\<lparr>st_Decision := StepSkip, st_Observed := ''stopped''\<rparr>,
       demo_step2\<lparr>st_Decision := StepApply\<rparr>]) [''sessions end'', ''data is lost'']
   \<and> OperationStepConsequences [demo_step\<lparr>st_Decision := StepSkip, st_Observed := ''stopped''\<rparr>,
       demo_step2\<lparr>st_Decision := StepApply\<rparr>] = [''data is lost'']"
proof -
  let ?a = "[demo_step, demo_step2]"
  let ?f = "[demo_step\<lparr>st_Decision := StepSkip, st_Observed := ''stopped''\<rparr>, demo_step2\<lparr>st_Decision := StepApply\<rparr>]"
  have "CheckOperationSteps ?a ?a = None"
    by (simp add: CheckOperationSteps_None demo_steps_check converges_refl)
  moreover have "CheckOperationSteps ?a ?f = None"
    by (simp add: CheckOperationSteps_None demo_steps_check converges_def same_scope_def)
      (simp add: demo_step2_def)
  ultimately show ?thesis
    using rechecks_never_widen [of ?a "[?a, ?f]", OF refl demo_steps_check(1)]
    by (simp add: All_less_Suc2 demo_step_def demo_step2_def)
qed

theorem validated_steps_are_ordered_witness:
  "ValidateOperationSteps [demo_step, demo_step2] = None
   \<and> st_ID ([demo_step, demo_step2] ! 0) \<in> set (st_DependsOn ([demo_step, demo_step2] ! 1))
   \<and> ValidateOperationSteps [demo_step2, demo_step] \<noteq> None"
proof (intro conjI)
  have "step_facts demo_step" "step_facts demo_step2"
    using demo_steps_check(1) unfolding ValidateOperationSteps_def guard_None check_steps_None by simp_all
  then show "ValidateOperationSteps [demo_step, demo_step2] = None"
    unfolding validated_steps_are_ordered
    by (simp add: All_less_Suc2) (simp add: demo_step2_def demo_step_def)
  show "st_ID ([demo_step, demo_step2] ! 0) \<in> set (st_DependsOn ([demo_step, demo_step2] ! 1))"
    by (simp add: demo_step2_def demo_step_def)
  show "ValidateOperationSteps [demo_step2, demo_step] \<noteq> None"
    unfolding validated_steps_are_ordered by (simp add: All_less_Suc2) (simp add: demo_step2_def)
qed

end
