(* ===== verification/Machines.thy ===== *)
theory Machines
  imports Main
begin

text \<open>
  Machines that serve one operation after another.  A component whose operations all keep an
  invariant has it after every sequence of operations; where only some operations keep it, after every
  sequence of those.  The components interpret these locales on their own step functions.
\<close>

locale guarded_machine =
  fixes step :: "'op \<Rightarrow> 's \<Rightarrow> 's" and inv :: "'s \<Rightarrow> bool" and allowed :: "'op \<Rightarrow> bool"
  assumes guarded_inv: "allowed op \<Longrightarrow> inv s \<Longrightarrow> inv (step op s)"
begin

lemma run_guarded: "list_all allowed ops \<Longrightarrow> inv s \<Longrightarrow> inv (fold step ops s)"
  by (induction ops arbitrary: s) (simp_all add: guarded_inv)

end

locale invariant_machine =
  fixes step :: "'op \<Rightarrow> 's \<Rightarrow> 's" and inv :: "'s \<Rightarrow> bool"
  assumes step_inv: "inv s \<Longrightarrow> inv (step op s)"

sublocale invariant_machine \<subseteq> guarded_machine step inv "\<lambda>_. True"
  by unfold_locales (rule step_inv)

context invariant_machine
begin

lemma run_inv: "inv s \<Longrightarrow> inv (fold step ops s)"
  by (rule run_guarded) (simp add: list_all_iff)

end

text \<open>The same machine with the operations served so far, latest first.\<close>

definition with_history :: "('op \<Rightarrow> 's \<Rightarrow> 's) \<Rightarrow> 'op \<Rightarrow> 'op list \<times> 's \<Rightarrow> 'op list \<times> 's" where
  "with_history step op hs = (op # fst hs, step op (snd hs))"

lemma fold_with_history: "fold (with_history step) ops (h, s) = (rev ops @ h, fold step ops s)"
  by (induction ops arbitrary: h s) (simp_all add: with_history_def)

end
