(* ===== verification/Orchestrator.thy ===== *)
theory Orchestrator
  imports Operation_Steps Machines
begin

text \<open>
  \<open>internal/application/orchestrator.go\<close> with the plan and policy types of
  \<open>internal/domain/types.go\<close>: preparing a plan, confirming it, and running its adapter.

  The ports of the orchestrator are interfaces.  Whether a port is present is a field of the state;
  what the ports answer during one call is the \<open>port_answers\<close> argument; the calls made on them are
  the list each operation returns.  A nil \<open>Clock\<close> that is read is a panic, the error \<open>NilClock\<close>.
  Values of type \<open>any\<close> are carried as their JSON text.
\<close>

section \<open>Data\<close>

datatype CommandEffect = CommandRead | CommandMutate | OtherCommandEffect string
datatype RemotePolicy = RemoteOnController | RemoteOnOwner | RemoteDenied | OtherRemotePolicy string
datatype ExecutionTarget = TargetLocalController | TargetLocalOwner | TargetRemoteOwner | OtherTarget string

record CommandPolicy =
  cp_Name :: string
  cp_Effect :: CommandEffect
  cp_Confirmation :: ConfirmationPolicy
  cp_RemotePolicy :: RemotePolicy
  cp_Consequences :: "string list"

record OperationPlan =
  op_OperationID :: string
  op_Command :: string
  op_Effect :: CommandEffect
  op_Confirmation :: ConfirmationPolicy
  op_Target :: ExecutionTarget
  op_Consequences :: "string list"
  op_Steps :: "OperationStep list"
  op_Assessment :: "ActionAssessment option"
  op_ConfirmationRequest :: "ConfirmationRequest option"
  op_Confirmed :: bool
  op_CreatedAt :: time

record OperationEvent =
  ev_OperationID :: string
  ev_Sequence :: nat
  ev_Revision :: nat
  ev_Kind :: string
  ev_At :: time
  ev_Data :: "(string \<times> string) list"

record AdapterRequest =
  ar_Schema :: int
  ar_OperationID :: string
  ar_Adapter :: string
  ar_Action :: string
  ar_Arguments :: "string list"
  ar_Context :: "string \<rightharpoonup> string"
  ar_Input :: "string \<rightharpoonup> string"

record AdapterResult =
  rs_Schema :: int
  rs_OperationID :: string
  rs_Status :: string
  rs_Output :: "string \<rightharpoonup> string"
  rs_ErrorCode :: string

record Orchestrator =
  o_Clock :: bool
  o_IDs :: bool
  o_Prompt :: bool
  o_Runner :: bool
  o_Audit :: bool
  o_Events :: bool
  o_Actions :: "ActionRegistry option"
  o_revision :: nat
  o_planAuthorizations :: "string \<rightharpoonup> OperationPlan"

record port_answers =
  pa_NewID :: string
  pa_PlanTime :: time
  pa_EventTime :: "nat \<Rightarrow> time"
  pa_Prompt :: "ConfirmationRequest \<Rightarrow> string + bool"
  pa_Run :: "AdapterRequest \<Rightarrow> AdapterResult \<times> string \<times> string err"
  pa_Audit :: "OperationEvent \<Rightarrow> string err"
  pa_Publish :: "OperationEvent \<Rightarrow> string err"

datatype port_call =
    Prompted ConfirmationRequest
  | WroteAudit OperationEvent
  | Published OperationEvent
  | Ran AdapterRequest

datatype route_error = InvalidRemoteCommandPolicy | HostLocalDenied

datatype orch_error =
    PolicyFailed policy_error
  | StepsFailed step_error
  | ClockAndIDsRequired
  | InvalidCommandPolicy
  | InvalidRemotePolicy
  | RouteFailed string route_error
  | InvalidOperationID
  | RequestRequired
  | RequestContradictsPolicy
  | InvalidOperationPlan
  | NotConfirmedHere
  | PromptPortRequired
  | PolicyNeedsNoPrompt
  | PromptFailed string
  | OperationDeclined
  | RequestWithoutAssessment
  | PlanMetadataMismatch
  | PlanRequestMismatch
  | PlanNotAuthorized
  | RunnerRequired
  | ForeignRequest
  | UnconfirmedPlan
  | NilClock
  | AuditFailed string
  | PublishFailed string
  | RunFailed string

section \<open>Preparing a plan\<close>

definition validConfirmationPolicy :: "ConfirmationPolicy \<Rightarrow> bool" where
  "validConfirmationPolicy policy \<longleftrightarrow>
     policy = ConfirmationNever \<or> policy = ConfirmationPromptDefaultYes \<or> policy = ConfirmationPromptDefaultNo"

fun confirmationDefault :: "ConfirmationPolicy \<Rightarrow> ConfirmationDefault \<times> bool" where
  "confirmationDefault ConfirmationPromptDefaultNo = (ConfirmationDefaultNo, True)"
| "confirmationDefault ConfirmationPromptDefaultYes = (ConfirmationDefaultYes, True)"
| "confirmationDefault _ = (ConfirmationDefaultUnset, False)"

definition commandEffect :: "ActionEffect \<Rightarrow> CommandEffect" where
  "commandEffect effect = (if effect = ActionRead then CommandRead else CommandMutate)"

definition Route :: "Context \<Rightarrow> RemotePolicy \<Rightarrow> route_error + ExecutionTarget" where
  "Route yard policy =
     (if policy \<noteq> RemoteOnController \<and> policy \<noteq> RemoteOnOwner \<and> policy \<noteq> RemoteDenied
      then Inl InvalidRemoteCommandPolicy
      else if cx_AccessKind yard \<noteq> AccessRemote then Inr TargetLocalOwner
      else case policy of
        RemoteOnController \<Rightarrow> Inr TargetLocalController
      | RemoteOnOwner \<Rightarrow> Inr TargetRemoteOwner
      | RemoteDenied \<Rightarrow> Inl HostLocalDenied
      | _ \<Rightarrow> Inl InvalidRemoteCommandPolicy)"

definition prepare :: "Orchestrator \<Rightarrow> port_answers \<Rightarrow> Context \<Rightarrow> CommandPolicy
    \<Rightarrow> ActionAssessment option \<Rightarrow> ConfirmationRequest option \<Rightarrow> orch_error + OperationPlan" where
  "prepare orch env yard policy assessment request =
     (if \<not> o_Clock orch \<or> \<not> o_IDs orch then Inl ClockAndIDsRequired
      else if cp_Name policy = '''' \<or> cp_Effect policy \<noteq> CommandRead \<and> cp_Effect policy \<noteq> CommandMutate
          \<or> \<not> validConfirmationPolicy (cp_Confirmation policy)
      then Inl InvalidCommandPolicy
      else if cp_RemotePolicy policy \<noteq> RemoteOnController \<and> cp_RemotePolicy policy \<noteq> RemoteOnOwner
          \<and> cp_RemotePolicy policy \<noteq> RemoteDenied
      then Inl InvalidRemotePolicy
      else case Route yard (cp_RemotePolicy policy) of
        Inl e \<Rightarrow> Inl (RouteFailed (cp_Name policy) e)
      | Inr target \<Rightarrow>
          if \<not> SafeID (pa_NewID env) then Inl InvalidOperationID
          else Inr \<lparr>op_OperationID = pa_NewID env, op_Command = cp_Name policy, op_Effect = cp_Effect policy,
             op_Confirmation = cp_Confirmation policy, op_Target = target,
             op_Consequences = cp_Consequences policy, op_Steps = [], op_Assessment = assessment,
             op_ConfirmationRequest = request,
             op_Confirmed = (cp_Confirmation policy = ConfirmationNever),
             op_CreatedAt = pa_PlanTime env\<rparr>)"

definition Prepare :: "Orchestrator \<Rightarrow> port_answers \<Rightarrow> Context \<Rightarrow> CommandPolicy \<Rightarrow> orch_error + OperationPlan" where
  "Prepare orch env yard policy = prepare orch env yard policy None None"

definition PrepareAction :: "Orchestrator \<Rightarrow> port_answers \<Rightarrow> Context \<Rightarrow> string \<Rightarrow> RemotePolicy
    \<Rightarrow> string \<Rightarrow> ActionDelta \<Rightarrow> orch_error + OperationPlan" where
  "PrepareAction orch env yard command remotePolicy action delta =
     (if o_Actions orch = None then Inl (PolicyFailed RegistryRequired)
      else case Assess (o_Actions orch) action delta of
        Inl e \<Rightarrow> Inl (PolicyFailed e)
      | Inr assessment \<Rightarrow>
          (case Resolve (o_Actions orch) assessment of
             Inl e \<Rightarrow> Inl (PolicyFailed e)
           | Inr (confirmation, request) \<Rightarrow>
               prepare orch env yard
                 \<lparr>cp_Name = command, cp_Effect = commandEffect (as_Effect assessment),
                  cp_Confirmation = confirmation, cp_RemotePolicy = remotePolicy,
                  cp_Consequences = as_Consequences assessment\<rparr>
                 (Some assessment) request))"

section \<open>Authorizations\<close>

definition equalRequest :: "ConfirmationRequest option \<Rightarrow> ConfirmationRequest option \<Rightarrow> bool" where
  "equalRequest left right =
     (case (left, right) of
        (Some l, Some r) \<Rightarrow> rq_Summary l = rq_Summary r \<and> rq_Default l = rq_Default r
          \<and> rq_Consequences l = rq_Consequences r
      | (None, None) \<Rightarrow> True
      | _ \<Rightarrow> False)"

definition equalAssessment :: "ActionAssessment option \<Rightarrow> ActionAssessment option \<Rightarrow> bool" where
  "equalAssessment left right =
     (case (left, right) of
        (Some l, Some r) \<Rightarrow> as_Action l = as_Action r \<and> as_Effect l = as_Effect r
          \<and> as_Changed l = as_Changed r \<and> as_Impacts l = as_Impacts r
          \<and> as_Recovery l = as_Recovery r \<and> as_Consequences l = as_Consequences r
      | (None, None) \<Rightarrow> True
      | _ \<Rightarrow> False)"

definition equalActionPlan :: "OperationPlan \<Rightarrow> OperationPlan \<Rightarrow> bool" where
  "equalActionPlan left right \<longleftrightarrow>
     op_OperationID left = op_OperationID right \<and> op_Command left = op_Command right
     \<and> op_Effect left = op_Effect right \<and> op_Confirmation left = op_Confirmation right
     \<and> op_Target left = op_Target right
     \<and> EqualOperationSteps (op_Steps left) (op_Steps right)
     \<and> op_Consequences left = op_Consequences right
     \<and> equalAssessment (op_Assessment left) (op_Assessment right)
     \<and> equalRequest (op_ConfirmationRequest left) (op_ConfirmationRequest right)
     \<and> op_Confirmed left = op_Confirmed right \<and> op_CreatedAt left = op_CreatedAt right"

definition authorizePlan :: "Orchestrator \<Rightarrow> OperationPlan \<Rightarrow> Orchestrator" where
  "authorizePlan orch plan =
     orch\<lparr>o_planAuthorizations := (o_planAuthorizations orch)(op_OperationID plan \<mapsto> plan)\<rparr>"

definition planAuthorized :: "Orchestrator \<Rightarrow> OperationPlan \<Rightarrow> bool" where
  "planAuthorized orch plan =
     (case o_planAuthorizations orch (op_OperationID plan) of
        None \<Rightarrow> False
      | Some authorized \<Rightarrow> equalActionPlan authorized plan)"

definition adapterPlanAuthorized :: "Orchestrator \<Rightarrow> OperationPlan \<Rightarrow> bool" where
  "adapterPlanAuthorized orch plan =
     (case o_planAuthorizations orch (op_OperationID plan) of
        None \<Rightarrow> False
      | Some approved \<Rightarrow>
          if equalActionPlan approved plan then True
          else equalActionPlan (approved\<lparr>op_Assessment := None, op_ConfirmationRequest := None\<rparr>) plan)"

definition validateActionPlan :: "Orchestrator \<Rightarrow> OperationPlan \<Rightarrow> orch_error err" where
  "validateActionPlan orch plan =
     (case ValidateOperationSteps (op_Steps plan) of
        Some e \<Rightarrow> Some (StepsFailed e)
      | None \<Rightarrow>
          (case op_Assessment plan of
             None \<Rightarrow> if op_ConfirmationRequest plan \<noteq> None then Some RequestWithoutAssessment else None
           | Some assessment \<Rightarrow>
               if o_Actions orch = None then Some (PolicyFailed RegistryRequired)
               else case Resolve (o_Actions orch) assessment of
                 Inl e \<Rightarrow> Some (PolicyFailed e)
               | Inr (confirmation, request) \<Rightarrow>
                   if op_Confirmation plan \<noteq> confirmation
                       \<or> op_Effect plan \<noteq> commandEffect (as_Effect assessment)
                       \<or> op_Consequences plan \<noteq> as_Consequences assessment
                   then Some PlanMetadataMismatch
                   else if \<not> equalRequest (op_ConfirmationRequest plan) request then Some PlanRequestMismatch
                   else None))"

section \<open>Confirming a plan\<close>

text \<open>The request shown for a plan that needs an answer.\<close>

definition prompt_request :: "OperationPlan \<Rightarrow> orch_error + ConfirmationRequest" where
  "prompt_request plan =
     (let request = \<lparr>rq_Summary = op_Command plan, rq_Consequences = op_Consequences plan,
            rq_Default = ConfirmationDefaultUnset\<rparr> in
      if op_Assessment plan \<noteq> None
      then Inr (case op_ConfirmationRequest plan of Some r \<Rightarrow> r | None \<Rightarrow> request)
      else (case confirmationDefault (op_Confirmation plan) of
              (defaultValue, ok) \<Rightarrow>
                if \<not> ok then Inl PolicyNeedsNoPrompt else Inr (request\<lparr>rq_Default := defaultValue\<rparr>)))"

definition confirm :: "Orchestrator \<Rightarrow> port_answers \<Rightarrow> OperationPlan \<Rightarrow> bool
    \<Rightarrow> Orchestrator \<times> port_call list \<times> (orch_error + OperationPlan)" where
  "confirm orch env plan assumeYes =
     (if \<not> SafeID (op_OperationID plan) \<or> op_Command plan = ''''
          \<or> op_Effect plan \<noteq> CommandRead \<and> op_Effect plan \<noteq> CommandMutate
          \<or> \<not> validConfirmationPolicy (op_Confirmation plan)
      then (orch, [], Inl InvalidOperationPlan)
      else if op_Confirmed plan \<and> op_Confirmation plan \<noteq> ConfirmationNever \<and> \<not> planAuthorized orch plan
      then (orch, [], Inl NotConfirmedHere)
      else
        (let confirmed = plan\<lparr>op_Confirmed := True\<rparr> in
         if op_Confirmation plan = ConfirmationNever \<or> op_Confirmed plan \<or> assumeYes
         then (authorizePlan orch confirmed, [], Inr confirmed)
         else if \<not> o_Prompt orch then (orch, [], Inl PromptPortRequired)
         else case prompt_request plan of
           Inl e \<Rightarrow> (orch, [], Inl e)
         | Inr request \<Rightarrow>
             (case pa_Prompt env request of
                Inl e \<Rightarrow> (orch, [Prompted request], Inl (PromptFailed e))
              | Inr accepted \<Rightarrow>
                  if \<not> accepted then (orch, [Prompted request], Inl OperationDeclined)
                  else (authorizePlan orch confirmed, [Prompted request], Inr confirmed))))"

definition Confirm :: "Orchestrator \<Rightarrow> port_answers \<Rightarrow> OperationPlan \<Rightarrow> bool
    \<Rightarrow> Orchestrator \<times> port_call list \<times> (orch_error + OperationPlan)" where
  "Confirm orch env plan assumeYes =
     (case validateActionPlan orch plan of
        Some e \<Rightarrow> (orch, [], Inl e)
      | None \<Rightarrow> confirm orch env plan assumeYes)"

definition check_resolved :: "OperationPlan \<Rightarrow> orch_error err" where
  "check_resolved plan =
     (case ValidateOperationSteps (op_Steps plan) of
        Some e \<Rightarrow> Some (StepsFailed e)
      | None \<Rightarrow>
          if op_Assessment plan \<noteq> None \<and> op_Confirmation plan \<noteq> ConfirmationNever
              \<and> op_ConfirmationRequest plan = None
          then Some RequestRequired
          else case op_ConfirmationRequest plan of
            None \<Rightarrow> None
          | Some request \<Rightarrow>
              (case confirmationDefault (op_Confirmation plan) of
                 (expected, prompt) \<Rightarrow>
                   if \<not> prompt \<or> rq_Default request \<noteq> expected
                       \<or> rq_Consequences request \<noteq> op_Consequences plan
                   then Some RequestContradictsPolicy else None))"

definition ConfirmResolved :: "Orchestrator \<Rightarrow> port_answers \<Rightarrow> OperationPlan \<Rightarrow> bool
    \<Rightarrow> Orchestrator \<times> port_call list \<times> (orch_error + OperationPlan)" where
  "ConfirmResolved orch env plan assumeYes =
     (case check_resolved plan of
        Some e \<Rightarrow> (orch, [], Inl e)
      | None \<Rightarrow> confirm orch env plan assumeYes)"

definition Plan :: "Orchestrator \<Rightarrow> port_answers \<Rightarrow> Context \<Rightarrow> CommandPolicy \<Rightarrow> bool
    \<Rightarrow> Orchestrator \<times> port_call list \<times> (orch_error + OperationPlan)" where
  "Plan orch env yard policy assumeYes =
     (case Prepare orch env yard policy of
        Inl e \<Rightarrow> (orch, [], Inl e)
      | Inr plan \<Rightarrow> Confirm orch env plan assumeYes)"

definition PlanAction :: "Orchestrator \<Rightarrow> port_answers \<Rightarrow> Context \<Rightarrow> string \<Rightarrow> RemotePolicy \<Rightarrow> string
    \<Rightarrow> ActionDelta \<Rightarrow> bool \<Rightarrow> Orchestrator \<times> port_call list \<times> (orch_error + OperationPlan)" where
  "PlanAction orch env yard command remotePolicy action delta assumeYes =
     (case PrepareAction orch env yard command remotePolicy action delta of
        Inl e \<Rightarrow> (orch, [], Inl e)
      | Inr plan \<Rightarrow> Confirm orch env plan assumeYes)"

section \<open>Running the adapter\<close>

definition record_event :: "Orchestrator \<Rightarrow> port_answers \<Rightarrow> OperationPlan \<Rightarrow> string \<Rightarrow> (string \<times> string) list
    \<Rightarrow> Orchestrator \<times> port_call list \<times> orch_error err" where
  "record_event orch env plan kind data =
     (let revision = succ_u64 (o_revision orch);
          orch' = orch\<lparr>o_revision := revision\<rparr>;
          event = \<lparr>ev_OperationID = op_OperationID plan, ev_Sequence = revision, ev_Revision = revision,
            ev_Kind = kind, ev_At = pa_EventTime env revision, ev_Data = data\<rparr>;
          audit = (if o_Audit orch then [WroteAudit event] else []);
          publish = (if o_Events orch then [Published event] else []) in
      if \<not> o_Clock orch then (orch', [], Some NilClock)
      else case (if o_Audit orch then pa_Audit env event else None) of
        Some e \<Rightarrow> (orch', audit, Some (AuditFailed e))
      | None \<Rightarrow>
          (orch', audit @ publish,
           map_option PublishFailed (if o_Events orch then pa_Publish env event else None)))"

definition run_guards :: "Orchestrator \<Rightarrow> OperationPlan \<Rightarrow> AdapterRequest \<Rightarrow> orch_error err" where
  "run_guards orch plan request =
     and_then (if op_Assessment plan \<noteq> None then validateActionPlan orch plan else None)
       (if \<not> adapterPlanAuthorized orch plan then Some PlanNotAuthorized
        else if \<not> o_Runner orch then Some RunnerRequired
        else if ar_OperationID request \<noteq> op_OperationID plan then Some ForeignRequest
        else if \<not> op_Confirmed plan then Some UnconfirmedPlan
        else None)"

definition RunAdapter :: "Orchestrator \<Rightarrow> port_answers \<Rightarrow> OperationPlan \<Rightarrow> AdapterRequest
    \<Rightarrow> Orchestrator \<times> port_call list \<times> (orch_error err \<times> (AdapterResult \<times> string) option)" where
  "RunAdapter orch env plan request =
     (case run_guards orch plan request of
        Some e \<Rightarrow> (orch, [], Some e, None)
      | None \<Rightarrow>
          (case record_event orch env plan ''operation.started'' [] of
             (orch1, calls1, Some e) \<Rightarrow> (orch1, calls1, Some e, None)
           | (orch1, calls1, None) \<Rightarrow>
               (case pa_Run env request of
                  (result, stderr, runErr) \<Rightarrow>
                    (let data = (case runErr of
                           None \<Rightarrow> [(''status'', rs_Status result)]
                         | Some e \<Rightarrow> [(''status'', ''error''), (''error'', e)]) in
                     case record_event orch1 env plan ''operation.finished'' data of
                       (orch2, calls2, recordErr) \<Rightarrow>
                         (orch2, calls1 @ [Ran request] @ calls2,
                          (case runErr of Some e \<Rightarrow> Some (RunFailed e) | None \<Rightarrow> recordErr),
                          Some (result, stderr))))))"

section \<open>Equality of plans\<close>

lemma equalRequest_eq: "equalRequest left right \<longleftrightarrow> left = right"
  by (auto simp: equalRequest_def split: option.split intro: ConfirmationRequest.equality)

lemma equalAssessment_eq: "equalAssessment left right \<longleftrightarrow> left = right"
  by (auto simp: equalAssessment_def split: option.split intro: ActionAssessment.equality)

lemma equalActionPlan_eq: "equalActionPlan left right \<longleftrightarrow> left = right"
  by (auto simp: equalActionPlan_def EqualOperationSteps_eq equalRequest_eq equalAssessment_eq
      intro: OperationPlan.equality)

lemma planAuthorized_iff:
  "planAuthorized orch plan \<longleftrightarrow> o_planAuthorizations orch (op_OperationID plan) = Some plan"
  by (simp add: planAuthorized_def equalActionPlan_eq split: option.split)

text \<open>The projection of an approved plan that a controller transfer consumes.\<close>

definition transfer_projection :: "OperationPlan \<Rightarrow> OperationPlan" where
  "transfer_projection plan = plan\<lparr>op_Assessment := None, op_ConfirmationRequest := None\<rparr>"

lemma adapterPlanAuthorized_iff:
  "adapterPlanAuthorized orch plan \<longleftrightarrow>
     (\<exists>approved. o_planAuthorizations orch (op_OperationID plan) = Some approved
        \<and> (plan = approved \<or> plan = transfer_projection approved))"
  by (auto simp: adapterPlanAuthorized_def equalActionPlan_eq transfer_projection_def split: option.split)

section \<open>The orchestrator as a machine\<close>

datatype orch_op =
    OpConfirm port_answers OperationPlan bool
  | OpConfirmResolved port_answers OperationPlan bool
  | OpRunAdapter port_answers OperationPlan AdapterRequest

fun orch_serve :: "orch_op \<Rightarrow> Orchestrator \<Rightarrow> Orchestrator \<times> port_call list" where
  "orch_serve (OpConfirm env plan yes) orch = (case Confirm orch env plan yes of (o', calls, _) \<Rightarrow> (o', calls))"
| "orch_serve (OpConfirmResolved env plan yes) orch =
     (case ConfirmResolved orch env plan yes of (o', calls, _) \<Rightarrow> (o', calls))"
| "orch_serve (OpRunAdapter env plan request) orch =
     (case RunAdapter orch env plan request of (o', calls, _) \<Rightarrow> (o', calls))"

definition orch_step :: "orch_op \<Rightarrow> Orchestrator \<Rightarrow> Orchestrator" where
  "orch_step op orch = fst (orch_serve op orch)"

text \<open>The calls a sequence of operations makes on the ports.\<close>

fun orch_calls :: "orch_op list \<Rightarrow> Orchestrator \<Rightarrow> port_call list" where
  "orch_calls [] orch = []"
| "orch_calls (op # ops) orch = snd (orch_serve op orch) @ orch_calls ops (orch_step op orch)"

text \<open>
  Consent to a plan: its policy asks nothing, the caller passed \<open>assumeYes\<close>, or the prompt showed the
  plan's request and was answered yes.
\<close>

definition consents :: "port_answers \<Rightarrow> OperationPlan \<Rightarrow> bool \<Rightarrow> bool" where
  "consents env plan yes \<longleftrightarrow>
     op_Confirmation plan = ConfirmationNever \<or> yes
     \<or> (\<exists>request. prompt_request plan = Inr request \<and> pa_Prompt env request = Inr True)"

fun approves :: "orch_op \<Rightarrow> OperationPlan \<Rightarrow> bool" where
  "approves (OpConfirm env plan yes) approved \<longleftrightarrow>
     approved = plan\<lparr>op_Confirmed := True\<rparr> \<and> consents env plan yes"
| "approves (OpConfirmResolved env plan yes) approved \<longleftrightarrow>
     approved = plan\<lparr>op_Confirmed := True\<rparr> \<and> consents env plan yes"
| "approves (OpRunAdapter env plan request) approved \<longleftrightarrow> False"

text \<open>What \<open>confirm\<close> does on each of its branches, as far as the authorizations go.\<close>

lemma confirm_cases:
  assumes "confirm orch env plan yes = (orch', calls, r)"
  obtains (refused) e where "r = Inl e" "orch' = orch"
  | (confirmed) "r = Inr (plan\<lparr>op_Confirmed := True\<rparr>)" "orch' = authorizePlan orch (plan\<lparr>op_Confirmed := True\<rparr>)"
      "consents env plan yes \<or> o_planAuthorizations orch (op_OperationID plan) = Some (plan\<lparr>op_Confirmed := True\<rparr>)"
proof (cases r)
  case (Inl e)
  then show thesis
    using assms by (intro refused) (auto simp: confirm_def Let_def split: if_split_asm sum.split_asm)
next
  case (Inr q)
  show thesis
  proof (cases "op_Confirmed plan \<and> op_Confirmation plan \<noteq> ConfirmationNever")
    case True
    then have "planAuthorized orch plan" "plan\<lparr>op_Confirmed := True\<rparr> = plan"
      using assms Inr by (auto simp: confirm_def split: if_split_asm)
    then show thesis
      using assms Inr True by (intro confirmed) (auto simp: confirm_def planAuthorized_iff Let_def split: if_split_asm)
  next
    case False
    then show thesis
      using assms Inr
      by (intro confirmed) (auto simp: confirm_def consents_def Let_def split: if_split_asm sum.split_asm)
  qed
qed

lemma record_event_state:
  "record_event orch env plan kind data = (orch', calls, r) \<Longrightarrow>
     orch' = orch\<lparr>o_revision := succ_u64 (o_revision orch)\<rparr>"
  by (auto simp: record_event_def Let_def split: if_split_asm option.split_asm)

lemma RunAdapter_authorizations:
  "RunAdapter orch env plan request = (orch', calls, r) \<Longrightarrow>
     o_planAuthorizations orch' = o_planAuthorizations orch \<and> o_Audit orch' = o_Audit orch
     \<and> o_Clock orch' = o_Clock orch \<and> o_Actions orch' = o_Actions orch"
  by (auto simp: RunAdapter_def Let_def dest!: record_event_state split: option.split_asm prod.split_asm)

text \<open>The invariant, over the operations served so far and the state.\<close>

definition orch_inv :: "orch_op list \<times> Orchestrator \<Rightarrow> bool" where
  "orch_inv hs \<longleftrightarrow>
     (\<forall>i q. o_planAuthorizations (snd hs) i = Some q \<longrightarrow>
        op_OperationID q = i \<and> op_Confirmed q \<and> ValidateOperationSteps (op_Steps q) = None
        \<and> (\<exists>op \<in> set (fst hs). approves op q))"

lemma orch_invD:
  assumes "orch_inv (h, orch)" and "o_planAuthorizations orch i = Some q"
  shows "ValidateOperationSteps (op_Steps q) = None" and "\<exists>op \<in> set h. approves op q"
  using assms by (auto simp: orch_inv_def)

lemma confirm_inv:
  assumes "orch_inv (h, orch)" and "confirm orch env plan yes = (orch', calls, r)"
    and "ValidateOperationSteps (op_Steps plan) = None"
    and "\<And>q. q = plan\<lparr>op_Confirmed := True\<rparr> \<Longrightarrow> consents env plan yes \<Longrightarrow> approves op q"
  shows "orch_inv (op # h, orch')"
  using assms(2)
proof (cases rule: confirm_cases)
  case (refused e)
  then show ?thesis using assms(1) by (auto simp: orch_inv_def)
next
  case confirmed
  then have "\<exists>p \<in> set (op # h). approves p (plan\<lparr>op_Confirmed := True\<rparr>)"
    using assms(1,4) by (auto simp: orch_inv_def)
  then show ?thesis
    using assms(1,3) confirmed(2) by (auto simp: orch_inv_def authorizePlan_def)
qed

lemma validateActionPlan_steps:
  "validateActionPlan orch plan = None \<Longrightarrow> ValidateOperationSteps (op_Steps plan) = None"
  by (auto simp: validateActionPlan_def split: option.split_asm)

lemma check_resolved_steps: "check_resolved plan = None \<Longrightarrow> ValidateOperationSteps (op_Steps plan) = None"
  by (auto simp: check_resolved_def split: option.split_asm)

lemma orch_inv_step: "orch_inv hs \<Longrightarrow> orch_inv (with_history orch_step op hs)"
proof -
  assume inv: "orch_inv hs"
  obtain h orch where hs: "hs = (h, orch)" by force
  have keep: "orch_inv (op # h, orch')" if "o_planAuthorizations orch' = o_planAuthorizations orch" for orch'
    using inv that by (auto simp: orch_inv_def hs)
  show ?thesis
  proof (cases op)
    case (OpConfirm env plan yes)
    then show ?thesis
      using inv confirm_inv [of h orch env plan yes _ _ _ op] keep [of orch]
      by (auto simp: with_history_def hs orch_step_def Confirm_def
          dest!: validateActionPlan_steps split: option.splits prod.splits)
  next
    case (OpConfirmResolved env plan yes)
    then show ?thesis
      using inv confirm_inv [of h orch env plan yes _ _ _ op] keep [of orch]
      by (auto simp: with_history_def hs orch_step_def ConfirmResolved_def
          dest!: check_resolved_steps split: option.splits prod.splits)
  next
    case (OpRunAdapter env plan request)
    obtain orch' calls r where run: "RunAdapter orch env plan request = (orch', calls, r)"
      by (metis prod_cases3)
    then have "o_planAuthorizations orch' = o_planAuthorizations orch"
      by (simp add: RunAdapter_authorizations)
    then show ?thesis using OpRunAdapter run keep by (simp add: with_history_def hs orch_step_def)
  qed
qed

interpretation orch_machine: invariant_machine "with_history orch_step" orch_inv
  by unfold_locales (rule orch_inv_step)

section \<open>Running needs consent\<close>

lemma record_event_calls:
  "record_event orch env plan kind data = (orch', calls, r) \<Longrightarrow> Ran request \<notin> set calls"
  by (auto simp: record_event_def Let_def split: if_split_asm option.split_asm)

lemma Ran_guards:
  assumes "RunAdapter orch env plan request = (orch', calls, r)" and "Ran request' \<in> set calls"
  shows "run_guards orch plan request = None \<and> request' = request"
  using assms
  by (auto simp: RunAdapter_def Let_def dest!: record_event_calls split: option.split_asm prod.split_asm)

text \<open>
  C8: no adapter runs without consent.  From an orchestrator with no authorizations, after any
  sequence of operations, a run reaches the adapter only with the request of its own plan, and the
  plan is one an earlier confirmation approved, by policy, by \<open>assumeYes\<close> or by an accepted prompt
  for that very plan, or the assessment-free projection of such a plan; every other field and step
  is identical to what was approved.
\<close>

theorem adapter_runs_need_consent:
  assumes "o_planAuthorizations orch = Map.empty"
    and "RunAdapter (fold orch_step ops orch) env plan request = (orch', calls, r)"
    and "Ran request' \<in> set calls"
  shows "request' = request \<and> ar_OperationID request = op_OperationID plan \<and> op_Confirmed plan
    \<and> (\<exists>op \<in> set ops. \<exists>approved. approves op approved
         \<and> ValidateOperationSteps (op_Steps approved) = None
         \<and> (plan = approved \<or> plan = transfer_projection approved))"
proof -
  let ?s = "fold orch_step ops orch"
  have "orch_inv ([], orch)" using assms(1) by (simp add: orch_inv_def)
  then have inv: "orch_inv (rev ops, ?s)"
    using orch_machine.run_inv [of "([], orch)" ops] by (simp add: fold_with_history)
  have "run_guards ?s plan request = None" and req: "request' = request"
    using Ran_guards [OF assms(2,3)] by auto
  then have "adapterPlanAuthorized ?s plan" and ids: "ar_OperationID request = op_OperationID plan"
    and conf: "op_Confirmed plan"
    unfolding run_guards_def and_then_None guard_None by simp_all
  then obtain approved where a: "o_planAuthorizations ?s (op_OperationID plan) = Some approved"
    and "plan = approved \<or> plan = transfer_projection approved"
    unfolding adapterPlanAuthorized_iff by blast
  with orch_invD [OF inv a] show ?thesis
    using req ids conf unfolding set_rev by blast
qed

section \<open>What the prompt shows\<close>

lemma Resolve_request:
  assumes "Resolve registry a = Inr (policy, request)"
  shows "validConfirmationPolicy policy"
    and "case request of None \<Rightarrow> policy = ConfirmationNever
         | Some r \<Rightarrow> rq_Consequences r = as_Consequences a \<and> confirmationDefault policy = (rq_Default r, True)"
  using assms
  by (auto simp: Resolve_def validConfirmationPolicy_def Let_def
      split: option.split_asm if_split_asm RecoveryClass.split_asm)

lemma prompted_plan:
  assumes "confirm orch env plan yes = (orch', calls, r)" and "Prompted request \<in> set calls"
  shows "prompt_request plan = Inr request \<and> \<not> yes \<and> op_Confirmation plan \<noteq> ConfirmationNever
    \<and> \<not> op_Confirmed plan \<and> (is_ok r \<longleftrightarrow> pa_Prompt env request = Inr True)"
  using assms by (auto simp: confirm_def Let_def split: if_split_asm sum.split_asm)

lemma prompt_request_faithful:
  assumes "prompt_request plan = Inr request" and "op_Confirmation plan \<noteq> ConfirmationNever"
    and "validateActionPlan orch plan = None \<or> check_resolved plan = None"
  shows "rq_Consequences request = op_Consequences plan
    \<and> confirmationDefault (op_Confirmation plan) = (rq_Default request, True)"
proof (cases "op_Assessment plan")
  case None
  then show ?thesis
    using assms(1) by (cases "op_Confirmation plan") (auto simp: prompt_request_def Let_def)
next
  case (Some a)
  from assms(3) show ?thesis
  proof
    assume "validateActionPlan orch plan = None"
    then have "Resolve (o_Actions orch) a = Inr (op_Confirmation plan, op_ConfirmationRequest plan)"
      and "op_Consequences plan = as_Consequences a"
      using Some by (auto simp: validateActionPlan_def equalRequest_eq split: option.split_asm sum.split_asm)
    with Resolve_request(2) [of _ a] show ?thesis
      using assms(1,2) Some by (fastforce simp: prompt_request_def split: option.split_asm)
  next
    assume "check_resolved plan = None"
    with assms(1,2) Some show ?thesis
      by (auto simp: check_resolved_def prompt_request_def split: option.split_asm prod.split_asm)
  qed
qed

text \<open>
  A prompt is shown only for a plan whose policy needs an answer and for which the caller did not
  pass \<open>assumeYes\<close>; it lists exactly the plan's consequences with the default of the plan's policy
  (\<open>no\<close> for the irreversible ones), and the plan is authorized exactly when it is answered yes.
\<close>

theorem prompts_show_the_plan:
  assumes "Confirm orch env plan yes = (orch', calls, r) \<or> ConfirmResolved orch env plan yes = (orch', calls, r)"
    and "Prompted request \<in> set calls"
  shows "rq_Consequences request = op_Consequences plan
    \<and> confirmationDefault (op_Confirmation plan) = (rq_Default request, True)
    \<and> \<not> yes \<and> op_Confirmation plan \<noteq> ConfirmationNever
    \<and> (pa_Prompt env request = Inr True \<longrightarrow>
         r = Inr (plan\<lparr>op_Confirmed := True\<rparr>) \<and> orch' = authorizePlan orch (plan\<lparr>op_Confirmed := True\<rparr>))
    \<and> (pa_Prompt env request \<noteq> Inr True \<longrightarrow> \<not> is_ok r \<and> orch' = orch)"
proof -
  have conf: "confirm orch env plan yes = (orch', calls, r)"
    and v: "validateActionPlan orch plan = None \<or> check_resolved plan = None"
    using assms by (auto simp: Confirm_def ConfirmResolved_def split: option.split_asm)
  note p = prompted_plan [OF conf assms(2)]
  from conf have "if is_ok r then r = Inr (plan\<lparr>op_Confirmed := True\<rparr>) \<and> orch' = authorizePlan orch (plan\<lparr>op_Confirmed := True\<rparr>)
      else orch' = orch"
    by (cases rule: confirm_cases) auto
  with p prompt_request_faithful [OF _ _ v] show ?thesis by auto
qed

section \<open>A prepared action goes through\<close>

lemma PrepareAction_Inr:
  assumes "PrepareAction orch env yard command remote action delta = Inr plan"
  obtains assessment policy request where "Assess (o_Actions orch) action delta = Inr assessment"
    and "Resolve (o_Actions orch) assessment = Inr (policy, request)"
    and "op_Assessment plan = Some assessment" and "op_ConfirmationRequest plan = request"
    and "op_Confirmation plan = policy" and "op_Effect plan = commandEffect (as_Effect assessment)"
    and "op_Consequences plan = as_Consequences assessment" and "op_Steps plan = []"
    and "op_OperationID plan = pa_NewID env" and "SafeID (pa_NewID env)" and "op_Command plan \<noteq> ''''"
    and "op_Confirmed plan \<longleftrightarrow> policy = ConfirmationNever"
  using assms
  by (fastforce simp: PrepareAction_def prepare_def split: sum.split_asm prod.split_asm if_split_asm)

lemma commandEffect_valid: "commandEffect e = CommandRead \<or> commandEffect e = CommandMutate"
  by (simp add: commandEffect_def)

text \<open>
  A plan made by \<open>PrepareAction\<close> validates against the same registry; confirming it with
  \<open>assumeYes\<close> authorizes exactly that plan without asking; and the authorized plan then passes every
  guard of \<open>RunAdapter\<close> for a request of that operation.
\<close>

theorem prepared_action_goes_through:
  assumes "PrepareAction orch env yard command remote action delta = Inr plan" and "o_Runner orch"
    and "ar_OperationID request = op_OperationID plan"
  shows "\<exists>orch' confirmed. confirmed = plan\<lparr>op_Confirmed := True\<rparr>
    \<and> Confirm orch env plan True = (orch', [], Inr confirmed)
    \<and> o_planAuthorizations orch' = (o_planAuthorizations orch)(op_OperationID plan \<mapsto> confirmed)
    \<and> run_guards orch' confirmed request = None"
proof -
  let ?c = "plan\<lparr>op_Confirmed := True\<rparr>"
  obtain a policy rq where p: "Assess (o_Actions orch) action delta = Inr a"
    "Resolve (o_Actions orch) a = Inr (policy, rq)" "op_Assessment plan = Some a"
    "op_ConfirmationRequest plan = rq" "op_Confirmation plan = policy"
    "op_Effect plan = commandEffect (as_Effect a)" "op_Consequences plan = as_Consequences a"
    "op_Steps plan = []" "op_OperationID plan = pa_NewID env" "SafeID (pa_NewID env)"
    "op_Command plan \<noteq> ''''" "op_Confirmed plan \<longleftrightarrow> policy = ConfirmationNever"
    using PrepareAction_Inr [OF assms(1)] .
  have reg: "o_Actions orch \<noteq> None" using p(1) by (cases "o_Actions orch") (simp_all add: Assess_def)
  have steps: "ValidateOperationSteps [] = None" by (simp add: ValidateOperationSteps_def)
  have valid: "validateActionPlan o2 q = None"
    if "o_Actions o2 = o_Actions orch" "q = plan \<or> q = ?c" for o2 q
    using that p reg steps by (auto simp: validateActionPlan_def equalRequest_eq)
  have "confirm orch env plan True = (authorizePlan orch ?c, [], Inr ?c)"
    using p Resolve_request(1) [OF p(2)] commandEffect_valid [of "as_Effect a"]
    by (auto simp: confirm_def Let_def)
  then have "Confirm orch env plan True = (authorizePlan orch ?c, [], Inr ?c)"
    by (simp add: Confirm_def valid)
  moreover have "run_guards (authorizePlan orch ?c) ?c request = None"
    using assms(2,3) valid [of "authorizePlan orch ?c" ?c]
    by (simp add: run_guards_def adapterPlanAuthorized_iff authorizePlan_def)
  ultimately show ?thesis by (auto simp: authorizePlan_def)
qed

section \<open>The audit trail\<close>

definition audit_events :: "port_call list \<Rightarrow> OperationEvent list" where
  "audit_events calls = List.map_filter (\<lambda>c. case c of WroteAudit e \<Rightarrow> Some e | _ \<Rightarrow> None) calls"

lemma audit_events_simps [simp]:
  "audit_events [] = []"
  "audit_events (WroteAudit e # calls) = e # audit_events calls"
  "audit_events (Prompted rq # calls) = audit_events calls"
  "audit_events (Published e # calls) = audit_events calls"
  "audit_events (Ran a # calls) = audit_events calls"
  "audit_events (calls @ calls') = audit_events calls @ audit_events calls'"
  by (simp_all add: audit_events_def List.map_filter_simps List.map_filter_def)

lemma record_event_audit:
  assumes "record_event orch env plan kind data = (orch', calls, r)" and "o_Audit orch" and "o_Clock orch"
  obtains e rest where "calls = WroteAudit e # rest" and "audit_events rest = []"
    and "ev_Revision e = succ_u64 (o_revision orch)" and "ev_Sequence e = ev_Revision e"
    and "ev_Kind e = kind" and "ev_OperationID e = op_OperationID plan" and "ev_Data e = data"
    and "r = None \<longrightarrow> pa_Audit env e = None"
  using assms by (auto simp: record_event_def Let_def split: if_split_asm option.split_asm)

text \<open>
  C28: with an audit sink, an adapter runs only after its start was accepted by the audit log, and a
  finish record with the adapter's own status, or its error, follows every run.
\<close>

theorem adapter_run_is_audited:
  assumes "RunAdapter orch env plan request = (orch', calls, r)" and "Ran request \<in> set calls"
    and "o_Audit orch"
  shows "\<exists>started more finished rest. calls = WroteAudit started # more @ Ran request # WroteAudit finished # rest
    \<and> ev_Kind started = ''operation.started'' \<and> pa_Audit env started = None
    \<and> ev_Kind finished = ''operation.finished''
    \<and> ev_OperationID started = op_OperationID plan \<and> ev_OperationID finished = op_OperationID plan
    \<and> ev_Data finished = (case pa_Run env request of
        (result, _, None) \<Rightarrow> [(''status'', rs_Status result)]
      | (_, _, Some e) \<Rightarrow> [(''status'', ''error''), (''error'', e)])"
proof -
  obtain result stderr runErr where run: "pa_Run env request = (result, stderr, runErr)"
    by (metis prod_cases3)
  have g: "run_guards orch plan request = None" using Ran_guards [OF assms(1,2)] by simp
  obtain o1 c1 e1 where r1: "record_event orch env plan ''operation.started'' [] = (o1, c1, e1)"
    by (metis prod_cases3)
  have "o_Clock orch" and e1: "e1 = None"
    using assms(1,2) r1 g record_event_calls [OF r1]
    by (auto simp: RunAdapter_def record_event_def Let_def split: option.split_asm if_split_asm)
  have o1: "o1 = orch\<lparr>o_revision := succ_u64 (o_revision orch)\<rparr>"
    using record_event_state [OF r1] .
  have ports: "o_Audit o1" "o_Clock o1" using o1 assms(3) \<open>o_Clock orch\<close> by simp_all
  let ?data = "case runErr of None \<Rightarrow> [(''status'', rs_Status result)]
    | Some e \<Rightarrow> [(''status'', ''error''), (''error'', e)]"
  obtain o2 c2 e2 where r2: "record_event o1 env plan ''operation.finished'' ?data = (o2, c2, e2)"
    by (metis prod_cases3)
  have calls: "calls = c1 @ Ran request # c2"
    using assms(1) by (simp add: RunAdapter_def g r1 e1 run r2 Let_def)
  obtain s more where s: "c1 = WroteAudit s # more" "ev_Kind s = ''operation.started''"
      "ev_OperationID s = op_OperationID plan" "pa_Audit env s = None"
    by (rule record_event_audit [OF r1 assms(3) \<open>o_Clock orch\<close>], rule that; simp add: e1)
  obtain f rest where f: "c2 = WroteAudit f # rest" "ev_Kind f = ''operation.finished''"
      "ev_OperationID f = op_OperationID plan" "ev_Data f = ?data"
    by (rule record_event_audit [OF r2 ports], rule that; assumption)
  have "(case pa_Run env request of (result, _, None) \<Rightarrow> [(''status'', rs_Status result)]
      | (_, _, Some e) \<Rightarrow> [(''status'', ''error''), (''error'', e)]) = ?data"
    unfolding run by (cases runErr) simp_all
  moreover have "calls = WroteAudit s # more @ Ran request # WroteAudit f # rest"
    unfolding calls s(1) f(1) by simp
  ultimately show ?thesis using s(2-) f(2-) by metis
qed

text \<open>The revisions used by one operation, as long as the counter does not wrap.\<close>

lemma confirm_no_audit:
  assumes "confirm orch env plan yes = (orch', calls, r)"
  shows "audit_events calls = [] \<and> o_revision orch' = o_revision orch
    \<and> o_Audit orch' = o_Audit orch \<and> o_Clock orch' = o_Clock orch"
proof -
  have "calls = [] \<or> (\<exists>rq. calls = [Prompted rq])"
    using assms unfolding confirm_def Let_def by (auto split: if_split_asm sum.split_asm)
  moreover have "o_revision orch' = o_revision orch \<and> o_Audit orch' = o_Audit orch \<and> o_Clock orch' = o_Clock orch"
    using assms by (cases rule: confirm_cases) (simp_all add: authorizePlan_def)
  ultimately show ?thesis by auto
qed

lemma orch_serve_confirm:
  assumes "orch_serve op orch = (orch', calls)" and "\<And>env plan request. op \<noteq> OpRunAdapter env plan request"
  shows "audit_events calls = [] \<and> o_revision orch' = o_revision orch
    \<and> o_Audit orch' = o_Audit orch \<and> o_Clock orch' = o_Clock orch"
proof (cases op)
  case (OpConfirm env plan yes)
  then show ?thesis using assms(1) confirm_no_audit [of orch env plan yes]
    by (cases "validateActionPlan orch plan") (auto simp: Confirm_def split: prod.split_asm)
next
  case (OpConfirmResolved env plan yes)
  then show ?thesis using assms(1) confirm_no_audit [of orch env plan yes]
    by (cases "check_resolved plan") (auto simp: ConfirmResolved_def split: prod.split_asm)
qed (use assms(2) in blast)

lemma upt_two: "m + 2 = n \<Longrightarrow> [m..<n] = [m, Suc m]"
  by (simp add: upt_rec)

lemma RunAdapter_revisions:
  assumes "RunAdapter orch env plan request = (orch', calls, r)" and "o_Audit orch" and "o_Clock orch"
    and "o_revision orch + length (audit_events calls) < 2 ^ 64"
  shows "map ev_Revision (audit_events calls) = [Suc (o_revision orch)..<Suc (o_revision orch')]"
    and "o_revision orch' = o_revision orch + length (audit_events calls)"
proof -
  let ?n = "o_revision orch"
  have "map ev_Revision (audit_events calls) = [Suc ?n..<Suc (o_revision orch')]
      \<and> o_revision orch' = ?n + length (audit_events calls)"
  proof (cases "run_guards orch plan request")
    case (Some e)
    then show ?thesis using assms(1) by (simp add: RunAdapter_def)
  next
    case None
    obtain o1 c1 e1 where r1: "record_event orch env plan ''operation.started'' [] = (o1, c1, e1)"
      by (metis prod_cases3)
    note o1 = record_event_state [OF r1]
    have ports: "o_Audit o1" "o_Clock o1" using o1 assms(2,3) by simp_all
    obtain s where s: "audit_events c1 = [s]" "ev_Revision s = succ_u64 ?n"
      using record_event_audit [OF r1 assms(2,3)] by (metis audit_events_simps(2))
    show ?thesis
    proof (cases e1)
      case (Some e)
      then have "calls = c1" "orch' = o1" using assms(1) None r1 by (simp_all add: RunAdapter_def)
      then show ?thesis using s o1 assms(4) by (simp add: succ_u64_Suc)
    next
      case e1: None
      obtain result stderr runErr where run: "pa_Run env request = (result, stderr, runErr)"
        by (metis prod_cases3)
      obtain o2 c2 e2 where r2: "record_event o1 env plan ''operation.finished''
          (case runErr of None \<Rightarrow> [(''status'', rs_Status result)]
           | Some e \<Rightarrow> [(''status'', ''error''), (''error'', e)]) = (o2, c2, e2)"
        by (metis prod_cases3)
      note o2 = record_event_state [OF r2]
      have calls: "calls = c1 @ Ran request # c2" "orch' = o2"
        using assms(1) by (simp_all add: RunAdapter_def None r1 e1 run r2 Let_def)
      obtain f where f: "audit_events c2 = [f]" "ev_Revision f = succ_u64 (o_revision o1)"
        using record_event_audit [OF r2 ports] by (metis audit_events_simps(2))
      have "?n + 2 < 2 ^ 64" using assms(4) calls s f by simp
      then show ?thesis using calls s f o1 o2 by (simp add: succ_u64_Suc upt_two)
    qed
  qed
  then show "map ev_Revision (audit_events calls) = [Suc ?n..<Suc (o_revision orch')]"
    and "o_revision orch' = ?n + length (audit_events calls)" by simp_all
qed

lemma orch_calls_revisions:
  assumes "o_Audit orch" and "o_Clock orch"
    and "o_revision orch + length (audit_events (orch_calls ops orch)) < 2 ^ 64"
  shows "map ev_Revision (audit_events (orch_calls ops orch))
      = [Suc (o_revision orch)..<Suc (o_revision (fold orch_step ops orch))]
    \<and> o_revision (fold orch_step ops orch) = o_revision orch + length (audit_events (orch_calls ops orch))"
  using assms
proof (induction ops arbitrary: orch)
  case Nil
  then show ?case by simp
next
  case (Cons op ops)
  obtain orch' calls where srv: "orch_serve op orch = (orch', calls)" by force
  have "map ev_Revision (audit_events calls) = [Suc (o_revision orch)..<Suc (o_revision orch')]
      \<and> o_revision orch' = o_revision orch + length (audit_events calls) \<and> o_Audit orch' \<and> o_Clock orch'"
  proof (cases op)
    case (OpRunAdapter env plan request)
    then obtain r where ra: "RunAdapter orch env plan request = (orch', calls, r)"
      using srv by (auto split: prod.split_asm)
    have "o_revision orch + length (audit_events calls) < 2 ^ 64"
      using Cons.prems(3) srv by simp
    from RunAdapter_revisions [OF ra Cons.prems(1,2) this] RunAdapter_authorizations [OF ra] Cons.prems(1,2)
    show ?thesis by simp
  qed (use orch_serve_confirm [OF srv] Cons.prems in auto)
  moreover have "[Suc (o_revision orch)..<Suc (o_revision orch')] @ [Suc (o_revision orch')..<Suc k]
      = [Suc (o_revision orch)..<Suc k]" if "o_revision orch \<le> o_revision orch'" "o_revision orch' \<le> k" for k
    using that upt_add_eq_append [of "Suc (o_revision orch)" "Suc (o_revision orch')" "k - o_revision orch'"]
    by (simp del: upt_Suc)
  moreover have "orch_step op orch = orch'" by (simp add: orch_step_def srv)
  ultimately show ?case
    using Cons.IH [of orch'] Cons.prems(3) by (simp add: srv del: upt_Suc)
qed

text \<open>
  C29: the audit log of an orchestrator has no gap and no repetition: over any sequence of
  operations the records carry the revisions 1, 2, 3, \<open>\<dots>\<close> in order, up to the current revision
  (for fewer than \<open>2^64\<close> records, the width of the counter).
\<close>

theorem audit_trail_gapless:
  assumes "o_revision orch = 0" and "o_Audit orch" and "o_Clock orch"
    and "length (audit_events (orch_calls ops orch)) < 2 ^ 64"
  shows "map ev_Revision (audit_events (orch_calls ops orch)) = [1..<Suc (o_revision (fold orch_step ops orch))]"
  using orch_calls_revisions [OF assms(2,3), of ops] assms(1,4) by simp

section \<open>A session\<close>

text \<open>One confirmed command, prompted and run, as a concrete instance of the properties above.\<close>

definition demo_orch :: Orchestrator where
  "demo_orch = \<lparr>o_Clock = True, o_IDs = True, o_Prompt = True, o_Runner = True, o_Audit = True, o_Events = False,
     o_Actions = Some [''yard.destroy'' \<mapsto> demo_destroy], o_revision = 0, o_planAuthorizations = Map.empty\<rparr>"

definition demo_result :: AdapterResult where
  "demo_result = \<lparr>rs_Schema = 1, rs_OperationID = ''op-1'', rs_Status = ''ok'', rs_Output = Map.empty,
     rs_ErrorCode = ''''\<rparr>"

definition demo_env :: port_answers where
  "demo_env = \<lparr>pa_NewID = ''op-1'', pa_PlanTime = 5, pa_EventTime = int, pa_Prompt = (\<lambda>_. Inr True),
     pa_Run = (\<lambda>_. (demo_result, '''', None)), pa_Audit = (\<lambda>_. None), pa_Publish = (\<lambda>_. None)\<rparr>"

definition demo_plan :: OperationPlan where
  "demo_plan = \<lparr>op_OperationID = ''op-1'', op_Command = ''stop'', op_Effect = CommandMutate,
     op_Confirmation = ConfirmationPromptDefaultYes, op_Target = TargetLocalOwner,
     op_Consequences = [''sessions end''], op_Steps = [], op_Assessment = None,
     op_ConfirmationRequest = None, op_Confirmed = False, op_CreatedAt = 5\<rparr>"

definition demo_request :: AdapterRequest where
  "demo_request = \<lparr>ar_Schema = 1, ar_OperationID = ''op-1'', ar_Adapter = ''lifecycle'', ar_Action = ''stop'',
     ar_Arguments = [], ar_Context = Map.empty, ar_Input = Map.empty\<rparr>"

definition demo_shown :: ConfirmationRequest where
  "demo_shown = \<lparr>rq_Summary = ''stop'', rq_Consequences = [''sessions end''], rq_Default = ConfirmationDefaultYes\<rparr>"

abbreviation demo_confirmed :: OperationPlan where
  "demo_confirmed \<equiv> demo_plan\<lparr>op_Confirmed := True\<rparr>"

abbreviation demo_orch' :: Orchestrator where
  "demo_orch' \<equiv> authorizePlan demo_orch demo_confirmed"

lemma SafeID_op1: "SafeID ''op-1''"
  by (simp add: SafeID_bytes id_char_def HasPrefix_def string_eval)

lemma demo_Confirm: "Confirm demo_orch demo_env demo_plan False = (demo_orch', [Prompted demo_shown], Inr demo_confirmed)"
  by (simp add: Confirm_def validateActionPlan_def ValidateOperationSteps_def demo_plan_def confirm_def
      SafeID_op1 validConfirmationPolicy_def demo_orch_def prompt_request_def demo_env_def demo_shown_def
      Let_def)

lemma demo_step_confirm: "orch_step (OpConfirm demo_env demo_plan False) demo_orch = demo_orch'"
  by (simp add: orch_step_def demo_Confirm)

definition demo_event :: "nat \<Rightarrow> string \<Rightarrow> (string \<times> string) list \<Rightarrow> OperationEvent" where
  "demo_event n kind data = \<lparr>ev_OperationID = ''op-1'', ev_Sequence = n, ev_Revision = n, ev_Kind = kind,
     ev_At = int n, ev_Data = data\<rparr>"

lemma demo_RunAdapter:
  "\<exists>r. RunAdapter demo_orch' demo_env demo_confirmed demo_request =
     (demo_orch'\<lparr>o_revision := 2\<rparr>,
      [WroteAudit (demo_event 1 ''operation.started'' []), Ran demo_request,
       WroteAudit (demo_event 2 ''operation.finished'' [(''status'', ''ok'')])], r)"
proof -
  have "run_guards demo_orch' demo_confirmed demo_request = None"
    by (simp add: run_guards_def adapterPlanAuthorized_iff authorizePlan_def demo_orch_def demo_plan_def
        demo_request_def)
  moreover have "record_event (demo_orch'\<lparr>o_revision := n\<rparr>) demo_env demo_confirmed kind data =
      (demo_orch'\<lparr>o_revision := Suc n\<rparr>, [WroteAudit (demo_event (Suc n) kind data)], None)"
    if "n < 2" for n kind data
    using that by (simp add: record_event_def Let_def succ_u64_Suc authorizePlan_def demo_orch_def demo_env_def
        demo_event_def demo_plan_def)
  note rec = this
  have "record_event demo_orch' demo_env demo_confirmed kind data =
      (demo_orch'\<lparr>o_revision := 1\<rparr>, [WroteAudit (demo_event 1 kind data)], None)" for kind data
    using rec [of 0] by (simp add: authorizePlan_def demo_orch_def)
  moreover have "record_event (demo_orch'\<lparr>o_revision := 1\<rparr>) demo_env demo_confirmed kind data =
      (demo_orch'\<lparr>o_revision := 2\<rparr>, [WroteAudit (demo_event 2 kind data)], None)" for kind data
    using rec [of 1] by (simp add: numeral_2_eq_2)
  ultimately show ?thesis
    by (simp add: RunAdapter_def demo_env_def demo_result_def)
qed

theorem adapter_runs_need_consent_witness:
  "\<exists>orch' calls r. RunAdapter (fold orch_step [OpConfirm demo_env demo_plan False] demo_orch) demo_env
       demo_confirmed demo_request = (orch', calls, r)
     \<and> Ran demo_request \<in> set calls
     \<and> (\<exists>op \<in> set [OpConfirm demo_env demo_plan False]. \<exists>approved. approves op approved
          \<and> (demo_confirmed = approved \<or> demo_confirmed = transfer_projection approved))"
proof -
  obtain orch' calls r where run: "RunAdapter (fold orch_step [OpConfirm demo_env demo_plan False] demo_orch) demo_env
       demo_confirmed demo_request = (orch', calls, r)" and ran: "Ran demo_request \<in> set calls"
    using demo_RunAdapter by (auto simp: demo_step_confirm)
  have "o_planAuthorizations demo_orch = Map.empty" by (simp add: demo_orch_def)
  from adapter_runs_need_consent [OF this run ran] run ran show ?thesis by blast
qed

theorem prompts_show_the_plan_witness:
  "\<exists>orch' calls r. Confirm demo_orch demo_env demo_plan False = (orch', calls, r)
     \<and> Prompted demo_shown \<in> set calls \<and> rq_Consequences demo_shown = op_Consequences demo_plan
     \<and> confirmationDefault (op_Confirmation demo_plan) = (rq_Default demo_shown, True)"
  using prompts_show_the_plan [of demo_orch demo_env demo_plan False demo_orch' "[Prompted demo_shown]"
      "Inr demo_confirmed" demo_shown] demo_Confirm by auto

theorem prepared_action_goes_through_witness:
  "\<exists>plan orch'. PrepareAction demo_orch demo_env demo_context ''destroy'' RemoteDenied ''yard.destroy''
       \<lparr>dl_Changed = True, dl_Consequences = [''data is deleted'']\<rparr> = Inr plan
     \<and> op_Confirmation plan = ConfirmationPromptDefaultNo
     \<and> Confirm demo_orch demo_env plan True = (orch', [], Inr (plan\<lparr>op_Confirmed := True\<rparr>))"
proof -
  let ?delta = "\<lparr>dl_Changed = True, dl_Consequences = [''data is deleted'']\<rparr>"
  have ids: "SafeID ''yard.destroy''" by (simp add: policy_eval)
  have cons: "normalizeConsequences [''data is deleted''] = Inr [''data is deleted'']"
    by (simp add: normalizeConsequences_def policy_eval)
  have imps: "normalizeImpacts [ImpactPersistentData] = Inr [ImpactPersistentData]"
    by (simp add: normalizeImpacts_def validActionImpact_def)
  obtain plan where plan: "PrepareAction demo_orch demo_env demo_context ''destroy'' RemoteDenied ''yard.destroy'' ?delta
      = Inr plan" and "op_Confirmation plan = ConfirmationPromptDefaultNo" and opid: "op_OperationID plan = ''op-1''"
    by (simp add: PrepareAction_def Assess_def Resolve_def validateAssessment_def demo_orch_def demo_env_def
        ids cons imps demo_destroy_def isStateChanging_def prepare_def commandEffect_def
        validConfirmationPolicy_def Route_def demo_context_def SafeID_op1)
  moreover have "o_Runner demo_orch" by (simp add: demo_orch_def)
  ultimately show ?thesis
    using prepared_action_goes_through [OF plan, of demo_request] by (auto simp: demo_request_def)
qed

theorem adapter_run_is_audited_witness:
  "\<exists>orch' calls r started more finished rest.
     RunAdapter demo_orch' demo_env demo_confirmed demo_request = (orch', calls, r)
     \<and> calls = WroteAudit started # more @ Ran demo_request # WroteAudit finished # rest
     \<and> ev_Data finished = [(''status'', ''ok'')]"
proof -
  obtain orch' calls r where run: "RunAdapter demo_orch' demo_env demo_confirmed demo_request = (orch', calls, r)"
    and ran: "Ran demo_request \<in> set calls"
    using demo_RunAdapter by auto
  have "o_Audit demo_orch'" by (simp add: authorizePlan_def demo_orch_def)
  from adapter_run_is_audited [OF run ran this] run show ?thesis
    by (auto simp: demo_env_def demo_result_def)
qed

theorem audit_trail_gapless_witness:
  "map ev_Revision (audit_events (orch_calls
      [OpConfirm demo_env demo_plan False, OpRunAdapter demo_env demo_confirmed demo_request] demo_orch)) = [1, 2]"
proof -
  let ?ops = "[OpConfirm demo_env demo_plan False, OpRunAdapter demo_env demo_confirmed demo_request]"
  obtain r where run: "RunAdapter demo_orch' demo_env demo_confirmed demo_request =
     (demo_orch'\<lparr>o_revision := 2\<rparr>,
      [WroteAudit (demo_event 1 ''operation.started'' []), Ran demo_request,
       WroteAudit (demo_event 2 ''operation.finished'' [(''status'', ''ok'')])], r)"
    using demo_RunAdapter by blast
  have "length (audit_events (orch_calls ?ops demo_orch)) < 2 ^ 64"
    by (simp add: demo_step_confirm demo_Confirm run)
  moreover have "o_revision (fold orch_step ?ops demo_orch) = 2"
    by (simp add: demo_step_confirm) (simp add: orch_step_def run)
  moreover have "o_revision demo_orch = 0" "o_Audit demo_orch" "o_Clock demo_orch" by (simp_all add: demo_orch_def)
  ultimately show ?thesis using audit_trail_gapless [of demo_orch ?ops] by (simp add: upt_rec)
qed

end
