(* ===== verification/Go_Sha256.thy ===== *)
theory Go_Sha256
  imports Go_Format "HOL-Library.Word"
begin

unbundle bit_operations_syntax

text \<open>
  \<open>crypto/sha256\<close> (FIPS 180-4) over byte strings, and the lower-case hexadecimal rendering the
  program uses for source keys, capabilities and bindings.  No property depends on collision
  resistance unless it names that assumption.
\<close>

type_synonym u32 = "32 word"

text \<open>
  The constants are the leading fractional bits of the cube roots (round constants) and square roots
  (initial state) of the first primes; \<open>root_bits\<close> finds the integer root bit by bit.
\<close>

fun root_bits :: "nat \<Rightarrow> nat \<Rightarrow> nat \<Rightarrow> nat \<Rightarrow> nat" where
  "root_bits k n 0 acc = acc"
| "root_bits k n (Suc b) acc = root_bits k n b (if (acc + 2 ^ b) ^ k \<le> n then acc + 2 ^ b else acc)"

definition frac_root :: "nat \<Rightarrow> nat \<Rightarrow> u32" where
  "frac_root k p = word_of_nat (root_bits k (p * 2 ^ (32 * k)) 37 0)"

definition is_prime :: "nat \<Rightarrow> bool" where
  "is_prime n \<longleftrightarrow> 2 \<le> n \<and> list_all (\<lambda>d. n mod d \<noteq> 0) [2..<n]"

definition sha_k :: "u32 list" where
  "sha_k = map (frac_root 3) (filter is_prime [0..<312])"

definition rotr :: "nat \<Rightarrow> u32 \<Rightarrow> u32" where
  "rotr n x = drop_bit n x OR push_bit (32 - n) x"

type_synonym sha_state = "u32 \<times> u32 \<times> u32 \<times> u32 \<times> u32 \<times> u32 \<times> u32 \<times> u32"

definition sha_init :: sha_state where
  "sha_init = (frac_root 2 2, frac_root 2 3, frac_root 2 5, frac_root 2 7,
               frac_root 2 11, frac_root 2 13, frac_root 2 17, frac_root 2 19)"

text \<open>The message schedule keeps its last sixteen words, oldest first.\<close>

fun sha_rounds :: "u32 list \<Rightarrow> u32 list \<Rightarrow> sha_state \<Rightarrow> sha_state" where
  "sha_rounds [] w s = s"
| "sha_rounds (k # ks) w (a, b, c, d, e, f, g, h) =
     (let t1 = h + (rotr 6 e XOR rotr 11 e XOR rotr 25 e) + ((e AND f) XOR (NOT e AND g)) + k + w ! 0;
          t2 = (rotr 2 a XOR rotr 13 a XOR rotr 22 a) + ((a AND b) XOR (a AND c) XOR (b AND c));
          x = w ! 1; y = w ! 14;
          next = w ! 0 + (rotr 7 x XOR rotr 18 x XOR drop_bit 3 x) + w ! 9
                 + (rotr 17 y XOR rotr 19 y XOR drop_bit 10 y)
      in sha_rounds ks (tl w @ [next]) (t1 + t2, a, b, c, d + t1, e, f, g))"

definition sha_add :: "sha_state \<Rightarrow> sha_state \<Rightarrow> sha_state" where
  "sha_add s t =
     (case s of (a, b, c, d, e, f, g, h) \<Rightarrow>
      case t of (a', b', c', d', e', f', g', h') \<Rightarrow>
        (a + a', b + b', c + c', d + d', e + e', f + f', g + g', h + h'))"

fun be_words :: "nat list \<Rightarrow> u32 list" where
  "be_words (a # b # c # d # bs) =
     word_of_nat (a * 16777216 + b * 65536 + c * 256 + d) # be_words bs"
| "be_words _ = []"

definition be_bytes :: "nat \<Rightarrow> nat \<Rightarrow> nat list" where
  "be_bytes k n = map (\<lambda>i. (n div 256 ^ i) mod 256) (rev [0..<k])"

definition sha_pad :: "nat list \<Rightarrow> nat list" where
  "sha_pad bs =
     bs @ [128] @ replicate ((119 - length bs mod 64) mod 64) 0 @ be_bytes 8 (8 * length bs mod 2 ^ 64)"

fun sha_blocks :: "nat \<Rightarrow> u32 list \<Rightarrow> sha_state \<Rightarrow> sha_state" where
  "sha_blocks 0 ws s = s"
| "sha_blocks (Suc n) ws s =
     sha_blocks n (drop 16 ws) (sha_add s (sha_rounds sha_k (take 16 ws) s))"

definition Sum256 :: "string \<Rightarrow> nat list" where
  "Sum256 s =
     (let bs = sha_pad (map byte s)
      in case sha_blocks (length bs div 64) (be_words bs) sha_init of (a, b, c, d, e, f, g, h) \<Rightarrow>
        concat (map (\<lambda>w. be_bytes 4 (unat w)) [a, b, c, d, e, f, g, h]))"

definition sha256_hex :: "string \<Rightarrow> string" where
  "sha256_hex s = concat (map hex2 (Sum256 s))"

lemma length_be_bytes [simp]: "length (be_bytes k n) = k"
  by (simp add: be_bytes_def)

lemma be_bytes_lt: "b \<in> set (be_bytes k n) \<Longrightarrow> b < 256"
  by (auto simp: be_bytes_def)

lemma length_Sum256 [simp]: "length (Sum256 s) = 32"
  by (simp add: Sum256_def Let_def split: prod.splits)

lemma Sum256_lt: "b \<in> set (Sum256 s) \<Longrightarrow> b < 256"
  by (auto simp: Sum256_def Let_def dest: be_bytes_lt split: prod.splits)

text \<open>A digest is always 64 lower-case hexadecimal characters.\<close>

lemma length_concat_hex2: "length (concat (map hex2 bs)) = 2 * length bs"
  by (induction bs) simp_all

lemma length_sha256_hex [simp]: "length (sha256_hex s) = 64"
  by (simp add: sha256_hex_def length_concat_hex2)

lemma is_hex_hex2: "v < 256 \<Longrightarrow> c \<in> set (hex2 v) \<Longrightarrow> is_hex c"
  by (auto simp: hex2_def is_hex_hex_digit)

lemma is_hex_sha256_hex: "c \<in> set (sha256_hex s) \<Longrightarrow> is_hex c"
  by (auto simp: sha256_hex_def dest: Sum256_lt is_hex_hex2)

lemma sha256_hex_nonempty [simp]: "sha256_hex s \<noteq> []"
  using length_sha256_hex [of s] by (metis length_0_conv zero_neq_numeral)

end
