(* ===== verification/Lease_Text.thy ===== *)
theory Lease_Text
  imports Identity Go_Sha256
begin

text \<open>
  The names and texts of the test-VM lease broker
  (\<open>internal/adapters/testvmsruntime/lease.go\<close>, \<open>lifecycle.go\<close>, \<open>environment.go\<close>, \<open>config.go\<close>,
  \<open>events.go\<close>): slot identifiers, record identifiers, attribution contexts and their labels,
  environment specifications, bounded failure reasons and the recovery back-off.
\<close>

section \<open>Slot and record identifiers\<close>

definition slotNumberUnbounded :: "string \<Rightarrow> int option" where
  "slotNumberUnbounded slotID =
     (if \<not> HasPrefix slotID ''slot-'' then None
      else case Atoi (TrimPrefix slotID ''slot-'') of
        None \<Rightarrow> None
      | Some value \<Rightarrow> if value < 1 then None else Some value)"

definition slotNumber :: "string \<Rightarrow> int \<Rightarrow> int option" where
  "slotNumber slotID maximum =
     (case slotNumberUnbounded slotID of
        None \<Rightarrow> None
      | Some value \<Rightarrow> if value > maximum then None else Some value)"

text \<open>\<open>fmt.Sprintf("slot-%03d", index)\<close>\<close>

definition slot_name :: "int \<Rightarrow> string" where
  "slot_name index = ''slot-'' @ fmt_0d 3 index"

text \<open>The regular expressions \<open>^slot-[0-9]{3}$\<close> and \<open>^[0-9]{20}-[0-9a-f]{16}$\<close>.\<close>

definition brokerSlotID :: "string \<Rightarrow> bool" where
  "brokerSlotID s \<longleftrightarrow> length s = 8 \<and> take 5 s = ''slot-'' \<and> all_bytes is_digit (drop 5 s)"

definition brokerRecordID :: "string \<Rightarrow> bool" where
  "brokerRecordID s \<longleftrightarrow>
     length s = 37 \<and> all_bytes is_digit (take 20 s) \<and> s ! 20 = CHR ''-'' \<and> all_bytes is_hex (drop 21 s)"

text \<open>The exact-slot test shared by the acquire operations.\<close>

definition exact_slot :: "string \<Rightarrow> int \<Rightarrow> bool" where
  "exact_slot slotID slots =
     (case slotNumber slotID slots of None \<Rightarrow> False | Some number \<Rightarrow> slotID = slot_name number)"

lemma fmt_0d_nonneg: "0 \<le> k \<Longrightarrow> fmt_0d 3 k = pad_zero 3 (dec (nat k))"
  by (simp add: fmt_0d_def)

lemma slotNumber_slot_name:
  assumes "1 \<le> k" and "k \<le> max_int64"
  shows "slotNumberUnbounded (slot_name k) = Some k"
  using assms Atoi_pad_dec [of "nat k" 3]
  by (simp add: slotNumberUnbounded_def slot_name_def TrimPrefix_def HasPrefix_def fmt_0d_nonneg)

lemma slot_name_inj: "0 \<le> i \<Longrightarrow> 0 \<le> j \<Longrightarrow> slot_name i = slot_name j \<longleftrightarrow> i = j"
  by (auto simp: slot_name_def fmt_0d_nonneg pad_zero_inj)

lemma slotNumber_range: "slotNumber s n = Some k \<Longrightarrow> 1 \<le> k \<and> k \<le> n"
  by (auto simp: slotNumber_def slotNumberUnbounded_def split: option.split_asm if_split_asm)

lemma exact_slot_iff:
  assumes "n \<le> max_int64"
  shows "exact_slot s n \<longleftrightarrow> (\<exists>k. 1 \<le> k \<and> k \<le> n \<and> s = slot_name k)"
proof
  assume "exact_slot s n"
  then show "\<exists>k. 1 \<le> k \<and> k \<le> n \<and> s = slot_name k"
    by (auto simp: exact_slot_def dest!: slotNumber_range split: option.split_asm)
next
  assume "\<exists>k. 1 \<le> k \<and> k \<le> n \<and> s = slot_name k"
  then show "exact_slot s n"
    using assms slotNumber_slot_name by (auto simp: exact_slot_def slotNumber_def)
qed

lemma length_slot_name: "1 \<le> k \<Longrightarrow> k \<le> 999 \<Longrightarrow> length (slot_name k) = 8"
  using length_dec_le [of "nat k" 2] by (simp add: slot_name_def fmt_0d_nonneg pad_zero_def)

lemma brokerSlotID_slot_name: "1 \<le> k \<Longrightarrow> k \<le> 999 \<Longrightarrow> brokerSlotID (slot_name k)"
  using length_slot_name [of k] pad_zero_digits [of _ 3 "nat k"]
  by (auto simp: brokerSlotID_def slot_name_def fmt_0d_nonneg all_bytes_iff)

text \<open>Below one thousand the byte order of slot names is the numeric order.\<close>

lemma digit_char_0: "digit_char 0 = CHR ''0''"
  using char_of_char [of "CHR ''0''"] by (simp add: digit_char_def)

lemma three_digits: "m = 100 * (m div 100) + 10 * (m div 10 mod 10) + m mod (10 :: nat)"
proof -
  have "m = 10 * (m div 10) + m mod 10" by simp
  moreover have "m div 10 = 10 * (m div 10 div 10) + m div 10 mod 10" by simp
  moreover have "m div 10 div 10 = m div 100" by (simp flip: div_mult2_eq)
  ultimately show ?thesis by linarith
qed

lemma pad3: "m < 1000 \<Longrightarrow> pad_zero 3 (dec m) =
    [digit_char (m div 100), digit_char (m div 10 mod 10), digit_char (m mod 10)]"
proof -
  assume "m < 1000"
  then consider "m < 10" | "10 \<le> m" "m < 100" | "100 \<le> m" "m < 1000" by linarith
  then show ?thesis
  proof cases
    case 1
    then show ?thesis by (simp add: pad_zero_def dec.simps [of m] numeral_2_eq_2 flip: digit_char_0)
  next
    case 2
    then have "m div 10 < 10" by auto
    then show ?thesis
      using 2 by (simp add: pad_zero_def dec.simps [of m] dec.simps [of "m div 10"] flip: digit_char_0)
  next
    case 3
    then have "\<not> m div 10 < 10" "m div 10 div 10 < 10" "m div 100 = m div 10 div 10" by auto
    then show ?thesis
      using 3 by (simp add: pad_zero_def dec.simps [of m] dec.simps [of "m div 10"]
          dec.simps [of "m div 10 div 10"])
  qed
qed

lemma digit_char_less: "a < 10 \<Longrightarrow> b < 10 \<Longrightarrow> digit_char a < digit_char b \<longleftrightarrow> a < b"
  by (simp add: digit_char_def less_char_def)

lemma digit_char_eq: "a < 10 \<Longrightarrow> b < 10 \<Longrightarrow> digit_char a = digit_char b \<longleftrightarrow> a = b"
  by (metis byte_digit_char add_left_cancel)

lemma three_digits_less:
  assumes "a1 < 10" "a2 < 10" "a3 < 10" "b1 < 10" "b2 < 10" "b3 < 10"
    and "100 * a1 + 10 * a2 + a3 < 100 * b1 + 10 * b2 + (b3 :: nat)"
  shows "[digit_char a1, digit_char a2, digit_char a3] < [digit_char b1, digit_char b2, digit_char b3]"
  using assms by (simp add: digit_char_less digit_char_eq) linarith

lemma slot_name_less:
  assumes "0 \<le> i" and "i < j" and "j < 1000"
  shows "slot_name i < slot_name j"
proof -
  define m n where "m = nat i" and "n = nat j"
  then have mn: "m < n" "n < 1000" using assms by auto
  then have "m div 100 < 10" "n div 100 < 10" by auto
  then have "pad_zero 3 (dec m) < pad_zero 3 (dec n)"
    unfolding pad3 [OF mn(2)] pad3 [OF less_trans [OF mn]]
    using mn(1) three_digits [of m] three_digits [of n] by (intro three_digits_less) auto
  then show ?thesis
    using assms by (simp add: slot_name_def fmt_0d_nonneg m_def n_def)
qed

section \<open>Bounded texts\<close>

definition safeLeaseText :: "string \<Rightarrow> nat \<Rightarrow> bool" where
  "safeLeaseText value maximum \<longleftrightarrow>
     length value \<le> maximum \<and> \<not> ContainsAny value [CHR 0x00, CHR 0x0D, CHR 0x0A, CHR 0x09]"

text \<open>\<open>strings.Contains\<close>\<close>

definition Contains :: "string \<Rightarrow> string \<Rightarrow> bool" where
  "Contains s sub = list_ex (\<lambda>t. prefix sub t) (suffixes s)"

definition safeLeaseLabel :: "string \<Rightarrow> nat \<Rightarrow> bool" where
  "safeLeaseLabel value maximum =
     (if value = '''' \<or> length value > maximum then False
      else if HasPrefix value ''/'' \<or> HasSuffix value ''/'' \<or> Contains value ''//'' then False
      else if list_ex (\<lambda>component. component = ''.'' \<or> component = ''..'') (Split value slash) then False
      else list_all (\<lambda>character. 97 \<le> character \<and> character \<le> 122 \<or> 65 \<le> character \<and> character \<le> 90
             \<or> 48 \<le> character \<and> character \<le> 57
             \<or> character \<in> set (map byte ''._/+-:'')) (runes value))"

definition safeCanonicalYard :: "string \<Rightarrow> bool" where
  "safeCanonicalYard value =
     (if value = '''' \<or> length value > 32 then False
      else if \<not> is_lower (hd value) \<and> \<not> is_digit (hd value) then False
      else list_all (\<lambda>character. 97 \<le> character \<and> character \<le> 122 \<or> 48 \<le> character \<and> character \<le> 57
             \<or> character = 95 \<or> character = 45) (runes value))"

text \<open>
  \<open>boundedReason\<close>: \<open>strings.Map\<close> drops the control characters and writes an invalid byte as the
  replacement character; the byte slice then bounds the length.
\<close>

definition boundedReason :: "string \<Rightarrow> string" where
  "boundedReason value =
     take 240 (concat (map (\<lambda>(r, bs). if r < 32 \<or> r = 127 then []
                             else if r = rune_error then [CHR 0xEF, CHR 0xBF, CHR 0xBD] else bs) (chunks value)))"

definition capabilityDigest :: "string \<Rightarrow> string" where
  "capabilityDigest value = sha256_hex value"

definition recoveryDelay :: "nat \<Rightarrow> duration" where
  "recoveryDelay attempt =
     (if attempt = 0 \<or> attempt = 1 then minute
      else if attempt = 2 then 5 * minute
      else if attempt = 3 then 15 * minute
      else hour)"

definition label_byte :: "char \<Rightarrow> bool" where
  "label_byte c \<longleftrightarrow> is_lower c \<or> is_upper c \<or> is_digit c \<or> c \<in> set ''._/+-:''"

lemma byte_in_set: "byte c \<in> set (map byte cs) \<longleftrightarrow> c \<in> set cs"
  by (auto simp: byte_def image_iff)

lemma safeLeaseLabel_bytes:
  "safeLeaseLabel value maximum \<Longrightarrow> value \<noteq> '''' \<and> length value \<le> maximum \<and> (\<forall>c \<in> set value. label_byte c)"
proof -
  let ?P = "\<lambda>r. 97 \<le> r \<and> r \<le> 122 \<or> 65 \<le> r \<and> r \<le> 90 \<or> 48 \<le> r \<and> r \<le> 57 \<or> r \<in> set (map byte ''._/+-:'')"
  assume "safeLeaseLabel value maximum"
  then have a: "list_all ?P (runes value)" and "value \<noteq> ''''" "length value \<le> maximum"
    by (auto simp: safeLeaseLabel_def split: if_split_asm)
  have "?P r \<Longrightarrow> r < 128" for r by (auto simp: byte_def)
  from iffD1 [OF range_ascii a] this have "all_bytes (\<lambda>c. ?P (byte c)) value" by blast
  then have "\<forall>c \<in> set value. label_byte c"
    unfolding all_bytes_iff byte_in_set label_byte_def is_lower_def is_upper_def is_digit_def by auto
  with \<open>value \<noteq> ''''\<close> \<open>length value \<le> maximum\<close> show ?thesis by blast
qed

lemma label_byte_marks: "\<not> label_byte CHR ''@''" "\<not> label_byte CHR ''#''"
  by (simp_all add: label_byte_def byte_class_defs)

section \<open>Attribution\<close>

record LeaseContext =
  lc_SchemaVersion :: int
  lc_Yard :: string
  lc_Project :: string
  lc_Checkout :: string
  lc_Run :: string
  lc_Purpose :: string

datatype attribution_error =
    UnsupportedAttributionSchema | InvalidSchema1 | InvalidSchema2 | InvalidAttribution string
  | InvalidCheckout | InvalidYard | InvalidCanonicalProject | AttributionTooLong

definition contextDisplayLabel :: "LeaseContext \<Rightarrow> string" where
  "contextDisplayLabel c =
     (if lc_SchemaVersion c = 2 then lc_Project c @ ''#'' @ lc_Run c
      else lc_Project c @ ''@'' @ lc_Checkout c @ ''#'' @ lc_Run c)"

definition validateLeaseContext :: "LeaseContext \<Rightarrow> attribution_error err" where
  "validateLeaseContext c =
     (if lc_SchemaVersion c \<noteq> 1 \<and> lc_SchemaVersion c \<noteq> 2 then Some UnsupportedAttributionSchema
      else if lc_SchemaVersion c = 1 \<and> (lc_Yard c \<noteq> '''' \<or> lc_Checkout c = '''') then Some InvalidSchema1
      else if lc_SchemaVersion c \<noteq> 1 \<and> (lc_Yard c = '''' \<or> lc_Checkout c \<noteq> '''') then Some InvalidSchema2
      else if \<not> safeLeaseLabel (lc_Project c) 50 then Some (InvalidAttribution ''project'')
      else if \<not> safeLeaseLabel (lc_Run c) 24 then Some (InvalidAttribution ''run'')
      else if \<not> safeLeaseLabel (lc_Purpose c) 80 then Some (InvalidAttribution ''purpose'')
      else if lc_SchemaVersion c = 1 \<and> \<not> safeLeaseLabel (lc_Checkout c) 24 then Some InvalidCheckout
      else if lc_SchemaVersion c = 2 \<and> \<not> safeCanonicalYard (lc_Yard c) then Some InvalidYard
      else if lc_SchemaVersion c = 2 \<and> \<not> SafeProjectName (lc_Project c) then Some InvalidCanonicalProject
      else if \<not> safeLeaseText (contextDisplayLabel c) 80 then Some AttributionTooLong
      else None)"

text \<open>\<open>strings.LastIndex\<close> of one character.\<close>

definition LastIndex :: "string \<Rightarrow> char \<Rightarrow> int" where
  "LastIndex s c =
     (if c \<in> set s then int (length s) - 1 - int (length (takeWhile (\<lambda>d. d \<noteq> c) (rev s))) else - 1)"

definition legacyLeaseContext :: "string \<Rightarrow> string \<Rightarrow> LeaseContext option" where
  "legacyLeaseContext label purpose =
     (let hash = LastIndex label CHR ''#''; at = LastIndex label CHR ''@'' in
      if at \<le> 0 \<or> hash \<le> at + 1 \<or> hash = int (length label) - 1 then None
      else
        (let context = \<lparr>lc_SchemaVersion = 1, lc_Yard = '''', lc_Project = take (nat at) label,
               lc_Checkout = take (nat (hash - at - 1)) (drop (nat (at + 1)) label),
               lc_Run = drop (nat (hash + 1)) label, lc_Purpose = purpose\<rparr> in
         if validateLeaseContext context \<noteq> None then None else Some context))"

lemma LastIndex_append:
  assumes "c \<notin> set t"
  shows "LastIndex (s @ c # t) c = int (length s)"
proof -
  have "takeWhile (\<lambda>d. d \<noteq> c) (rev t @ c # rev s) = rev t"
    using assms by (subst takeWhile_append2) auto
  then show ?thesis by (simp add: LastIndex_def)
qed

text \<open>
  The display label of a schema-1 attribution is parsed back to exactly that attribution, so the
  legacy label carries the project, checkout and run without loss.
\<close>

theorem legacy_label_roundtrip:
  assumes "validateLeaseContext c = None" and "lc_SchemaVersion c = 1"
  shows "legacyLeaseContext (contextDisplayLabel c) (lc_Purpose c) = Some c"
proof -
  let ?p = "lc_Project c" and ?o = "lc_Checkout c" and ?r = "lc_Run c"
  have v: "safeLeaseLabel ?p 50" "safeLeaseLabel ?r 24" "safeLeaseLabel ?o 24" "lc_Yard c = ''''"
    using assms unfolding validateLeaseContext_def guard_None by auto
  then have ne: "?p \<noteq> ''''" "?r \<noteq> ''''" "?o \<noteq> ''''"
    and marks: "CHR ''@'' \<notin> set ?o" "CHR ''@'' \<notin> set ?r" "CHR ''#'' \<notin> set ?r"
    using label_byte_marks by (auto dest!: safeLeaseLabel_bytes)
  have label: "contextDisplayLabel c = ?p @ CHR ''@'' # ?o @ CHR ''#'' # ?r"
    using assms(2) by (simp add: contextDisplayLabel_def)
  have at: "LastIndex (contextDisplayLabel c) CHR ''@'' = int (length ?p)"
    unfolding label by (rule LastIndex_append) (use marks in auto)
  have "LastIndex ((?p @ CHR ''@'' # ?o) @ CHR ''#'' # ?r) CHR ''#'' = int (length (?p @ CHR ''@'' # ?o))"
    by (rule LastIndex_append) (use marks in auto)
  then have hash: "LastIndex (contextDisplayLabel c) CHR ''#'' = int (length ?p) + 1 + int (length ?o)"
    unfolding label by simp
  have "\<lparr>lc_SchemaVersion = 1, lc_Yard = '''', lc_Project = ?p, lc_Checkout = ?o, lc_Run = ?r,
      lc_Purpose = lc_Purpose c\<rparr> = c"
    using assms(2) v(4) by (cases c) simp
  then show ?thesis
    unfolding legacyLeaseContext_def Let_def at hash
    using ne assms(1) by (simp add: label nat_add_distrib)
qed

theorem legacy_label_roundtrip_witness:
  "legacyLeaseContext ''app@main#r1'' ''tests'' =
     Some \<lparr>lc_SchemaVersion = 1, lc_Yard = '''', lc_Project = ''app'', lc_Checkout = ''main'', lc_Run = ''r1'',
       lc_Purpose = ''tests''\<rparr>"
proof -
  let ?c = "\<lparr>lc_SchemaVersion = 1, lc_Yard = '''', lc_Project = ''app'', lc_Checkout = ''main'', lc_Run = ''r1'',
       lc_Purpose = ''tests''\<rparr>"
  have "validateLeaseContext ?c = None" by code_simp
  from legacy_label_roundtrip [OF this] show ?thesis by (simp add: contextDisplayLabel_def)
qed

section \<open>Environments\<close>

record EnvironmentSpec =
  es_Name :: string
  es_Count :: int
  es_CPU :: int
  es_Memory :: string
  es_Disk :: string
  es_Lifecycle :: string

datatype environment_error =
    InvalidLifecycleOrCPU | InvalidComposition | InvalidMemoryLimit | DiskTooSmall
  | RequiresAmd64 | UnsupportedEnvironment string

text \<open>
  \<open>sizeMiB\<close>: the regular expression \<open>^([1-9][0-9]*)(MiB|GiB)$\<close>, \<open>ParseUint\<close> in 64 bits, and the
  supported range; the multiplication is below \<open>2^41\<close> and does not wrap.
\<close>

definition sizeMiB :: "string \<Rightarrow> int option" where
  "sizeMiB value =
     (let digits = take (length value - 3) value; unit = drop (length value - 3) value in
      if length value < 4 \<or> (unit \<noteq> ''MiB'' \<and> unit \<noteq> ''GiB'') \<or> \<not> all_bytes is_digit digits
          \<or> hd digits = CHR ''0''
      then None
      else if undec digits \<ge> 2 ^ 64 \<or> undec digits = 0 \<or> undec digits > 2 ^ 30 then None
      else
        (let number = (if unit = ''GiB'' then undec digits * 1024 else undec digits) in
         if number > 2 ^ 30 then None else Some (int number)))"

definition EnvironmentSpec_Validate :: "EnvironmentSpec \<Rightarrow> environment_error err" where
  "EnvironmentSpec_Validate spec =
     (if es_Lifecycle spec \<noteq> ''disposable-v1'' \<or> es_CPU spec < 1 then Some InvalidLifecycleOrCPU
      else if (es_Name spec \<noteq> ''subyard-pair'' \<or> es_Count spec \<noteq> 1 \<and> es_Count spec \<noteq> 2)
          \<and> (es_Name spec \<noteq> ''android-test'' \<or> es_Count spec \<noteq> 1)
      then Some InvalidComposition
      else if sizeMiB (es_Memory spec) = None then Some InvalidMemoryLimit
      else case sizeMiB (es_Disk spec) of
        None \<Rightarrow> Some DiskTooSmall
      | Some disk \<Rightarrow> if disk < 10 * 1024 then Some DiskTooSmall else None)"

definition environmentSpecForArch :: "int \<Rightarrow> string \<Rightarrow> string \<Rightarrow> string \<Rightarrow> string
    \<Rightarrow> environment_error + EnvironmentSpec" where
  "environmentSpecForArch cpu memory disk name arch =
     (let spec = \<lparr>es_Name = name, es_Count = 0, es_CPU = cpu, es_Memory = '''', es_Disk = '''',
            es_Lifecycle = ''disposable-v1''\<rparr>;
          check = (\<lambda>s. case EnvironmentSpec_Validate s of None \<Rightarrow> Inr s | Some e \<Rightarrow> Inl e) in
      if name = ''subyard-pair'' then check (spec\<lparr>es_Count := 2, es_Memory := memory, es_Disk := disk\<rparr>)
      else if name = ''android-test''
      then (if arch \<noteq> ''amd64'' then Inl RequiresAmd64
            else check (spec\<lparr>es_Count := 1, es_Memory := ''8GiB'', es_Disk := ''40GiB''\<rparr>))
      else Inl (UnsupportedEnvironment name))"

end
