(* ===== verification/Go_Json.thy ===== *)
theory Go_Json
  imports Go_Format
begin

text \<open>
  \<open>encoding/json\<close>: the text that \<open>json.Marshal\<close> writes for strings, unsigned integers and maps with
  string keys (keys in byte order), with the default HTML escaping.
\<close>

definition json_escape :: "nat \<times> string \<Rightarrow> string" where
  "json_escape p =
     (let r = fst p; bs = snd p; backslash = CHR 0x5C;
          u = (\<lambda>s. backslash # CHR ''u'' # s) in
      if r = 34 \<or> r = 92 then backslash # bs
      else if r = 8 then [backslash, CHR ''b'']
      else if r = 12 then [backslash, CHR ''f'']
      else if r = 10 then [backslash, CHR ''n'']
      else if r = 13 then [backslash, CHR ''r'']
      else if r = 9 then [backslash, CHR ''t'']
      else if r < 32 \<or> r = 60 \<or> r = 62 \<or> r = 38 then u (''00'' @ hex2 r)
      else if r = rune_error \<and> length bs = 1 then u ''fffd''
      else if r = 8232 then u ''2028''
      else if r = 8233 then u ''2029''
      else bs)"

definition json_string :: "string \<Rightarrow> string" where
  "json_string s = [CHR 0x22] @ concat (map json_escape (chunks s)) @ [CHR 0x22]"

definition json_object :: "(string \<times> string) list \<Rightarrow> string" where
  "json_object kvs =
     ''{'' @ Join (map (\<lambda>(k, v). json_string k @ '':'' @ v) (sort_key fst kvs)) '','' @ ''}''"

definition json_array :: "string list \<Rightarrow> string" where
  "json_array vs = ''['' @ Join vs '','' @ '']''"

text \<open>A string without characters to escape is written as it is.\<close>

definition json_plain :: "char \<Rightarrow> bool" where
  "json_plain c \<longleftrightarrow> 32 \<le> byte c \<and> byte c < 128 \<and> byte c \<notin> {34, 92, 60, 62, 38}"

lemma json_string_plain:
  assumes "\<forall>c \<in> set s. json_plain c"
  shows "json_string s = [CHR 0x22] @ s @ [CHR 0x22]"
proof -
  have "is_ascii s" using assms by (auto simp: is_ascii_def json_plain_def)
  then have "map json_escape (chunks s) = map (\<lambda>c. [c]) s"
    using assms by (auto simp: chunks_ascii json_escape_def json_plain_def rune_error_def Let_def)
  then show ?thesis by (simp add: json_string_def)
qed

text \<open>
  What decoding gives for an encoded string: every byte that is not part of a valid encoding has
  become the replacement character; valid strings come back unchanged.
\<close>

definition json_text :: "string \<Rightarrow> string" where
  "json_text s =
     concat (map (\<lambda>(r, bs). if r = rune_error \<and> length bs = 1 then encode_rune rune_error else bs) (chunks s))"

lemma json_text_valid: "ValidString s \<Longrightarrow> json_text s = s"
proof -
  assume "ValidString s"
  then have "map (\<lambda>(r, bs). if r = rune_error \<and> length bs = 1 then encode_rune rune_error else bs) (chunks s)
      = map snd (chunks s)"
    by (auto simp: ValidString_def list_all_iff)
  then show ?thesis unfolding json_text_def by (metis concat_chunks)
qed

lemma json_text_ascii [simp]: "is_ascii s \<Longrightarrow> json_text s = s"
  by (simp add: json_text_valid ValidString_ascii)

section \<open>Values\<close>

text \<open>Structs keep the order of their fields, maps are written with their keys in byte order.\<close>

datatype json =
    JNull
  | JBool bool
  | JInt int
  | JString string
  | JArray "json list"
  | JStruct "(string \<times> json) list"
  | JMap "(string \<times> json) list"

fun json_render :: "json \<Rightarrow> string" where
  "json_render JNull = ''null''"
| "json_render (JBool b) = (if b then ''true'' else ''false'')"
| "json_render (JInt n) = fmt_d n"
| "json_render (JString s) = json_string s"
| "json_render (JArray vs) = json_array (map json_render vs)"
| "json_render (JStruct fs) = ''{'' @ Join (map (\<lambda>(k, v). json_string k @ '':'' @ json_render v) fs) '','' @ ''}''"
| "json_render (JMap fs) = json_object (map (\<lambda>(k, v). (k, json_render v)) fs)"

text \<open>A field with \<open>omitempty\<close>.\<close>

definition omit_empty :: "bool \<Rightarrow> string \<Rightarrow> json \<Rightarrow> (string \<times> json) list" where
  "omit_empty absent k v = (if absent then [] else [(k, v)])"

end
