(* ===== verification/Go_Files.thy ===== *)
theory Go_Files
  imports Go_Lib
begin

text \<open>
  Files that are written and read as a whole.  A file is missing, unreadable, not decodable, or has a
  decoded content; JSON encoding and decoding preserve the records the program writes.  An atomic
  write leaves the old file, replaces it, or replaces it and reports that the directory could not be
  synced.  Functions that work on such state and may fail return the state beside an error or a
  value; what they changed before an error stays.
\<close>

datatype 'a doc = NoFile | Unreadable | Garbled | Content 'a

datatype write_outcome = Written | NotWritten | WrittenNotSynced

type_synonym ('s, 'e, 'a) io = "'s \<Rightarrow> 's \<times> ('e + 'a)"

definition io_return :: "'a \<Rightarrow> ('s, 'e, 'a) io" where
  "io_return a s = (s, Inr a)"

definition io_fail :: "'e \<Rightarrow> ('s, 'e, 'a) io" where
  "io_fail e s = (s, Inl e)"

definition io_lift :: "('s \<Rightarrow> 'e + 'a) \<Rightarrow> ('s, 'e, 'a) io" where
  "io_lift f s = (s, f s)"

definition io_bind :: "('s, 'e, 'a) io \<Rightarrow> ('a \<Rightarrow> ('s, 'e, 'b) io) \<Rightarrow> ('s, 'e, 'b) io" where
  "io_bind m f s = (case m s of (t, Inl e) \<Rightarrow> (t, Inl e) | (t, Inr a) \<Rightarrow> f a t)"

lemmas io_defs = io_return_def io_fail_def io_lift_def io_bind_def

lemma io_simps [simp]:
  "io_return a s = (s, Inr a)" "io_fail e s = (s, Inl e)" "io_lift f s = (s, f s)"
  by (simp_all add: io_defs)

lemma io_bind_ok: "m s = (t, Inr a) \<Longrightarrow> io_bind m f s = f a t"
  by (simp add: io_bind_def)

lemma io_bind_err: "m s = (t, Inl e) \<Longrightarrow> io_bind m f s = (t, Inl e)"
  by (simp add: io_bind_def)

lemma io_bind_InrE:
  assumes "io_bind m f s = (u, Inr b)"
  obtains t a where "m s = (t, Inr a)" "f a t = (u, Inr b)"
  using assms by (auto simp: io_bind_def split: prod.split_asm sum.split_asm)

lemma io_bind_cases:
  assumes "io_bind m f s = (u, r)"
  obtains (err) e where "m s = (u, Inl e)" "r = Inl e"
  | (ok) t a where "m s = (t, Inr a)" "f a t = (u, r)"
  using assms by (auto simp: io_bind_def split: prod.split_asm sum.split_asm)

lemma fst_io_bind_return [simp]: "fst (io_bind m (\<lambda>a. io_return (g a)) s) = fst (m s)"
  by (simp add: io_bind_def split: prod.split sum.split)

lemma io_bind_lift: "io_bind (io_lift g) f s = (case g s of Inl e \<Rightarrow> (s, Inl e) | Inr a \<Rightarrow> f a s)"
  by (simp add: io_bind_def split: sum.split)

lemma io_bind_return [simp]: "io_bind m io_return = m"
  by (rule ext) (simp add: io_bind_def split: prod.split sum.split)

lemma io_bind_assoc: "io_bind (io_bind m f) g = io_bind m (\<lambda>a. io_bind (f a) g)"
  by (rule ext) (simp add: io_bind_def split: prod.split sum.split)

text \<open>A relation between the states before and after that holds for the steps holds for the whole.\<close>

definition keeps :: "('s \<Rightarrow> 's \<Rightarrow> bool) \<Rightarrow> ('s, 'e, 'a) io \<Rightarrow> bool" where
  "keeps R m \<longleftrightarrow> (\<forall>s. R s (fst (m s)))"

lemma keeps_return [intro, simp]: "reflp R \<Longrightarrow> keeps R (io_return a)"
  by (simp add: keeps_def reflpD)

lemma keeps_fail [intro, simp]: "reflp R \<Longrightarrow> keeps R (io_fail e)"
  by (simp add: keeps_def reflpD)

lemma keeps_lift [intro, simp]: "reflp R \<Longrightarrow> keeps R (io_lift f)"
  by (simp add: keeps_def reflpD)

lemma keeps_bind:
  assumes "transp R" and "keeps R m" and "\<And>a. keeps R (f a)"
  shows "keeps R (io_bind m f)"
  unfolding keeps_def
proof
  fix s
  obtain t r where m: "m s = (t, r)" by force
  then have t: "R s t" using assms(2) unfolding keeps_def by (metis fst_conv)
  show "R s (fst (io_bind m f s))"
  proof (cases r)
    case (Inl e)
    with m t show ?thesis by (simp add: io_bind_def)
  next
    case (Inr a)
    have "R t (fst (f a t))" using assms(3) by (simp add: keeps_def)
    with t assms(1) have "R s (fst (f a t))" by (blast dest: transpD)
    with m Inr show ?thesis by (simp add: io_bind_def)
  qed
qed

lemma keepsD: "keeps R m \<Longrightarrow> m s = (t, r) \<Longrightarrow> R s t"
  by (metis keeps_def fst_conv)

text \<open>Loops over such functions, and a change of the type of errors.\<close>

fun io_iter :: "('a \<Rightarrow> ('s, 'e, unit) io) \<Rightarrow> 'a list \<Rightarrow> ('s, 'e, unit) io" where
  "io_iter f [] = io_return ()"
| "io_iter f (x # xs) = io_bind (f x) (\<lambda>_. io_iter f xs)"

fun io_map :: "('a \<Rightarrow> ('s, 'e, 'b) io) \<Rightarrow> 'a list \<Rightarrow> ('s, 'e, 'b list) io" where
  "io_map f [] = io_return []"
| "io_map f (x # xs) = io_bind (f x) (\<lambda>y. io_bind (io_map f xs) (\<lambda>ys. io_return (y # ys)))"

definition io_error :: "('e \<Rightarrow> 'f) \<Rightarrow> ('s, 'e, 'a) io \<Rightarrow> ('s, 'f, 'a) io" where
  "io_error g m s = (case m s of (t, Inl e) \<Rightarrow> (t, Inl (g e)) | (t, Inr a) \<Rightarrow> (t, Inr a))"

lemma io_error_Inr [simp]: "io_error g m s = (t, Inr a) \<longleftrightarrow> m s = (t, Inr a)"
  by (auto simp: io_error_def split: prod.splits sum.splits)

lemma fst_io_error [simp]: "fst (io_error g m s) = fst (m s)"
  by (simp add: io_error_def split: prod.split sum.split)

end
