(* ===== verification/Lease_Pool.thy ===== *)
theory Lease_Pool
  imports Lease_Text Go_Json Go_Files Machines
begin

text \<open>
  The in-memory pool of the test-VM lease broker, \<open>internal/adapters/testvmsruntime/lease.go\<close>: slots,
  grants, and the body of every operation that \<open>LeaseStore\<close> runs under its lock, with the bodies of
  the two critical sections of \<open>RetireLegacySlot\<close> (\<open>lifecycle.go\<close>) and of the hand-off of an acquire
  session (\<open>acquire_session.go\<close>).

  What the operations take from outside is the \<open>lease_env\<close> argument: the successive readings of the
  clock, which acquiring processes are alive at the successive checks, the random tokens
  (\<^const>\<open>None\<close> when the source fails) and the outcome of the file writes.  Counters are 64-bit.
\<close>

section \<open>Data\<close>

datatype SlotState =
    SlotAvailable | SlotProvisioning | SlotHeld | SlotDraining | SlotQuarantined | SlotRecovering
  | SlotUnavailable | OtherSlotState string

record AcquireOwner =
  ao_PID :: int
  ao_Start :: string
  ao_Boot :: string

record LeaseOwnerSnapshot =
  os_DisplayLabel :: string
  os_Yard :: string
  os_Project :: string
  os_Run :: string
  os_Purpose :: string
  os_AcquiredAt :: time
  os_ExpiresAt :: time

record LeaseSlot =
  sl_AcquireOwner :: "AcquireOwner option"
  sl_Environment :: "EnvironmentSpec option"
  sl_BaseFingerprint :: string
  sl_Reserved :: bool
  sl_LegacyRetained :: bool
  sl_SlotID :: string
  sl_ResourceGeneration :: nat
  sl_LeaseEpoch :: nat
  sl_State :: SlotState
  sl_ClientID :: string
  sl_ControllerFingerprint :: string
  sl_DisplayLabel :: string
  sl_Yard :: string
  sl_Project :: string
  sl_Checkout :: string
  sl_Run :: string
  sl_Purpose :: string
  sl_LeaseID :: string
  sl_CapabilityHash :: string
  sl_AcquiredAt :: time
  sl_ProvisioningStartedAt :: time
  sl_ReadyAt :: time
  sl_LastHeartbeatAt :: time
  sl_ExpiresAt :: time
  sl_FailureReason :: string
  sl_LastFailureEventID :: string
  sl_IncidentID :: string
  sl_RecoveryAttempt :: nat
  sl_NextRecoveryAt :: time
  sl_RecoveryStartedAt :: time

record LeasePool =
  lp_AdmissionClosed :: bool
  lp_SchemaVersion :: int
  lp_ResourceType :: string
  lp_ResourceID :: string
  lp_Slots :: "LeaseSlot list"

record LeaseTarget =
  lt_Selector :: int
  lt_Name :: string
  lt_Address :: string
  lt_HostKeyType :: string
  lt_HostKeyBlob :: string

record LeaseGrant =
  lg_Environment :: "EnvironmentSpec option"
  lg_BaseFingerprint :: string
  lg_SlotID :: string
  lg_ResourceGeneration :: nat
  lg_LeaseID :: string
  lg_Capability :: string
  lg_LeaseEpoch :: nat
  lg_ExpiresAt :: time
  lg_Context :: "LeaseContext option"
  lg_DataUser :: string
  lg_Targets :: "LeaseTarget list"

record LeaseIdentity =
  li_SlotID :: string
  li_ResourceGeneration :: nat
  li_LeaseEpoch :: nat

record LeaseStore =
  st_AcquireOwner :: "AcquireOwner option"
  st_SlotCount :: int

record lease_env =
  en_Clock :: "nat \<Rightarrow> time"
  en_Alive :: "nat \<Rightarrow> AcquireOwner \<Rightarrow> bool"
  en_LeaseID :: "string option"
  en_Capability :: "string option"
  en_JournalWrite :: write_outcome
  en_PoolWrite :: write_outcome

datatype lease_error =
    SlotCountNotPositive
  | CorruptLeaseState
  | UnsupportedLeaseState
  | InvalidSlot string
  | InvalidContext attribution_error
  | InvalidEnvironment environment_error
  | InvalidClientID
  | InvalidFingerprint
  | InvalidDisplayMetadata
  | SlotNotAvailable SlotState string "LeaseOwnerSnapshot option"
  | NoRandomness
  | LeaseLost
  | UnknownSlot string
  | WrongState string SlotState
  | IdentityRequired
  | LeaseTargetStale
  | InvalidIncidentIdentity
  | CauseRequired
  | InvalidFailureEvent
  | CannotShrink string SlotState
  | ShrinkNeedsReconciliation
  | LegacyRetirementRequired string
  | ResizeNotPrepared
  | NotFencedForResize string
  | NoLegacyData
  | StateChanged
  | ReadFailed
  | WriteFailed

type_synonym 'r pool_op = "LeasePool \<Rightarrow> lease_error + LeasePool \<times> 'r"
type_synonym 'r slot_op = "LeaseSlot \<Rightarrow> lease_error + LeaseSlot \<times> 'r"

section \<open>Limits\<close>

definition LeaseTTL :: duration where
  "LeaseTTL = 20 * minute"

text \<open>Two guests, thirty minutes of toolchain installation each, and the safety margin.\<close>

definition ProvisioningTTL :: duration where
  "ProvisioningTTL = 2 * (30 * minute) + 30 * minute"

section \<open>Shared steps\<close>

definition clearLease :: "LeaseSlot \<Rightarrow> LeaseSlot" where
  "clearLease slot = slot
     \<lparr>sl_Environment := None, sl_AcquireOwner := None, sl_BaseFingerprint := '''', sl_Reserved := False,
      sl_ClientID := '''', sl_ControllerFingerprint := '''', sl_DisplayLabel := '''', sl_Yard := '''',
      sl_Project := '''', sl_Checkout := '''', sl_Run := '''', sl_Purpose := '''', sl_LeaseID := '''',
      sl_CapabilityHash := '''', sl_AcquiredAt := 0, sl_ProvisioningStartedAt := 0, sl_ReadyAt := 0,
      sl_LastHeartbeatAt := 0, sl_ExpiresAt := 0, sl_FailureReason := '''', sl_LastFailureEventID := '''',
      sl_IncidentID := '''', sl_RecoveryAttempt := 0, sl_NextRecoveryAt := 0, sl_RecoveryStartedAt := 0\<rparr>"

text \<open>A slot of a new pool, as the composite literals of the source leave it.\<close>

definition new_slot :: "int \<Rightarrow> LeaseSlot" where
  "new_slot index =
     \<lparr>sl_AcquireOwner = None, sl_Environment = None, sl_BaseFingerprint = '''', sl_Reserved = False,
      sl_LegacyRetained = False, sl_SlotID = slot_name index, sl_ResourceGeneration = 1,
      sl_LeaseEpoch = 0, sl_State = SlotAvailable, sl_ClientID = '''', sl_ControllerFingerprint = '''',
      sl_DisplayLabel = '''', sl_Yard = '''', sl_Project = '''', sl_Checkout = '''', sl_Run = '''',
      sl_Purpose = '''', sl_LeaseID = '''', sl_CapabilityHash = '''', sl_AcquiredAt = 0,
      sl_ProvisioningStartedAt = 0, sl_ReadyAt = 0, sl_LastHeartbeatAt = 0, sl_ExpiresAt = 0,
      sl_FailureReason = '''', sl_LastFailureEventID = '''', sl_IncidentID = '''', sl_RecoveryAttempt = 0,
      sl_NextRecoveryAt = 0, sl_RecoveryStartedAt = 0\<rparr>"

definition heartbeatExpiredReason :: string where
  "heartbeatExpiredReason = ''heartbeat expired; cleanup required''"

definition provisioningExpiredReason :: string where
  "provisioningExpiredReason = ''provisioning deadline expired; cleanup required''"

text \<open>The body of the loop of \<open>expireStale\<close>.\<close>

definition expire_slot :: "(AcquireOwner \<Rightarrow> bool) \<Rightarrow> time \<Rightarrow> LeaseSlot \<Rightarrow> LeaseSlot" where
  "expire_slot alive now slot =
     (if (case sl_AcquireOwner slot of None \<Rightarrow> False | Some owner \<Rightarrow>
            (sl_State slot = SlotProvisioning \<or> sl_State slot = SlotHeld) \<and> \<not> alive owner)
      then slot\<lparr>sl_State := SlotDraining, sl_FailureReason := ''acquire requester lost; cleanup required''\<rparr>
      else if sl_ExpiresAt slot = 0 \<or> now < sl_ExpiresAt slot then slot
      else if sl_State slot = SlotHeld
      then slot\<lparr>sl_State := SlotDraining, sl_FailureReason := heartbeatExpiredReason\<rparr>
      else if sl_State slot = SlotProvisioning
      then slot\<lparr>sl_State := SlotDraining, sl_FailureReason := provisioningExpiredReason\<rparr>
      else slot)"

definition expireStale :: "(AcquireOwner \<Rightarrow> bool) \<Rightarrow> time \<Rightarrow> LeasePool \<Rightarrow> LeasePool" where
  "expireStale alive now pool = pool\<lparr>lp_Slots := map (expire_slot alive now) (lp_Slots pool)\<rparr>"

definition findSlot :: "LeasePool \<Rightarrow> string \<Rightarrow> nat option" where
  "findSlot pool slotID =
     find_first (\<lambda>i. sl_SlotID (lp_Slots pool ! i) = slotID) [0..<length (lp_Slots pool)]"

text \<open>An operation on the slot \<open>findSlot\<close> points to.\<close>

definition with_slot :: "string \<Rightarrow> 'r slot_op \<Rightarrow> 'r pool_op" where
  "with_slot slotID f pool =
     (case findSlot pool slotID of
        None \<Rightarrow> Inl (UnknownSlot slotID)
      | Some i \<Rightarrow>
          (case f (lp_Slots pool ! i) of
             Inl e \<Rightarrow> Inl e
           | Inr (slot, r) \<Rightarrow> Inr (pool\<lparr>lp_Slots := (lp_Slots pool)[i := slot]\<rparr>, r)))"

definition owned :: "LeaseGrant \<Rightarrow> 'r slot_op \<Rightarrow> 'r slot_op" where
  "owned grant mutate slot =
     (if sl_LeaseID slot \<noteq> lg_LeaseID grant \<or> sl_LeaseEpoch slot \<noteq> lg_LeaseEpoch grant
          \<or> sl_CapabilityHash slot = '''' \<or> sl_CapabilityHash slot \<noteq> capabilityDigest (lg_Capability grant)
      then Inl LeaseLost else mutate slot)"

text \<open>The pool operation of \<open>mutateOwned\<close>.\<close>

definition mutateOwned :: "LeaseGrant \<Rightarrow> 'r slot_op \<Rightarrow> 'r pool_op" where
  "mutateOwned grant mutate = with_slot (lg_SlotID grant) (owned grant mutate)"

definition slotMatchesLeaseIdentity :: "LeaseSlot \<Rightarrow> LeaseIdentity \<Rightarrow> bool" where
  "slotMatchesLeaseIdentity slot expected \<longleftrightarrow>
     sl_SlotID slot = li_SlotID expected
     \<and> sl_ResourceGeneration slot = li_ResourceGeneration expected
     \<and> sl_LeaseEpoch slot = li_LeaseEpoch expected"

definition LeaseIdentity_validate :: "LeaseIdentity \<Rightarrow> lease_error err" where
  "LeaseIdentity_validate identity =
     (if \<not> brokerSlotID (li_SlotID identity) \<or> li_ResourceGeneration identity = 0 \<or> li_LeaseEpoch identity = 0
      then Some IdentityRequired else None)"

section \<open>Acquiring\<close>

fun unavailableSlotReason :: "SlotState \<Rightarrow> string" where
  "unavailableSlotReason SlotHeld = ''busy''"
| "unavailableSlotReason SlotProvisioning = ''provisioning''"
| "unavailableSlotReason SlotDraining = ''draining''"
| "unavailableSlotReason SlotQuarantined = ''quarantined''"
| "unavailableSlotReason SlotRecovering = ''recovering''"
| "unavailableSlotReason _ = ''unavailable''"

definition leaseOwnerSnapshot :: "LeaseSlot \<Rightarrow> LeaseOwnerSnapshot option" where
  "leaseOwnerSnapshot slot =
     (if sl_State slot \<noteq> SlotHeld then None
      else Some \<lparr>os_DisplayLabel = sl_DisplayLabel slot, os_Yard = sl_Yard slot,
        os_Project = sl_Project slot, os_Run = sl_Run slot, os_Purpose = sl_Purpose slot,
        os_AcquiredAt = sl_AcquiredAt slot, os_ExpiresAt = sl_ExpiresAt slot\<rparr>)"

record acquire_request =
  aq_ClientID :: string
  aq_Fingerprint :: string
  aq_Label :: string
  aq_Purpose :: string
  aq_Context :: "LeaseContext option"
  aq_Slot :: string
  aq_Environment :: "EnvironmentSpec option"

definition check_request :: "acquire_request \<Rightarrow> lease_error err" where
  "check_request q =
     (if aq_Slot q = '''' then Some (InvalidSlot (aq_Slot q))
      else if \<not> safeLeaseText (aq_ClientID q) 96 \<or> aq_ClientID q = '''' then Some InvalidClientID
      else if \<not> safeLeaseText (aq_Fingerprint q) 128 \<or> aq_Fingerprint q = '''' then Some InvalidFingerprint
      else if \<not> safeLeaseText (aq_Label q) 80 \<or> \<not> safeLeaseText (aq_Purpose q) 160
      then Some InvalidDisplayMetadata
      else if aq_Label q \<noteq> '''' \<and> aq_Context q = None \<and> \<not> safeLeaseLabel (aq_Label q) 80
          \<or> aq_Purpose q \<noteq> '''' \<and> \<not> safeLeaseLabel (aq_Purpose q) 80
      then Some InvalidDisplayMetadata
      else None)"

text \<open>The slot after it was granted, in the order of the assignments.\<close>

definition grant_slot :: "LeaseStore \<Rightarrow> acquire_request \<Rightarrow> time \<Rightarrow> string \<Rightarrow> string \<Rightarrow> LeaseSlot \<Rightarrow> LeaseSlot" where
  "grant_slot store q now leaseID capability slot =
     (let slot1 = (case aq_Environment q of
            None \<Rightarrow> slot
          | Some spec \<Rightarrow> slot\<lparr>sl_Environment := Some spec,
                             sl_ResourceGeneration := succ_u64 (sl_ResourceGeneration slot)\<rparr>);
          slot2 = slot1\<lparr>sl_LeaseEpoch := succ_u64 (sl_LeaseEpoch slot1), sl_State := SlotProvisioning,
            sl_AcquireOwner := st_AcquireOwner store, sl_ClientID := aq_ClientID q,
            sl_ControllerFingerprint := aq_Fingerprint q, sl_DisplayLabel := aq_Label q\<rparr>;
          slot3 = (case aq_Context q of
            None \<Rightarrow> slot2
          | Some c \<Rightarrow> slot2\<lparr>sl_Yard := lc_Yard c, sl_Project := lc_Project c,
                           sl_Checkout := lc_Checkout c, sl_Run := lc_Run c\<rparr>) in
      slot3\<lparr>sl_Purpose := aq_Purpose q, sl_LeaseID := leaseID,
        sl_CapabilityHash := capabilityDigest capability, sl_AcquiredAt := now,
        sl_ProvisioningStartedAt := now, sl_LastHeartbeatAt := now,
        sl_ExpiresAt := now + ProvisioningTTL, sl_FailureReason := '''',
        sl_LastFailureEventID := '''', sl_IncidentID := '''', sl_RecoveryAttempt := 0,
        sl_NextRecoveryAt := 0, sl_RecoveryStartedAt := 0\<rparr>)"

definition acquire_slot_op :: "LeaseStore \<Rightarrow> lease_env \<Rightarrow> acquire_request \<Rightarrow> LeaseGrant slot_op" where
  "acquire_slot_op store env q slot =
     (if sl_State slot \<noteq> SlotAvailable
      then Inl (SlotNotAvailable (sl_State slot) (unavailableSlotReason (sl_State slot)) (leaseOwnerSnapshot slot))
      else case en_LeaseID env of
        None \<Rightarrow> Inl NoRandomness
      | Some leaseID \<Rightarrow>
          (case en_Capability env of
             None \<Rightarrow> Inl NoRandomness
           | Some capability \<Rightarrow>
               (let slot' = grant_slot store q (en_Clock env 1) leaseID capability slot in
                Inr (slot', \<lparr>lg_Environment = sl_Environment slot', lg_BaseFingerprint = '''',
                  lg_SlotID = sl_SlotID slot', lg_ResourceGeneration = sl_ResourceGeneration slot',
                  lg_LeaseID = leaseID, lg_Capability = capability,
                  lg_LeaseEpoch = sl_LeaseEpoch slot', lg_ExpiresAt = sl_ExpiresAt slot',
                  lg_Context = aq_Context q, lg_DataUser = '''', lg_Targets = []\<rparr>))))"

definition acquire_op :: "LeaseStore \<Rightarrow> lease_env \<Rightarrow> acquire_request \<Rightarrow> LeaseGrant pool_op" where
  "acquire_op store env q pool =
     (let pool1 = expireStale (en_Alive env 1) (en_Clock env 1) pool in
      if lp_AdmissionClosed pool1 then Inl (SlotNotAvailable SlotUnavailable ''unavailable'' None)
      else case with_slot (aq_Slot q) (acquire_slot_op store env q) pool1 of
        Inl (UnknownSlot _) \<Rightarrow> Inl (InvalidSlot (aq_Slot q))
      | r \<Rightarrow> r)"

section \<open>Operations of the lease holder\<close>

definition abort_slot :: "unit slot_op" where
  "abort_slot slot =
     (if sl_State slot \<noteq> SlotProvisioning then Inl LeaseLost
      else Inr ((clearLease slot)\<lparr>sl_State := SlotAvailable\<rparr>, ()))"

definition held_slot :: "time \<Rightarrow> time slot_op" where
  "held_slot now slot =
     (if sl_State slot \<noteq> SlotProvisioning then Inl (WrongState (sl_SlotID slot) (sl_State slot))
      else Inr (slot\<lparr>sl_State := SlotHeld, sl_ReadyAt := now, sl_LastHeartbeatAt := now,
             sl_ExpiresAt := now + LeaseTTL\<rparr>, now + LeaseTTL))"

definition renew_slot :: "time \<Rightarrow> time slot_op" where
  "renew_slot now slot =
     (if sl_State slot \<noteq> SlotHeld \<and> sl_State slot \<noteq> SlotProvisioning then Inl LeaseLost
      else Inr (slot\<lparr>sl_LastHeartbeatAt := now, sl_ExpiresAt := now + LeaseTTL\<rparr>, now + LeaseTTL))"

definition drain_slot :: "unit slot_op" where
  "drain_slot slot =
     (if sl_State slot = SlotDraining then Inr (slot, ())
      else if sl_State slot \<noteq> SlotHeld \<and> sl_State slot \<noteq> SlotProvisioning then Inl LeaseLost
      else Inr (slot\<lparr>sl_State := SlotDraining\<rparr>, ()))"

definition quarantine_slot :: "string \<Rightarrow> time \<Rightarrow> unit slot_op" where
  "quarantine_slot cause now slot =
     (if sl_State slot = SlotDraining then Inl LeaseLost
      else Inr (slot\<lparr>sl_State := SlotQuarantined, sl_FailureReason := boundedReason cause,
             sl_NextRecoveryAt := now\<rparr>, ()))"

definition handoff_slot :: "unit slot_op" where
  "handoff_slot slot =
     (if sl_State slot \<noteq> SlotHeld then Inl LeaseLost else Inr (slot\<lparr>sl_AcquireOwner := None\<rparr>, ()))"

definition forget_legacy_slot :: "unit slot_op" where
  "forget_legacy_slot slot = Inr (slot\<lparr>sl_LegacyRetained := False\<rparr>, ())"

section \<open>Operations of the broker\<close>

definition finish_drain_slot :: "string option \<Rightarrow> time \<Rightarrow> unit slot_op" where
  "finish_drain_slot stopErr now slot =
     (if sl_State slot = SlotAvailable \<and> stopErr = None then Inr (slot, ())
      else if sl_State slot \<noteq> SlotDraining then Inl (WrongState (sl_SlotID slot) (sl_State slot))
      else case stopErr of
        Some e \<Rightarrow> Inr (slot\<lparr>sl_State := SlotQuarantined, sl_FailureReason := boundedReason e,
                         sl_NextRecoveryAt := now\<rparr>, ())
      | None \<Rightarrow> Inr ((clearLease slot)\<lparr>sl_State := SlotAvailable\<rparr>, ()))"

definition begin_drain :: "string \<Rightarrow> LeaseSlot \<Rightarrow> LeaseSlot" where
  "begin_drain reason slot =
     (if sl_State slot \<noteq> SlotHeld \<and> sl_State slot \<noteq> SlotProvisioning then slot
      else slot\<lparr>sl_State := SlotDraining, sl_FailureReason := boundedReason reason\<rparr>)"

definition drain_all_op :: "string \<Rightarrow> unit pool_op" where
  "drain_all_op reason pool = Inr (pool\<lparr>lp_Slots := map (begin_drain reason) (lp_Slots pool)\<rparr>, ())"

definition drain_named_slot :: "string \<Rightarrow> bool slot_op" where
  "drain_named_slot reason slot =
     (case sl_State slot of
        SlotAvailable \<Rightarrow> Inr (slot, False)
      | SlotHeld \<Rightarrow> Inr (begin_drain reason slot, True)
      | SlotProvisioning \<Rightarrow> Inr (begin_drain reason slot, True)
      | SlotDraining \<Rightarrow> Inr (slot, True)
      | state \<Rightarrow> Inl (WrongState (sl_SlotID slot) state))"

definition expected :: "LeaseIdentity \<Rightarrow> 'r slot_op \<Rightarrow> 'r slot_op" where
  "expected identity f slot =
     (if \<not> slotMatchesLeaseIdentity slot identity then Inl LeaseTargetStale else f slot)"

definition expected_drain_op :: "LeaseIdentity \<Rightarrow> string \<Rightarrow> bool pool_op" where
  "expected_drain_op identity reason pool =
     (case LeaseIdentity_validate identity of
        Some e \<Rightarrow> Inl e
      | None \<Rightarrow> with_slot (li_SlotID identity) (expected identity (drain_named_slot reason)) pool)"

definition start_recovery :: "time \<Rightarrow> LeaseSlot \<Rightarrow> LeaseSlot" where
  "start_recovery now slot =
     slot\<lparr>sl_State := SlotRecovering, sl_RecoveryAttempt := succ_u64 (sl_RecoveryAttempt slot),
          sl_RecoveryStartedAt := now, sl_NextRecoveryAt := 0\<rparr>"

definition scheduled_recovery_slot :: "bool \<Rightarrow> time \<Rightarrow> (LeaseSlot option \<times> bool) slot_op" where
  "scheduled_recovery_slot force now slot =
     (if sl_State slot = SlotRecovering then Inr (slot, None, False)
      else if sl_State slot \<noteq> SlotQuarantined then Inl (WrongState (sl_SlotID slot) (sl_State slot))
      else if \<not> force \<and> sl_NextRecoveryAt slot \<noteq> 0 \<and> now < sl_NextRecoveryAt slot
      then Inr (slot, Some slot, False)
      else Inr (start_recovery now slot, Some (start_recovery now slot), True))"

definition recovery_slot :: "time \<Rightarrow> (LeaseSlot \<times> bool) slot_op" where
  "recovery_slot now slot =
     (case sl_State slot of
        SlotAvailable \<Rightarrow> Inr (slot, slot, False)
      | SlotRecovering \<Rightarrow> Inr (slot, slot, False)
      | SlotQuarantined \<Rightarrow> Inr (start_recovery now slot, start_recovery now slot, True)
      | state \<Rightarrow> Inl (WrongState (sl_SlotID slot) state))"

definition expected_recovery_op :: "LeaseIdentity \<Rightarrow> time \<Rightarrow> (LeaseSlot \<times> bool) pool_op" where
  "expected_recovery_op identity now pool =
     (case LeaseIdentity_validate identity of
        Some e \<Rightarrow> Inl e
      | None \<Rightarrow> with_slot (li_SlotID identity) (expected identity (recovery_slot now)) pool)"

definition incident_slot :: "string \<Rightarrow> string \<Rightarrow> time \<Rightarrow> unit slot_op" where
  "incident_slot failureEventID incidentID now slot =
     (if sl_State slot \<noteq> SlotQuarantined \<and> sl_State slot \<noteq> SlotRecovering
      then Inl (WrongState (sl_SlotID slot) (sl_State slot))
      else Inr (slot\<lparr>sl_LastFailureEventID := failureEventID, sl_IncidentID := incidentID,
             sl_NextRecoveryAt := (if sl_NextRecoveryAt slot = 0 then now else sl_NextRecoveryAt slot)\<rparr>, ()))"

definition incident_op :: "string \<Rightarrow> string \<Rightarrow> string \<Rightarrow> time \<Rightarrow> unit pool_op" where
  "incident_op slotID failureEventID incidentID now pool =
     (if \<not> brokerRecordID failureEventID \<or> \<not> brokerRecordID incidentID then Inl InvalidIncidentIdentity
      else with_slot slotID (incident_slot failureEventID incidentID now) pool)"

definition interrupt_slot :: "string \<Rightarrow> time \<Rightarrow> unit slot_op" where
  "interrupt_slot cause now slot =
     (if sl_State slot \<noteq> SlotRecovering then Inl (WrongState (sl_SlotID slot) (sl_State slot))
      else Inr (slot\<lparr>sl_State := SlotQuarantined, sl_FailureReason := boundedReason cause,
             sl_NextRecoveryAt := now, sl_RecoveryStartedAt := 0\<rparr>, ()))"

definition interrupt_op :: "string \<Rightarrow> string option \<Rightarrow> time \<Rightarrow> unit pool_op" where
  "interrupt_op slotID cause now pool =
     (case cause of None \<Rightarrow> Inl CauseRequired | Some c \<Rightarrow> with_slot slotID (interrupt_slot c now) pool)"

definition finish_recovery_slot :: "string option \<Rightarrow> string \<Rightarrow> string \<Rightarrow> time \<Rightarrow> LeaseSlot slot_op" where
  "finish_recovery_slot cause failureEventID incidentID now slot =
     (if sl_State slot \<noteq> SlotRecovering then Inl (WrongState (sl_SlotID slot) (sl_State slot))
      else case cause of
        Some c \<Rightarrow>
          if failureEventID \<noteq> '''' \<and> \<not> brokerRecordID failureEventID then Inl InvalidFailureEvent
          else if incidentID \<noteq> '''' \<and> \<not> brokerRecordID incidentID then Inl InvalidIncidentIdentity
          else
            (let slot' = slot\<lparr>sl_State := SlotQuarantined, sl_FailureReason := boundedReason c,
                   sl_LastFailureEventID := (if failureEventID \<noteq> '''' then failureEventID else sl_LastFailureEventID slot),
                   sl_IncidentID := (if incidentID \<noteq> '''' then incidentID else sl_IncidentID slot),
                   sl_NextRecoveryAt := now + recoveryDelay (sl_RecoveryAttempt slot),
                   sl_RecoveryStartedAt := 0\<rparr> in
             Inr (slot', slot'))
      | None \<Rightarrow>
          (let slot' = (clearLease slot)
                 \<lparr>sl_ResourceGeneration := succ_u64 (sl_ResourceGeneration slot), sl_State := SlotAvailable,
                  sl_LastFailureEventID := sl_LastFailureEventID slot, sl_IncidentID := sl_IncidentID slot,
                  sl_RecoveryAttempt := sl_RecoveryAttempt slot\<rparr> in
           Inr (slot', slot')))"

section \<open>Retiring legacy data\<close>

definition begin_retire_slot :: "unit slot_op" where
  "begin_retire_slot slot =
     (if \<not> sl_LegacyRetained slot then Inl NoLegacyData
      else if sl_State slot \<noteq> SlotAvailable \<and> sl_State slot \<noteq> SlotQuarantined
      then Inl (WrongState (sl_SlotID slot) (sl_State slot))
      else Inr (slot\<lparr>sl_State := SlotDraining, sl_FailureReason := ''explicit legacy retirement''\<rparr>, ()))"

definition finish_retire_slot :: "LeaseIdentity \<Rightarrow> unit slot_op" where
  "finish_retire_slot identity slot =
     (if \<not> slotMatchesLeaseIdentity slot identity \<or> sl_State slot \<noteq> SlotDraining then Inl LeaseTargetStale
      else Inr ((clearLease slot)\<lparr>sl_LegacyRetained := False, sl_State := SlotAvailable\<rparr>, ()))"

section \<open>Admission\<close>

fun state_string :: "SlotState \<Rightarrow> string" where
  "state_string SlotAvailable = ''available''"
| "state_string SlotProvisioning = ''provisioning''"
| "state_string SlotHeld = ''held''"
| "state_string SlotDraining = ''draining''"
| "state_string SlotQuarantined = ''quarantined''"
| "state_string SlotRecovering = ''recovering''"
| "state_string SlotUnavailable = ''unavailable''"
| "state_string (OtherSlotState s) = s"

text \<open>One object of \<open>PoolOperationBinding\<close>: the allocation, without heartbeat and expiry.\<close>

definition slot_binding :: "LeaseSlot \<Rightarrow> string" where
  "slot_binding slot =
     json_object [(''slot_id'', json_string (sl_SlotID slot)),
       (''resource_generation'', dec (sl_ResourceGeneration slot)),
       (''lease_epoch'', dec (sl_LeaseEpoch slot)),
       (''state'', json_string (state_string (sl_State slot))),
       (''lease_id'', json_string (sl_LeaseID slot))]"

definition PoolOperationBinding :: "LeasePool \<Rightarrow> string" where
  "PoolOperationBinding pool =
     sha256_hex (json_array (map slot_binding (sort_key sl_SlotID (lp_Slots pool))))"

definition fence_op :: "string \<Rightarrow> unit pool_op" where
  "fence_op expected_binding pool =
     (if length expected_binding \<noteq> 64 \<or> PoolOperationBinding pool \<noteq> expected_binding then Inl LeaseTargetStale
      else Inr (pool\<lparr>lp_AdmissionClosed := True, lp_SchemaVersion := 3\<rparr>, ()))"

definition open_admission_op :: "unit pool_op" where
  "open_admission_op pool = Inr (pool\<lparr>lp_AdmissionClosed := False, lp_SchemaVersion := 2\<rparr>, ())"

section \<open>One body for every operation\<close>

datatype lease_op =
    OpStatus
  | OpAcquire acquire_request
  | OpAbort LeaseGrant
  | OpMarkHeld LeaseGrant
  | OpRenew LeaseGrant
  | OpBeginDrain LeaseGrant
  | OpQuarantine LeaseGrant string
  | OpHandoff LeaseGrant
  | OpForgetLegacy LeaseGrant
  | OpFinishDrain string "string option"
  | OpFence string
  | OpOpenAdmission
  | OpDrainAll string
  | OpDrainSlot string string
  | OpExpectedDrain LeaseIdentity string
  | OpScheduledRecovery string bool
  | OpExpectedRecovery LeaseIdentity
  | OpSetIncident string string string
  | OpInterruptRecovery string "string option"
  | OpFinishRecovery string "string option" string string
  | OpBeginRetire LeaseIdentity
  | OpFinishRetire LeaseIdentity

datatype lease_reply =
    Done
  | View LeasePool
  | Granted LeaseGrant
  | Expires time
  | Started bool
  | Snapshot "LeaseSlot option" bool

definition reply :: "('r \<Rightarrow> lease_reply) \<Rightarrow> 'r pool_op \<Rightarrow> lease_reply pool_op" where
  "reply f op pool = (case op pool of Inl e \<Rightarrow> Inl e | Inr (pool', r) \<Rightarrow> Inr (pool', f r))"

text \<open>
  The function each operation passes to \<open>withLock\<close>.  The guards that run before the lock is taken
  come first; they do not read the pool, so their order against the lock is not observable.
\<close>

fun lease_body :: "LeaseStore \<Rightarrow> lease_env \<Rightarrow> lease_op \<Rightarrow> lease_reply pool_op" where
  "lease_body store env OpStatus pool = Inr (pool, View pool)"
| "lease_body store env (OpAcquire q) pool =
     (case check_request q of Some e \<Rightarrow> Inl e | None \<Rightarrow> reply Granted (acquire_op store env q) pool)"
| "lease_body store env (OpAbort g) pool = reply (\<lambda>_. Done) (mutateOwned g abort_slot) pool"
| "lease_body store env (OpMarkHeld g) pool = reply Expires (mutateOwned g (held_slot (en_Clock env 1))) pool"
| "lease_body store env (OpRenew g) pool = reply Expires (mutateOwned g (renew_slot (en_Clock env 1))) pool"
| "lease_body store env (OpBeginDrain g) pool = reply (\<lambda>_. Done) (mutateOwned g drain_slot) pool"
| "lease_body store env (OpQuarantine g cause) pool =
     reply (\<lambda>_. Done) (mutateOwned g (quarantine_slot cause (en_Clock env 1))) pool"
| "lease_body store env (OpHandoff g) pool = reply (\<lambda>_. Done) (mutateOwned g handoff_slot) pool"
| "lease_body store env (OpForgetLegacy g) pool = reply (\<lambda>_. Done) (mutateOwned g forget_legacy_slot) pool"
| "lease_body store env (OpFinishDrain slotID stopErr) pool =
     reply (\<lambda>_. Done) (with_slot slotID (finish_drain_slot stopErr (en_Clock env 1))) pool"
| "lease_body store env (OpFence binding) pool = reply (\<lambda>_. Done) (fence_op binding) pool"
| "lease_body store env OpOpenAdmission pool = reply (\<lambda>_. Done) open_admission_op pool"
| "lease_body store env (OpDrainAll reason) pool = reply (\<lambda>_. Done) (drain_all_op reason) pool"
| "lease_body store env (OpDrainSlot slotID reason) pool =
     reply (\<lambda>_. Done) (with_slot slotID (drain_named_slot reason)) pool"
| "lease_body store env (OpExpectedDrain identity reason) pool = reply Started (expected_drain_op identity reason) pool"
| "lease_body store env (OpScheduledRecovery slotID force) pool =
     reply (\<lambda>(s, started). Snapshot s started)
       (with_slot slotID (scheduled_recovery_slot force (en_Clock env 1))) pool"
| "lease_body store env (OpExpectedRecovery identity) pool =
     reply (\<lambda>(s, started). Snapshot (Some s) started) (expected_recovery_op identity (en_Clock env 1)) pool"
| "lease_body store env (OpSetIncident slotID failureEventID incidentID) pool =
     reply (\<lambda>_. Done) (incident_op slotID failureEventID incidentID (en_Clock env 1)) pool"
| "lease_body store env (OpInterruptRecovery slotID cause) pool =
     reply (\<lambda>_. Done) (interrupt_op slotID cause (en_Clock env 1)) pool"
| "lease_body store env (OpFinishRecovery slotID cause failureEventID incidentID) pool =
     reply (\<lambda>s. Snapshot (Some s) True)
       (with_slot slotID (finish_recovery_slot cause failureEventID incidentID (en_Clock env 1))) pool"
| "lease_body store env (OpBeginRetire identity) pool =
     reply (\<lambda>_. Done) (with_slot (li_SlotID identity) (expected identity begin_retire_slot)) pool"
| "lease_body store env (OpFinishRetire identity) pool =
     reply (\<lambda>_. Done) (with_slot (li_SlotID identity) (finish_retire_slot identity)) pool"

end
