(* ===== verification/Lease_Lifecycle.thy ===== *)
theory Lease_Lifecycle
  imports Lease_Pool
begin

text \<open>
  What the operations of the lease pool do to a slot.  \<open>lifecycle\<close> is the abstract state machine of one
  slot: its state, the epoch of its lease and the generation of its guests.  Every operation of
  \<^const>\<open>lease_body\<close> refines it slot by slot and keeps the slots well formed.
\<close>

section \<open>The abstract machine\<close>

type_synonym phase = "SlotState \<times> nat \<times> nat"

definition phase :: "LeaseSlot \<Rightarrow> phase" where
  "phase slot = (sl_State slot, sl_LeaseEpoch slot, sl_ResourceGeneration slot)"

inductive lifecycle :: "phase \<Rightarrow> phase \<Rightarrow> bool" where
  acquire: "g' = g \<or> g' = succ_u64 g \<Longrightarrow> lifecycle (SlotAvailable, e, g) (SlotProvisioning, succ_u64 e, g')"
| ready: "lifecycle (SlotProvisioning, e, g) (SlotHeld, e, g)"
| abort: "lifecycle (SlotProvisioning, e, g) (SlotAvailable, e, g)"
| drain: "s = SlotProvisioning \<or> s = SlotHeld \<Longrightarrow> lifecycle (s, e, g) (SlotDraining, e, g)"
| fence: "s = SlotAvailable \<or> s = SlotQuarantined \<Longrightarrow> lifecycle (s, e, g) (SlotDraining, e, g)"
| drained: "lifecycle (SlotDraining, e, g) (SlotAvailable, e, g)"
| broken: "s = SlotProvisioning \<or> s = SlotHeld \<or> s = SlotDraining \<or> s = SlotRecovering
    \<Longrightarrow> lifecycle (s, e, g) (SlotQuarantined, e, g)"
| recover: "lifecycle (SlotQuarantined, e, g) (SlotRecovering, e, g)"
| recovered: "lifecycle (SlotRecovering, e, g) (SlotAvailable, e, succ_u64 g)"

inductive_cases lifecycle_E: "lifecycle (s, e, g) (s', e', g')"

declare lifecycle.intros [intro]

section \<open>Well-formed slots\<close>

definition lease_cleared :: "LeaseSlot \<Rightarrow> bool" where
  "lease_cleared slot \<longleftrightarrow>
     sl_LeaseID slot = '''' \<and> sl_CapabilityHash slot = '''' \<and> sl_ClientID slot = ''''
     \<and> sl_ControllerFingerprint slot = '''' \<and> sl_AcquireOwner slot = None \<and> sl_Environment slot = None
     \<and> sl_BaseFingerprint slot = '''' \<and> \<not> sl_Reserved slot \<and> sl_DisplayLabel slot = ''''
     \<and> sl_Yard slot = '''' \<and> sl_Project slot = '''' \<and> sl_Checkout slot = '''' \<and> sl_Run slot = ''''
     \<and> sl_Purpose slot = '''' \<and> sl_ExpiresAt slot = 0"

definition record_id_or_empty :: "string \<Rightarrow> bool" where
  "record_id_or_empty s \<longleftrightarrow> s = '''' \<or> brokerRecordID s"

definition slot_ok :: "LeaseSlot \<Rightarrow> bool" where
  "slot_ok slot \<longleftrightarrow>
     sl_State slot \<in> {SlotAvailable, SlotProvisioning, SlotHeld, SlotDraining, SlotQuarantined, SlotRecovering}
     \<and> (sl_State slot = SlotAvailable \<longrightarrow> lease_cleared slot)
     \<and> (sl_State slot = SlotProvisioning \<or> sl_State slot = SlotHeld \<longrightarrow> sl_CapabilityHash slot \<noteq> '''')
     \<and> record_id_or_empty (sl_LastFailureEventID slot) \<and> record_id_or_empty (sl_IncidentID slot)"

lemma new_slot_ok: "slot_ok (new_slot k)"
  by (simp add: slot_ok_def new_slot_def lease_cleared_def record_id_or_empty_def)

text \<open>What an operation may do to one slot in at most \<open>k\<close> steps of its life cycle.\<close>

definition evolves :: "nat \<Rightarrow> LeaseSlot \<Rightarrow> LeaseSlot \<Rightarrow> bool" where
  "evolves k s s' \<longleftrightarrow>
     sl_SlotID s' = sl_SlotID s
     \<and> (slot_ok s \<longrightarrow> slot_ok s' \<and> (\<exists>n \<le> k. (lifecycle ^^ n) (phase s) (phase s')))"

lemma evolves_refl [simp, intro]: "evolves k s s"
  by (auto simp: evolves_def intro: exI [of _ 0])

lemma evolves_trans: "evolves k s t \<Longrightarrow> evolves m t u \<Longrightarrow> evolves (k + m) s u"
  unfolding evolves_def by (metis add_mono relpowp_trans)

lemma evolves_mono: "evolves k s t \<Longrightarrow> k \<le> m \<Longrightarrow> evolves m s t"
  unfolding evolves_def by (meson order_trans)

lemma evolves_step:
  "sl_SlotID s' = sl_SlotID s \<Longrightarrow> (slot_ok s \<Longrightarrow> slot_ok s' \<and> (phase s' = phase s \<or> lifecycle (phase s) (phase s')))
     \<Longrightarrow> evolves (Suc 0) s s'"
  unfolding evolves_def by (metis One_nat_def le_numeral_extra(4) relpowp_0_I relpowp_1 zero_le)

lemmas slot_defs = slot_ok_def phase_def lease_cleared_def record_id_or_empty_def

section \<open>Slot operations\<close>

lemma capabilityDigest_nonempty [simp]: "capabilityDigest c \<noteq> ''''"
  by (simp add: capabilityDigest_def sha256_hex_nonempty)

lemma evolves_expire: "evolves (Suc 0) s (expire_slot alive now s)"
  by (rule evolves_step) (auto simp: expire_slot_def slot_defs split: option.split)

lemma evolves_begin_drain: "evolves (Suc 0) s (begin_drain reason s)"
  by (rule evolves_step) (auto simp: begin_drain_def slot_defs)

lemma evolves_cleared:
  assumes "sl_State s = SlotProvisioning \<or> sl_State s = SlotDraining"
  shows "evolves (Suc 0) s ((clearLease s)\<lparr>sl_State := SlotAvailable\<rparr>)"
    and "evolves (Suc 0) s ((clearLease s)\<lparr>sl_LegacyRetained := False, sl_State := SlotAvailable\<rparr>)"
  using assms by (auto intro!: evolves_step simp: clearLease_def slot_defs)

lemma evolves_acquire:
  assumes "acquire_slot_op store env q s = Inr (s', g)"
  shows "evolves (Suc 0) s s'"
proof -
  obtain leaseID capability where "s' = grant_slot store q (en_Clock env 1) leaseID capability s"
    and avail: "sl_State s = SlotAvailable"
    using assms by (auto simp: acquire_slot_op_def Let_def split: if_split_asm option.split_asm)
  then show ?thesis
    by (intro evolves_step)
      (auto simp: grant_slot_def Let_def slot_defs split: option.split)
qed

lemma evolves_holder:
  "abort_slot s = Inr (s', u) \<Longrightarrow> evolves (Suc 0) s s'"
  "held_slot now s = Inr (s', t) \<Longrightarrow> evolves (Suc 0) s s'"
  "renew_slot now s = Inr (s', t) \<Longrightarrow> evolves (Suc 0) s s'"
  "drain_slot s = Inr (s', u) \<Longrightarrow> evolves (Suc 0) s s'"
  "handoff_slot s = Inr (s', u) \<Longrightarrow> evolves (Suc 0) s s'"
  "forget_legacy_slot s = Inr (s', u) \<Longrightarrow> evolves (Suc 0) s s'"
  by (auto simp: abort_slot_def evolves_cleared split: if_split_asm)
    (auto intro!: evolves_step split: if_split_asm
      simp: slot_defs held_slot_def renew_slot_def drain_slot_def handoff_slot_def forget_legacy_slot_def)

lemma evolves_quarantine:
  assumes "quarantine_slot cause now s = Inr (s', u)" and "sl_CapabilityHash s \<noteq> ''''"
  shows "evolves (Suc 0) s s'"
  using assms by (auto intro!: evolves_step split: if_split_asm simp: slot_defs quarantine_slot_def)

lemma evolves_recovery: "sl_State s = SlotQuarantined \<Longrightarrow> evolves (Suc 0) s (start_recovery now s)"
  by (auto intro!: evolves_step simp: start_recovery_def slot_defs)

lemma evolves_broker:
  "finish_drain_slot e now s = Inr (s', u) \<Longrightarrow> evolves (Suc 0) s s'"
  "drain_named_slot reason s = Inr (s', b) \<Longrightarrow> evolves (Suc 0) s s'"
  "scheduled_recovery_slot force now s = Inr (s', x) \<Longrightarrow> evolves (Suc 0) s s'"
  "recovery_slot now s = Inr (s', y) \<Longrightarrow> evolves (Suc 0) s s'"
  "interrupt_slot cause now s = Inr (s', u) \<Longrightarrow> evolves (Suc 0) s s'"
  "begin_retire_slot s = Inr (s', u) \<Longrightarrow> evolves (Suc 0) s s'"
  "finish_retire_slot i s = Inr (s', u) \<Longrightarrow> evolves (Suc 0) s s'"
proof -
  assume "finish_drain_slot e now s = Inr (s', u)"
  then show "evolves (Suc 0) s s'"
    by (cases e) (auto simp: finish_drain_slot_def evolves_cleared split: if_split_asm,
        auto intro!: evolves_step simp: slot_defs)
qed (auto simp: drain_named_slot_def scheduled_recovery_slot_def recovery_slot_def evolves_begin_drain
      evolves_recovery finish_retire_slot_def evolves_cleared split: if_split_asm SlotState.split_asm,
    auto intro!: evolves_step simp: slot_defs interrupt_slot_def begin_retire_slot_def split: if_split_asm)

lemma evolves_incident:
  assumes "incident_slot f i now s = Inr (s', u)" and "brokerRecordID f" and "brokerRecordID i"
  shows "evolves (Suc 0) s s'"
  using assms by (auto intro!: evolves_step simp: incident_slot_def slot_defs split: if_split_asm)

lemma evolves_finish_recovery:
  assumes "finish_recovery_slot cause f i now s = Inr (s', u)"
  shows "evolves (Suc 0) s s'"
  using assms
  by (cases cause) (auto intro!: evolves_step simp: finish_recovery_slot_def clearLease_def slot_defs Let_def
      split: if_split_asm)

section \<open>Pool operations\<close>

definition slotwise :: "(LeaseSlot \<Rightarrow> LeaseSlot \<Rightarrow> bool) \<Rightarrow> LeasePool \<Rightarrow> LeasePool \<Rightarrow> bool" where
  "slotwise R pool pool' \<longleftrightarrow> list_all2 R (lp_Slots pool) (lp_Slots pool')"

lemma findSlot_Some:
  "findSlot pool slotID = Some i \<Longrightarrow> i < length (lp_Slots pool) \<and> sl_SlotID (lp_Slots pool ! i) = slotID"
  by (auto simp: findSlot_def dest!: find_first_SomeD)

lemma with_slot_Inr:
  "with_slot slotID f pool = Inr (pool', r) \<longleftrightarrow>
     (\<exists>i s. findSlot pool slotID = Some i \<and> f (lp_Slots pool ! i) = Inr (s, r)
        \<and> pool' = pool\<lparr>lp_Slots := (lp_Slots pool)[i := s]\<rparr>)"
  by (auto simp: with_slot_def split: option.split sum.split prod.split)

lemma with_slot_slotwise:
  assumes "with_slot slotID f pool = Inr (pool', r)" and "\<And>s s'. f s = Inr (s', r) \<Longrightarrow> R s s'" and "\<And>s. R s s"
  shows "slotwise R pool pool'"
  using assms
  by (auto simp: with_slot_Inr slotwise_def list_all2_conv_all_nth nth_list_update dest!: findSlot_Some)

lemma slotwise_map: "(\<And>s. R s (f s)) \<Longrightarrow> slotwise R pool (pool\<lparr>lp_Slots := map f (lp_Slots pool)\<rparr>)"
  by (simp add: slotwise_def list_all2_conv_all_nth)

lemma slotwise_refl: "(\<And>s. R s s) \<Longrightarrow> lp_Slots pool' = lp_Slots pool \<Longrightarrow> slotwise R pool pool'"
  by (simp add: slotwise_def list_all2_same)

lemma slotwise_trans:
  "(\<And>s t u. P s t \<Longrightarrow> Q t u \<Longrightarrow> R s u) \<Longrightarrow> slotwise P p q \<Longrightarrow> slotwise Q q r \<Longrightarrow> slotwise R p r"
  unfolding slotwise_def by (rule list_all2_trans)

lemma slotwise_mono: "slotwise P p q \<Longrightarrow> (\<And>s t. P s t \<Longrightarrow> Q s t) \<Longrightarrow> slotwise Q p q"
  unfolding slotwise_def by (rule list_all2_mono)

lemma slotwise_evolves_trans:
  "slotwise (evolves k) p q \<Longrightarrow> slotwise (evolves m) q r \<Longrightarrow> slotwise (evolves (k + m)) p r"
  by (rule slotwise_trans [of "evolves k" "evolves m"]) (rule evolves_trans)

lemma reply_Inr: "reply f op pool = Inr (pool', r) \<longleftrightarrow> (\<exists>x. op pool = Inr (pool', x) \<and> r = f x)"
  by (auto simp: reply_def split: sum.split prod.split)

text \<open>The admission fence of the pool stays as it is, except for the two operations that set it.\<close>

definition same_admission :: "LeasePool \<Rightarrow> LeasePool \<Rightarrow> bool" where
  "same_admission pool pool' \<longleftrightarrow>
     lp_AdmissionClosed pool' = lp_AdmissionClosed pool \<and> lp_SchemaVersion pool' = lp_SchemaVersion pool
     \<and> lp_ResourceType pool' = lp_ResourceType pool \<and> lp_ResourceID pool' = lp_ResourceID pool"

lemma acquire_op_Inr:
  assumes "acquire_op store env q pool = Inr (pool', g)"
  shows "\<not> lp_AdmissionClosed pool"
    and "with_slot (aq_Slot q) (acquire_slot_op store env q) (expireStale (en_Alive env 1) (en_Clock env 1) pool)
      = Inr (pool', g)"
proof -
  let ?p = "expireStale (en_Alive env 1) (en_Clock env 1) pool"
  have closed: "lp_AdmissionClosed ?p = lp_AdmissionClosed pool" by (simp add: expireStale_def)
  with assms show "\<not> lp_AdmissionClosed pool" by (auto simp: acquire_op_def Let_def)
  with assms closed show "with_slot (aq_Slot q) (acquire_slot_op store env q) ?p = Inr (pool', g)"
    by (auto simp: acquire_op_def Let_def split: sum.split_asm lease_error.split_asm)
qed

text \<open>
  A contract that the slot operations meet one by one, with what it gives for the operations of the
  pool.  Only \<open>begin_retire_slot\<close>, which takes a slot from any of two states into draining, is kept
  apart, in the extension.
\<close>

locale slot_contract =
  fixes R :: "LeaseSlot \<Rightarrow> LeaseSlot \<Rightarrow> bool"
  assumes unchanged: "R s s"
    and expiry: "R s (expire_slot alive now s)"
    and draining: "R s (begin_drain reason s)"
    and acquiring: "acquire_slot_op store env q s = Inr (s', g) \<Longrightarrow> R s s'"
    and aborting: "abort_slot s = Inr (s', u) \<Longrightarrow> R s s'"
    and marking_held: "held_slot now s = Inr (s', t) \<Longrightarrow> R s s'"
    and renewing: "renew_slot now s = Inr (s', t) \<Longrightarrow> R s s'"
    and releasing: "drain_slot s = Inr (s', u) \<Longrightarrow> R s s'"
    and handing_off: "handoff_slot s = Inr (s', u) \<Longrightarrow> R s s'"
    and forgetting: "forget_legacy_slot s = Inr (s', u) \<Longrightarrow> R s s'"
    and quarantining: "sl_CapabilityHash s \<noteq> '''' \<Longrightarrow> quarantine_slot cause now s = Inr (s', u) \<Longrightarrow> R s s'"
    and finishing_drain: "finish_drain_slot e now s = Inr (s', u) \<Longrightarrow> R s s'"
    and starting_recovery: "sl_State s = SlotQuarantined \<Longrightarrow> R s (start_recovery now s)"
    and noting_incident: "brokerRecordID f \<Longrightarrow> brokerRecordID i \<Longrightarrow> incident_slot f i now s = Inr (s', u) \<Longrightarrow> R s s'"
    and interrupting: "interrupt_slot cause now s = Inr (s', u) \<Longrightarrow> R s s'"
    and finishing_recovery: "finish_recovery_slot cause' f i now s = Inr (s', v) \<Longrightarrow> R s s'"
    and finishing_retire: "finish_retire_slot ident s = Inr (s', u) \<Longrightarrow> R s s'"
begin

lemma pool_expiry: "slotwise R pool (expireStale alive now pool)"
  unfolding expireStale_def by (rule slotwise_map) (rule expiry)

lemma pool_slot:
  assumes "with_slot slotID f pool = Inr (pool', r)" and "\<And>s s'. f s = Inr (s', r) \<Longrightarrow> R s s'"
  shows "slotwise R pool pool'"
  using assms unchanged by (rule with_slot_slotwise)

lemma pool_owned:
  assumes "mutateOwned g f pool = Inr (pool', r)"
    and "\<And>s t. sl_CapabilityHash s \<noteq> '''' \<Longrightarrow> f s = Inr (t, r) \<Longrightarrow> R s t"
  shows "slotwise R pool pool'"
  using assms(1) unfolding mutateOwned_def
  by (rule pool_slot) (auto simp: owned_def intro: assms(2) split: if_split_asm)

lemma pool_acquire:
  assumes "acquire_op store env q pool = Inr (pool', g)"
  shows "slotwise (R OO R) pool pool'"
proof -
  have "slotwise R (expireStale (en_Alive env 1) (en_Clock env 1) pool) pool'"
    by (rule pool_slot [OF acquire_op_Inr(2) [OF assms]]) (rule acquiring)
  with pool_expiry show ?thesis by (rule slotwise_trans [rotated]) blast
qed

lemma named_drain: "drain_named_slot reason s = Inr (s', b) \<Longrightarrow> R s s'"
  by (auto simp: drain_named_slot_def unchanged draining split: SlotState.split_asm)

lemma scheduled: "scheduled_recovery_slot force now s = Inr (s', x) \<Longrightarrow> R s s'"
  by (auto simp: scheduled_recovery_slot_def unchanged starting_recovery split: if_split_asm)

lemma targeted: "recovery_slot now s = Inr (s', y) \<Longrightarrow> R s s'"
  by (auto simp: recovery_slot_def unchanged starting_recovery split: SlotState.split_asm)

lemma expected_slot: "expected i f s = Inr (s', r) \<Longrightarrow> f s = Inr (s', r)"
  by (simp add: expected_def split: if_split_asm)

lemma pool_body:
  assumes "lease_body store env op pool = Inr (pool', r)" and "\<nexists>i. op = OpBeginRetire i"
  shows "slotwise (R OO R) pool pool'"
proof (cases "\<exists>q. op = OpAcquire q")
  case True
  then show ?thesis using assms(1) pool_acquire by (auto simp: reply_Inr split: option.split_asm)
next
  case False
  have "slotwise R pool pool'"
  proof (cases op)
    case (OpExpectedDrain i reason)
    then show ?thesis using assms(1)
      by (auto simp: reply_Inr expected_drain_op_def split: option.split_asm
          elim!: pool_slot dest!: expected_slot intro: named_drain)
  next
    case (OpExpectedRecovery i)
    then show ?thesis using assms(1)
      by (auto simp: reply_Inr expected_recovery_op_def split: option.split_asm
          elim!: pool_slot dest!: expected_slot intro: targeted)
  next
    case (OpSetIncident s f i)
    then show ?thesis using assms(1)
      by (auto simp: reply_Inr incident_op_def split: if_split_asm elim!: pool_slot intro: noting_incident)
  next
    case (OpInterruptRecovery s c)
    then show ?thesis using assms(1)
      by (auto simp: reply_Inr interrupt_op_def split: option.split_asm elim!: pool_slot intro: interrupting)
  qed (use assms False in \<open>auto simp: reply_Inr fence_op_def open_admission_op_def drain_all_op_def
      intro!: slotwise_refl slotwise_map unchanged draining split: if_split_asm elim!: pool_slot pool_owned
      intro: aborting marking_held renewing releasing handing_off forgetting quarantining
        finishing_drain named_drain scheduled finishing_recovery finishing_retire\<close>)
  then show ?thesis by (rule slotwise_mono) (auto intro: unchanged)
qed

end

locale slot_contract_retire = slot_contract +
  assumes beginning_retire: "begin_retire_slot s = Inr (s', u) \<Longrightarrow> R s s'"
begin

lemma pool_body_all:
  assumes "lease_body store env op pool = Inr (pool', r)"
  shows "slotwise (R OO R) pool pool'"
proof (cases "\<exists>i. op = OpBeginRetire i")
  case True
  then have "slotwise R pool pool'"
    using assms by (auto simp: reply_Inr elim!: pool_slot dest!: expected_slot intro: beginning_retire)
  then show ?thesis by (rule slotwise_mono) (auto intro: unchanged)
next
  case False
  with assms show ?thesis by (rule pool_body)
qed

end

interpretation evolving: slot_contract_retire "evolves (Suc 0)"
  by unfold_locales
    (blast intro: evolves_refl evolves_expire evolves_begin_drain evolves_acquire evolves_holder
      evolves_quarantine evolves_broker evolves_recovery evolves_incident evolves_finish_recovery)+

lemma lease_body_evolves:
  assumes "lease_body store env op pool = Inr (pool', r)"
  shows "slotwise (evolves 2) pool pool'"
  using evolving.pool_body_all [OF assms]
  by (rule slotwise_mono) (auto dest: evolves_trans simp: numeral_2_eq_2)


section \<open>What the life cycle guarantees\<close>

lemma lifecycle_counters:
  assumes "lifecycle (s, e, g) (s', e', g')" and "e + 1 < 2 ^ 64" and "g + 1 < 2 ^ 64"
  shows "e \<le> e' \<and> e' \<le> e + 1 \<and> g \<le> g' \<and> g' \<le> g + 1"
  using assms(1) by (cases rule: lifecycle_E) (use assms(2,3) in \<open>auto simp: succ_u64_Suc\<close>)

lemma lifecycle_pow_counters:
  assumes "(lifecycle ^^ n) (s, e, g) (s', e', g')" and "e + n < 2 ^ 64" and "g + n < 2 ^ 64"
  shows "e \<le> e' \<and> e' \<le> e + n \<and> g \<le> g' \<and> g' \<le> g + n"
  using assms
proof (induction n arbitrary: s' e' g')
  case (Suc n)
  then obtain s1 e1 g1 where "(lifecycle ^^ n) (s, e, g) (s1, e1, g1)" and l: "lifecycle (s1, e1, g1) (s', e', g')"
    by auto
  with Suc have "e \<le> e1 \<and> e1 \<le> e + n \<and> g \<le> g1 \<and> g1 \<le> g + n" by simp
  with lifecycle_counters [OF l] Suc.prems show ?case by auto
qed simp

text \<open>The states in which a grant is usable.\<close>

definition live :: "SlotState \<Rightarrow> bool" where
  "live s \<longleftrightarrow> s = SlotProvisioning \<or> s = SlotHeld"

lemma lifecycle_live:
  assumes "lifecycle (s, e, g) (s', e', g')" and "live s'" and "e + 1 < 2 ^ 64"
  shows "e' = e \<and> live s \<or> e' = e + 1 \<and> s = SlotAvailable"
  using assms(1) by (cases rule: lifecycle_E) (use assms(2,3) in \<open>auto simp: live_def succ_u64_Suc\<close>)

lemma lease_never_revives:
  assumes "(lifecycle ^^ n) (s, e, g) (s', e', g')" and "e + n < 2 ^ 64" and "g + n < 2 ^ 64"
    and "live s'" and "\<not> live s"
  shows "e < e'"
  using assms
proof (induction n arbitrary: s' e' g')
  case (Suc n)
  then obtain s1 e1 g1 where p: "(lifecycle ^^ n) (s, e, g) (s1, e1, g1)" and l: "lifecycle (s1, e1, g1) (s', e', g')"
    by auto
  have c: "e \<le> e1" "e1 \<le> e + n" using lifecycle_pow_counters [OF p] Suc.prems by auto
  from lifecycle_live [OF l Suc.prems(4)] c Suc.prems(2) show ?case
    using Suc.IH [OF p] Suc.prems by auto
qed simp

end
