(* ===== verification/Lease_Store.thy ===== *)
theory Lease_Store
  imports Lease_Lifecycle
begin

text \<open>
  The durable side of the lease broker (\<open>internal/adapters/testvmsruntime/lease.go\<close>): the pool file,
  the recovery journal beside it, loading and merging, writing, the locked operation, resizing, and
  the rebuild of a corrupt pool.

  The file lock makes one operation at a time; the outcome of every write is an argument.
\<close>

section \<open>Files\<close>

record leaseRecoverySlot =
  jr_SlotID :: string
  jr_ResourceGeneration :: nat
  jr_LeaseEpoch :: nat
  jr_State :: SlotState
  jr_LastFailureEventID :: string
  jr_IncidentID :: string
  jr_RecoveryAttempt :: nat
  jr_NextRecoveryAt :: time
  jr_RecoveryStartedAt :: time

record leaseRecoveryJournal =
  jn_SchemaVersion :: int
  jn_Slots :: "leaseRecoverySlot list"

record lease_disk =
  dk_Pool :: "LeasePool doc"
  dk_Journal :: "leaseRecoveryJournal doc"
  dk_Backups :: "(time \<times> LeasePool doc \<times> leaseRecoveryJournal doc) list"

definition write_file :: "write_outcome \<Rightarrow> 'a doc \<Rightarrow> 'a \<Rightarrow> 'a doc \<times> lease_error err" where
  "write_file outcome old new =
     (case outcome of
        Written \<Rightarrow> (Content new, None)
      | NotWritten \<Rightarrow> (old, Some WriteFailed)
      | WrittenNotSynced \<Rightarrow> (Content new, Some WriteFailed))"

text \<open>\<open>os.Remove\<close>, where a missing file is not an error.\<close>

definition remove_file :: "write_outcome \<Rightarrow> 'a doc \<Rightarrow> 'a doc \<times> lease_error err" where
  "remove_file outcome old =
     (if old = NoFile then (NoFile, None)
      else if outcome = NotWritten then (old, Some WriteFailed)
      else (NoFile, None))"

section \<open>The recovery journal\<close>

definition slotHasRecoveryMetadata :: "LeaseSlot \<Rightarrow> bool" where
  "slotHasRecoveryMetadata slot \<longleftrightarrow>
     sl_State slot = SlotQuarantined \<or> sl_State slot = SlotRecovering
     \<or> sl_LastFailureEventID slot \<noteq> '''' \<or> sl_IncidentID slot \<noteq> '''' \<or> sl_RecoveryAttempt slot \<noteq> 0
     \<or> sl_NextRecoveryAt slot \<noteq> 0 \<or> sl_RecoveryStartedAt slot \<noteq> 0"

definition journal_entry :: "LeaseSlot \<Rightarrow> leaseRecoverySlot" where
  "journal_entry slot =
     \<lparr>jr_SlotID = sl_SlotID slot, jr_ResourceGeneration = sl_ResourceGeneration slot,
      jr_LeaseEpoch = sl_LeaseEpoch slot, jr_State = sl_State slot,
      jr_LastFailureEventID = sl_LastFailureEventID slot, jr_IncidentID = sl_IncidentID slot,
      jr_RecoveryAttempt = sl_RecoveryAttempt slot, jr_NextRecoveryAt = sl_NextRecoveryAt slot,
      jr_RecoveryStartedAt = sl_RecoveryStartedAt slot\<rparr>"

definition pool_journal :: "LeasePool \<Rightarrow> leaseRecoveryJournal" where
  "pool_journal pool =
     \<lparr>jn_SchemaVersion = 1, jn_Slots = map journal_entry (filter slotHasRecoveryMetadata (lp_Slots pool))\<rparr>"

definition entry_ok :: "string list \<Rightarrow> leaseRecoverySlot \<Rightarrow> bool" where
  "entry_ok seen r \<longleftrightarrow>
     \<not> (\<not> brokerSlotID (jr_SlotID r) \<or> jr_SlotID r \<in> set seen \<or> jr_ResourceGeneration r = 0
        \<or> (jr_LastFailureEventID r \<noteq> '''' \<and> \<not> brokerRecordID (jr_LastFailureEventID r))
        \<or> (jr_IncidentID r \<noteq> '''' \<and> \<not> brokerRecordID (jr_IncidentID r)))
     \<and> (jr_State r = SlotAvailable \<or> jr_State r = SlotQuarantined \<or> jr_State r = SlotRecovering)"

definition apply_entry :: "leaseRecoverySlot \<Rightarrow> LeaseSlot \<Rightarrow> LeaseSlot" where
  "apply_entry r slot =
     (if sl_ResourceGeneration slot \<noteq> jr_ResourceGeneration r \<or> sl_LeaseEpoch slot \<noteq> jr_LeaseEpoch r
          \<or> sl_State slot \<noteq> jr_State r
      then slot
      else slot\<lparr>sl_LastFailureEventID := jr_LastFailureEventID r, sl_IncidentID := jr_IncidentID r,
             sl_RecoveryAttempt := jr_RecoveryAttempt r, sl_NextRecoveryAt := jr_NextRecoveryAt r,
             sl_RecoveryStartedAt := jr_RecoveryStartedAt r\<rparr>)"

definition merge_entry :: "leaseRecoverySlot \<Rightarrow> LeasePool \<Rightarrow> LeasePool" where
  "merge_entry r pool =
     (case findSlot pool (jr_SlotID r) of
        None \<Rightarrow> pool
      | Some i \<Rightarrow> pool\<lparr>lp_Slots := (lp_Slots pool)[i := apply_entry r (lp_Slots pool ! i)]\<rparr>)"

fun merge_entries :: "string list \<Rightarrow> leaseRecoverySlot list \<Rightarrow> LeasePool \<Rightarrow> lease_error + LeasePool" where
  "merge_entries seen [] pool = Inr pool"
| "merge_entries seen (r # rs) pool =
     (if \<not> entry_ok seen r then Inl CorruptLeaseState
      else merge_entries (jr_SlotID r # seen) rs (merge_entry r pool))"

definition mergeRecoveryJournal :: "leaseRecoveryJournal doc \<Rightarrow> LeasePool \<Rightarrow> lease_error + LeasePool" where
  "mergeRecoveryJournal journal pool =
     (case journal of
        NoFile \<Rightarrow> Inr pool
      | Unreadable \<Rightarrow> Inl ReadFailed
      | Garbled \<Rightarrow> Inl CorruptLeaseState
      | Content j \<Rightarrow>
          if jn_SchemaVersion j \<noteq> 1 then Inl CorruptLeaseState else merge_entries [] (jn_Slots j) pool)"

section \<open>Loading and writing\<close>

definition empty_pool :: LeasePool where
  "empty_pool = \<lparr>lp_AdmissionClosed = False, lp_SchemaVersion = 2, lp_ResourceType = ''agent-e2e'',
     lp_ResourceID = ''test-vms'', lp_Slots = []\<rparr>"

text \<open>Schema 1 retained guest data; schema 3 is schema 2 with admission closed.\<close>

definition upgrade_pool :: "LeasePool \<Rightarrow> LeasePool" where
  "upgrade_pool pool =
     (let pool1 = (if lp_SchemaVersion pool = 1
            then pool\<lparr>lp_Slots := map (\<lambda>s. s\<lparr>sl_LegacyRetained := True\<rparr>) (lp_Slots pool), lp_SchemaVersion := 2\<rparr>
            else pool) in
      if lp_SchemaVersion pool1 = 3 then pool1\<lparr>lp_AdmissionClosed := True\<rparr> else pool1)"

definition load :: "lease_disk \<Rightarrow> lease_error + LeasePool" where
  "load disk =
     (case dk_Pool disk of
        NoFile \<Rightarrow> Inr empty_pool
      | Unreadable \<Rightarrow> Inl ReadFailed
      | Garbled \<Rightarrow> Inl CorruptLeaseState
      | Content decoded \<Rightarrow>
          (let pool = upgrade_pool decoded in
           if lp_SchemaVersion pool \<noteq> 3 \<and> lp_SchemaVersion pool \<noteq> 2 then Inl UnsupportedLeaseState
           else if lp_AdmissionClosed pool \<and> lp_SchemaVersion pool \<noteq> 3 then Inl UnsupportedLeaseState
           else if lp_ResourceType pool \<noteq> ''agent-e2e'' \<or> lp_ResourceID pool \<noteq> ''test-vms''
           then Inl UnsupportedLeaseState
           else mergeRecoveryJournal (dk_Journal disk) pool))"

definition writePool :: "lease_env \<Rightarrow> LeasePool \<Rightarrow> lease_disk \<Rightarrow> lease_disk \<times> lease_error err" where
  "writePool env pool disk =
     (let (journal, e1) =
        (if jn_Slots (pool_journal pool) = [] then remove_file (en_JournalWrite env) (dk_Journal disk)
         else write_file (en_JournalWrite env) (dk_Journal disk) (pool_journal pool)) in
      let disk1 = disk\<lparr>dk_Journal := journal\<rparr> in
      if e1 \<noteq> None then (disk1, e1)
      else
        (let (file, e2) = write_file (en_PoolWrite env) (dk_Pool disk1) pool in
         (disk1\<lparr>dk_Pool := file\<rparr>, e2)))"

section \<open>The pool size\<close>

text \<open>New slots are numbered after the ones that exist.\<close>

definition grow :: "int \<Rightarrow> LeaseSlot list \<Rightarrow> LeaseSlot list" where
  "grow target slots = slots @ map new_slot [int (length slots) + 1..target]"

definition reconcileSlotCount :: "int \<Rightarrow> LeasePool \<Rightarrow> lease_error + LeasePool" where
  "reconcileSlotCount target pool =
     (let slots = grow target (sort_key sl_SlotID (lp_Slots pool)) in
      if int (length slots) > target
      then (case find_first (\<lambda>s. sl_State s \<noteq> SlotAvailable) (drop (nat target) slots) of
              Some s \<Rightarrow> Inl (CannotShrink (sl_SlotID s) (sl_State s))
            | None \<Rightarrow> Inl ShrinkNeedsReconciliation)
      else Inr (pool\<lparr>lp_Slots := slots\<rparr>))"

section \<open>The locked operation\<close>

definition withPoolLock :: "lease_disk \<Rightarrow> (LeasePool \<Rightarrow> lease_disk \<times> (lease_error + 'r))
    \<Rightarrow> lease_disk \<times> (lease_error + 'r)" where
  "withPoolLock disk operation =
     (case load disk of Inl e \<Rightarrow> (disk, Inl e) | Inr pool \<Rightarrow> operation pool)"

definition publish :: "lease_env \<Rightarrow> LeasePool \<Rightarrow> 'r \<Rightarrow> lease_disk \<Rightarrow> lease_disk \<times> (lease_error + 'r)" where
  "publish env pool r disk =
     (case writePool env pool disk of
        (disk', Some e) \<Rightarrow> (disk', Inl e)
      | (disk', None) \<Rightarrow> (disk', Inr r))"

definition withLock :: "LeaseStore \<Rightarrow> lease_env \<Rightarrow> 'r pool_op \<Rightarrow> lease_disk \<Rightarrow> lease_disk \<times> (lease_error + 'r)" where
  "withLock store env operation disk =
     (if st_SlotCount store < 1 then (disk, Inl SlotCountNotPositive)
      else withPoolLock disk (\<lambda>pool.
        case reconcileSlotCount (st_SlotCount store) pool of
          Inl e \<Rightarrow> (disk, Inl e)
        | Inr pool1 \<Rightarrow>
            (case operation (expireStale (en_Alive env 0) (en_Clock env 0) pool1) of
               Inl e \<Rightarrow> (disk, Inl e)
             | Inr (pool2, r) \<Rightarrow> publish env pool2 r disk)))"

definition lease_serve :: "LeaseStore \<Rightarrow> lease_env \<Rightarrow> lease_op \<Rightarrow> lease_disk \<Rightarrow> lease_disk \<times> (lease_error + lease_reply)" where
  "lease_serve store env op disk = withLock store env (lease_body store env op) disk"

text \<open>The three public forms of acquisition build the request.\<close>

definition AcquireSlot :: "LeaseStore \<Rightarrow> lease_env \<Rightarrow> string \<Rightarrow> string \<Rightarrow> string \<Rightarrow> string \<Rightarrow> string
    \<Rightarrow> lease_disk \<Rightarrow> lease_disk \<times> (lease_error + lease_reply)" where
  "AcquireSlot store env clientID fingerprint label purpose slotID disk =
     (if \<not> exact_slot slotID (st_SlotCount store) then (disk, Inl (InvalidSlot slotID))
      else lease_serve store env (OpAcquire
        \<lparr>aq_ClientID = clientID, aq_Fingerprint = fingerprint, aq_Label = label, aq_Purpose = purpose,
         aq_Context = legacyLeaseContext label purpose, aq_Slot = slotID, aq_Environment = None\<rparr>) disk)"

definition canonical_context :: "string \<Rightarrow> string \<Rightarrow> string \<Rightarrow> string \<Rightarrow> LeaseContext" where
  "canonical_context yard project run purpose =
     \<lparr>lc_SchemaVersion = 2, lc_Yard = yard, lc_Project = project, lc_Checkout = '''', lc_Run = run,
      lc_Purpose = purpose\<rparr>"

definition acquire_canonical :: "LeaseStore \<Rightarrow> lease_env \<Rightarrow> EnvironmentSpec option \<Rightarrow> string \<Rightarrow> string \<Rightarrow> LeaseContext
    \<Rightarrow> string \<Rightarrow> lease_disk \<Rightarrow> lease_disk \<times> (lease_error + lease_reply)" where
  "acquire_canonical store env spec clientID fingerprint context slotID disk =
     (if \<not> exact_slot slotID (st_SlotCount store) then (disk, Inl (InvalidSlot slotID))
      else case validateLeaseContext context of
        Some e \<Rightarrow> (disk, Inl (InvalidContext e))
      | None \<Rightarrow>
          lease_serve store env (OpAcquire
            \<lparr>aq_ClientID = clientID, aq_Fingerprint = fingerprint, aq_Label = contextDisplayLabel context,
             aq_Purpose = lc_Purpose context, aq_Context = Some context, aq_Slot = slotID,
             aq_Environment = spec\<rparr>) disk)"

definition AcquireV2Slot :: "LeaseStore \<Rightarrow> lease_env \<Rightarrow> string \<Rightarrow> string \<Rightarrow> string \<Rightarrow> string \<Rightarrow> string \<Rightarrow> string
    \<Rightarrow> string \<Rightarrow> lease_disk \<Rightarrow> lease_disk \<times> (lease_error + lease_reply)" where
  "AcquireV2Slot store env clientID fingerprint yard project run purpose slotID disk =
     acquire_canonical store env None clientID fingerprint (canonical_context yard project run purpose) slotID disk"

definition AcquireV3Slot :: "LeaseStore \<Rightarrow> lease_env \<Rightarrow> EnvironmentSpec \<Rightarrow> string \<Rightarrow> string \<Rightarrow> string \<Rightarrow> string
    \<Rightarrow> string \<Rightarrow> string \<Rightarrow> string \<Rightarrow> lease_disk \<Rightarrow> lease_disk \<times> (lease_error + lease_reply)" where
  "AcquireV3Slot store env spec clientID fingerprint yard project run purpose slotID disk =
     (case EnvironmentSpec_Validate spec of
        Some e \<Rightarrow> (disk, Inl (InvalidEnvironment e))
      | None \<Rightarrow> acquire_canonical store env (Some spec) clientID fingerprint
          (canonical_context yard project run purpose) slotID disk)"

section \<open>Inspection\<close>

fun check_inventory :: "nat \<Rightarrow> int list \<Rightarrow> LeaseSlot list \<Rightarrow> lease_error err" where
  "check_inventory size_of seen [] = None"
| "check_inventory size_of seen (slot # slots) =
     (case slotNumber (sl_SlotID slot) (int size_of) of
        None \<Rightarrow> Some (InvalidSlot (sl_SlotID slot))
      | Some number \<Rightarrow>
          if sl_SlotID slot \<noteq> slot_name number then Some (InvalidSlot (sl_SlotID slot))
          else if number \<in> set seen then Some (InvalidSlot (sl_SlotID slot))
          else (case sl_State slot of
                  OtherSlotState s \<Rightarrow> Some (WrongState (sl_SlotID slot) (OtherSlotState s))
                | _ \<Rightarrow> check_inventory size_of (number # seen) slots))"

definition validateLeaseSlotInventory :: "LeaseSlot list \<Rightarrow> lease_error err" where
  "validateLeaseSlotInventory slots = check_inventory (length slots) [] slots"

definition Inspect :: "LeaseStore \<Rightarrow> lease_env \<Rightarrow> lease_disk \<Rightarrow> lease_error + LeasePool" where
  "Inspect store env disk =
     (if st_SlotCount store < 1 then Inl SlotCountNotPositive
      else res_bind (load disk) (\<lambda>pool.
        case validateLeaseSlotInventory (lp_Slots pool) of
          Some e \<Rightarrow> Inl e
        | None \<Rightarrow> res_bind (reconcileSlotCount (st_SlotCount store) pool) (\<lambda>pool1.
            Inr (expireStale (en_Alive env 0) (en_Clock env 0) pool1))))"

section \<open>Resizing\<close>

definition resizing :: "LeaseSlot \<Rightarrow> bool" where
  "resizing slot \<longleftrightarrow> sl_State slot = SlotDraining \<and> sl_FailureReason slot = ''pool resize''"

definition check_retiring :: "LeaseSlot \<Rightarrow> lease_error err" where
  "check_retiring slot =
     (if sl_LegacyRetained slot then Some (LegacyRetirementRequired (sl_SlotID slot))
      else if resizing slot then None
      else if sl_State slot \<noteq> SlotAvailable then Some (CannotShrink (sl_SlotID slot) (sl_State slot))
      else None)"

definition PrepareResize :: "LeaseStore \<Rightarrow> lease_env \<Rightarrow> lease_disk \<Rightarrow> lease_disk \<times> (lease_error + LeaseSlot list)" where
  "PrepareResize store env disk =
     withPoolLock disk (\<lambda>pool.
       let n = st_SlotCount store; slots = lp_Slots pool in
       if int (length slots) < n
       then (case reconcileSlotCount n pool of
               Inl e \<Rightarrow> (disk, Inl e)
             | Inr pool1 \<Rightarrow> publish env pool1 [] disk)
       else if int (length slots) = n then (disk, Inr [])
       else case first_error check_retiring (drop (nat n) slots) of
         Some e \<Rightarrow> (disk, Inl e)
       | None \<Rightarrow>
           (let retiring = map (\<lambda>s. s\<lparr>sl_State := SlotDraining, sl_FailureReason := ''pool resize''\<rparr>) (drop (nat n) slots) in
            publish env (pool\<lparr>lp_Slots := take (nat n) slots @ retiring\<rparr>) retiring disk))"

definition ResizePlan :: "LeaseStore \<Rightarrow> lease_disk \<Rightarrow> lease_error + nat \<times> LeaseSlot list" where
  "ResizePlan store disk =
     res_bind (load disk) (\<lambda>pool.
       let slots = lp_Slots pool; retiring = drop (nat (st_SlotCount store)) slots in
       if int (length slots) \<le> st_SlotCount store then Inr (length slots, [])
       else case first_error check_retiring retiring of
         Some e \<Rightarrow> Inl e
       | None \<Rightarrow> Inr (length slots, retiring))"

definition CommitResize :: "LeaseStore \<Rightarrow> lease_env \<Rightarrow> lease_disk \<Rightarrow> lease_disk \<times> (lease_error + unit)" where
  "CommitResize store env disk =
     withPoolLock disk (\<lambda>pool.
       let n = st_SlotCount store; slots = lp_Slots pool in
       if int (length slots) < n then (disk, Inl ResizeNotPrepared)
       else case find_first (\<lambda>s. \<not> resizing s) (drop (nat n) slots) of
         Some s \<Rightarrow> (disk, Inl (NotFencedForResize (sl_SlotID s)))
       | None \<Rightarrow> publish env (pool\<lparr>lp_Slots := take (nat n) slots\<rparr>) () disk)"

section \<open>Rebuilding a corrupt pool\<close>

definition rebuilt_slot :: "lease_env \<Rightarrow> int \<Rightarrow> int \<Rightarrow> LeaseSlot" where
  "rebuilt_slot env number index =
     (new_slot index)\<lparr>sl_State := SlotQuarantined, sl_LegacyRetained := True,
       sl_FailureReason := (if index = number then ''operator recovery'' else ''lease state recovery required''),
       sl_NextRecoveryAt := en_Clock env (nat index)\<rparr>"

text \<open>
  The corrupt files are kept under a name with the time in it; each of the two renames may fail, the
  journal's first.
\<close>

definition keep_corrupt :: "time \<Rightarrow> bool \<Rightarrow> bool \<Rightarrow> lease_disk \<Rightarrow> lease_disk \<times> lease_error err" where
  "keep_corrupt now journalMoves poolMoves disk =
     (if dk_Journal disk \<noteq> NoFile \<and> \<not> journalMoves then (disk, Some WriteFailed)
      else
        (let disk1 = disk\<lparr>dk_Journal := NoFile\<rparr> in
         if \<not> poolMoves then (disk1\<lparr>dk_Backups := (now, NoFile, dk_Journal disk) # dk_Backups disk\<rparr>, Some WriteFailed)
         else (disk1\<lparr>dk_Pool := NoFile, dk_Backups := (now, dk_Pool disk, dk_Journal disk) # dk_Backups disk\<rparr>, None)))"

definition rebuildCorruptPoolForRecovery :: "LeaseStore \<Rightarrow> lease_env \<Rightarrow> bool \<Rightarrow> bool \<Rightarrow> string \<Rightarrow> lease_disk
    \<Rightarrow> lease_disk \<times> (lease_error + unit)" where
  "rebuildCorruptPoolForRecovery store env journalMoves poolMoves slotID disk =
     (case slotNumber slotID (st_SlotCount store) of
        None \<Rightarrow> (disk, Inl (InvalidSlot slotID))
      | Some number \<Rightarrow>
          (case load disk of
             Inr _ \<Rightarrow> (disk, Inl StateChanged)
           | Inl e \<Rightarrow>
               if e \<noteq> CorruptLeaseState then (disk, Inl e)
               else case keep_corrupt (en_Clock env 0) journalMoves poolMoves disk of
                 (disk1, Some e) \<Rightarrow> (disk1, Inl e)
               | (disk1, None) \<Rightarrow>
                   publish env (empty_pool\<lparr>lp_Slots := map (rebuilt_slot env number) [1..st_SlotCount store]\<rparr>) () disk1))"

definition BeginRecovery :: "LeaseStore \<Rightarrow> lease_env \<Rightarrow> lease_env \<Rightarrow> bool \<Rightarrow> bool \<Rightarrow> string \<Rightarrow> lease_disk
    \<Rightarrow> lease_disk \<times> (lease_error + unit)" where
  "BeginRecovery store env env' journalMoves poolMoves slotID disk =
     (case lease_serve store env (OpScheduledRecovery slotID True) disk of
        (disk', Inl e) \<Rightarrow>
          if e \<noteq> CorruptLeaseState then (disk', Inl e)
          else rebuildCorruptPoolForRecovery store env' journalMoves poolMoves slotID disk'
      | (disk', Inr _) \<Rightarrow> (disk', Inr ()))"

end
