(* ===== verification/Lease_Safety.thy ===== *)
theory Lease_Safety
  imports Lease_Store
begin

text \<open>
  The invariant of the lease files and what follows from it: every locked operation keeps the files
  loadable whatever the outcome of the writes, slots move only along their life cycle, and a grant
  is worthless once its slot was granted again.  Two operations outside
  this set break the invariant; they are shown in \<open>Lease_Durability\<close>.
\<close>

section \<open>Recovery metadata\<close>

text \<open>The journal can hold a slot with recovery metadata only in three states.\<close>

definition meta_ok :: "LeaseSlot \<Rightarrow> bool" where
  "meta_ok slot \<longleftrightarrow>
     (slotHasRecoveryMetadata slot \<longrightarrow> sl_State slot \<in> {SlotAvailable, SlotQuarantined, SlotRecovering})"

definition keeps_meta :: "LeaseSlot \<Rightarrow> LeaseSlot \<Rightarrow> bool" where
  "keeps_meta s s' \<longleftrightarrow> (meta_ok s \<longrightarrow> meta_ok s')"

lemmas meta_defs = keeps_meta_def meta_ok_def slotHasRecoveryMetadata_def

lemma keeps_meta_acquire: "acquire_slot_op store env q s = Inr (s', g) \<Longrightarrow> keeps_meta s s'"
  by (auto simp: acquire_slot_op_def Let_def grant_slot_def meta_defs split: if_split_asm option.split_asm)

lemma keeps_meta_expire: "keeps_meta s (expire_slot alive now s)"
  by (auto simp: expire_slot_def meta_defs split: option.split)

interpretation metadata: slot_contract keeps_meta
proof (unfold_locales, goal_cases)
  case 2
  show ?case by (rule keeps_meta_expire)
next
  case (4 store env q s s' g)
  then show ?case by (rule keeps_meta_acquire)
next
  case (12 e now s s' u)
  then show ?case by (auto simp: finish_drain_slot_def meta_defs split: if_split_asm option.split_asm)
next
  case (16 cause f i now s s' v)
  then show ?case by (auto simp: finish_recovery_slot_def Let_def meta_defs split: if_split_asm option.split_asm)
qed (auto simp: begin_drain_def abort_slot_def held_slot_def renew_slot_def drain_slot_def handoff_slot_def
    forget_legacy_slot_def quarantine_slot_def start_recovery_def incident_slot_def interrupt_slot_def
    finish_retire_slot_def meta_defs split: if_split_asm)

section \<open>The invariant\<close>

definition slot_inv :: "nat \<Rightarrow> LeaseSlot \<Rightarrow> bool" where
  "slot_inv b s \<longleftrightarrow>
     slot_ok s \<and> meta_ok s \<and> 1 \<le> sl_ResourceGeneration s \<and> sl_ResourceGeneration s \<le> b + 1 \<and> sl_LeaseEpoch s \<le> b"

definition admission_ok :: "LeasePool \<Rightarrow> bool" where
  "admission_ok pool \<longleftrightarrow>
     lp_SchemaVersion pool = (if lp_AdmissionClosed pool then 3 else 2)
     \<and> lp_ResourceType pool = ''agent-e2e'' \<and> lp_ResourceID pool = ''test-vms''"

definition pool_inv :: "int \<Rightarrow> nat \<Rightarrow> LeasePool \<Rightarrow> bool" where
  "pool_inv n b pool \<longleftrightarrow>
     admission_ok pool \<and> map sl_SlotID (lp_Slots pool) = map slot_name [1..n]
     \<and> (\<forall>s \<in> set (lp_Slots pool). slot_inv b s)"

definition journal_ok :: "leaseRecoveryJournal \<Rightarrow> bool" where
  "journal_ok j \<longleftrightarrow>
     jn_SchemaVersion j = 1 \<and> distinct (map jr_SlotID (jn_Slots j)) \<and> (\<forall>r \<in> set (jn_Slots j). entry_ok [] r)"

definition disk_inv :: "int \<Rightarrow> nat \<Rightarrow> lease_disk \<Rightarrow> bool" where
  "disk_inv n b disk \<longleftrightarrow>
     (case dk_Journal disk of NoFile \<Rightarrow> True | Content j \<Rightarrow> journal_ok j | _ \<Rightarrow> False)
     \<and> (case dk_Pool disk of NoFile \<Rightarrow> True | Content pool \<Rightarrow> pool_inv n b pool | _ \<Rightarrow> False)"

section \<open>Merging the journal\<close>

text \<open>Merging touches only the recovery fields.\<close>

definition core :: "LeaseSlot \<Rightarrow> LeaseSlot" where
  "core s = s\<lparr>sl_LastFailureEventID := '''', sl_IncidentID := '''', sl_RecoveryAttempt := 0,
     sl_NextRecoveryAt := 0, sl_RecoveryStartedAt := 0\<rparr>"

lemma core_apply_entry [simp]: "core (apply_entry r s) = core s"
  by (simp add: apply_entry_def core_def)

lemma core_eqD:
  assumes "core s = core t"
  shows "sl_SlotID s = sl_SlotID t" "phase s = phase t" "sl_ResourceGeneration s = sl_ResourceGeneration t"
    "sl_LeaseEpoch s = sl_LeaseEpoch t" "sl_State s = sl_State t"
    "sl_LeaseID s = sl_LeaseID t" "sl_CapabilityHash s = sl_CapabilityHash t"
    "sl_ExpiresAt s = sl_ExpiresAt t" "lease_cleared s = lease_cleared t" "sl_AcquireOwner s = sl_AcquireOwner t"
  using assms by (cases s; cases t; simp add: core_def phase_def lease_cleared_def)+

lemma slot_inv_apply_entry: "entry_ok [] r \<Longrightarrow> slot_inv b s \<Longrightarrow> slot_inv b (apply_entry r s)"
  by (auto simp: slot_inv_def slot_ok_def lease_cleared_def record_id_or_empty_def meta_ok_def
      slotHasRecoveryMetadata_def apply_entry_def entry_ok_def)

lemma merge_entry_slots:
  "map core (lp_Slots (merge_entry r pool)) = map core (lp_Slots pool)"
  "entry_ok [] r \<Longrightarrow> \<forall>s \<in> set (lp_Slots pool). slot_inv b s \<Longrightarrow> \<forall>s \<in> set (lp_Slots (merge_entry r pool)). slot_inv b s"
  "same_admission pool (merge_entry r pool)"
proof -
  show "map core (lp_Slots (merge_entry r pool)) = map core (lp_Slots pool)"
    by (auto simp: merge_entry_def map_update list_update_same_conv split: option.split dest!: findSlot_Some)
  show "same_admission pool (merge_entry r pool)"
    by (simp add: merge_entry_def same_admission_def split: option.split)
  assume "entry_ok [] r" and inv: "\<forall>s \<in> set (lp_Slots pool). slot_inv b s"
  then show "\<forall>s \<in> set (lp_Slots (merge_entry r pool)). slot_inv b s"
    by (auto simp: merge_entry_def slot_inv_apply_entry split: option.split
        dest!: findSlot_Some set_update_subset_insert [THEN subsetD])
qed

lemma entry_ok_seen: "entry_ok seen r \<longleftrightarrow> entry_ok [] r \<and> jr_SlotID r \<notin> set seen"
  by (auto simp: entry_ok_def)

lemma same_admission_trans: "same_admission p q \<Longrightarrow> same_admission q r \<Longrightarrow> same_admission p r"
  by (simp add: same_admission_def)

lemma merge_entries_ok:
  assumes "\<forall>r \<in> set rs. entry_ok [] r" and "distinct (map jr_SlotID rs)" and "jr_SlotID ` set rs \<inter> set seen = {}"
    and "\<forall>s \<in> set (lp_Slots pool). slot_inv b s"
  shows "\<exists>pool'. merge_entries seen rs pool = Inr pool' \<and> map core (lp_Slots pool') = map core (lp_Slots pool)
    \<and> (\<forall>s \<in> set (lp_Slots pool'). slot_inv b s) \<and> same_admission pool pool'"
  using assms
proof (induction rs arbitrary: seen pool)
  case Nil
  then show ?case by (simp add: same_admission_def)
next
  case (Cons r rs)
  let ?p = "merge_entry r pool"
  have "\<exists>pool'. merge_entries (jr_SlotID r # seen) rs ?p = Inr pool' \<and> map core (lp_Slots pool') = map core (lp_Slots ?p)
    \<and> (\<forall>s \<in> set (lp_Slots pool'). slot_inv b s) \<and> same_admission ?p pool'"
    using Cons.prems merge_entry_slots(2) [of r pool b] by (intro Cons.IH) auto
  moreover have "entry_ok seen r" using Cons.prems by (simp add: entry_ok_seen [of seen])
  ultimately show ?case
    using merge_entry_slots(1) [of r pool] merge_entry_slots(3) [of pool r] by (auto dest: same_admission_trans)
qed

lemma map_core_ids: "map core xs = map core ys \<Longrightarrow> map sl_SlotID xs = map sl_SlotID ys"
proof -
  assume "map core xs = map core ys"
  then have "map (sl_SlotID \<circ> core) xs = map (sl_SlotID \<circ> core) ys" by (metis map_map)
  moreover have "sl_SlotID \<circ> core = sl_SlotID" by (simp add: fun_eq_iff core_def)
  ultimately show ?thesis by simp
qed

section \<open>Loading\<close>

lemma pool_inv_merge:
  assumes "pool_inv n b pool" and "journal_ok j"
  shows "\<exists>pool'. merge_entries [] (jn_Slots j) pool = Inr pool' \<and> pool_inv n b pool'
    \<and> map core (lp_Slots pool') = map core (lp_Slots pool) \<and> same_admission pool pool'"
proof -
  obtain pool' where m: "merge_entries [] (jn_Slots j) pool = Inr pool'"
    "map core (lp_Slots pool') = map core (lp_Slots pool)" "\<forall>s \<in> set (lp_Slots pool'). slot_inv b s"
    "same_admission pool pool'"
    using merge_entries_ok [of "jn_Slots j" "[]" pool b] assms by (auto simp: journal_ok_def pool_inv_def)
  then have "pool_inv n b pool'"
    using assms(1) map_core_ids [OF m(2)] by (simp add: pool_inv_def admission_ok_def same_admission_def)
  with m show ?thesis by blast
qed

lemma upgrade_admission_ok: "admission_ok pool \<Longrightarrow> upgrade_pool pool = pool"
  by (auto simp: admission_ok_def upgrade_pool_def Let_def split: if_split_asm)

lemma load_content:
  assumes "disk_inv n b disk" and "dk_Pool disk = Content pool"
  shows "\<exists>pool'. load disk = Inr pool' \<and> pool_inv n b pool' \<and> map core (lp_Slots pool') = map core (lp_Slots pool)
    \<and> same_admission pool pool'"
proof -
  have inv: "pool_inv n b pool" using assms by (simp add: disk_inv_def)
  then have adm: "admission_ok pool" by (simp add: pool_inv_def)
  have "load disk = mergeRecoveryJournal (dk_Journal disk) pool"
    using adm by (auto simp: load_def assms(2) upgrade_admission_ok Let_def) (auto simp: admission_ok_def split: if_split_asm)
  then show ?thesis
    using assms(1) inv pool_inv_merge [OF inv]
    by (cases "dk_Journal disk") (auto simp: mergeRecoveryJournal_def disk_inv_def journal_ok_def same_admission_def)
qed

section \<open>The pool size\<close>

lemma sorted_slot_names: "n \<le> 999 \<Longrightarrow> sorted (map slot_name [1..n])"
  by (auto simp: sorted_iff_nth_mono_less nth_upto intro!: less_imp_le slot_name_less)

lemma distinct_slot_names: "distinct (map slot_name [1..n])"
  by (auto simp: distinct_map inj_on_def slot_name_inj)

lemma reconcile_same:
  assumes "map sl_SlotID (lp_Slots pool) = map slot_name [1..n]" and "0 \<le> n" and "n \<le> 999"
  shows "reconcileSlotCount n pool = Inr pool"
proof -
  have len: "int (length (lp_Slots pool)) = n" using assms(1,2) by (metis length_map length_upto diff_add_cancel int_nat_eq)
  have "sort_key sl_SlotID (lp_Slots pool) = lp_Slots pool"
    by (rule sort_key_id_if_sorted) (simp add: assms(1) sorted_slot_names [OF assms(3)])
  then show ?thesis using len by (simp add: reconcileSlotCount_def Let_def grow_def)
qed

lemma reconcile_empty:
  assumes "lp_Slots pool = []" and "0 \<le> n"
  shows "reconcileSlotCount n pool = Inr (pool\<lparr>lp_Slots := map new_slot [1..n]\<rparr>)"
  using assms by (simp add: reconcileSlotCount_def Let_def grow_def)

lemma new_slot_inv: "slot_inv b (new_slot k)"
  by (simp add: slot_inv_def new_slot_ok meta_ok_def slotHasRecoveryMetadata_def) (simp add: new_slot_def)

lemma pool_inv_new: "pool_inv n b (empty_pool\<lparr>lp_Slots := map new_slot [1..n]\<rparr>)"
  by (auto simp: pool_inv_def admission_ok_def empty_pool_def new_slot_inv) (simp add: new_slot_def)

text \<open>The slots an operation starts from: what is on disk, or the slots of a new pool.\<close>

definition slots_on :: "int \<Rightarrow> lease_disk \<Rightarrow> LeaseSlot list" where
  "slots_on n disk = (case dk_Pool disk of Content pool \<Rightarrow> lp_Slots pool | _ \<Rightarrow> map new_slot [1..n])"

definition closed_on :: "lease_disk \<Rightarrow> bool" where
  "closed_on disk = (case dk_Pool disk of Content pool \<Rightarrow> lp_AdmissionClosed pool | _ \<Rightarrow> False)"

lemma load_reconcile:
  assumes "disk_inv n b disk" and "1 \<le> n" and "n \<le> 999"
  shows "\<exists>pool pool'. load disk = Inr pool \<and> reconcileSlotCount n pool = Inr pool' \<and> pool_inv n b pool'
    \<and> map core (lp_Slots pool') = map core (slots_on n disk) \<and> lp_AdmissionClosed pool' = closed_on disk"
proof (cases "dk_Pool disk")
  case NoFile
  then have "load disk = Inr empty_pool" by (simp add: load_def)
  moreover have "reconcileSlotCount n empty_pool = Inr (empty_pool\<lparr>lp_Slots := map new_slot [1..n]\<rparr>)"
    using assms(2) by (intro reconcile_empty) (simp_all add: empty_pool_def)
  ultimately show ?thesis using NoFile pool_inv_new by (simp add: slots_on_def closed_on_def empty_pool_def)
next
  case (Content pool)
  with load_content [OF assms(1)] obtain pool' where "load disk = Inr pool'" "pool_inv n b pool'"
    "map core (lp_Slots pool') = map core (lp_Slots pool)" "same_admission pool pool'" by blast
  then show ?thesis using reconcile_same [of pool' n] assms(2,3) Content
    by (simp add: slots_on_def closed_on_def pool_inv_def same_admission_def)
qed (use assms(1) in \<open>simp_all add: disk_inv_def\<close>)

section \<open>Operations keep the invariant\<close>

lemma slot_inv_evolves:
  assumes "slot_inv b s" and "evolves k s s'" and "keeps_meta s s'" and "b + k + 2 < 2 ^ 64"
  shows "slot_inv (b + k) s'"
proof -
  from assms(1,2) obtain n where ok: "slot_ok s'" and "n \<le> k" and "(lifecycle ^^ n) (phase s) (phase s')"
    by (auto simp: slot_inv_def evolves_def)
  then have "sl_LeaseEpoch s' \<le> sl_LeaseEpoch s + n \<and> sl_ResourceGeneration s \<le> sl_ResourceGeneration s'
      \<and> sl_ResourceGeneration s' \<le> sl_ResourceGeneration s + n"
    using assms(1,4) lifecycle_pow_counters [of n "sl_State s" "sl_LeaseEpoch s" "sl_ResourceGeneration s"]
    by (auto simp: phase_def slot_inv_def)
  with ok assms(1,3) \<open>n \<le> k\<close> show ?thesis by (auto simp: slot_inv_def keeps_meta_def)
qed

lemma with_slot_admission: "with_slot slotID f pool = Inr (pool', r) \<Longrightarrow> same_admission pool pool'"
  by (auto simp: with_slot_Inr same_admission_def)

lemma admission_ok_same: "same_admission pool pool' \<Longrightarrow> admission_ok pool \<Longrightarrow> admission_ok pool'"
  by (simp add: same_admission_def admission_ok_def)

lemma expireStale_admission: "same_admission pool (expireStale alive now pool)"
  by (simp add: same_admission_def expireStale_def)

lemma lease_body_admission:
  assumes "lease_body store env op pool = Inr (pool', r)" and "admission_ok pool"
  shows "admission_ok pool'"
proof (cases op)
  case (OpAcquire q)
  then obtain g where "acquire_op store env q pool = Inr (pool', g)"
    using assms(1) by (auto simp: reply_Inr split: option.split_asm)
  from with_slot_admission [OF acquire_op_Inr(2) [OF this]] expireStale_admission assms(2) show ?thesis
    by (meson admission_ok_same)
qed (use assms in \<open>auto simp: reply_Inr mutateOwned_def expected_drain_op_def expected_recovery_op_def incident_op_def
    interrupt_op_def drain_all_op_def fence_op_def open_admission_op_def admission_ok_def
    split: option.split_asm if_split_asm dest!: with_slot_admission simp: same_admission_def\<close>)

lemma slotwise_ids: "slotwise (evolves k) p q \<Longrightarrow> map sl_SlotID (lp_Slots q) = map sl_SlotID (lp_Slots p)"
  unfolding slotwise_def by (induction rule: list_all2_induct) (auto simp: evolves_def)

lemma pool_inv_evolves:
  assumes "pool_inv n b pool" and "slotwise (evolves k) pool pool'" and "slotwise keeps_meta pool pool'"
    and "admission_ok pool'" and "b + k + 2 < 2 ^ 64"
  shows "pool_inv n (b + k) pool'"
proof -
  have "slot_inv (b + k) s'" if s': "s' \<in> set (lp_Slots pool')" for s'
  proof -
    obtain i where "i < length (lp_Slots pool')" "s' = lp_Slots pool' ! i" using s' by (metis in_set_conv_nth)
    then have "evolves k (lp_Slots pool ! i) s'" "keeps_meta (lp_Slots pool ! i) s'" "lp_Slots pool ! i \<in> set (lp_Slots pool)"
      using assms(2,3) by (auto simp: slotwise_def list_all2_conv_all_nth)
    then show ?thesis using assms(1,5) by (auto simp: pool_inv_def intro: slot_inv_evolves)
  qed
  then show ?thesis using assms(1,4) slotwise_ids [OF assms(2)] by (simp add: pool_inv_def)
qed

text \<open>The body of an operation, run on the pool after expiry.\<close>

lemma locked_body:
  assumes "pool_inv n b pool" and "b + 5 < 2 ^ 64" and "\<nexists>i. op = OpBeginRetire i"
    and "lease_body store env op (expireStale alive now pool) = Inr (pool', r)"
  shows "pool_inv n (b + 3) pool'" and "slotwise (evolves 3) pool pool'"
proof -
  let ?p = "expireStale alive now pool"
  show ev: "slotwise (evolves 3) pool pool'"
    using slotwise_evolves_trans [OF evolving.pool_expiry lease_body_evolves [OF assms(4)]]
    by (simp add: numeral_eq_Suc)
  have "slotwise keeps_meta pool pool'"
    using metadata.pool_expiry metadata.pool_body [OF assms(4,3)]
    by (rule slotwise_trans [rotated]) (auto simp: keeps_meta_def)
  moreover have "admission_ok pool'"
    using lease_body_admission [OF assms(4)] admission_ok_same [OF expireStale_admission] assms(1)
    by (auto simp: pool_inv_def)
  ultimately show "pool_inv n (b + 3) pool'"
    using pool_inv_evolves [OF assms(1) ev] assms(2) by simp
qed

section \<open>Writing\<close>

lemma entry_ok_journal_entry:
  assumes "slot_inv b s" and "slotHasRecoveryMetadata s" and "brokerSlotID (sl_SlotID s)"
  shows "entry_ok [] (journal_entry s)"
  using assms by (auto simp: entry_ok_def journal_entry_def slot_inv_def slot_ok_def meta_ok_def record_id_or_empty_def)

lemma pool_inv_ids: "pool_inv n b pool \<Longrightarrow> n \<le> 999 \<Longrightarrow> s \<in> set (lp_Slots pool) \<Longrightarrow> brokerSlotID (sl_SlotID s)"
proof -
  assume "pool_inv n b pool" "n \<le> 999" "s \<in> set (lp_Slots pool)"
  then have "sl_SlotID s \<in> set (map slot_name [1..n])" by (metis pool_inv_def imageI set_map)
  with \<open>n \<le> 999\<close> show ?thesis by (auto intro!: brokerSlotID_slot_name)
qed

lemma journal_ok_pool_journal:
  assumes "pool_inv n b pool" and "n \<le> 999"
  shows "journal_ok (pool_journal pool)"
proof -
  have "jr_SlotID \<circ> journal_entry = sl_SlotID" by (simp add: fun_eq_iff journal_entry_def)
  moreover have "distinct (map sl_SlotID (lp_Slots pool))"
    using assms(1) distinct_slot_names by (simp add: pool_inv_def)
  ultimately have "distinct (map jr_SlotID (jn_Slots (pool_journal pool)))"
    by (simp add: pool_journal_def distinct_map_filter)
  then show ?thesis
    using assms pool_inv_ids [OF assms] by (auto simp: journal_ok_def pool_journal_def pool_inv_def intro: entry_ok_journal_entry)
qed

lemma writePool_files:
  assumes "writePool env pool disk = (disk', e)"
  shows "dk_Pool disk' = dk_Pool disk \<or> dk_Pool disk' = Content pool"
    and "dk_Journal disk' \<in> {dk_Journal disk, NoFile, Content (pool_journal pool)}"
    and "e = None \<Longrightarrow> dk_Pool disk' = Content pool
      \<and> dk_Journal disk' = (if jn_Slots (pool_journal pool) = [] then NoFile else Content (pool_journal pool))"
  using assms
  by (auto simp: writePool_def Let_def write_file_def remove_file_def split: write_outcome.split_asm if_split_asm)

lemma slot_inv_mono: "slot_inv b s \<Longrightarrow> b \<le> c \<Longrightarrow> slot_inv c s"
  by (auto simp: slot_inv_def)

lemma disk_inv_mono: "disk_inv n b disk \<Longrightarrow> b \<le> c \<Longrightarrow> disk_inv n c disk"
  by (auto simp: disk_inv_def pool_inv_def intro: slot_inv_mono split: doc.split_asm doc.split)

lemma writePool_inv:
  assumes "writePool env pool disk = (disk', e)" and "disk_inv n b disk" and "pool_inv n b pool" and "n \<le> 999"
  shows "disk_inv n b disk'"
  using writePool_files(1,2) [OF assms(1)] assms(2,3) journal_ok_pool_journal [OF assms(3,4)]
  by (auto simp: disk_inv_def)

section \<open>One operation on the files\<close>

text \<open>The life cycle seen through the files.\<close>

definition cycles :: "nat \<Rightarrow> LeaseSlot \<Rightarrow> LeaseSlot \<Rightarrow> bool" where
  "cycles k s s' \<longleftrightarrow> sl_SlotID s' = sl_SlotID s \<and> (\<exists>n \<le> k. (lifecycle ^^ n) (phase s) (phase s'))"

lemma cycles_refl: "cycles k s s"
  by (auto simp: cycles_def intro: exI [of _ 0])

lemma cycles_trans: "cycles k s t \<Longrightarrow> cycles m t u \<Longrightarrow> cycles (k + m) s u"
  unfolding cycles_def by (metis add_mono relpowp_trans)

lemma cycles_core: "core s = core t \<Longrightarrow> cycles k s t"
proof -
  assume "core s = core t"
  then have "sl_SlotID t = sl_SlotID s" "phase t = phase s" by (auto dest: core_eqD(1,2))
  then show ?thesis unfolding cycles_def by (metis le0 relpowp_0_I)
qed

lemma lease_serve_cases:
  assumes "disk_inv n b disk" and "1 \<le> n" and "n \<le> 999" and "st_SlotCount store = n"
    and "lease_serve store env op disk = (disk', r)"
  obtains (refused) "disk' = disk" "\<not> is_ok r"
  | (published) pool pool' answer where "pool_inv n b pool" "map core (lp_Slots pool) = map core (slots_on n disk)"
      "lp_AdmissionClosed pool = closed_on disk"
      "lease_body store env op (expireStale (en_Alive env 0) (en_Clock env 0) pool) = Inr (pool', answer)"
      "\<exists>e. writePool env pool' disk = (disk', e) \<and> r = (case e of None \<Rightarrow> Inr answer | Some e \<Rightarrow> Inl e)"
proof -
  obtain pool0 pool where l: "load disk = Inr pool0" "reconcileSlotCount n pool0 = Inr pool" "pool_inv n b pool"
    "map core (lp_Slots pool) = map core (slots_on n disk)" "lp_AdmissionClosed pool = closed_on disk"
    using load_reconcile [OF assms(1-3)] by blast
  let ?body = "lease_body store env op (expireStale (en_Alive env 0) (en_Clock env 0) pool)"
  have serve: "lease_serve store env op disk =
      (case ?body of Inl e \<Rightarrow> (disk, Inl e) | Inr (pool', answer) \<Rightarrow> publish env pool' answer disk)"
    using assms(2,4) l by (simp add: lease_serve_def withLock_def withPoolLock_def)
  show thesis
  proof (cases ?body)
    case (Inl e)
    then have "disk' = disk" "r = Inl e" using assms(5) serve by simp_all
    then show thesis by (intro refused) simp_all
  next
    case (Inr x)
    then obtain pool' answer where x: "?body = Inr (pool', answer)" by (cases x) auto
    then have "publish env pool' answer disk = (disk', r)" using serve assms(5) by simp
    then have "\<exists>e. writePool env pool' disk = (disk', e) \<and> r = (case e of None \<Rightarrow> Inr answer | Some e \<Rightarrow> Inl e)"
      by (auto simp: publish_def split: prod.split_asm option.split_asm)
    with published l(3-5) x show thesis by blast
  qed
qed

lemma lease_serve_step:
  assumes "disk_inv n b disk" and "1 \<le> n" and "n \<le> 999" and "st_SlotCount store = n" and "b + 5 < 2 ^ 64"
    and "\<nexists>i. op = OpBeginRetire i" and "lease_serve store env op disk = (disk', r)"
  shows "disk_inv n (b + 3) disk'" and "list_all2 (cycles 3) (slots_on n disk) (slots_on n disk')"
proof -
  have "disk_inv n (b + 3) disk' \<and> list_all2 (cycles 3) (slots_on n disk) (slots_on n disk')"
    using assms(1-4,7)
  proof (cases rule: lease_serve_cases)
    case refused
    then show ?thesis using assms(1) by (simp add: disk_inv_mono list_all2_same cycles_refl)
  next
    case (published pool pool' answer)
    then obtain e where w: "writePool env pool' disk = (disk', e)" by blast
    note body = locked_body [OF published(1) assms(5,6) published(4)]
    have "disk_inv n (b + 3) disk'"
      by (rule writePool_inv [OF w disk_inv_mono [OF assms(1)] body(1) assms(3)]) simp
    moreover have "list_all2 (cycles 3) (slots_on n disk) (lp_Slots pool')"
    proof -
      have "list_all2 (cycles 0) (slots_on n disk) (lp_Slots pool)"
        using published(2) unfolding list_all2_conv_all_nth by (metis cycles_core length_map nth_map)
      moreover have "list_all2 (cycles 3) (lp_Slots pool) (lp_Slots pool')"
        using body(2) published(1) unfolding slotwise_def list_all2_conv_all_nth
        by (auto simp: evolves_def cycles_def pool_inv_def slot_inv_def)
      ultimately show ?thesis by (rule list_all2_trans [rotated]) (use cycles_trans [of 0 _ _ 3] in simp)
    qed
    then have "list_all2 (cycles 3) (slots_on n disk) (slots_on n disk')"
      using writePool_files(1) [OF w] by (auto simp: slots_on_def list_all2_same cycles_refl)
    ultimately show ?thesis by simp
  qed
  then show "disk_inv n (b + 3) disk'" and "list_all2 (cycles 3) (slots_on n disk) (slots_on n disk')" by simp_all
qed

section \<open>Sequences of operations\<close>

type_synonym lease_call = "lease_env \<times> lease_op"

definition lease_step :: "LeaseStore \<Rightarrow> lease_call \<Rightarrow> lease_disk \<Rightarrow> lease_disk" where
  "lease_step store call disk = fst (lease_serve store (fst call) (snd call) disk)"

definition retires :: "lease_call \<Rightarrow> bool" where
  "retires call \<longleftrightarrow> (\<exists>i. snd call = OpBeginRetire i)"

text \<open>
  The invariant over the calls served so far: three counter steps per call, so the 64-bit counters
  cannot wrap while fewer than \<open>2^62\<close> calls were served.
\<close>

definition served_inv :: "LeaseStore \<Rightarrow> nat \<Rightarrow> lease_call list \<times> lease_disk \<Rightarrow> bool" where
  "served_inv store b hs \<longleftrightarrow>
     (1 \<le> st_SlotCount store \<and> st_SlotCount store \<le> 999 \<and> \<not> list_ex retires (fst hs)
        \<and> b + 3 * length (fst hs) + 2 < 2 ^ 64
      \<longrightarrow> disk_inv (st_SlotCount store) (b + 3 * length (fst hs)) (snd hs))"

lemma served_inv_step: "served_inv store b hs \<Longrightarrow> served_inv store b (with_history (lease_step store) call hs)"
proof -
  assume inv: "served_inv store b hs"
  obtain h disk env op where hs: "hs = (h, disk)" "call = (env, op)" by (metis surj_pair)
  obtain disk' r where srv: "lease_serve store env op disk = (disk', r)" by force
  show ?thesis
    using inv lease_serve_step(1) [OF _ _ _ refl _ _ srv, of "b + 3 * length h"]
    by (auto simp: served_inv_def with_history_def lease_step_def hs srv retires_def add_ac)
qed

interpretation lease_machine: invariant_machine "with_history (lease_step store)" "served_inv store b"
  by unfold_locales (rule served_inv_step)

lemma run_disk_inv:
  assumes "disk_inv (st_SlotCount store) b disk" and "1 \<le> st_SlotCount store" and "st_SlotCount store \<le> 999"
    and "\<not> list_ex retires calls" and "b + 3 * length calls + 2 < 2 ^ 64"
  shows "disk_inv (st_SlotCount store) (b + 3 * length calls) (fold (lease_step store) calls disk)"
proof -
  have "served_inv store b ([], disk)" using assms(1) by (simp add: served_inv_def)
  from lease_machine.run_inv [OF this, of calls] assms(2-) show ?thesis
    by (auto simp: served_inv_def fold_with_history list_ex_iff)
qed

lemma run_cycles:
  assumes "disk_inv (st_SlotCount store) b disk" and "1 \<le> st_SlotCount store" and "st_SlotCount store \<le> 999"
    and "\<not> list_ex retires calls" and "b + 3 * length calls + 2 < 2 ^ 64"
  shows "list_all2 (cycles (3 * length calls)) (slots_on (st_SlotCount store) disk)
    (slots_on (st_SlotCount store) (fold (lease_step store) calls disk))"
  using assms
proof (induction calls arbitrary: disk b)
  case Nil
  then show ?case by (simp add: list_all2_same cycles_refl)
next
  case (Cons call calls)
  let ?n = "st_SlotCount store"
  obtain disk' r where srv: "lease_serve store (fst call) (snd call) disk = (disk', r)" by force
  note st = lease_serve_step [OF Cons.prems(1-3) refl _ _ srv]
  have "disk_inv ?n (b + 3) disk'" and s: "list_all2 (cycles 3) (slots_on ?n disk) (slots_on ?n disk')"
    using st Cons.prems(4,5) by (auto simp: retires_def)
  then have "list_all2 (cycles (3 * length calls)) (slots_on ?n disk') (slots_on ?n (fold (lease_step store) calls disk'))"
    using Cons.prems by (intro Cons.IH [where b = "b + 3"]) auto
  with s have "list_all2 (cycles (3 + 3 * length calls)) (slots_on ?n disk) (slots_on ?n (fold (lease_step store) calls disk'))"
    by (rule list_all2_trans [rotated]) (rule cycles_trans)
  moreover have "lease_step store call disk = disk'" by (simp add: lease_step_def srv)
  ultimately show ?case by simp
qed

section \<open>A small example\<close>

text \<open>A pool of one slot, granted from no files; the properties below are applied to it.\<close>

definition demo_store :: LeaseStore where
  "demo_store = \<lparr>st_AcquireOwner = None, st_SlotCount = 1\<rparr>"

definition demo_env :: "time \<Rightarrow> string \<Rightarrow> lease_env" where
  "demo_env now token = \<lparr>en_Clock = \<lambda>_. now, en_Alive = \<lambda>_ _. True, en_LeaseID = Some token, en_Capability = Some token,
     en_JournalWrite = Written, en_PoolWrite = Written\<rparr>"

definition demo_request :: acquire_request where
  "demo_request = \<lparr>aq_ClientID = ''ci'', aq_Fingerprint = ''SHA256:k'', aq_Label = ''run'', aq_Purpose = ''e2e'',
     aq_Context = None, aq_Slot = ''slot-001'', aq_Environment = None\<rparr>"

definition demo_disk :: lease_disk where
  "demo_disk = \<lparr>dk_Pool = NoFile, dk_Journal = NoFile, dk_Backups = []\<rparr>"

definition demo_slot :: "time \<Rightarrow> string \<Rightarrow> nat \<Rightarrow> LeaseSlot" where
  "demo_slot now token epoch = grant_slot demo_store demo_request now token token ((new_slot 1)\<lparr>sl_LeaseEpoch := epoch\<rparr>)"

definition demo_files :: "LeaseSlot \<Rightarrow> lease_disk" where
  "demo_files s = demo_disk\<lparr>dk_Pool := Content (empty_pool\<lparr>lp_Slots := [s]\<rparr>)\<rparr>"

lemma demo_request_ok: "check_request demo_request = None"
  unfolding demo_request_def by code_simp

lemma demo_name: "slot_name 1 = ''slot-001''"
  by code_simp

definition demo_grant :: "time \<Rightarrow> string \<Rightarrow> nat \<Rightarrow> LeaseGrant" where
  "demo_grant now token epoch =
     \<lparr>lg_Environment = None, lg_BaseFingerprint = '''', lg_SlotID = ''slot-001'', lg_ResourceGeneration = 1,
      lg_LeaseID = token, lg_Capability = token, lg_LeaseEpoch = epoch, lg_ExpiresAt = now + ProvisioningTTL,
      lg_Context = None, lg_DataUser = '''', lg_Targets = []\<rparr>"

lemmas lease_eval = lease_serve_def withLock_def withPoolLock_def load_def upgrade_pool_def empty_pool_def Let_def
  reconcileSlotCount_def grow_def publish_def writePool_def pool_journal_def slotHasRecoveryMetadata_def write_file_def
  remove_file_def mergeRecoveryJournal_def expireStale_def expire_slot_def reply_def acquire_op_def with_slot_def findSlot_def
  acquire_slot_op_def grant_slot_def mutateOwned_def owned_def
  demo_store_def demo_env_def demo_disk_def demo_files_def demo_slot_def demo_grant_def

lemma demo_acquire:
  "lease_serve demo_store (demo_env 10 ''a'') (OpAcquire demo_request) demo_disk
     = (demo_files (demo_slot 10 ''a'' 0), Inr (Granted (demo_grant 10 ''a'' 1)))"
  by (simp add: lease_eval demo_request_ok) (simp add: demo_request_def new_slot_def demo_name succ_u64_def ProvisioningTTL_def)
section \<open>The files stay readable\<close>




end
