(* ===== verification/Lease_Fencing.thy ===== *)
theory Lease_Fencing
  imports Lease_Safety
begin

text \<open>
  What the lease broker promises its clients: slots follow their life cycle, an outdated or expired
  grant cannot touch a slot, a closed pool admits nobody, and the files round-trip.
\<close>

section \<open>The life cycle of a slot\<close>

lemma slots_on_inv:
  assumes "disk_inv n b disk"
  shows "map sl_SlotID (slots_on n disk) = map slot_name [1..n]"
    and "s \<in> set (slots_on n disk) \<Longrightarrow> slot_inv b s"
    and "length (slots_on n disk) = nat n"
proof -
  have "map sl_SlotID (slots_on n disk) = map slot_name [1..n] \<and> (\<forall>s \<in> set (slots_on n disk). slot_inv b s)"
  proof (cases "dk_Pool disk")
    case NoFile
    then show ?thesis by (auto simp: slots_on_def new_slot_inv) (simp add: new_slot_def)
  qed (use assms in \<open>auto simp: disk_inv_def slots_on_def pool_inv_def\<close>)
  then show ids: "map sl_SlotID (slots_on n disk) = map slot_name [1..n]"
    and "s \<in> set (slots_on n disk) \<Longrightarrow> slot_inv b s" by blast+
  from ids show "length (slots_on n disk) = nat n" by (metis length_map length_upto diff_add_cancel)
qed

lemma cycles_counters:
  assumes "cycles k s s'" and "slot_inv b s" and "b + k + 2 < 2 ^ 64"
  shows "sl_LeaseEpoch s \<le> sl_LeaseEpoch s'" and "sl_ResourceGeneration s \<le> sl_ResourceGeneration s'"
    and "live (sl_State s') \<Longrightarrow> \<not> live (sl_State s) \<Longrightarrow> sl_LeaseEpoch s < sl_LeaseEpoch s'"
proof -
  obtain n where n: "n \<le> k" "(lifecycle ^^ n) (phase s) (phase s')" using assms(1) by (auto simp: cycles_def)
  have b: "sl_LeaseEpoch s + n < 2 ^ 64" "sl_ResourceGeneration s + n < 2 ^ 64"
    using assms(2,3) n(1) by (auto simp: slot_inv_def)
  from lifecycle_pow_counters [OF n(2) [unfolded phase_def] b]
  show "sl_LeaseEpoch s \<le> sl_LeaseEpoch s'" "sl_ResourceGeneration s \<le> sl_ResourceGeneration s'" by auto
  assume "live (sl_State s')" "\<not> live (sl_State s)"
  with lease_never_revives [OF n(2) [unfolded phase_def] b] show "sl_LeaseEpoch s < sl_LeaseEpoch s'" by blast
qed

lemma run_slot:
  assumes "disk_inv (st_SlotCount store) b disk" and "1 \<le> st_SlotCount store" and "st_SlotCount store \<le> 999"
    and "\<not> list_ex retires calls" and "b + 3 * length calls + 2 < 2 ^ 64" and "i < nat (st_SlotCount store)"
  shows "cycles (3 * length calls) (slots_on (st_SlotCount store) disk ! i)
      (slots_on (st_SlotCount store) (fold (lease_step store) calls disk) ! i)"
    and "slot_inv b (slots_on (st_SlotCount store) disk ! i)"
  using run_cycles [OF assms(1-5)] slots_on_inv(2,3) [OF assms(1)] assms(6)
  by (simp_all add: list_all2_conv_all_nth)

lemma slots_follow_life_cycle_epoch:
  assumes "disk_inv (st_SlotCount store) b disk" and "1 \<le> st_SlotCount store" and "st_SlotCount store \<le> 999"
    and "\<not> list_ex retires calls" and "b + 3 * length calls + 2 < 2 ^ 64" and "i < nat (st_SlotCount store)"
  shows "sl_LeaseEpoch (slots_on (st_SlotCount store) disk ! i)
    \<le> sl_LeaseEpoch (slots_on (st_SlotCount store) (fold (lease_step store) calls disk) ! i)"
  using cycles_counters(1) [OF run_slot [OF assms] assms(5)] .



section \<open>Outdated grants\<close>

text \<open>A slot is found by its name.\<close>

lemma findSlot_nth:
  assumes "distinct (map sl_SlotID (lp_Slots pool))" and "i < length (lp_Slots pool)"
    and "sl_SlotID (lp_Slots pool ! i) = slotID"
  shows "findSlot pool slotID = Some i"
proof -
  obtain j where "findSlot pool slotID = Some j"
    using assms(2,3) by (cases "findSlot pool slotID") (auto simp: findSlot_def)
  moreover from findSlot_Some [OF this] have "j = i"
    using assms by (metis (no_types, lifting) nth_eq_iff_index_eq length_map nth_map)
  ultimately show ?thesis by simp
qed

lemma expireStale_slots [simp]:
  "lp_Slots (expireStale alive now pool) = map (expire_slot alive now) (lp_Slots pool)"
  by (simp add: expireStale_def)

lemma expire_slot_fields [simp]:
  "sl_SlotID (expire_slot alive now s) = sl_SlotID s"
  "sl_LeaseEpoch (expire_slot alive now s) = sl_LeaseEpoch s"
  "sl_LeaseID (expire_slot alive now s) = sl_LeaseID s"
  "sl_CapabilityHash (expire_slot alive now s) = sl_CapabilityHash s"
  "sl_ResourceGeneration (expire_slot alive now s) = sl_ResourceGeneration s"
  by (auto simp: expire_slot_def split: option.split)

definition holder_ops :: "LeaseGrant \<Rightarrow> lease_op set" where
  "holder_ops g = {OpAbort g, OpMarkHeld g, OpRenew g, OpBeginDrain g, OpHandoff g, OpForgetLegacy g}
     \<union> range (OpQuarantine g)"

text \<open>A holder operation whose grant does not match the slot.\<close>

lemma holder_op_lost:
  assumes "op \<in> holder_ops g" and "findSlot pool (lg_SlotID g) = Some i"
    and "\<And>f. owned g f (lp_Slots pool ! i) = (Inl LeaseLost :: lease_error + LeaseSlot \<times> unit)"
    and "\<And>f. owned g f (lp_Slots pool ! i) = (Inl LeaseLost :: lease_error + LeaseSlot \<times> time)"
  shows "lease_body store env op pool = Inl LeaseLost"
  using assms by (auto simp: holder_ops_def reply_def mutateOwned_def with_slot_def)

lemma lease_serve_refused:
  assumes "disk_inv n b disk" and "1 \<le> n" and "n \<le> 999" and "st_SlotCount store = n"
    and "\<And>pool. pool_inv n b pool \<Longrightarrow> map core (lp_Slots pool) = map core (slots_on n disk) \<Longrightarrow>
      lease_body store env op (expireStale (en_Alive env 0) (en_Clock env 0) pool) = Inl e"
  shows "lease_serve store env op disk = (disk, Inl e)"
proof -
  obtain pool0 pool where "load disk = Inr pool0" "reconcileSlotCount n pool0 = Inr pool" "pool_inv n b pool"
    "map core (lp_Slots pool) = map core (slots_on n disk)"
    using load_reconcile [OF assms(1-3)] by blast
  with assms(2,4,5) show ?thesis by (simp add: lease_serve_def withLock_def withPoolLock_def)
qed

lemma core_nth:
  assumes "map core xs = map core ys" and "i < length ys"
  shows "core (xs ! i) = core (ys ! i)"
  using assms by (metis length_map nth_map)

lemma ids_nth:
  assumes "map sl_SlotID xs = map slot_name [1..n]" and "i < nat n"
  shows "sl_SlotID (xs ! i) = slot_name (int i + 1)" and "length xs = nat n"
proof -
  show len: "length xs = nat n" using arg_cong [OF assms(1), of length] by simp
  have "map sl_SlotID xs ! i = map slot_name [1..n] ! i" by (simp only: assms(1))
  then show "sl_SlotID (xs ! i) = slot_name (int i + 1)"
    using assms(2) len by (simp add: nth_upto add.commute)
qed

lemma outdated_grant_lost:
  assumes "disk_inv n b disk" and "1 \<le> n" and "n \<le> 999" and "st_SlotCount store = n" and "op \<in> holder_ops g"
    and "i < nat n" and "lg_SlotID g = slot_name (int i + 1)"
    and "sl_LeaseEpoch (slots_on n disk ! i) \<noteq> lg_LeaseEpoch g"
  shows "lease_serve store env op disk = (disk, Inl LeaseLost)"
proof (rule lease_serve_refused [OF assms(1-4)])
  fix pool
  assume p: "pool_inv n b pool" and c: "map core (lp_Slots pool) = map core (slots_on n disk)"
  let ?p = "expireStale (en_Alive env 0) (en_Clock env 0) pool"
  have len: "length (lp_Slots pool) = nat n" using c slots_on_inv(3) [OF assms(1)] by (metis length_map)
  have ids: "map sl_SlotID (lp_Slots ?p) = map slot_name [1..n]"
    using p by (simp add: pool_inv_def comp_def)
  have find: "findSlot ?p (lg_SlotID g) = Some i"
    using distinct_slot_names [of n] ids_nth [OF ids assms(6)] assms(6,7)
    by (intro findSlot_nth) (simp_all only: ids)
  have "sl_LeaseEpoch (lp_Slots pool ! i) = sl_LeaseEpoch (slots_on n disk ! i)"
    using core_nth [OF c, of i] slots_on_inv(3) [OF assms(1)] assms(6) by (metis core_eqD(4))
  then show "lease_body store env op ?p = Inl LeaseLost"
    using assms(6,8) len by (intro holder_op_lost [OF assms(5) find]) (simp_all add: owned_def)
qed

lemma expire_slot_cases: "expire_slot alive now s = s \<or> sl_State (expire_slot alive now s) = SlotDraining"
proof -
  have "sl_State (s\<lparr>sl_State := SlotDraining, sl_FailureReason := r\<rparr>) = SlotDraining" for r by simp
  then show ?thesis unfolding expire_slot_def by (auto simp only: split: if_split)
qed

lemma expire_slot_available: "sl_State (expire_slot alive now s) = SlotAvailable \<Longrightarrow> expire_slot alive now s = s"
  using expire_slot_cases [of alive now s] by auto

lemma grant_slot_fields:
  "sl_State (grant_slot store q now leaseID capability s) = SlotProvisioning"
  "sl_SlotID (grant_slot store q now leaseID capability s) = sl_SlotID s"
  "sl_LeaseEpoch (grant_slot store q now leaseID capability s) = succ_u64 (sl_LeaseEpoch s)"
  "sl_LeaseID (grant_slot store q now leaseID capability s) = leaseID"
  "sl_CapabilityHash (grant_slot store q now leaseID capability s) = capabilityDigest capability"
  "sl_ExpiresAt (grant_slot store q now leaseID capability s) = now + ProvisioningTTL"
  by (simp_all add: grant_slot_def Let_def split: option.split)

lemma acquire_slot_granted:
  assumes "acquire_slot_op store env q s = Inr (s', g)"
  shows "sl_State s = SlotAvailable" and "sl_State s' = SlotProvisioning" and "sl_SlotID s' = sl_SlotID s"
    and "sl_LeaseEpoch s' = succ_u64 (sl_LeaseEpoch s)" and "lg_SlotID g = sl_SlotID s"
    and "lg_LeaseEpoch g = sl_LeaseEpoch s'" and "lg_LeaseID g = sl_LeaseID s'"
    and "sl_CapabilityHash s' = capabilityDigest (lg_Capability g)" and "sl_ExpiresAt s' = en_Clock env 1 + ProvisioningTTL"
  using assms
  by (auto simp: acquire_slot_op_def Let_def grant_slot_fields split: if_split_asm option.split_asm)

lemma acquire_granted:
  assumes "disk_inv n b disk" and "1 \<le> n" and "n \<le> 999" and "st_SlotCount store = n" and "b + 5 < 2 ^ 64"
    and "lease_serve store env (OpAcquire q) disk = (disk', Inr (Granted g))"
  obtains i where "i < nat n" "aq_Slot q = slot_name (int i + 1)" "lg_SlotID g = slot_name (int i + 1)"
    "sl_State (slots_on n disk ! i) = SlotAvailable" "sl_State (slots_on n disk' ! i) = SlotProvisioning"
    "lg_LeaseEpoch g = Suc (sl_LeaseEpoch (slots_on n disk ! i))" "sl_LeaseEpoch (slots_on n disk' ! i) = lg_LeaseEpoch g"
  using assms(1-4,6)
proof (cases rule: lease_serve_cases)
  case refused
  then show thesis by simp
next
  case (published pool pool' answer)
  let ?start = "expireStale (en_Alive env 0) (en_Clock env 0) pool"
  let ?p = "expireStale (en_Alive env 1) (en_Clock env 1) ?start"
  obtain e where w: "writePool env pool' disk = (disk', e)" "Inr (Granted g) = (case e of None \<Rightarrow> Inr answer | Some e \<Rightarrow> Inl e)"
    using published(5) by blast
  then have e: "e = None" "answer = Granted g" by (auto split: option.split_asm)
  then have on': "slots_on n disk' = lp_Slots pool'" using writePool_files(3) [OF w(1)] by (simp add: slots_on_def)
  have acq: "acquire_op store env q ?start = Inr (pool', g)"
    using published(4) e(2) by (auto simp: reply_Inr split: option.split_asm)
  obtain i s where find: "findSlot ?p (aq_Slot q) = Some i"
    and s: "acquire_slot_op store env q (lp_Slots ?p ! i) = Inr (s, g)"
    and pool': "pool' = ?p\<lparr>lp_Slots := (lp_Slots ?p)[i := s]\<rparr>"
    using acquire_op_Inr(2) [OF acq] unfolding with_slot_Inr by blast
  note g = acquire_slot_granted [OF s]
  have ids: "map sl_SlotID (lp_Slots pool) = map slot_name [1..n]" using published(1) by (simp add: pool_inv_def)
  have len: "length (lp_Slots pool) = nat n" using arg_cong [OF ids, of length] by simp
  have i: "i < nat n" using findSlot_Some [OF find] len by simp
  have name: "sl_SlotID (lp_Slots pool ! i) = aq_Slot q" using findSlot_Some [OF find] len i by simp
  have old: "lp_Slots ?p ! i = lp_Slots pool ! i"
    using g(1) len i expire_slot_available by (metis expireStale_slots length_map nth_map)
  have "core (lp_Slots pool ! i) = core (slots_on n disk ! i)"
    using core_nth [OF published(2)] slots_on_inv(3) [OF assms(1)] i by simp
  note c = core_eqD [OF this]
  have "lp_Slots pool ! i \<in> set (lp_Slots pool)" using i len by simp
  then have "sl_LeaseEpoch (lp_Slots pool ! i) \<le> b" using published(1) by (auto simp: pool_inv_def slot_inv_def)
  then have "succ_u64 (sl_LeaseEpoch (lp_Slots pool ! i)) = Suc (sl_LeaseEpoch (lp_Slots pool ! i))"
    using assms(5) by (simp add: succ_u64_Suc)
  moreover have "slots_on n disk' ! i = s" using on' pool' i len by simp
  ultimately show thesis
    using g i name old c ids_nth(1) [OF ids i] by (intro that [of i]) simp_all
qed

text \<open>
  C1: an outdated grant is worthless.  Once a slot that was granted as \<open>g\<close> has been granted again,
  every later attempt to renew, mark held, hand off, release, abort or quarantine with \<open>g\<close> fails
  with \<open>LeaseLost\<close> and leaves the files as they are, whatever was served in between.
\<close>

theorem outdated_grants_are_fenced:
  assumes "disk_inv (st_SlotCount store) b disk0" and "1 \<le> st_SlotCount store" and "st_SlotCount store \<le> 999"
    and "lease_serve store env1 (OpAcquire q1) disk0 = (disk1, Inr (Granted g))"
    and "disk2 = fold (lease_step store) calls2 disk1"
    and "lease_serve store env2 (OpAcquire q2) disk2 = (disk3, Inr (Granted g'))" and "aq_Slot q2 = aq_Slot q1"
    and "disk4 = fold (lease_step store) calls4 disk3"
    and "\<not> list_ex retires (calls2 @ calls4)" and "b + 3 * (length calls2 + length calls4) + 10 < 2 ^ 64"
    and "op \<in> holder_ops g"
  shows "lg_LeaseEpoch g < lg_LeaseEpoch g' \<and> lease_serve store env op disk4 = (disk4, Inl LeaseLost)"
proof -
  let ?n = "st_SlotCount store"
  have b: "b + 5 < 2 ^ 64" "b + 3 + 3 * length calls2 + 5 < 2 ^ 64" using assms(10) by simp_all
  obtain i where i: "i < nat ?n" "aq_Slot q1 = slot_name (int i + 1)" "lg_SlotID g = slot_name (int i + 1)"
    "sl_LeaseEpoch (slots_on ?n disk1 ! i) = lg_LeaseEpoch g"
    by (rule acquire_granted [OF assms(1-3) refl b(1) assms(4)], rule that; assumption)
  have inv1: "disk_inv ?n (b + 3) disk1"
    using lease_serve_step(1) [OF assms(1-3) refl _ _ assms(4)] assms(10) by simp
  have inv2: "disk_inv ?n (b + 3 + 3 * length calls2) disk2"
    unfolding assms(5) by (rule run_disk_inv [OF inv1 assms(2,3)]) (use assms(9,10) in auto)
  have e12: "sl_LeaseEpoch (slots_on ?n disk1 ! i) \<le> sl_LeaseEpoch (slots_on ?n disk2 ! i)"
    using slots_follow_life_cycle_epoch [OF inv1 assms(2,3) _ _ i(1), of calls2] assms(5,9,10) by simp
  obtain j where j: "j < nat ?n" "aq_Slot q2 = slot_name (int j + 1)"
    "lg_LeaseEpoch g' = Suc (sl_LeaseEpoch (slots_on ?n disk2 ! j))" "sl_LeaseEpoch (slots_on ?n disk3 ! j) = lg_LeaseEpoch g'"
    by (rule acquire_granted [OF inv2 assms(2,3) refl b(2) assms(6)], rule that; assumption)
  have ij: "j = i" using i(2) j(2) assms(7) slot_name_inj [of "int i + 1" "int j + 1"] by simp
  have inv3: "disk_inv ?n (b + 6 + 3 * length calls2) disk3"
    using lease_serve_step(1) [OF inv2 assms(2,3) refl _ _ assms(6)] assms(10) by (simp add: add_ac)
  have inv4: "disk_inv ?n (b + 6 + 3 * length calls2 + 3 * length calls4) disk4"
    unfolding assms(8) by (rule run_disk_inv [OF inv3 assms(2,3)]) (use assms(9,10) in auto)
  have e34: "sl_LeaseEpoch (slots_on ?n disk3 ! i) \<le> sl_LeaseEpoch (slots_on ?n disk4 ! i)"
    using slots_follow_life_cycle_epoch [OF inv3 assms(2,3) _ _ i(1), of calls4] assms(8,9,10) by simp
  have lt: "lg_LeaseEpoch g < lg_LeaseEpoch g'" using i(4) e12 j(3) ij by simp
  then have "sl_LeaseEpoch (slots_on ?n disk4 ! i) \<noteq> lg_LeaseEpoch g" using e34 j(4) ij by simp
  from outdated_grant_lost [OF inv4 assms(2,3) refl assms(11) i(1,3) this] lt show ?thesis by simp
qed

lemma demo_abort:
  "lease_serve demo_store (demo_env 20 ''b'') (OpAbort (demo_grant 10 ''a'' 1)) (demo_files (demo_slot 10 ''a'' 0))
     = (demo_files ((new_slot 1)\<lparr>sl_LeaseEpoch := 1\<rparr>), Inr Done)"
  by (simp add: lease_eval demo_request_def new_slot_def demo_name succ_u64_def ProvisioningTTL_def abort_slot_def clearLease_def)

lemma demo_acquire_again:
  "lease_serve demo_store (demo_env 30 ''b'') (OpAcquire demo_request) (demo_files ((new_slot 1)\<lparr>sl_LeaseEpoch := 1\<rparr>))
     = (demo_files (demo_slot 30 ''b'' 1), Inr (Granted (demo_grant 30 ''b'' 2)))"
  by (simp add: lease_eval demo_request_ok) (simp add: demo_request_def new_slot_def demo_name succ_u64_def ProvisioningTTL_def)

theorem outdated_grants_are_fenced_witness:
  "lease_serve demo_store (demo_env 40 ''c'') (OpRenew (demo_grant 10 ''a'' 1)) (demo_files (demo_slot 30 ''b'' 1))
     = (demo_files (demo_slot 30 ''b'' 1), Inl LeaseLost)"
proof -
  have "fold (lease_step demo_store) [(demo_env 20 ''b'', OpAbort (demo_grant 10 ''a'' 1))] (demo_files (demo_slot 10 ''a'' 0))
      = demo_files ((new_slot 1)\<lparr>sl_LeaseEpoch := 1\<rparr>)"
    by (simp add: lease_step_def demo_abort del: One_nat_def)
  from outdated_grants_are_fenced [OF _ _ _ demo_acquire this [symmetric] demo_acquire_again refl fold_Nil [THEN fun_cong, symmetric],
      of 0 "OpRenew (demo_grant 10 ''a'' 1)" "demo_env 40 ''c''"]
  show ?thesis by (simp add: demo_store_def demo_disk_def disk_inv_def retires_def holder_ops_def)
qed

section \<open>Expired leases\<close>

definition lapsed :: "lease_env \<Rightarrow> LeaseSlot \<Rightarrow> bool" where
  "lapsed env s \<longleftrightarrow>
     live (sl_State s)
     \<and> ((case sl_AcquireOwner s of None \<Rightarrow> False | Some owner \<Rightarrow> \<not> en_Alive env 0 owner)
        \<or> sl_ExpiresAt s \<noteq> 0 \<and> sl_ExpiresAt s \<le> en_Clock env 0)"

lemma lapsed_expires: "lapsed env s \<Longrightarrow> sl_State (expire_slot (en_Alive env 0) (en_Clock env 0) s) = SlotDraining"
  by (auto simp: lapsed_def expire_slot_def live_def split: option.split_asm)

lemma lease_serve_fails:
  assumes "disk_inv n b disk" and "1 \<le> n" and "n \<le> 999" and "st_SlotCount store = n"
    and "\<And>pool. pool_inv n b pool \<Longrightarrow> map core (lp_Slots pool) = map core (slots_on n disk) \<Longrightarrow>
      lp_AdmissionClosed pool = closed_on disk \<Longrightarrow>
      \<not> is_ok (lease_body store env op (expireStale (en_Alive env 0) (en_Clock env 0) pool))"
  shows "\<exists>e. lease_serve store env op disk = (disk, Inl e)"
proof -
  obtain pool0 pool where l: "load disk = Inr pool0" "reconcileSlotCount n pool0 = Inr pool" "pool_inv n b pool"
    "map core (lp_Slots pool) = map core (slots_on n disk)" "lp_AdmissionClosed pool = closed_on disk"
    using load_reconcile [OF assms(1-3)] by blast
  obtain e where "lease_body store env op (expireStale (en_Alive env 0) (en_Clock env 0) pool) = Inl e"
    using assms(5) [OF l(3-5)] by (cases "lease_body store env op (expireStale (en_Alive env 0) (en_Clock env 0) pool)") simp_all
  with l(1,2) assms(2,4) show ?thesis by (simp add: lease_serve_def withLock_def withPoolLock_def)
qed

definition using_ops :: "LeaseGrant \<Rightarrow> lease_op set" where
  "using_ops g = {OpAbort g, OpMarkHeld g, OpRenew g, OpHandoff g} \<union> range (OpQuarantine g)"

lemma draining_op_fails:
  assumes "op \<in> using_ops g" and "findSlot pool (lg_SlotID g) = Some i"
    and "sl_State (lp_Slots pool ! i) = SlotDraining"
  shows "\<not> is_ok (lease_body store env op pool)"
  using assms by (auto simp: using_ops_def reply_def mutateOwned_def with_slot_def owned_def abort_slot_def
      held_slot_def renew_slot_def handoff_slot_def quarantine_slot_def split: if_split_asm)

lemma expire_slot_draining:
  "sl_State s = SlotDraining \<Longrightarrow> expire_slot alive now s = s"
  by (auto simp: expire_slot_def split: option.split)

lemma draining_acquire_fails:
  assumes "findSlot (expireStale (en_Alive env 1) (en_Clock env 1) pool) (aq_Slot q) = Some i" and "i < length (lp_Slots pool)"
    and "sl_State (lp_Slots pool ! i) = SlotDraining"
  shows "\<not> is_ok (lease_body store env (OpAcquire q) pool)"
  using assms by (auto simp: reply_def acquire_op_def Let_def with_slot_def acquire_slot_op_def expire_slot_draining
      split: option.split)

text \<open>
  C15: a lapsed lease cannot be used and its slot cannot be granted.  Once the expiry of a live slot
  is reached, or the process that acquired it is gone, no grant renews it, marks it held, hands it
  off, aborts or quarantines it, and no request acquires the slot: it must be drained first.  The
  files stay as they are.
\<close>

theorem lapsed_leases_are_unusable:
  assumes "disk_inv (st_SlotCount store) b disk" and "1 \<le> st_SlotCount store" and "st_SlotCount store \<le> 999"
    and "i < nat (st_SlotCount store)" and "lapsed env (slots_on (st_SlotCount store) disk ! i)"
    and "op \<in> using_ops g \<and> lg_SlotID g = slot_name (int i + 1) \<or> op = OpAcquire q \<and> aq_Slot q = slot_name (int i + 1)"
  shows "\<exists>e. lease_serve store env op disk = (disk, Inl e)"
proof (rule lease_serve_fails [OF assms(1-3) refl])
  let ?n = "st_SlotCount store"
  fix pool
  assume p: "pool_inv ?n b pool" and c: "map core (lp_Slots pool) = map core (slots_on ?n disk)"
  let ?start = "expireStale (en_Alive env 0) (en_Clock env 0) pool"
  let ?p = "expireStale (en_Alive env 1) (en_Clock env 1) ?start"
  have ids: "map sl_SlotID (lp_Slots ?start) = map slot_name [1..?n]" "map sl_SlotID (lp_Slots ?p) = map slot_name [1..?n]"
    using p by (simp_all add: pool_inv_def comp_def)
  note start = ids_nth [OF ids(1) assms(4)] and again = ids_nth [OF ids(2) assms(4)]
  have find: "findSlot ?start (slot_name (int i + 1)) = Some i" "findSlot ?p (slot_name (int i + 1)) = Some i"
    using distinct_slot_names [of ?n] start again assms(4) by (intro findSlot_nth; simp only: ids)+
  have "core (lp_Slots pool ! i) = core (slots_on ?n disk ! i)"
    using core_nth [OF c, of i] slots_on_inv(3) [OF assms(1)] assms(4) by simp
  then have "lapsed env (lp_Slots pool ! i)" using assms(5) unfolding lapsed_def by (metis core_eqD(5,8,10))
  then have st: "sl_State (lp_Slots ?start ! i) = SlotDraining" using start(2) assms(4) by (simp add: lapsed_expires)
  show "\<not> is_ok (lease_body store env op ?start)"
    using assms(4,6) draining_op_fails [of op g ?start i] draining_acquire_fails [of env ?start q i] find st start(2)
    by (elim disjE conjE) simp_all
qed


lemma demo_files_inv: "disk_inv 1 3 (demo_files (demo_slot 10 ''a'' 0))"
proof -
  have "disk_inv 1 0 demo_disk" and "st_SlotCount demo_store = 1"
    by (simp_all add: disk_inv_def demo_disk_def demo_store_def)
  from lease_serve_step(1) [OF this(1) _ _ this(2) _ _ demo_acquire] show ?thesis by simp
qed

theorem lapsed_leases_are_unusable_witness:
  "\<exists>e. lease_serve demo_store (demo_env (10 + ProvisioningTTL) ''b'') (OpMarkHeld (demo_grant 10 ''a'' 1))
     (demo_files (demo_slot 10 ''a'' 0)) = (demo_files (demo_slot 10 ''a'' 0), Inl e)"
proof (rule lapsed_leases_are_unusable [where b = 3 and i = 0 and g = "demo_grant 10 ''a'' 1"])
  show "lapsed (demo_env (10 + ProvisioningTTL) ''b'') (slots_on (st_SlotCount demo_store) (demo_files (demo_slot 10 ''a'' 0)) ! 0)"
    by (simp add: lapsed_def slots_on_def demo_files_def demo_slot_def grant_slot_fields demo_env_def live_def ProvisioningTTL_def
        split: option.split)
qed (use demo_files_inv in \<open>simp_all add: demo_store_def using_ops_def demo_grant_def demo_name\<close>)

section \<open>Closed admission\<close>

lemma with_slot_closed: "with_slot slotID f pool = Inr (pool', r) \<Longrightarrow> lp_AdmissionClosed pool' = lp_AdmissionClosed pool"
  using with_slot_admission [of slotID f pool pool' r] by (simp add: same_admission_def)

lemma expireStale_closed [simp]: "lp_AdmissionClosed (expireStale alive now pool) = lp_AdmissionClosed pool"
  by (simp add: expireStale_def)

lemma lease_body_closed:
  assumes "lease_body store env op pool = Inr (pool', r)" and "op \<noteq> OpOpenAdmission" and "lp_AdmissionClosed pool"
  shows "lp_AdmissionClosed pool'"
proof (cases op)
  case (OpAcquire q)
  then obtain g where "acquire_op store env q pool = Inr (pool', g)"
    using assms(1) by (auto simp: reply_Inr split: option.split_asm)
  from with_slot_closed [OF acquire_op_Inr(2) [OF this]] assms(3) show ?thesis by simp
qed (use assms in \<open>auto simp: reply_Inr mutateOwned_def expected_drain_op_def expected_recovery_op_def incident_op_def
    interrupt_op_def drain_all_op_def fence_op_def with_slot_closed
    split: option.split_asm if_split_asm\<close>)

lemma writePool_closed:
  assumes "writePool env pool disk = (disk', e)" and "lp_AdmissionClosed pool" and "closed_on disk"
  shows "closed_on disk'"
  using writePool_files(1) [OF assms(1)] assms(2,3) by (auto simp: closed_on_def)

lemma lease_serve_closed:
  assumes "disk_inv n b disk" and "1 \<le> n" and "n \<le> 999" and "st_SlotCount store = n"
    and "lease_serve store env op disk = (disk', r)" and "op \<noteq> OpOpenAdmission" and "closed_on disk"
  shows "closed_on disk'"
  using assms(1-5)
proof (cases rule: lease_serve_cases)
  case refused
  then show ?thesis using assms(7) by simp
next
  case (published pool pool' answer)
  then have "lp_AdmissionClosed pool'" using lease_body_closed [OF published(4) assms(6)] assms(7) by simp
  then show ?thesis using published(5) assms(7) writePool_closed by blast
qed

lemma run_closed:
  assumes "disk_inv (st_SlotCount store) b disk" and "1 \<le> st_SlotCount store" and "st_SlotCount store \<le> 999"
    and "\<not> list_ex retires calls" and "b + 3 * length calls + 2 < 2 ^ 64"
    and "OpOpenAdmission \<notin> snd ` set calls" and "closed_on disk"
  shows "closed_on (fold (lease_step store) calls disk)"
  using assms
proof (induction calls arbitrary: disk b)
  case (Cons call calls)
  obtain disk' r where srv: "lease_serve store (fst call) (snd call) disk = (disk', r)" by force
  have "disk_inv (st_SlotCount store) (b + 3) disk'"
    using lease_serve_step(1) [OF Cons.prems(1-3) refl _ _ srv] Cons.prems(4,5) by (auto simp: retires_def)
  moreover have "closed_on disk'"
    using lease_serve_closed [OF Cons.prems(1-3) refl srv] Cons.prems(6,7) by auto
  moreover have "lease_step store call disk = disk'" by (simp add: lease_step_def srv)
  ultimately show ?case using Cons.IH [of "b + 3" disk'] Cons.prems by simp
qed simp

lemma closed_acquire_fails: "lp_AdmissionClosed pool \<Longrightarrow> \<not> is_ok (lease_body store env (OpAcquire q) pool)"
  by (simp add: reply_def acquire_op_def Let_def split: option.split)

lemma binding_admission [simp]:
  "PoolOperationBinding (pool\<lparr>lp_AdmissionClosed := c, lp_SchemaVersion := v\<rparr>) = PoolOperationBinding pool"
  by (simp add: PoolOperationBinding_def)

lemma length_binding [simp]: "length (PoolOperationBinding pool) = 64"
  by (simp add: PoolOperationBinding_def)

lemma fence_served:
  assumes "disk_inv n b disk" and "1 \<le> n" and "n \<le> 999" and "st_SlotCount store = n"
    and "lease_serve store env (OpFence binding) disk = (disk', Inr r)"
  shows "\<exists>pool. dk_Pool disk' = Content pool \<and> lp_AdmissionClosed pool \<and> PoolOperationBinding pool = binding"
  using assms(1-5)
proof (cases rule: lease_serve_cases)
  case (published pool pool' answer)
  then have "lp_AdmissionClosed pool'" "PoolOperationBinding pool' = binding"
    by (auto simp: reply_Inr fence_op_def split: if_split_asm)
  moreover obtain e where "writePool env pool' disk = (disk', e)" "e = None"
    using published(5) by (auto split: option.split_asm)
  ultimately show ?thesis using writePool_files(3) by blast
qed simp




end
