(* ===== verification/Lease_Durability.thy ===== *)
theory Lease_Durability
  imports Lease_Fencing
begin

text \<open>
  What the lease files give back: a written pool reads back exactly, an interrupted write leaves the
  old or the new allocation state, rebuilding a corrupt pool quarantines every slot, and the two
  operations that write a recovery journal \<open>load\<close> rejects.
\<close>

section \<open>Writing and reading back\<close>

lemma apply_own_entry [simp]: "apply_entry (journal_entry s) s = s"
  by (simp add: apply_entry_def journal_entry_def)

lemma merge_own_entry:
  assumes "distinct (map sl_SlotID (lp_Slots pool))" and "s \<in> set (lp_Slots pool)"
  shows "merge_entry (journal_entry s) pool = pool"
proof -
  obtain i where i: "i < length (lp_Slots pool)" "lp_Slots pool ! i = s" using assms(2) by (metis in_set_conv_nth)
  then have "findSlot pool (sl_SlotID s) = Some i" by (intro findSlot_nth [OF assms(1)]) simp_all
  moreover have "jr_SlotID (journal_entry s) = sl_SlotID s" by (simp add: journal_entry_def)
  moreover have "pool\<lparr>lp_Slots := (lp_Slots pool)[i := s]\<rparr> = pool" using i by (simp add: list_update_same_conv)
  ultimately show ?thesis using i by (simp add: merge_entry_def)
qed

lemma merge_own_entries:
  assumes "distinct (map sl_SlotID (lp_Slots pool))" and "set slots \<subseteq> set (lp_Slots pool)"
    and "\<forall>r \<in> set (map journal_entry slots). entry_ok [] r" and "distinct (map jr_SlotID (map journal_entry slots))"
    and "jr_SlotID ` set (map journal_entry slots) \<inter> set seen = {}"
  shows "merge_entries seen (map journal_entry slots) pool = Inr pool"
  using assms(2-)
proof (induction slots arbitrary: seen)
  case (Cons s slots)
  then have "entry_ok seen (journal_entry s)" by (simp add: entry_ok_seen [of seen])
  moreover have "merge_entry (journal_entry s) pool = pool" using Cons.prems(1) by (intro merge_own_entry [OF assms(1)]) simp
  moreover have "merge_entries (jr_SlotID (journal_entry s) # seen) (map journal_entry slots) pool = Inr pool"
    using Cons.prems by (intro Cons.IH) auto
  ultimately show ?case by simp
qed simp

lemma load_of_content:
  assumes "admission_ok pool" and "dk_Pool disk = Content pool"
  shows "load disk = mergeRecoveryJournal (dk_Journal disk) pool"
  using assms(1) by (auto simp: load_def assms(2) upgrade_admission_ok Let_def) (auto simp: admission_ok_def split: if_split_asm)

lemma written_pool_loads:
  assumes "pool_inv n b pool" and "n \<le> 999" and "writePool env pool disk = (disk', None)"
  shows "load disk' = Inr pool"
proof -
  let ?slots = "filter slotHasRecoveryMetadata (lp_Slots pool)"
  have j: "jn_Slots (pool_journal pool) = map journal_entry ?slots" by (simp add: pool_journal_def)
  have ok: "journal_ok (pool_journal pool)" by (rule journal_ok_pool_journal [OF assms(1,2)])
  have "distinct (map sl_SlotID (lp_Slots pool))" using assms(1) distinct_slot_names by (simp add: pool_inv_def)
  then have "merge_entries [] (map journal_entry ?slots) pool = Inr pool"
    by (rule merge_own_entries) (use ok j in \<open>auto simp: journal_ok_def\<close>)
  then have "mergeRecoveryJournal (dk_Journal disk') pool = Inr pool"
    using writePool_files(3) [OF assms(3)] ok j by (auto simp: mergeRecoveryJournal_def journal_ok_def)
  moreover have "load disk' = mergeRecoveryJournal (dk_Journal disk') pool"
    using writePool_files(3) [OF assms(3)] assms(1) by (intro load_of_content) (simp_all add: pool_inv_def)
  ultimately show ?thesis by simp
qed

lemma rebuilt_pool_inv: "pool_inv n 0 (empty_pool\<lparr>lp_Slots := map (rebuilt_slot env k) [1..n]\<rparr>)"
  by (auto simp: pool_inv_def admission_ok_def empty_pool_def rebuilt_slot_def new_slot_def slot_inv_def slot_ok_def
      record_id_or_empty_def meta_ok_def)

lemma writePool_written:
  "en_JournalWrite env = Written \<Longrightarrow> en_PoolWrite env = Written \<Longrightarrow> \<exists>disk'. writePool env pool disk = (disk', None)"
  by (auto simp: writePool_def Let_def write_file_def remove_file_def)

text \<open>The example pool with its slot quarantined, which has an entry in the journal.\<close>

definition demo_quarantined :: LeasePool where
  "demo_quarantined = empty_pool\<lparr>lp_Slots := map (rebuilt_slot (demo_env 5 ''q'') 1) [1..1]\<rparr>"

definition demo_quarantined_disk :: lease_disk where
  "demo_quarantined_disk = fst (writePool (demo_env 10 ''a'') demo_quarantined demo_disk)"

lemma demo_quarantined_inv: "pool_inv 1 0 demo_quarantined"
  unfolding demo_quarantined_def by (rule rebuilt_pool_inv)

lemma demo_quarantined_written:
  "writePool (demo_env 10 ''a'') demo_quarantined demo_disk = (demo_quarantined_disk, None)"
  using writePool_written [of "demo_env 10 ''a''" demo_quarantined demo_disk]
  by (auto simp: demo_quarantined_disk_def demo_env_def)




lemma demo_quarantined_disk_inv: "disk_inv 1 0 demo_quarantined_disk" "dk_Pool demo_quarantined_disk = Content demo_quarantined"
  using writePool_inv [OF demo_quarantined_written _ demo_quarantined_inv] writePool_files(3) [OF demo_quarantined_written]
  by (simp_all add: disk_inv_def demo_disk_def)


section \<open>Journals that cannot be read back\<close>

lemma bad_entry_corrupts: "\<exists>r \<in> set rs. \<not> entry_ok [] r \<Longrightarrow> merge_entries seen rs pool = Inl CorruptLeaseState"
proof (induction rs arbitrary: seen pool)
  case (Cons r rs)
  then show ?case by (cases "entry_ok [] r") (simp_all add: entry_ok_seen [of seen r])
qed simp

lemma bad_slot_corrupts:
  assumes "writePool env pool disk = (disk', None)" and "admission_ok pool"
    and "s \<in> set (lp_Slots pool)" and "slotHasRecoveryMetadata s" and "sl_State s = SlotDraining"
  shows "load disk' = Inl CorruptLeaseState"
proof -
  have j: "journal_entry s \<in> set (jn_Slots (pool_journal pool))" using assms(3,4) by (auto simp: pool_journal_def)
  moreover have "\<not> entry_ok [] (journal_entry s)" using assms(5) by (simp add: entry_ok_def journal_entry_def)
  ultimately have "merge_entries [] (jn_Slots (pool_journal pool)) pool = Inl CorruptLeaseState"
    by (intro bad_entry_corrupts) (rule bexI)
  moreover have "jn_Slots (pool_journal pool) \<noteq> []" using j by (metis empty_iff empty_set)
  ultimately show ?thesis
    using writePool_files(3) [OF assms(1)] load_of_content [OF assms(2), of disk']
    by (simp add: mergeRecoveryJournal_def)
qed

lemma corrupt_refuses: "load disk = Inl CorruptLeaseState \<Longrightarrow> 1 \<le> st_SlotCount store
    \<Longrightarrow> lease_serve store env op disk = (disk, Inl CorruptLeaseState)"
  by (simp add: lease_serve_def withLock_def withPoolLock_def)

lemma expire_slot_other: "\<not> live (sl_State s) \<Longrightarrow> expire_slot alive now s = s"
  by (auto simp: expire_slot_def live_def split: option.split)

text \<open>
  C35: the first step of retiring the legacy data of a quarantined slot makes the lease state
  unreadable.  The slot keeps the recovery schedule of its quarantine while its state becomes
  draining, the journal then has an entry in a state that loading rejects, and every operation from
  then on, the last step of the retirement included, fails with \<open>CorruptLeaseState\<close>.
\<close>

theorem legacy_retirement_corrupts_state:
  assumes "load disk = Inr pool" and "pool_inv (st_SlotCount store) b pool"
    and "1 \<le> st_SlotCount store" and "st_SlotCount store \<le> 999" and "findSlot pool (li_SlotID identity) = Some i"
    and "sl_State (lp_Slots pool ! i) = SlotQuarantined" and "sl_NextRecoveryAt (lp_Slots pool ! i) \<noteq> 0"
    and "lease_serve store env (OpBeginRetire identity) disk = (disk', Inr r)"
  shows "load disk' = Inl CorruptLeaseState \<and> lease_serve store env' op disk' = (disk', Inl CorruptLeaseState)"
proof -
  let ?s = "(lp_Slots pool ! i)\<lparr>sl_State := SlotDraining, sl_FailureReason := ''explicit legacy retirement''\<rparr>"
  let ?start = "expireStale (en_Alive env 0) (en_Clock env 0) pool"
  have i: "i < length (lp_Slots pool)" and name: "sl_SlotID (lp_Slots pool ! i) = li_SlotID identity"
    using findSlot_Some [OF assms(5)] by simp_all
  have ids: "map sl_SlotID (lp_Slots pool) = map slot_name [1..st_SlotCount store]" using assms(2) by (simp add: pool_inv_def)
  then have rec: "reconcileSlotCount (st_SlotCount store) pool = Inr pool" using assms(3,4) by (intro reconcile_same) simp_all
  have "distinct (map sl_SlotID (lp_Slots ?start))" using ids distinct_slot_names by (simp add: comp_def)
  then have find: "findSlot ?start (li_SlotID identity) = Some i" by (rule findSlot_nth) (simp_all add: i name)
  have old: "lp_Slots ?start ! i = lp_Slots pool ! i" using i assms(6) by (simp add: expire_slot_other live_def)
  obtain pool' where pool': "publish env pool' Done disk = (disk', Inr r)" "same_admission ?start pool'"
    "lp_Slots pool' = (lp_Slots ?start)[i := ?s]"
    using assms(1,3,8) rec find old
    by (auto simp: lease_serve_def withLock_def withPoolLock_def reply_def with_slot_def expected_def begin_retire_slot_def
        same_admission_def split: if_split_asm)
  have "admission_ok pool'"
    using assms(2) pool'(2) expireStale_admission by (meson admission_ok_same pool_inv_def)
  moreover have "?s \<in> set (lp_Slots pool')" using i by (simp add: pool'(3) set_update_memI)
  moreover have "slotHasRecoveryMetadata ?s" using assms(7) by (simp add: slotHasRecoveryMetadata_def)
  moreover have "sl_State ?s = SlotDraining" by simp
  moreover have "writePool env pool' disk = (disk', None)"
    using pool'(1) by (auto simp: publish_def split: prod.split_asm option.split_asm)
  ultimately have "load disk' = Inl CorruptLeaseState" by (metis bad_slot_corrupts)
  then show ?thesis using corrupt_refuses assms(3) by simp
qed


theorem legacy_retirement_corrupts_state_witness:
  "load (fst (lease_serve demo_store (demo_env 20 ''b'')
     (OpBeginRetire \<lparr>li_SlotID = ''slot-001'', li_ResourceGeneration = 1, li_LeaseEpoch = 0\<rparr>) demo_quarantined_disk)) = Inl CorruptLeaseState"
proof -
  let ?i = "\<lparr>li_SlotID = ''slot-001'', li_ResourceGeneration = 1, li_LeaseEpoch = 0\<rparr>"
  have load: "load demo_quarantined_disk = Inr demo_quarantined"
    by (rule written_pool_loads [OF demo_quarantined_inv _ demo_quarantined_written]) simp
  have slots: "lp_Slots demo_quarantined = [rebuilt_slot (demo_env 5 ''q'') 1 1]" by (simp add: demo_quarantined_def)
  have find: "findSlot demo_quarantined (li_SlotID ?i) = Some 0"
    by (simp add: findSlot_def slots) (simp add: rebuilt_slot_def new_slot_def demo_name)
  have r: "reconcileSlotCount 1 demo_quarantined = Inr demo_quarantined"
    using demo_quarantined_inv by (intro reconcile_same) (simp_all add: pool_inv_def)
  have x: "expireStale alive now demo_quarantined = demo_quarantined" for alive now
    by (simp add: expireStale_def slots expire_slot_other live_def rebuilt_slot_def)
  obtain pool' where "lease_serve demo_store (demo_env 20 ''b'') (OpBeginRetire ?i) demo_quarantined_disk
      = publish (demo_env 20 ''b'') pool' Done demo_quarantined_disk"
    using find
    by (simp add: lease_serve_def withLock_def withPoolLock_def load demo_store_def r x reply_def with_slot_def slots
        expected_def slotMatchesLeaseIdentity_def begin_retire_slot_def rebuilt_slot_def new_slot_def demo_name)
  moreover obtain disk' where "writePool (demo_env 20 ''b'') pool' demo_quarantined_disk = (disk', None)"
    using writePool_written [of "demo_env 20 ''b''" pool' demo_quarantined_disk] by (auto simp: demo_env_def)
  ultimately have "lease_serve demo_store (demo_env 20 ''b'') (OpBeginRetire ?i) demo_quarantined_disk = (disk', Inr Done)"
    by (simp add: publish_def)
  from legacy_retirement_corrupts_state [OF load _ _ _ find _ _ this, of 0] this show ?thesis
    using demo_quarantined_inv by (simp add: demo_store_def slots rebuilt_slot_def demo_env_def)
qed

lemma publish_ok: "publish env pool r disk = (disk', Inr x) \<longleftrightarrow> x = r \<and> writePool env pool disk = (disk', None)"
  by (auto simp: publish_def split: prod.split option.split)

definition retire_for_resize :: "LeaseSlot \<Rightarrow> LeaseSlot" where
  "retire_for_resize s = s\<lparr>sl_State := SlotDraining, sl_FailureReason := ''pool resize''\<rparr>"

lemma PrepareResize_ok:
  assumes "load disk = Inr pool" and "st_SlotCount store < int (length (lp_Slots pool))"
    and "PrepareResize store env disk = (disk', Inr retiring)"
  shows "\<forall>s \<in> set (drop (nat (st_SlotCount store)) (lp_Slots pool)). check_retiring s = None"
    and "retiring = map retire_for_resize (drop (nat (st_SlotCount store)) (lp_Slots pool))"
    and "writePool env (pool\<lparr>lp_Slots := take (nat (st_SlotCount store)) (lp_Slots pool) @ retiring\<rparr>) disk = (disk', None)"
  using assms by (auto simp: PrepareResize_def withPoolLock_def Let_def publish_ok first_error_None retire_for_resize_def
      split: option.split_asm)

text \<open>
  C36: preparing a shrink whose surplus slot was recovered before makes the lease state unreadable.
  Such a slot is available and keeps its recovery attempts; it is fenced as draining with them, the
  journal entry that results is rejected by the next load, and the shrink can not be committed.
\<close>

theorem resize_after_recovery_corrupts_state:
  assumes "load disk = Inr pool" and "admission_ok pool" and "0 \<le> st_SlotCount store"
    and "s \<in> set (drop (nat (st_SlotCount store)) (lp_Slots pool))" and "sl_RecoveryAttempt s \<noteq> 0"
    and "PrepareResize store env disk = (disk', Inr retiring)"
  shows "load disk' = Inl CorruptLeaseState \<and> CommitResize store env' disk' = (disk', Inl CorruptLeaseState)"
proof -
  have "st_SlotCount store < int (length (lp_Slots pool))"
    using assms(3,4) by (metis drop_all empty_iff empty_set int_nat_eq not_less of_nat_le_iff)
  note prep = PrepareResize_ok [OF assms(1) this assms(6)]
  have "retire_for_resize s \<in> set retiring" using assms(4) prep(2) by simp
  moreover have "slotHasRecoveryMetadata (retire_for_resize s)" "sl_State (retire_for_resize s) = SlotDraining"
    using assms(5) by (simp_all add: slotHasRecoveryMetadata_def retire_for_resize_def)
  moreover have "admission_ok (pool\<lparr>lp_Slots := xs\<rparr>)" for xs using assms(2) by (simp add: admission_ok_def)
  ultimately have "load disk' = Inl CorruptLeaseState"
    by (intro bad_slot_corrupts [OF prep(3), of "retire_for_resize s"]) simp_all
  then show ?thesis by (simp add: CommitResize_def withPoolLock_def)
qed

definition demo_pair :: "nat \<Rightarrow> LeasePool" where
  "demo_pair attempts = empty_pool\<lparr>lp_Slots := [new_slot 1, (new_slot 2)\<lparr>sl_RecoveryAttempt := attempts\<rparr>]\<rparr>"

definition demo_pair_disk :: "nat \<Rightarrow> lease_disk" where
  "demo_pair_disk attempts = fst (writePool (demo_env 10 ''a'') (demo_pair attempts) demo_disk)"

lemma demo_pair_inv: "pool_inv 2 0 (demo_pair k)"
proof -
  have "slot_inv 0 ((new_slot 2)\<lparr>sl_RecoveryAttempt := k\<rparr>)"
    by (simp add: slot_inv_def slot_ok_def new_slot_def meta_ok_def lease_cleared_def record_id_or_empty_def)
  moreover have "[1..2] = [1, 2::int]" by (simp add: upto.simps)
  ultimately show ?thesis
    by (simp add: pool_inv_def demo_pair_def admission_ok_def empty_pool_def new_slot_inv) (simp add: new_slot_def)
qed

lemma demo_pair_load: "load (demo_pair_disk k) = Inr (demo_pair k)"
proof -
  have "writePool (demo_env 10 ''a'') (demo_pair k) demo_disk = (demo_pair_disk k, None)"
    using writePool_written [of "demo_env 10 ''a''" "demo_pair k" demo_disk] by (auto simp: demo_pair_disk_def demo_env_def)
  from written_pool_loads [OF demo_pair_inv _ this] show ?thesis by simp
qed

lemma demo_pair_slots: "lp_Slots (demo_pair k) = [new_slot 1, (new_slot 2)\<lparr>sl_RecoveryAttempt := k\<rparr>]"
  by (simp add: demo_pair_def)

lemma demo_pair_prepare:
  "\<exists>disk' retiring. PrepareResize demo_store (demo_env 20 ''b'') (demo_pair_disk k) = (disk', Inr retiring)"
proof -
  have "\<exists>pool' retiring. PrepareResize demo_store (demo_env 20 ''b'') (demo_pair_disk k)
      = publish (demo_env 20 ''b'') pool' retiring (demo_pair_disk k)"
    by (simp add: PrepareResize_def withPoolLock_def demo_pair_load demo_pair_slots demo_store_def Let_def check_retiring_def)
      (auto simp: new_slot_def)
  moreover have "\<exists>disk'. writePool (demo_env 20 ''b'') pool' (demo_pair_disk k) = (disk', None)" for pool'
    by (rule writePool_written) (simp_all add: demo_env_def)
  ultimately show ?thesis by (metis publish_ok)
qed

theorem resize_after_recovery_corrupts_state_witness:
  "\<exists>disk' retiring. PrepareResize demo_store (demo_env 20 ''b'') (demo_pair_disk 1) = (disk', Inr retiring)
     \<and> CommitResize demo_store (demo_env 30 ''c'') disk' = (disk', Inl CorruptLeaseState)"
proof -
  obtain disk' retiring where p: "PrepareResize demo_store (demo_env 20 ''b'') (demo_pair_disk 1) = (disk', Inr retiring)"
    using demo_pair_prepare by blast
  from resize_after_recovery_corrupts_state [OF demo_pair_load _ _ _ _ this, of "(new_slot 2)\<lparr>sl_RecoveryAttempt := 1\<rparr>" "demo_env 30 ''c''"] p
  show ?thesis using demo_pair_inv [of 1] by (auto simp: demo_pair_slots demo_store_def pool_inv_def)
qed

lemma pool_inv_take:
  assumes "pool_inv m b pool" and "1 \<le> n" and "n \<le> m"
  shows "pool_inv n b (pool\<lparr>lp_Slots := take (nat n) (lp_Slots pool)\<rparr>)"
proof -
  have "map sl_SlotID (take (nat n) (lp_Slots pool)) = map slot_name (take (nat n) [1..m])"
    using assms(1) by (simp add: pool_inv_def flip: take_map)
  also have "take (nat n) [1..m] = [1..n]"
    using assms(2,3) by (intro nth_equalityI) (auto simp: nth_upto)
  finally show ?thesis
    using assms(1) by (auto simp: pool_inv_def admission_ok_def dest: in_set_takeD)
qed

lemma retire_for_resize_inv:
  assumes "slot_inv b s" and "\<not> slotHasRecoveryMetadata s"
  shows "slot_inv b (retire_for_resize s)"
  using assms by (auto simp: slot_inv_def slot_ok_def retire_for_resize_def meta_ok_def slotHasRecoveryMetadata_def)

lemma pool_inv_retiring:
  assumes "pool_inv m b pool" and "\<forall>s \<in> set (drop k (lp_Slots pool)). \<not> slotHasRecoveryMetadata s"
  shows "pool_inv m b (pool\<lparr>lp_Slots := take k (lp_Slots pool) @ map retire_for_resize (drop k (lp_Slots pool))\<rparr>)"
proof -
  have "map sl_SlotID (take k (lp_Slots pool) @ map retire_for_resize (drop k (lp_Slots pool)))
      = map sl_SlotID (take k (lp_Slots pool) @ drop k (lp_Slots pool))"
    by (simp add: retire_for_resize_def del: append_take_drop_id)
  then have "map sl_SlotID (take k (lp_Slots pool) @ map retire_for_resize (drop k (lp_Slots pool))) = map slot_name [1..m]"
    using assms(1) by (simp only: pool_inv_def append_take_drop_id)
  then show ?thesis
    using assms by (auto simp: pool_inv_def admission_ok_def intro: retire_for_resize_inv dest: in_set_takeD in_set_dropD)
qed



text \<open>
  Shrinking keeps the remaining slots.  Where no surplus slot has recovery metadata, a prepared
  shrink fences only slots that were idle or fenced before, and committing it leaves exactly the first
  slots of the pool, unchanged, in files that load.
\<close>

theorem resize_keeps_remaining_slots:
  assumes "load disk = Inr pool" and "pool_inv m b pool" and "m \<le> 999"
    and "1 \<le> st_SlotCount store" and "st_SlotCount store < m"
    and "\<forall>s \<in> set (drop (nat (st_SlotCount store)) (lp_Slots pool)). \<not> slotHasRecoveryMetadata s"
    and "PrepareResize store env disk = (disk1, Inr retiring)"
    and "en_JournalWrite env' = Written" and "en_PoolWrite env' = Written"
  shows "(\<forall>s \<in> set (drop (nat (st_SlotCount store)) (lp_Slots pool)). sl_State s = SlotAvailable \<or> resizing s)
    \<and> (\<exists>disk2. CommitResize store env' disk1 = (disk2, Inr ())
         \<and> load disk2 = Inr (pool\<lparr>lp_Slots := take (nat (st_SlotCount store)) (lp_Slots pool)\<rparr>))"
proof -
  let ?n = "nat (st_SlotCount store)" and ?slots = "lp_Slots pool"
  let ?kept = "pool\<lparr>lp_Slots := take ?n ?slots\<rparr>"
  let ?fenced = "pool\<lparr>lp_Slots := take ?n ?slots @ map retire_for_resize (drop ?n ?slots)\<rparr>"
  have "length ?slots = nat m" using assms(2) by (metis pool_inv_def length_map length_upto diff_add_cancel)
  then have len: "st_SlotCount store < int (length ?slots)" "?n \<le> length ?slots" using assms(4,5) by simp_all
  note prep = PrepareResize_ok [OF assms(1) len(1) assms(7)]
  have fenced: "load disk1 = Inr ?fenced"
    using written_pool_loads [OF pool_inv_retiring [OF assms(2,6)] assms(3)] prep(2,3) by simp
  obtain disk2 where w: "writePool env' ?kept disk1 = (disk2, None)" using writePool_written [OF assms(8,9)] by blast
  have "load disk2 = Inr ?kept"
    using written_pool_loads [OF pool_inv_take [OF assms(2,4)] _ w] assms(3,5) by simp
  moreover have "CommitResize store env' disk1 = (disk2, Inr ())"
    using fenced len w
    by (auto simp: CommitResize_def withPoolLock_def Let_def publish_ok resizing_def retire_for_resize_def
        min_absorb2 split: option.split dest!: find_first_SomeD)
  moreover have "sl_State s = SlotAvailable \<or> resizing s" if "s \<in> set (drop ?n ?slots)" for s
    using prep(1) that by (auto simp: check_retiring_def split: if_split_asm)
  ultimately show ?thesis by blast
qed

theorem resize_keeps_remaining_slots_witness:
  "\<exists>disk1 disk2 retiring. PrepareResize demo_store (demo_env 20 ''b'') (demo_pair_disk 0) = (disk1, Inr retiring)
     \<and> CommitResize demo_store (demo_env 30 ''c'') disk1 = (disk2, Inr ())
     \<and> load disk2 = Inr (empty_pool\<lparr>lp_Slots := [new_slot 1]\<rparr>)"
proof -
  obtain disk1 retiring where p: "PrepareResize demo_store (demo_env 20 ''b'') (demo_pair_disk 0) = (disk1, Inr retiring)"
    using demo_pair_prepare by blast
  have "\<not> slotHasRecoveryMetadata (new_slot 2)" by (simp add: slotHasRecoveryMetadata_def new_slot_def)
  moreover have "(new_slot 2)\<lparr>sl_RecoveryAttempt := 0\<rparr> = new_slot 2" by (simp add: new_slot_def)
  ultimately show ?thesis
    using resize_keeps_remaining_slots [OF demo_pair_load demo_pair_inv _ _ _ _ p, of "demo_env 30 ''c''"] p
    by (simp add: demo_pair_slots demo_store_def demo_env_def) (simp add: demo_pair_def)
qed

section \<open>Rebuilding\<close>

lemma writePool_backups: "writePool env pool disk = (disk', e) \<Longrightarrow> dk_Backups disk' = dk_Backups disk"
  by (auto simp: writePool_def Let_def split: prod.split_asm if_split_asm)

lemma quarantined_acquire_fails:
  assumes "\<forall>s \<in> set (lp_Slots pool). sl_State s = SlotQuarantined"
  shows "\<not> is_ok (lease_body store env (OpAcquire q) pool)"
proof -
  have "expireStale alive now pool = pool" for alive now
    using assms by (auto simp: expireStale_def expire_slot_other live_def map_idI)
  moreover have "sl_State (lp_Slots pool ! i) = SlotQuarantined" if "findSlot pool slotID = Some i" for slotID i
    using findSlot_Some [OF that] assms by simp
  ultimately show ?thesis
    by (auto simp: reply_def acquire_op_def Let_def with_slot_def acquire_slot_op_def split: option.split)
qed

text \<open>
  C37: rebuilding a corrupt pool loses nothing and grants nothing.  It happens only when the state is
  corrupt, keeps both files as a backup, and leaves files that load to the configured slots, each of
  them quarantined with its data retained, so that no request is granted from it.
\<close>

theorem rebuilt_pool_is_quarantined:
  assumes "1 \<le> st_SlotCount store" and "st_SlotCount store \<le> 999"
    and "rebuildCorruptPoolForRecovery store env jm pm slotID disk = (disk', Inr ())"
  shows "load disk = Inl CorruptLeaseState
    \<and> dk_Backups disk' = (en_Clock env 0, dk_Pool disk, dk_Journal disk) # dk_Backups disk
    \<and> (\<exists>pool. load disk' = Inr pool \<and> map sl_SlotID (lp_Slots pool) = map slot_name [1..st_SlotCount store]
         \<and> (\<forall>s \<in> set (lp_Slots pool). sl_State s = SlotQuarantined \<and> sl_LegacyRetained s))
    \<and> (\<exists>e. lease_serve store env' (OpAcquire q) disk' = (disk', Inl e))"
proof -
  let ?n = "st_SlotCount store"
  obtain k where k: "slotNumber slotID ?n = Some k" "load disk = Inl CorruptLeaseState"
    using assms(3) by (auto simp: rebuildCorruptPoolForRecovery_def split: option.split_asm sum.split_asm if_split_asm)
  let ?pool = "empty_pool\<lparr>lp_Slots := map (rebuilt_slot env k) [1..?n]\<rparr>"
  obtain disk1 where w: "writePool env ?pool disk1 = (disk', None)"
    "dk_Backups disk1 = (en_Clock env 0, dk_Pool disk, dk_Journal disk) # dk_Backups disk"
    using assms(3) k by (auto simp: rebuildCorruptPoolForRecovery_def keep_corrupt_def Let_def publish_ok split: if_split_asm)
  note inv = rebuilt_pool_inv [of ?n env k]
  have load: "load disk' = Inr ?pool" by (rule written_pool_loads [OF inv assms(2) w(1)])
  have q: "\<forall>s \<in> set (lp_Slots ?pool). sl_State s = SlotQuarantined \<and> sl_LegacyRetained s"
    by (auto simp: rebuilt_slot_def)
  have "reconcileSlotCount ?n ?pool = Inr ?pool" using inv assms(1,2) by (intro reconcile_same) (auto simp: pool_inv_def)
  moreover have "expireStale (en_Alive env' 0) (en_Clock env' 0) ?pool = ?pool"
    using q by (auto simp: expireStale_def expire_slot_other live_def map_idI)
  moreover obtain e where "lease_body store env' (OpAcquire q) ?pool = Inl e"
    using quarantined_acquire_fails [of ?pool store env' q] q
    by (cases "lease_body store env' (OpAcquire q) ?pool") (auto simp del: lease_body.simps)
  ultimately have "lease_serve store env' (OpAcquire q) disk' = (disk', Inl e)"
    using load assms(1) by (simp add: lease_serve_def withLock_def withPoolLock_def del: lease_body.simps)
  then show ?thesis
    using load k(2) q inv w(2) writePool_backups [OF w(1)] by (auto simp: pool_inv_def)
qed


theorem rebuilt_pool_is_quarantined_witness:
  "\<exists>disk'. rebuildCorruptPoolForRecovery demo_store (demo_env 10 ''a'') True True ''slot-001''
       \<lparr>dk_Pool = Garbled, dk_Journal = NoFile, dk_Backups = []\<rparr> = (disk', Inr ())
     \<and> dk_Backups disk' = [(10, Garbled, NoFile)]"
proof -
  let ?disk = "\<lparr>dk_Pool = Garbled, dk_Journal = NoFile, dk_Backups = []\<rparr>"
  have "slotNumber ''slot-001'' 1 = Some 1" by code_simp
  then have "\<exists>pool' disk1. rebuildCorruptPoolForRecovery demo_store (demo_env 10 ''a'') True True ''slot-001'' ?disk
      = publish (demo_env 10 ''a'') pool' () disk1"
    by (auto simp: rebuildCorruptPoolForRecovery_def demo_store_def load_def keep_corrupt_def Let_def)
  moreover have "\<exists>disk'. writePool (demo_env 10 ''a'') pool' disk1 = (disk', None)" for pool' disk1
    by (rule writePool_written) (simp_all add: demo_env_def)
  ultimately obtain disk' where r: "rebuildCorruptPoolForRecovery demo_store (demo_env 10 ''a'') True True ''slot-001'' ?disk = (disk', Inr ())"
    by (metis publish_ok)
  from rebuilt_pool_is_quarantined [OF _ _ this] r show ?thesis by (auto simp: demo_store_def demo_env_def)
qed

end
