(* ===== verification/Credential_Ledger.thy ===== *)
theory Credential_Ledger
  imports Identity "HOL-Library.Product_Lexorder"
begin

text \<open>
  The revision policy of the credential ledger (\<open>internal/credential/policy.go\<close>, with the records of
  \<open>internal/domain/types.go\<close>): validation of single revisions and of whole histories, heads, the merge
  decision, recipients, assignments and access to exclusive credentials.

  A history is the list of its revisions.  Where the code ranges over a Go map, the definition takes
  the list of keys in the order of the iteration, and the theorems hold for every order.  Signatures
  and payloads are the adapter's: verification and decryption are arguments.
\<close>

section \<open>Records\<close>

record CredentialMetadata =
  cm_SchemaVersion :: int
  cm_CredentialID :: string
  cm_RevisionID :: string
  cm_Parents :: "string list"
  cm_Label :: string
  cm_Kind :: string
  cm_Zone :: string
  cm_Scope :: string
  cm_Consumer :: string
  cm_State :: string
  cm_RecipientActors :: "string list"
  cm_Exclusive :: bool
  cm_Syncable :: bool
  cm_AuthorityHost :: string
  cm_AssignedYard :: string
  cm_AssignmentEpoch :: int
  cm_ActorID :: string
  cm_ActorCounter :: int
  cm_Timestamp :: time

record Decision =
  de_RequiresMerge :: bool
  de_Conflict :: bool
  de_Reason :: string
  de_State :: string
  de_Parents :: "string list"
  de_Recipients :: "string list"
  de_Exclusive :: bool
  de_Template :: CredentialMetadata

record ExclusiveAccessDecision =
  ea_Allowed :: bool
  ea_Reason :: string

record CredentialSummary =
  cu_CredentialID :: string
  cu_Label :: string
  cu_Kind :: string
  cu_Zone :: string
  cu_Consumer :: string
  cu_State :: string
  cu_Heads :: "string list"
  cu_NeedsMerge :: bool
  cu_Conflict :: bool
  cu_ConflictReason :: string
  cu_Exclusive :: bool
  cu_AuthorityHost :: string
  cu_AssignedYard :: string
  cu_AssignmentEpoch :: int
  cu_Syncable :: bool

datatype credential_error =
    UnsupportedCredentialSchema int
  | InvalidRevisionIdentity
  | InvalidClassification
  | InvalidConsumer
  | InvalidCredentialState
  | RecipientsRequired
  | InvalidRecipient string
  | DuplicateRecipient string
  | InvalidParent string
  | DuplicateRevision string
  | DuplicateParent string string
  | UnknownParent string string
  | CrossesHistories string
  | RevisionCycle string
  | ReusedCounter string int
  | AssignmentOnShared string
  | InvalidAssignment string
  | RootNotByAuthority string
  | AuthorityChanged string
  | UnauthorizedAssignment string
  | ChangedMetadata string
  | IncomingLocalOnly string
  | NoHeads
  | MixedCredentials
  | VerifyFailed string
  | CryptoRequired
  | InvalidActor string
  | NoRecipientLeft
  | NotExclusive
  | EpochChanged int int
  | InvalidAuthorityHost
  | InvalidAssignedYard
  | AccessNeedsActiveExclusive
  | InvalidAccessContext

section \<open>One revision\<close>

definition lower_hex :: "nat \<Rightarrow> bool" where
  "lower_hex r \<longleftrightarrow> 48 \<le> r \<and> r \<le> 57 \<or> 97 \<le> r \<and> r \<le> 102"

definition isLowerHex :: "string \<Rightarrow> bool" where
  "isLowerHex value \<longleftrightarrow> value \<noteq> '''' \<and> list_all lower_hex (runes value)"

definition safeGitObjectID :: "string \<Rightarrow> bool" where
  "safeGitObjectID value \<longleftrightarrow> (length value = 40 \<or> length value = 64) \<and> isLowerHex value"

definition credentialID :: "string \<Rightarrow> bool" where
  "credentialID value \<longleftrightarrow> length value = 37 \<and> HasPrefix value ''cred-'' \<and> isLowerHex (drop 5 value)"

definition revision_prefix :: "CredentialMetadata \<Rightarrow> string" where
  "revision_prefix m = cm_ActorID m @ ''-'' @ fmt_0d 12 (cm_ActorCounter m) @ ''-''"

definition revisionID :: "CredentialMetadata \<Rightarrow> bool" where
  "revisionID m \<longleftrightarrow>
     HasPrefix (cm_RevisionID m) (revision_prefix m)
     \<and> length (cm_RevisionID m) = length (revision_prefix m) + 8
     \<and> isLowerHex (drop (length (revision_prefix m)) (cm_RevisionID m))"

fun check_recipients :: "string list \<Rightarrow> string list \<Rightarrow> credential_error err" where
  "check_recipients seen [] = None"
| "check_recipients seen (actor # actors) =
     (if \<not> SafeID actor then Some (InvalidRecipient actor)
      else if actor \<in> set seen then Some (DuplicateRecipient actor)
      else check_recipients (actor # seen) actors)"

definition validateMetadata :: "CredentialMetadata \<Rightarrow> credential_error err" where
  "validateMetadata m =
     (if cm_SchemaVersion m \<noteq> 1 then Some (UnsupportedCredentialSchema (cm_SchemaVersion m))
      else if \<not> credentialID (cm_CredentialID m) \<or> \<not> revisionID m \<or> \<not> SafeID (cm_ActorID m)
          \<or> cm_ActorCounter m < 1 then Some InvalidRevisionIdentity
      else if cm_Label m = '''' \<or> length (cm_Label m) > 128 \<or> ContainsAny (cm_Label m) [CHR 0x0D, CHR 0x0A]
          \<or> \<not> SafeID (cm_Kind m) \<or> \<not> SafeID (cm_Zone m) \<or> cm_Zone m = ''.'' \<or> cm_Zone m = ''..''
          \<or> cm_Scope m \<noteq> ''staging'' then Some InvalidClassification
      else if \<not> SafeName (cm_Consumer m) then Some InvalidConsumer
      else if cm_State m \<notin> set [''active'', ''revoked'', ''tombstone''] then Some InvalidCredentialState
      else if cm_RecipientActors m = [] \<or> cm_AssignmentEpoch m < 0 \<or> cm_Timestamp m = 0
      then Some RecipientsRequired
      else and_then (check_recipients [] (cm_RecipientActors m))
        (first_error (\<lambda>p. if \<not> SafeID p then Some (InvalidParent p) else None) (cm_Parents m)))"

definition validAssignedYard :: "string \<Rightarrow> bool" where
  "validAssignedYard value =
     (case Cut value slash of (owner, yard, ok) \<Rightarrow> ok \<and> SafeID owner \<and> SafeName yard)"

definition metadataEqual :: "CredentialMetadata \<Rightarrow> CredentialMetadata \<Rightarrow> bool" where
  "metadataEqual l r \<longleftrightarrow>
     cm_SchemaVersion l = cm_SchemaVersion r \<and> cm_CredentialID l = cm_CredentialID r
     \<and> cm_RevisionID l = cm_RevisionID r \<and> cm_Parents l = cm_Parents r \<and> cm_Label l = cm_Label r
     \<and> cm_Kind l = cm_Kind r \<and> cm_Zone l = cm_Zone r \<and> cm_Scope l = cm_Scope r
     \<and> cm_Consumer l = cm_Consumer r \<and> cm_State l = cm_State r
     \<and> cm_RecipientActors l = cm_RecipientActors r \<and> cm_Exclusive l = cm_Exclusive r
     \<and> cm_Syncable l = cm_Syncable r \<and> cm_AuthorityHost l = cm_AuthorityHost r
     \<and> cm_AssignedYard l = cm_AssignedYard r \<and> cm_AssignmentEpoch l = cm_AssignmentEpoch r
     \<and> cm_ActorID l = cm_ActorID r \<and> cm_ActorCounter l = cm_ActorCounter r
     \<and> cm_Timestamp l = cm_Timestamp r"

section \<open>A history\<close>

definition by_id :: "CredentialMetadata list \<Rightarrow> string \<Rightarrow> CredentialMetadata option" where
  "by_id revisions i = find_first (\<lambda>r. cm_RevisionID r = i) revisions"

fun check_revision_ids :: "string list \<Rightarrow> CredentialMetadata list \<Rightarrow> credential_error err" where
  "check_revision_ids seen [] = None"
| "check_revision_ids seen (r # rs) =
     and_then (validateMetadata r)
       (if cm_RevisionID r \<in> set seen then Some (DuplicateRevision (cm_RevisionID r))
        else check_revision_ids (cm_RevisionID r # seen) rs)"

fun check_parents :: "CredentialMetadata list \<Rightarrow> CredentialMetadata \<Rightarrow> string list \<Rightarrow> string list \<Rightarrow> credential_error err" where
  "check_parents revisions r seen [] = None"
| "check_parents revisions r seen (p # ps) =
     (if p \<in> set seen then Some (DuplicateParent (cm_RevisionID r) p)
      else case by_id revisions p of
        None \<Rightarrow> Some (UnknownParent (cm_RevisionID r) p)
      | Some parent \<Rightarrow>
          if cm_CredentialID parent \<noteq> cm_CredentialID r then Some (CrossesHistories (cm_RevisionID r))
          else check_parents revisions r (p # seen) ps)"

definition parents_of :: "CredentialMetadata list \<Rightarrow> string \<Rightarrow> string list" where
  "parents_of revisions i = (case by_id revisions i of None \<Rightarrow> [] | Some r \<Rightarrow> cm_Parents r)"

lemma by_id_Some: "by_id revisions i = Some r \<Longrightarrow> r \<in> set revisions \<and> cm_RevisionID r = i"
  by (auto simp: by_id_def dest: find_first_SomeD)

lemma by_id_None: "by_id revisions i = None \<longleftrightarrow> i \<notin> cm_RevisionID ` set revisions"
  by (auto simp: by_id_def)

text \<open>
  The depth-first search of the code over the identifiers still to visit: \<open>visiting\<close> is the path to
  the current revision, \<open>visited\<close> what was completed.
\<close>

function visit :: "CredentialMetadata list \<Rightarrow> string list \<Rightarrow> string list \<Rightarrow> string list \<Rightarrow> credential_error + string list" where
  "visit revisions visiting visited [] = Inr visited"
| "visit revisions visiting visited (i # rest) =
     (if i \<in> set visiting then Inl (RevisionCycle i)
      else if i \<in> set visited then visit revisions visiting visited rest
      else case visit revisions (i # visiting) visited (parents_of revisions i) of
        Inl e \<Rightarrow> Inl e
      | Inr visited' \<Rightarrow> visit revisions visiting (i # visited') rest)"
  by pat_completeness auto

termination
proof (relation "measures [\<lambda>(revisions, visiting, _, _). card (cm_RevisionID ` set revisions - set visiting), \<lambda>(_, _, _, ids). length ids]", goal_cases)
  case (3 revisions visiting visited i rest)
  show ?case
  proof (cases "i \<in> cm_RevisionID ` set revisions")
    case True
    with 3 have "cm_RevisionID ` set revisions - set (i # visiting) \<subset> cm_RevisionID ` set revisions - set visiting" by auto
    then have "card (cm_RevisionID ` set revisions - set (i # visiting)) < card (cm_RevisionID ` set revisions - set visiting)"
      by (intro psubset_card_mono) auto
    then show ?thesis by simp
  next
    case False
    then have "parents_of revisions i = []" by (simp add: parents_of_def flip: by_id_None)
    moreover have "cm_RevisionID ` set revisions - set (i # visiting) = cm_RevisionID ` set revisions - set visiting"
      using False by auto
    ultimately show ?thesis by simp
  qed
qed auto

definition counter_key :: "CredentialMetadata \<Rightarrow> string" where
  "counter_key r = cm_ActorID r @ ''/'' @ fmt_d (cm_ActorCounter r)"

fun check_counters :: "(string \<times> string) list \<Rightarrow> CredentialMetadata list \<Rightarrow> credential_error err" where
  "check_counters seen [] = None"
| "check_counters seen (r # rs) =
     (case map_of seen (counter_key r) of
        Some previous \<Rightarrow>
          if previous \<noteq> cm_RevisionID r then Some (ReusedCounter (cm_ActorID r) (cm_ActorCounter r))
          else check_counters ((counter_key r, cm_RevisionID r) # seen) rs
      | None \<Rightarrow> check_counters ((counter_key r, cm_RevisionID r) # seen) rs)"

definition validateActorCounters :: "CredentialMetadata list \<Rightarrow> credential_error err" where
  "validateActorCounters revisions = check_counters [] revisions"

definition assignment_changed :: "CredentialMetadata \<Rightarrow> CredentialMetadata \<Rightarrow> bool" where
  "assignment_changed parent r \<longleftrightarrow>
     cm_AssignedYard parent \<noteq> cm_AssignedYard r \<or> cm_AssignmentEpoch parent \<noteq> cm_AssignmentEpoch r"

text \<open>A parent that is not in the map reads as the zero record, which is not exclusive.\<close>

definition check_assignment_parent :: "CredentialMetadata list \<Rightarrow> CredentialMetadata \<Rightarrow> string \<Rightarrow> credential_error err" where
  "check_assignment_parent revisions r p =
     (case by_id revisions p of
        None \<Rightarrow> Some (AuthorityChanged (cm_RevisionID r))
      | Some parent \<Rightarrow>
          if \<not> cm_Exclusive parent \<or> cm_AuthorityHost parent \<noteq> cm_AuthorityHost r
          then Some (AuthorityChanged (cm_RevisionID r))
          else if assignment_changed parent r
            \<and> (cm_ActorID r \<noteq> cm_AuthorityHost r \<or> cm_AssignmentEpoch r \<le> cm_AssignmentEpoch parent)
          then Some (UnauthorizedAssignment (cm_RevisionID r))
          else None)"

definition validateAssignment :: "CredentialMetadata list \<Rightarrow> CredentialMetadata \<Rightarrow> credential_error err" where
  "validateAssignment revisions r =
     (if \<not> cm_Exclusive r
      then (if cm_AuthorityHost r \<noteq> '''' \<or> cm_AssignedYard r \<noteq> '''' \<or> cm_AssignmentEpoch r \<noteq> 0
            then Some (AssignmentOnShared (cm_RevisionID r)) else None)
      else if \<not> SafeID (cm_AuthorityHost r) \<or> \<not> validAssignedYard (cm_AssignedYard r) \<or> cm_AssignmentEpoch r < 1
      then Some (InvalidAssignment (cm_RevisionID r))
      else if cm_Parents r = [] \<and> cm_ActorID r \<noteq> cm_AuthorityHost r
      then Some (RootNotByAuthority (cm_RevisionID r))
      else first_error (check_assignment_parent revisions r) (cm_Parents r))"

definition ValidateRevisions :: "string list \<Rightarrow> CredentialMetadata list \<Rightarrow> credential_error err" where
  "ValidateRevisions order revisions =
     and_then (check_revision_ids [] revisions)
     (and_then (first_error (\<lambda>r. check_parents revisions r [] (cm_Parents r)) revisions)
     (and_then (case visit revisions [] [] order of Inl e \<Rightarrow> Some e | Inr _ \<Rightarrow> None)
     (and_then (validateActorCounters revisions)
       (first_error (validateAssignment revisions) revisions))))"

text \<open>The revisions of both sides, each once, in the order they were first met.\<close>

fun merge_revisions :: "CredentialMetadata list \<Rightarrow> CredentialMetadata list \<Rightarrow> credential_error + CredentialMetadata list" where
  "merge_revisions acc [] = Inr acc"
| "merge_revisions acc (r # rs) =
     (case by_id acc (cm_RevisionID r) of
        Some previous \<Rightarrow>
          if \<not> metadataEqual previous r then Inl (ChangedMetadata (cm_RevisionID r)) else merge_revisions acc rs
      | None \<Rightarrow> merge_revisions (acc @ [r]) rs)"

definition ValidateIncomingRevisions :: "string list \<Rightarrow> string list \<Rightarrow> CredentialMetadata list
    \<Rightarrow> CredentialMetadata list \<Rightarrow> credential_error err" where
  "ValidateIncomingRevisions keys order incoming existing =
     (case merge_revisions [] (existing @ incoming) of
        Inl e \<Rightarrow> Some e
      | Inr by \<Rightarrow>
          and_then (ValidateRevisions order (List.map_filter (by_id by) keys))
            (first_error (\<lambda>r. if \<not> cm_Syncable r then Some (IncomingLocalOnly (cm_RevisionID r)) else None) incoming))"

section \<open>Heads and merging\<close>

definition head_key :: "CredentialMetadata \<Rightarrow> string \<times> int \<times> string" where
  "head_key m = (cm_ActorID m, cm_ActorCounter m, cm_RevisionID m)"

definition Heads :: "CredentialMetadata list \<Rightarrow> string \<Rightarrow> CredentialMetadata list" where
  "Heads revisions cid =
     (let own = filter (\<lambda>r. cm_CredentialID r = cid) revisions;
          parents = concat (map cm_Parents own) in
      sort_key head_key (filter (\<lambda>r. cm_RevisionID r \<notin> set parents) own))"

text \<open>
  The actors counted once per head, as often as there are heads.  The keys of the counting map are
  the recipients of all heads.
\<close>

definition recipient_count :: "CredentialMetadata list \<Rightarrow> string \<Rightarrow> nat" where
  "recipient_count heads actor = length (filter (\<lambda>h. actor \<in> set (cm_RecipientActors h)) heads)"

definition recipientIntersection :: "CredentialMetadata list \<Rightarrow> string list" where
  "recipientIntersection heads =
     sort (filter (\<lambda>actor. recipient_count heads actor = length heads)
       (remdups (concat (map cm_RecipientActors heads))))"

definition compatible_with :: "CredentialMetadata \<Rightarrow> CredentialMetadata \<Rightarrow> bool" where
  "compatible_with first h \<longleftrightarrow>
     cm_Label h = cm_Label first \<and> cm_Kind h = cm_Kind first \<and> cm_Zone h = cm_Zone first
     \<and> cm_Consumer h = cm_Consumer first \<and> cm_AuthorityHost h = cm_AuthorityHost first
     \<and> cm_AssignedYard h = cm_AssignedYard first \<and> cm_AssignmentEpoch h = cm_AssignmentEpoch first"

definition compatibleMetadata :: "CredentialMetadata list \<Rightarrow> bool" where
  "compatibleMetadata heads \<longleftrightarrow> list_all (compatible_with (hd heads)) (tl heads)"

definition MetadataCompatible :: "CredentialMetadata list \<Rightarrow> bool" where
  "MetadataCompatible heads \<longleftrightarrow> heads \<noteq> [] \<and> compatibleMetadata heads"

definition conflict :: "Decision \<Rightarrow> string \<Rightarrow> Decision" where
  "conflict decision reason = decision\<lparr>de_Conflict := True, de_Reason := reason\<rparr>"

definition merge_state :: "CredentialMetadata \<Rightarrow> string \<Rightarrow> string" where
  "merge_state h state =
     (if cm_State h = ''tombstone'' \<or> cm_State h = ''revoked'' \<and> state \<noteq> ''tombstone'' then cm_State h else state)"

definition check_head :: "string \<Rightarrow> CredentialMetadata \<Rightarrow> credential_error err" where
  "check_head cid h =
     and_then (validateMetadata h) (if cm_CredentialID h \<noteq> cid then Some MixedCredentials else None)"

definition head_decision :: "CredentialMetadata list \<Rightarrow> Decision" where
  "head_decision heads =
     \<lparr>de_RequiresMerge = length heads > 1, de_Conflict = False, de_Reason = '''',
      de_State = fold merge_state heads (cm_State (hd heads)), de_Parents = sort (map cm_RevisionID heads),
      de_Recipients = recipientIntersection heads, de_Exclusive = list_ex cm_Exclusive heads,
      de_Template = hd heads\<rparr>"

definition final_state :: "string \<Rightarrow> bool" where
  "final_state state \<longleftrightarrow> state = ''revoked'' \<or> state = ''tombstone''"

definition settle_decision :: "CredentialMetadata list \<Rightarrow> Decision \<Rightarrow> Decision" where
  "settle_decision heads decision =
     (if length heads = 1 then decision
      else if de_Recipients decision = [] then conflict decision ''heads have no common recipient''
      else if final_state (de_State decision) then decision
      else if \<not> compatibleMetadata heads then conflict decision ''head metadata differs''
      else decision)"

definition AnalyzeMetadataHeads :: "CredentialMetadata list \<Rightarrow> credential_error + Decision" where
  "AnalyzeMetadataHeads heads =
     (if heads = [] then Inl NoHeads
      else case first_error (check_head (cm_CredentialID (hd heads))) heads of
        Some e \<Rightarrow> Inl e
      | None \<Rightarrow> Inr (settle_decision heads (head_decision heads)))"

text \<open>
  The loop over the payloads.  \<open>expected\<close> is the copied slice: copying no bytes leaves it nil, so the
  nil slice and an empty payload are the same value.
\<close>

fun compare_payloads :: "(CredentialMetadata \<Rightarrow> string option) \<Rightarrow> string \<Rightarrow> CredentialMetadata list \<Rightarrow> string option" where
  "compare_payloads decrypt expected [] = None"
| "compare_payloads decrypt expected (h # hs) =
     (case decrypt h of
        None \<Rightarrow> Some ''a head could not be decrypted''
      | Some current \<Rightarrow>
          if expected = '''' then compare_payloads decrypt current hs
          else if expected \<noteq> current then Some ''active head payloads differ''
          else compare_payloads decrypt expected hs)"

record CredentialCrypto =
  cc_Decrypt :: "CredentialMetadata \<Rightarrow> string option"
  cc_Verify :: "CredentialMetadata \<Rightarrow> bool"

definition AnalyzeHeads :: "CredentialMetadata list \<Rightarrow> CredentialCrypto option \<Rightarrow> credential_error + Decision" where
  "AnalyzeHeads heads crypto =
     res_bind (AnalyzeMetadataHeads heads) (\<lambda>decision.
       case (case crypto of None \<Rightarrow> None | Some c \<Rightarrow>
               first_error (\<lambda>h. if \<not> cc_Verify c h then Some (VerifyFailed (cm_RevisionID h)) else None) heads) of
         Some e \<Rightarrow> Inl e
       | None \<Rightarrow>
           if \<not> de_RequiresMerge decision \<or> de_Conflict decision \<or> final_state (de_State decision) then Inr decision
           else case crypto of
             None \<Rightarrow> Inl CryptoRequired
           | Some c \<Rightarrow>
               (case compare_payloads (cc_Decrypt c) '''' heads of
                  Some reason \<Rightarrow> Inr (conflict decision reason)
                | None \<Rightarrow> Inr decision))"


definition credential_summary :: "CredentialMetadata list \<Rightarrow> string \<Rightarrow> credential_error + CredentialSummary" where
  "credential_summary revisions cid =
     (let heads = Heads revisions cid in
      res_bind (AnalyzeMetadataHeads heads) (\<lambda>decision.
        let t = de_Template decision; c = de_Conflict decision in
        Inr \<lparr>cu_CredentialID = cid, cu_Label = cm_Label t, cu_Kind = cm_Kind t, cu_Zone = cm_Zone t,
          cu_Consumer = cm_Consumer t, cu_State = de_State decision, cu_Heads = map cm_RevisionID heads,
          cu_NeedsMerge = de_RequiresMerge decision, cu_Conflict = c, cu_ConflictReason = de_Reason decision,
          cu_Exclusive = de_Exclusive decision, cu_AuthorityHost = (if c then '''' else cm_AuthorityHost t),
          cu_AssignedYard = (if c then '''' else cm_AssignedYard t),
          cu_AssignmentEpoch = (if c then 0 else cm_AssignmentEpoch t), cu_Syncable = cm_Syncable t\<rparr>))"

definition Summarize :: "string list \<Rightarrow> string list \<Rightarrow> CredentialMetadata list \<Rightarrow> credential_error + CredentialSummary list" where
  "Summarize order credentialIDs revisions =
     (if revisions = [] then Inr []
      else case ValidateRevisions order revisions of
        Some e \<Rightarrow> Inl e
      | None \<Rightarrow>
          res_bind (fold_res (\<lambda>cid done. res_bind (credential_summary revisions cid) (\<lambda>s. Inr (done @ [s]))) credentialIDs [])
            (\<lambda>summaries. Inr (sort_key cu_CredentialID summaries)))"

section \<open>Recipients, assignments and access\<close>

definition RekeyRecipients :: "string list \<Rightarrow> string \<Rightarrow> bool \<Rightarrow> credential_error + string list" where
  "RekeyRecipients current actor trust =
     (if \<not> SafeID actor then Inl (InvalidActor actor)
      else case find_first (\<lambda>a. \<not> SafeID a) current of
        Some a \<Rightarrow> Inl (InvalidActor a)
      | None \<Rightarrow>
          (let rest = removeAll actor (remdups current);
               actors = (if trust then actor # rest else rest) in
           if actors = [] then Inl NoRecipientLeft else Inr (sort actors)))"

definition MoveAssignment :: "CredentialMetadata \<Rightarrow> string \<Rightarrow> string \<Rightarrow> int \<Rightarrow> credential_error + CredentialMetadata" where
  "MoveAssignment head authorityHost assignedYard expectedEpoch =
     (if \<not> cm_Exclusive head then Inl NotExclusive
      else if cm_AssignmentEpoch head \<noteq> expectedEpoch then Inl (EpochChanged expectedEpoch (cm_AssignmentEpoch head))
      else if \<not> SafeID authorityHost then Inl InvalidAuthorityHost
      else case Cut assignedYard slash of (owner, yard, ok) \<Rightarrow>
        if \<not> ok \<or> \<not> SafeID owner \<or> \<not> SafeName yard then Inl InvalidAssignedYard
        else Inr (head\<lparr>cm_AuthorityHost := authorityHost, cm_AssignedYard := assignedYard,
               cm_AssignmentEpoch := wrap64 (cm_AssignmentEpoch head + 1)\<rparr>))"

definition CheckExclusiveAccess :: "CredentialMetadata \<Rightarrow> string \<Rightarrow> string \<Rightarrow> bool \<Rightarrow> int \<Rightarrow> int \<Rightarrow> duration
    \<Rightarrow> credential_error + ExclusiveAccessDecision" where
  "CheckExclusiveAccess head actor yard authorityTrusted lastSuccess now maximumAge =
     (case validateMetadata head of
        Some e \<Rightarrow> Inl e
      | None \<Rightarrow>
          if \<not> cm_Exclusive head \<or> cm_State head \<noteq> ''active'' then Inl AccessNeedsActiveExclusive
          else if \<not> SafeID actor \<or> \<not> validAssignedYard yard \<or> now < 1 \<or> maximumAge \<le> 0 then Inl InvalidAccessContext
          else if cm_AssignedYard head \<noteq> yard then Inr \<lparr>ea_Allowed = False, ea_Reason = ''not-assigned''\<rparr>
          else if cm_AuthorityHost head = actor then Inr \<lparr>ea_Allowed = True, ea_Reason = ''authority-local''\<rparr>
          else if \<not> authorityTrusted then Inr \<lparr>ea_Allowed = False, ea_Reason = ''authority-untrusted''\<rparr>
          else if lastSuccess \<le> 0 \<or> lastSuccess > now \<or> now - lastSuccess > maximumAge div second
          then Inr \<lparr>ea_Allowed = False, ea_Reason = ''authority-stale''\<rparr>
          else Inr \<lparr>ea_Allowed = True, ea_Reason = ''authority-fresh''\<rparr>)"


end
