(* ===== verification/Credential_History.thy ===== *)
theory Credential_History
  imports Credential_Ledger
begin

text \<open>
  What the ledger policy guarantees: validation accepts exactly the well-formed histories, the
  authority of an exclusive credential never changes along a history, peers can only append, and the
  merge decision does not depend on the order of the heads.
\<close>

section \<open>The search for cycles\<close>

definition ancestry :: "CredentialMetadata list \<Rightarrow> (string \<times> string) set" where
  "ancestry revisions = {(c, p). \<exists>r \<in> set revisions. cm_RevisionID r = c \<and> p \<in> set (cm_Parents r)}"

lemma by_id_unique:
  assumes "distinct (map cm_RevisionID revisions)" and "r \<in> set revisions"
  shows "by_id revisions (cm_RevisionID r) = Some r"
  unfolding by_id_def by (rule find_first_unique [OF assms])

lemma parents_of_ancestry:
  assumes "distinct (map cm_RevisionID revisions)"
  shows "p \<in> set (parents_of revisions c) \<longleftrightarrow> (c, p) \<in> ancestry revisions"
proof (cases "by_id revisions c")
  case None
  then have "parents_of revisions c = []" "c \<notin> cm_RevisionID ` set revisions"
    using by_id_None [of revisions c] by (simp_all add: parents_of_def)
  then show ?thesis by (auto simp: ancestry_def)
next
  case (Some r)
  then show ?thesis
    using by_id_unique [OF assms] by (auto simp: parents_of_def ancestry_def dest: by_id_Some)
qed

text \<open>A completed set is closed under parents and meets no cycle.\<close>

definition completed :: "(string \<times> string) set \<Rightarrow> string set \<Rightarrow> bool" where
  "completed E D \<longleftrightarrow> (\<forall>(x, y) \<in> E. x \<in> D \<longrightarrow> y \<in> D) \<and> (\<forall>x \<in> D. (x, x) \<notin> E\<^sup>+)"

lemma completed_trancl: "(x, y) \<in> E\<^sup>+ \<Longrightarrow> completed E D \<Longrightarrow> x \<in> D \<Longrightarrow> y \<in> D"
  by (induction rule: trancl_induct) (auto simp: completed_def)

lemma completed_insert:
  assumes "completed E D" and "\<And>p. (i, p) \<in> E \<Longrightarrow> p \<in> D" and "i \<notin> D"
  shows "completed E (insert i D)"
proof -
  have "(i, i) \<notin> E\<^sup>+"
  proof
    assume "(i, i) \<in> E\<^sup>+"
    then obtain p where "(i, p) \<in> E" "p = i \<or> (p, i) \<in> E\<^sup>+" by (meson converse_tranclE)
    with assms completed_trancl show False by metis
  qed
  with assms show ?thesis by (auto simp: completed_def)
qed

lemma visit_completes:
  assumes "visit revisions visiting visited ids = Inr visited'"
    and "E = {(c, p). p \<in> set (parents_of revisions c)}"
    and "completed E (set visited)" and "set visiting \<inter> set visited = {}"
  shows "set visited \<union> set ids \<subseteq> set visited' \<and> completed E (set visited') \<and> set visiting \<inter> set visited' = {}"
  using assms
proof (induction revisions visiting visited ids arbitrary: visited' rule: visit.induct)
  case (2 revisions visiting visited i rest)
  show ?case
  proof (cases "i \<in> set visited")
    case True
    with 2 show ?thesis by (auto split: if_split_asm)
  next
    case False
    with "2.prems"(1) obtain mid where mid: "i \<notin> set visiting"
      "visit revisions (i # visiting) visited (parents_of revisions i) = Inr mid"
      "visit revisions visiting (i # mid) rest = Inr visited'"
      by (auto split: if_split_asm sum.split_asm)
    have m: "set visited \<union> set (parents_of revisions i) \<subseteq> set mid \<and> completed E (set mid) \<and> set (i # visiting) \<inter> set mid = {}"
      using "2.IH"(2) [OF mid(1) False mid(2) "2.prems"(2,3)] "2.prems"(4) False by auto
    then have "completed E (set (i # mid))"
      using completed_insert [of E "set mid" i] "2.prems"(2) by auto
    then show ?thesis
      using "2.IH"(3) [OF mid(1) False mid(2,3) "2.prems"(2)] m mid(1) by auto
  qed
qed simp

lemma visit_fails:
  assumes "visit revisions visiting visited ids = Inl e"
    and "E = {(c, p). p \<in> set (parents_of revisions c)}" and "\<forall>i \<in> set ids. \<forall>v \<in> set visiting. (v, i) \<in> E\<^sup>+"
  shows "\<not> acyclic E"
  using assms
proof (induction revisions visiting visited ids rule: visit.induct)
  case (2 revisions visiting visited i rest)
  show ?case
  proof (cases "i \<in> set visiting")
    case True
    with "2.prems"(3) have "(i, i) \<in> E\<^sup>+" by simp
    then show ?thesis by (auto simp: acyclic_def)
  next
    case new: False
    show ?thesis
    proof (cases "i \<in> set visited")
      case True
      with new 2 show ?thesis by simp
    next
      case False
      have deeper: "\<forall>p \<in> set (parents_of revisions i). \<forall>v \<in> set (i # visiting). (v, p) \<in> E\<^sup>+"
        using "2.prems"(2,3) by (auto intro: trancl_into_trancl)
      show ?thesis
        using 2 new False deeper
        by (cases "visit revisions (i # visiting) visited (parents_of revisions i)") simp_all
    qed
  qed
qed simp

lemma visit_acyclic:
  assumes "distinct (map cm_RevisionID revisions)" and "set order = cm_RevisionID ` set revisions"
  shows "is_ok (visit revisions [] [] order) \<longleftrightarrow> acyclic (ancestry revisions)"
proof -
  have E: "ancestry revisions = {(c, p). p \<in> set (parents_of revisions c)}"
    using parents_of_ancestry [OF assms(1)] by auto
  show ?thesis
  proof (cases "visit revisions [] [] order")
    case (Inl e)
    with visit_fails [OF Inl E] show ?thesis by simp
  next
    case (Inr D)
    from visit_completes [OF Inr E] have D: "cm_RevisionID ` set revisions \<subseteq> set D" "completed (ancestry revisions) (set D)"
      by (simp_all add: completed_def assms(2))
    have "(x, x) \<notin> (ancestry revisions)\<^sup>+" for x
    proof
      assume x: "(x, x) \<in> (ancestry revisions)\<^sup>+"
      then obtain y where "(x, y) \<in> ancestry revisions" by (metis tranclD)
      then have "x \<in> set D" using D(1) by (auto simp: ancestry_def)
      with x D(2) show False by (auto simp: completed_def)
    qed
    with Inr show ?thesis by (simp add: acyclic_def)
  qed
qed

section \<open>Well-formed histories\<close>

definition assignment_ok :: "CredentialMetadata list \<Rightarrow> CredentialMetadata \<Rightarrow> bool" where
  "assignment_ok revisions r \<longleftrightarrow>
     (if cm_Exclusive r
      then SafeID (cm_AuthorityHost r) \<and> validAssignedYard (cm_AssignedYard r) \<and> 1 \<le> cm_AssignmentEpoch r
        \<and> (cm_Parents r = [] \<longrightarrow> cm_ActorID r = cm_AuthorityHost r)
        \<and> (\<forall>q \<in> set revisions. cm_RevisionID q \<in> set (cm_Parents r) \<longrightarrow>
             cm_Exclusive q \<and> cm_AuthorityHost q = cm_AuthorityHost r
             \<and> (cm_AssignedYard q = cm_AssignedYard r \<and> cm_AssignmentEpoch q = cm_AssignmentEpoch r
                \<or> cm_ActorID r = cm_AuthorityHost r \<and> cm_AssignmentEpoch q < cm_AssignmentEpoch r))
      else cm_AuthorityHost r = '''' \<and> cm_AssignedYard r = '''' \<and> cm_AssignmentEpoch r = 0)"

definition ledger_ok :: "CredentialMetadata list \<Rightarrow> bool" where
  "ledger_ok revisions \<longleftrightarrow>
     (\<forall>r \<in> set revisions. validateMetadata r = None) \<and> distinct (map cm_RevisionID revisions)
     \<and> (\<forall>r \<in> set revisions. distinct (cm_Parents r)
          \<and> (\<forall>p \<in> set (cm_Parents r). \<exists>q \<in> set revisions. cm_RevisionID q = p \<and> cm_CredentialID q = cm_CredentialID r))
     \<and> acyclic (ancestry revisions)
     \<and> (\<forall>r \<in> set revisions. \<forall>s \<in> set revisions.
          cm_ActorID r = cm_ActorID s \<and> cm_ActorCounter r = cm_ActorCounter s \<longrightarrow> r = s)
     \<and> (\<forall>r \<in> set revisions. assignment_ok revisions r)"

lemma check_revision_ids_None:
  "check_revision_ids seen revisions = None \<longleftrightarrow>
     (\<forall>r \<in> set revisions. validateMetadata r = None) \<and> distinct (map cm_RevisionID revisions)
     \<and> cm_RevisionID ` set revisions \<inter> set seen = {}"
  by (induction revisions arbitrary: seen) auto

lemma check_parents_None:
  assumes "distinct (map cm_RevisionID revisions)"
  shows "check_parents revisions r seen ps = None \<longleftrightarrow>
     distinct ps \<and> set ps \<inter> set seen = {}
     \<and> (\<forall>p \<in> set ps. \<exists>q \<in> set revisions. cm_RevisionID q = p \<and> cm_CredentialID q = cm_CredentialID r)"
proof (induction ps arbitrary: seen)
  case (Cons p ps)
  show ?case
  proof (cases "by_id revisions p")
    case None
    then have "\<nexists>q. q \<in> set revisions \<and> cm_RevisionID q = p" using by_id_None [of revisions p] by auto
    then show ?thesis using None by auto
  next
    case (Some q)
    then have "q \<in> set revisions" "cm_RevisionID q = p" by (auto dest: by_id_Some)
    moreover have "s = q" if "s \<in> set revisions" "cm_RevisionID s = p" for s
      using by_id_unique [OF assms that(1)] that(2) Some by simp
    ultimately have "(\<exists>s \<in> set revisions. cm_RevisionID s = p \<and> cm_CredentialID s = cm_CredentialID r)
        \<longleftrightarrow> cm_CredentialID q = cm_CredentialID r" by blast
    then show ?thesis using Some Cons.IH [of "p # seen"] by auto
  qed
qed simp

lemma validateMetadata_None:
  assumes "validateMetadata m = None"
  shows "SafeID (cm_ActorID m)" "1 \<le> cm_ActorCounter m" "revisionID m" "credentialID (cm_CredentialID m)"
    "cm_State m \<in> {''active'', ''revoked'', ''tombstone''}" "cm_RecipientActors m \<noteq> []"
  using assms unfolding validateMetadata_def guard_None by auto

lemma counter_key_inj:
  assumes "SafeID (cm_ActorID r)" and "SafeID (cm_ActorID s)" and "1 \<le> cm_ActorCounter r" and "1 \<le> cm_ActorCounter s"
  shows "counter_key r = counter_key s \<longleftrightarrow> cm_ActorID r = cm_ActorID s \<and> cm_ActorCounter r = cm_ActorCounter s"
proof -
  have "slash \<notin> set (cm_ActorID r)" "slash \<notin> set (cm_ActorID s)"
    using assms(1,2) SafeID_chars id_char_not_slash by blast+
  then have "Cut (counter_key r) slash = (cm_ActorID r, fmt_d (cm_ActorCounter r), True)"
    "Cut (counter_key s) slash = (cm_ActorID s, fmt_d (cm_ActorCounter s), True)"
    by (simp_all add: counter_key_def Cut_append)
  then have "counter_key r = counter_key s \<longleftrightarrow>
      cm_ActorID r = cm_ActorID s \<and> fmt_d (cm_ActorCounter r) = fmt_d (cm_ActorCounter s)"
    by (metis counter_key_def prod.inject)
  moreover have "fmt_d (cm_ActorCounter r) = fmt_d (cm_ActorCounter s) \<longleftrightarrow> cm_ActorCounter r = cm_ActorCounter s"
    using assms(3,4) by (simp add: fmt_d_def dec_inj eq_nat_nat_iff)
  ultimately show ?thesis by simp
qed

lemma check_counters_None:
  assumes "distinct (map cm_RevisionID revisions)" and "cm_RevisionID ` set revisions \<inter> snd ` set seen = {}"
  shows "check_counters seen revisions = None \<longleftrightarrow>
     distinct (map counter_key revisions) \<and> counter_key ` set revisions \<inter> fst ` set seen = {}"
  using assms
proof (induction revisions arbitrary: seen)
  case (Cons r rs)
  show ?case
  proof (cases "map_of seen (counter_key r)")
    case None
    then have "counter_key r \<notin> fst ` set seen" by (simp add: map_of_eq_None_iff)
    moreover have "check_counters ((counter_key r, cm_RevisionID r) # seen) rs = None \<longleftrightarrow>
        distinct (map counter_key rs) \<and> counter_key ` set rs \<inter> fst ` set ((counter_key r, cm_RevisionID r) # seen) = {}"
      using Cons.prems by (intro Cons.IH) auto
    ultimately show ?thesis using None by auto
  next
    case (Some previous)
    then have "(counter_key r, previous) \<in> set seen" by (rule map_of_SomeD)
    then have "counter_key r \<in> fst ` set seen" "previous \<in> snd ` set seen" by force+
    moreover from this(2) have "previous \<noteq> cm_RevisionID r" using Cons.prems(2) by (metis disjoint_iff image_eqI list.set_intros(1))
    ultimately show ?thesis using Some by simp
  qed
qed simp


lemma counters_distinct:
  assumes "\<forall>r \<in> set revisions. validateMetadata r = None" and "distinct (map cm_RevisionID revisions)"
  shows "distinct (map counter_key revisions) \<longleftrightarrow>
     (\<forall>r \<in> set revisions. \<forall>s \<in> set revisions.
        cm_ActorID r = cm_ActorID s \<and> cm_ActorCounter r = cm_ActorCounter s \<longrightarrow> r = s)"
proof -
  have "counter_key r = counter_key s \<longleftrightarrow> cm_ActorID r = cm_ActorID s \<and> cm_ActorCounter r = cm_ActorCounter s"
    if "r \<in> set revisions" "s \<in> set revisions" for r s
    using that assms(1) by (intro counter_key_inj) (auto dest: validateMetadata_None)
  moreover have "distinct revisions" using assms(2) by (simp add: distinct_map)
  ultimately show ?thesis by (auto simp: distinct_map inj_on_def)
qed

lemma check_assignment_parent_None:
  assumes "distinct (map cm_RevisionID revisions)" and "q \<in> set revisions"
  shows "check_assignment_parent revisions r (cm_RevisionID q) = None \<longleftrightarrow>
     cm_Exclusive q \<and> cm_AuthorityHost q = cm_AuthorityHost r
     \<and> (cm_AssignedYard q = cm_AssignedYard r \<and> cm_AssignmentEpoch q = cm_AssignmentEpoch r
        \<or> cm_ActorID r = cm_AuthorityHost r \<and> cm_AssignmentEpoch q < cm_AssignmentEpoch r)"
  by (auto simp: check_assignment_parent_def by_id_unique [OF assms] assignment_changed_def)

lemma validateAssignment_None:
  assumes "distinct (map cm_RevisionID revisions)" and "set (cm_Parents r) \<subseteq> cm_RevisionID ` set revisions"
  shows "validateAssignment revisions r = None \<longleftrightarrow> assignment_ok revisions r"
proof -
  have "first_error (check_assignment_parent revisions r) (cm_Parents r) = None \<longleftrightarrow>
      (\<forall>q \<in> set revisions. cm_RevisionID q \<in> set (cm_Parents r) \<longrightarrow> check_assignment_parent revisions r (cm_RevisionID q) = None)"
    using assms(2) by (auto simp: first_error_None)
  then show ?thesis
    using check_assignment_parent_None [OF assms(1)]
    by (simp add: validateAssignment_def assignment_ok_def not_less conj_ac)
qed

lemma ValidateRevisions_iff:
  assumes "set order = cm_RevisionID ` set revisions"
  shows "ValidateRevisions order revisions = None \<longleftrightarrow> ledger_ok revisions"
proof (cases "(\<forall>r \<in> set revisions. validateMetadata r = None) \<and> distinct (map cm_RevisionID revisions)")
  case False
  then show ?thesis by (auto simp: ValidateRevisions_def ledger_ok_def check_revision_ids_None)
next
  case True
  let ?parents = "\<forall>r \<in> set revisions. distinct (cm_Parents r)
    \<and> (\<forall>p \<in> set (cm_Parents r). \<exists>q \<in> set revisions. cm_RevisionID q = p \<and> cm_CredentialID q = cm_CredentialID r)"
  have p: "first_error (\<lambda>r. check_parents revisions r [] (cm_Parents r)) revisions = None \<longleftrightarrow> ?parents"
    using True by (auto simp: first_error_None check_parents_None)
  have c: "(case visit revisions [] [] order of Inl e \<Rightarrow> Some e | Inr _ \<Rightarrow> None) = None \<longleftrightarrow> acyclic (ancestry revisions)"
    using visit_acyclic [OF _ assms] True by (cases "visit revisions [] [] order") auto
  have k: "validateActorCounters revisions = None \<longleftrightarrow> (\<forall>r \<in> set revisions. \<forall>s \<in> set revisions.
      cm_ActorID r = cm_ActorID s \<and> cm_ActorCounter r = cm_ActorCounter s \<longrightarrow> r = s)"
    using True counters_distinct [of revisions] check_counters_None [of revisions "[]"]
    by (simp add: validateActorCounters_def)
  have a: "first_error (validateAssignment revisions) revisions = None \<longleftrightarrow> (\<forall>r \<in> set revisions. assignment_ok revisions r)"
    if ?parents
    using validateAssignment_None that True by (fastforce simp: first_error_None)
  have i: "check_revision_ids [] revisions = None" using True by (simp add: check_revision_ids_None)
  show ?thesis
    using True a by (simp add: ValidateRevisions_def ledger_ok_def i p c k) blast
qed


lemma ledger_ok_perm:
  assumes "mset revisions' = mset revisions"
  shows "ledger_ok revisions' \<longleftrightarrow> ledger_ok revisions"
proof -
  have "set revisions' = set revisions" using assms by (rule mset_eq_setD)
  moreover have "distinct (map cm_RevisionID revisions') \<longleftrightarrow> distinct (map cm_RevisionID revisions)"
    using assms by (metis mset_eq_imp_distinct_iff mset_map)
  moreover have "ancestry revisions' = ancestry revisions" using calculation(1) by (simp add: ancestry_def)
  moreover have "assignment_ok revisions' = assignment_ok revisions"
    using calculation(1) by (simp add: fun_eq_iff assignment_ok_def)
  ultimately show ?thesis by (simp only: ledger_ok_def)
qed

text \<open>Two revisions of an exclusive credential, the second moving its assignment.\<close>

definition demo_root :: CredentialMetadata where
  "demo_root =
     \<lparr>cm_SchemaVersion = 1, cm_CredentialID = ''cred-0123456789abcdef0123456789abcdef'',
      cm_RevisionID = ''host-a-000000000001-aaaaaaaa'', cm_Parents = [], cm_Label = ''token'', cm_Kind = ''generic'',
      cm_Zone = ''main'', cm_Scope = ''staging'', cm_Consumer = ''ci'', cm_State = ''active'',
      cm_RecipientActors = [''host-a'', ''host-b''], cm_Exclusive = True, cm_Syncable = True,
      cm_AuthorityHost = ''host-a'', cm_AssignedYard = ''host-a/dev'', cm_AssignmentEpoch = 1,
      cm_ActorID = ''host-a'', cm_ActorCounter = 1, cm_Timestamp = 5\<rparr>"

definition demo_moved :: CredentialMetadata where
  "demo_moved = demo_root\<lparr>cm_RevisionID := ''host-a-000000000002-bbbbbbbb'',
     cm_Parents := [''host-a-000000000001-aaaaaaaa''], cm_AssignedYard := ''host-b/dev'', cm_AssignmentEpoch := 2,
     cm_ActorCounter := 2\<rparr>"

definition demo_order :: "string list" where
  "demo_order = [''host-a-000000000002-bbbbbbbb'', ''host-a-000000000001-aaaaaaaa'']"

lemma demo_validated: "ValidateRevisions demo_order [demo_root, demo_moved] = None"
  unfolding demo_root_def demo_moved_def demo_order_def by code_simp

lemma demo_order_set: "set demo_order = cm_RevisionID ` set [demo_root, demo_moved]"
  by (simp add: demo_order_def demo_root_def demo_moved_def insert_commute)

text \<open>
  C3: validation accepts exactly the well-formed histories.  In whatever order the Go maps are
  iterated, a list of revisions passes if and only if every revision is valid by itself, identifiers
  and actor counters are unique, parents are known, distinct and of the same credential, no revision
  is its own ancestor, and every assignment is authorized.
\<close>

theorem ledger_validation_exact:
  assumes "mset revisions' = mset revisions" and "set order = cm_RevisionID ` set revisions'"
  shows "ValidateRevisions order revisions' = None \<longleftrightarrow> ledger_ok revisions"
  using ValidateRevisions_iff [OF assms(2)] ledger_ok_perm [OF assms(1)] by simp

theorem ledger_validation_exact_witness:
  "ledger_ok [demo_moved, demo_root]"
  using ledger_validation_exact [of "[demo_root, demo_moved]" "[demo_moved, demo_root]", OF _ demo_order_set]
    demo_validated by (simp add: add_mset_commute)

section \<open>Exclusive credentials\<close>

lemma ancestry_ends:
  assumes "ledger_ok revisions" and "(c, p) \<in> ancestry revisions"
  obtains r q where "r \<in> set revisions" "q \<in> set revisions" "cm_RevisionID r = c" "cm_RevisionID q = p"
    "p \<in> set (cm_Parents r)" "cm_CredentialID q = cm_CredentialID r"
  using assms by (fastforce simp: ledger_ok_def ancestry_def)

lemma ledger_ok_same_id:
  assumes "ledger_ok revisions" and "r \<in> set revisions" and "s \<in> set revisions" and "cm_RevisionID r = cm_RevisionID s"
  shows "r = s"
  using assms by (auto simp: ledger_ok_def distinct_map inj_on_def)

definition same_authority :: "CredentialMetadata \<Rightarrow> CredentialMetadata \<Rightarrow> bool" where
  "same_authority r a \<longleftrightarrow>
     cm_CredentialID a = cm_CredentialID r
     \<and> (cm_Exclusive r \<longrightarrow>
          cm_Exclusive a \<and> cm_AuthorityHost a = cm_AuthorityHost r \<and> cm_AssignmentEpoch a \<le> cm_AssignmentEpoch r
          \<and> (cm_AssignmentEpoch a = cm_AssignmentEpoch r \<longrightarrow> cm_AssignedYard a = cm_AssignedYard r))"

lemma same_authority_trans: "same_authority r b \<Longrightarrow> same_authority b a \<Longrightarrow> same_authority r a"
  by (auto simp: same_authority_def)

lemma assignment_okD:
  assumes "assignment_ok revisions r" and "cm_Exclusive r" and "q \<in> set revisions" and "cm_RevisionID q \<in> set (cm_Parents r)"
  shows "cm_Exclusive q \<and> cm_AuthorityHost q = cm_AuthorityHost r
     \<and> (cm_AssignedYard q = cm_AssignedYard r \<and> cm_AssignmentEpoch q = cm_AssignmentEpoch r
        \<or> cm_ActorID r = cm_AuthorityHost r \<and> cm_AssignmentEpoch q < cm_AssignmentEpoch r)"
  using assms by (simp add: assignment_ok_def)

lemma same_authority_parent:
  assumes "ledger_ok revisions" and "r \<in> set revisions" and "q \<in> set revisions"
    and "(cm_RevisionID r, cm_RevisionID q) \<in> ancestry revisions"
  shows "same_authority r q"
proof -
  obtain r' q' where "r' \<in> set revisions" "q' \<in> set revisions" "cm_RevisionID r' = cm_RevisionID r"
    "cm_RevisionID q' = cm_RevisionID q" "cm_RevisionID q \<in> set (cm_Parents r')" "cm_CredentialID q' = cm_CredentialID r'"
    by (rule ancestry_ends [OF assms(1,4)])
  then have "cm_RevisionID q \<in> set (cm_Parents r)" "cm_CredentialID q = cm_CredentialID r"
    using ledger_ok_same_id [OF assms(1)] assms(2,3) by blast+
  moreover have "assignment_ok revisions r" using assms(1,2) by (simp add: ledger_ok_def)
  ultimately show ?thesis using assms(3) assignment_okD [of revisions r q] by (auto simp: same_authority_def)
qed

lemma same_authority_ancestor:
  assumes "(c, p) \<in> (ancestry revisions)\<^sup>+" and "ledger_ok revisions"
    and "r \<in> set revisions" and "a \<in> set revisions" and "c = cm_RevisionID r" and "p = cm_RevisionID a"
  shows "same_authority r a"
  using assms
proof (induction arbitrary: a rule: trancl_induct)
  case (base p)
  then show ?case using same_authority_parent by blast
next
  case (step b p)
  obtain q where q: "q \<in> set revisions" "cm_RevisionID q = b" by (rule ancestry_ends [OF step.prems(1) step.hyps(2)], rule that)
  then have "same_authority r q" using step.IH [of q] step.prems by simp
  moreover have "same_authority q a" using same_authority_parent [of revisions q a] q step by simp
  ultimately show ?case by (rule same_authority_trans)
qed



section \<open>Incoming revisions\<close>

lemma metadataEqual_iff: "metadataEqual l r \<longleftrightarrow> l = r"
  by (cases l; cases r) (auto simp: metadataEqual_def)

lemma merge_revisions_Inr:
  assumes "merge_revisions acc rs = Inr merged" and "distinct (map cm_RevisionID acc)"
  shows "distinct (map cm_RevisionID merged) \<and> set merged = set acc \<union> set rs"
  using assms
proof (induction acc rs rule: merge_revisions.induct)
  case (2 acc r rs)
  show ?case
  proof (cases "by_id acc (cm_RevisionID r)")
    case None
    then have "cm_RevisionID r \<notin> cm_RevisionID ` set acc" using by_id_None by metis
    with None 2 show ?thesis by auto
  next
    case (Some previous)
    then have "previous \<in> set acc" by (auto dest: by_id_Some)
    with Some 2 show ?thesis by (auto simp: metadataEqual_iff split: if_split_asm)
  qed
qed simp

lemma map_filter_by_id:
  assumes "distinct (map cm_RevisionID revisions)" and "distinct keys" and "set keys = cm_RevisionID ` set revisions"
  shows "mset (List.map_filter (by_id revisions) keys) = mset revisions"
proof -
  let ?get = "\<lambda>i. the (by_id revisions i)"
  have get: "by_id revisions i = Some (?get i) \<and> cm_RevisionID (?get i) = i" if "i \<in> set keys" for i
    using that assms(3) by_id_unique [OF assms(1)] by auto
  have m: "List.map_filter (by_id revisions) keys = map ?get keys"
    unfolding List.map_filter_def using get by (induction keys) auto
  have "distinct (map ?get keys)"
    using get assms(2) by (simp add: distinct_map inj_on_def) metis
  moreover have "set (map ?get keys) = set revisions"
    using assms(3) by_id_unique [OF assms(1)] by (force simp: image_image)
  moreover have "distinct revisions" using assms(1) by (simp add: distinct_map)
  ultimately show ?thesis unfolding m by (metis set_eq_iff_mset_eq_distinct)
qed

text \<open>
  C18: peers can only append.  When incoming revisions are accepted, the ledger that results is
  well formed, contains every revision that was there before unchanged, adds exactly the incoming
  ones, and none of these is local-only; in whatever order the maps were iterated.
\<close>

theorem incoming_revisions_only_append:
  assumes "ValidateIncomingRevisions keys order incoming existing = None" and "distinct keys"
    and "set keys = cm_RevisionID ` (set existing \<union> set incoming)" and "set order = set keys"
  shows "\<exists>ledger. merge_revisions [] (existing @ incoming) = Inr ledger \<and> ledger_ok ledger
    \<and> set ledger = set existing \<union> set incoming \<and> (\<forall>r \<in> set incoming. cm_Syncable r)"
proof -
  obtain ledger where l: "merge_revisions [] (existing @ incoming) = Inr ledger"
    "ValidateRevisions order (List.map_filter (by_id ledger) keys) = None" "\<forall>r \<in> set incoming. cm_Syncable r"
    using assms(1) by (auto simp: ValidateIncomingRevisions_def first_error_None split: sum.split_asm if_split_asm)
  have m: "distinct (map cm_RevisionID ledger)" "set ledger = set existing \<union> set incoming"
    using merge_revisions_Inr [OF l(1)] by auto
  have perm: "mset (List.map_filter (by_id ledger) keys) = mset ledger"
    using m assms(2,3) by (intro map_filter_by_id) auto
  then have "set (List.map_filter (by_id ledger) keys) = set ledger" by (rule mset_eq_setD)
  then have "ledger_ok ledger"
    using ValidateRevisions_iff [of order "List.map_filter (by_id ledger) keys"] l(2) ledger_ok_perm [OF perm] assms(3,4) m(2)
    by simp
  then show ?thesis using l(1,3) m(2) by blast
qed


theorem incoming_revisions_only_append_witness:
  "\<exists>ledger. merge_revisions [] ([demo_root] @ [demo_root, demo_moved]) = Inr ledger \<and> ledger_ok ledger"
proof -
  have "ValidateIncomingRevisions demo_order demo_order [demo_root, demo_moved] [demo_root] = None"
    unfolding demo_root_def demo_moved_def demo_order_def by code_simp
  moreover have "distinct demo_order" by (simp add: demo_order_def)
  ultimately show ?thesis
    using incoming_revisions_only_append [of demo_order demo_order "[demo_root, demo_moved]" "[demo_root]"] demo_order_set by auto
qed

section \<open>Merging heads\<close>

definition merged_state :: "CredentialMetadata list \<Rightarrow> string" where
  "merged_state heads =
     (if ''tombstone'' \<in> cm_State ` set heads then ''tombstone''
      else if ''revoked'' \<in> cm_State ` set heads then ''revoked'' else ''active'')"

lemma fold_strongest:
  assumes "distinct [a, r, t]" and "\<forall>h \<in> set hs. st h \<in> {a, r, t}" and "s \<in> {a, r, t}"
  shows "fold (\<lambda>h s. if st h = t \<or> st h = r \<and> s \<noteq> t then st h else s) hs s =
     (if s = t \<or> t \<in> st ` set hs then t else if s = r \<or> r \<in> st ` set hs then r else a)"
  using assms
proof (induction hs arbitrary: s)
  case (Cons h hs)
  let ?s = "if st h = t \<or> st h = r \<and> s \<noteq> t then st h else s"
  have "?s \<in> {a, r, t}" using Cons.prems by auto
  with Cons.IH [of ?s] Cons.prems show ?case by auto
qed auto

lemma distinct_states: "distinct [''active'', ''revoked'', ''tombstone'']"
  by simp

lemma fold_merge_state:
  assumes "\<forall>h \<in> set heads. cm_State h \<in> {''active'', ''revoked'', ''tombstone''}"
    and "s \<in> {''active'', ''revoked'', ''tombstone''}"
  shows "fold merge_state heads s =
     (if s = ''tombstone'' \<or> ''tombstone'' \<in> cm_State ` set heads then ''tombstone''
      else if s = ''revoked'' \<or> ''revoked'' \<in> cm_State ` set heads then ''revoked'' else ''active'')"
proof -
  have "merge_state = (\<lambda>h s. if cm_State h = ''tombstone'' \<or> cm_State h = ''revoked'' \<and> s \<noteq> ''tombstone'' then cm_State h else s)"
    by (rule ext)+ (rule merge_state_def)
  from fold_strongest [OF distinct_states assms, folded this] show ?thesis .
qed

lemma length_filter_all: "length (filter P xs) = length xs \<longleftrightarrow> (\<forall>x \<in> set xs. P x)"
proof (induction xs)
  case (Cons x xs)
  moreover have "length (filter P xs) \<noteq> Suc (length xs)" by (metis length_filter_le not_less_eq_eq order_refl)
  ultimately show ?case by auto
qed simp

lemma recipientIntersection_set:
  assumes "heads \<noteq> []"
  shows "set (recipientIntersection heads) = (\<Inter>h \<in> set heads. set (cm_RecipientActors h))"
    and "sorted (recipientIntersection heads)" and "distinct (recipientIntersection heads)"
proof -
  have "recipient_count heads actor = length heads \<longleftrightarrow> (\<forall>h \<in> set heads. actor \<in> set (cm_RecipientActors h))" for actor
    by (simp add: recipient_count_def length_filter_all)
  then show "set (recipientIntersection heads) = (\<Inter>h \<in> set heads. set (cm_RecipientActors h))"
    using assms by (cases heads) (auto simp: recipientIntersection_def)
qed (simp_all add: recipientIntersection_def)

lemma compatibleMetadata_iff:
  assumes "heads \<noteq> []"
  shows "compatibleMetadata heads \<longleftrightarrow> (\<forall>g \<in> set heads. \<forall>h \<in> set heads. compatible_with g h)"
  using assms by (cases heads) (auto simp: compatibleMetadata_def list_all_iff compatible_with_def)

lemma check_heads_None:
  assumes "heads \<noteq> []"
  shows "first_error (check_head (cm_CredentialID (hd heads))) heads = None \<longleftrightarrow>
    (\<forall>h \<in> set heads. validateMetadata h = None) \<and> (\<forall>g \<in> set heads. \<forall>h \<in> set heads. cm_CredentialID g = cm_CredentialID h)"
proof -
  have "check_head (cm_CredentialID (hd heads)) h = None \<longleftrightarrow>
      validateMetadata h = None \<and> cm_CredentialID h = cm_CredentialID (hd heads)" for h
    by (simp add: check_head_def)
  then show ?thesis using hd_in_set [OF assms] unfolding first_error_None by metis
qed

lemma hd_state: "heads \<noteq> [] \<Longrightarrow> \<forall>h \<in> set heads. validateMetadata h = None \<Longrightarrow> fold merge_state heads (cm_State (hd heads)) = merged_state heads"
proof -
  assume h: "heads \<noteq> []" "\<forall>h \<in> set heads. validateMetadata h = None"
  then have s: "\<forall>h \<in> set heads. cm_State h \<in> {''active'', ''revoked'', ''tombstone''}"
    using validateMetadata_None(5) by blast
  have hd: "hd heads \<in> set heads" using h(1) by simp
  from fold_merge_state [OF s bspec [OF s hd]] imageI [OF hd, of cm_State] show ?thesis
    unfolding merged_state_def by (metis (no_types, lifting))
qed

lemma head_decision_perm:
  assumes "mset heads' = mset heads" and "heads \<noteq> []" and "\<forall>h \<in> set heads. validateMetadata h = None"
  shows "(head_decision heads')\<lparr>de_Template := t\<rparr> = (head_decision heads)\<lparr>de_Template := t\<rparr>"
proof -
  have set: "set heads' = set heads" and len: "length heads' = length heads" and ne: "heads' \<noteq> []"
    using assms(1,2) by (auto dest: mset_eq_setD mset_eq_length)
  have "sort (map cm_RevisionID heads') = sort (map cm_RevisionID heads)"
    using assms(1) by (intro sort_key_perm_eq) simp_all
  moreover have "recipientIntersection heads' = recipientIntersection heads"
    using recipientIntersection_set [OF ne] recipientIntersection_set [OF assms(2)] set
    by (intro sorted_distinct_set_unique) simp_all
  moreover have "fold merge_state heads' (cm_State (hd heads')) = fold merge_state heads (cm_State (hd heads))"
    using hd_state [OF ne] hd_state [OF assms(2,3)] assms(3) set by (simp add: merged_state_def)
  moreover have "list_ex cm_Exclusive heads' = list_ex cm_Exclusive heads" using set by (simp add: list_ex_iff)
  ultimately show ?thesis using len by (simp add: head_decision_def)
qed

lemma AnalyzeMetadataHeads_Inr:
  "AnalyzeMetadataHeads heads = Inr d \<longleftrightarrow>
     heads \<noteq> [] \<and> first_error (check_head (cm_CredentialID (hd heads))) heads = None
     \<and> d = settle_decision heads (head_decision heads)"
  unfolding AnalyzeMetadataHeads_def
  by (cases "heads = []"; cases "first_error (check_head (cm_CredentialID (hd heads))) heads") auto

lemma settle_decision_fields:
  "de_State (settle_decision heads d) = de_State d" "de_Recipients (settle_decision heads d) = de_Recipients d"
  "de_RequiresMerge (settle_decision heads d) = de_RequiresMerge d"
  by (simp_all add: settle_decision_def conflict_def)

lemma settle_decision_cong:
  assumes "length heads' = length heads" and "compatibleMetadata heads' = compatibleMetadata heads"
    and "d'\<lparr>de_Template := t\<rparr> = d\<lparr>de_Template := t\<rparr>"
  shows "(settle_decision heads' d')\<lparr>de_Template := t\<rparr> = (settle_decision heads d)\<lparr>de_Template := t\<rparr>"
  using assms by (cases d; cases d') (simp add: settle_decision_def conflict_def)

text \<open>Two concurrent heads of a shared credential.\<close>

definition demo_head :: "string \<Rightarrow> CredentialMetadata" where
  "demo_head actor = demo_root\<lparr>cm_RevisionID := actor @ ''-000000000001-aaaaaaaa'', cm_ActorID := actor,
     cm_Exclusive := False, cm_AuthorityHost := '''', cm_AssignedYard := '''', cm_AssignmentEpoch := 0\<rparr>"

definition demo_heads :: "CredentialMetadata list" where
  "demo_heads = [demo_head ''host-a'', demo_head ''host-b'']"

definition demo_decision :: Decision where
  "demo_decision = settle_decision demo_heads (head_decision demo_heads)"

lemma demo_heads_valid: "first_error (check_head (cm_CredentialID (hd demo_heads))) demo_heads = None"
  unfolding demo_heads_def demo_head_def demo_root_def by code_simp

lemma demo_heads_analyzed: "AnalyzeMetadataHeads demo_heads = Inr demo_decision"
  unfolding AnalyzeMetadataHeads_Inr using demo_heads_valid by (simp add: demo_decision_def) (simp add: demo_heads_def)

lemma demo_heads_merge: "\<not> de_Conflict demo_decision \<and> de_RequiresMerge demo_decision \<and> de_State demo_decision = ''active''"
proof -
  have "set (recipientIntersection demo_heads) \<noteq> {}"
    by (subst recipientIntersection_set) (simp_all add: demo_heads_def demo_head_def demo_root_def)
  moreover have "compatibleMetadata demo_heads" "length demo_heads = 2"
    by (simp_all add: demo_heads_def demo_head_def demo_root_def compatibleMetadata_def compatible_with_def)
  moreover have "fold merge_state demo_heads (cm_State (hd demo_heads)) = ''active''"
    by (simp add: demo_heads_def demo_head_def demo_root_def merge_state_def)
  ultimately show ?thesis
    by (simp add: demo_decision_def settle_decision_def head_decision_def final_state_def conflict_def)
qed



lemma compare_payloads_None:
  assumes "compare_payloads decrypt expected heads = None"
  shows "\<exists>payload. (expected \<noteq> '''' \<longrightarrow> payload = expected) \<and> (\<forall>h \<in> set heads. decrypt h = Some payload \<or> decrypt h = Some '''')"
  using assms
proof (induction decrypt expected heads rule: compare_payloads.induct)
  case (2 decrypt expected h hs)
  obtain current where c: "decrypt h = Some current" using "2.prems" by (cases "decrypt h") simp_all
  show ?case
  proof (cases "expected = ''''")
    case True
    with 2 c show ?thesis by fastforce
  next
    case False
    with 2 c have "expected = current" "compare_payloads decrypt expected hs = None" by (auto split: if_split_asm)
    with 2 c False show ?thesis by fastforce
  qed
qed auto



text \<open>
  C39: an empty first payload hides a difference.  When the first head decrypts to the empty payload,
  the payload of the second is never compared with it, so two heads with different values are merged
  without a conflict.
\<close>

theorem empty_payload_hides_conflict:
  assumes "AnalyzeMetadataHeads [g, h] = Inr d" and "\<not> de_Conflict d" and "cc_Verify c g" and "cc_Verify c h"
    and "cc_Decrypt c g = Some ''''" and "cc_Decrypt c h = Some payload"
  shows "AnalyzeHeads [g, h] (Some c) = Inr d"
  using assms by (simp add: AnalyzeHeads_def)

theorem empty_payload_hides_conflict_witness:
  "AnalyzeHeads [demo_head ''host-a'', demo_head ''host-b'']
     (Some \<lparr>cc_Decrypt = \<lambda>h. Some (if cm_ActorID h = ''host-a'' then '''' else ''secret''), cc_Verify = \<lambda>_. True\<rparr>)
     = Inr demo_decision"
  by (rule empty_payload_hides_conflict)
    (use demo_heads_analyzed demo_heads_merge in \<open>simp_all add: demo_heads_def\<close>, simp_all add: demo_head_def)

section \<open>Access to exclusive credentials\<close>

text \<open>
  C33: access to an exclusive credential is granted exactly when the head is an active exclusive
  revision assigned to the asking yard and the authority is the local actor, or is trusted and was
  reached no longer ago than the maximum age; at most one yard is granted access by a head.
\<close>

theorem exclusive_access_exact:
  assumes "CheckExclusiveAccess head actor yard trusted lastSuccess now maximumAge = Inr d"
  shows "cm_Exclusive head \<and> cm_State head = ''active''
    \<and> (ea_Allowed d \<longleftrightarrow> cm_AssignedYard head = yard
         \<and> (cm_AuthorityHost head = actor
            \<or> trusted \<and> 0 < lastSuccess \<and> lastSuccess \<le> now \<and> (now - lastSuccess) * second \<le> maximumAge))"
proof -
  have age: "now - lastSuccess \<le> maximumAge div second \<longleftrightarrow> (now - lastSuccess) * second \<le> maximumAge"
    by (rule le_div_iff) simp
  show ?thesis
    using assms age unfolding CheckExclusiveAccess_def
    by (auto split: option.split_asm if_split_asm)
qed

theorem exclusive_access_exact_witness:
  "\<exists>d. CheckExclusiveAccess demo_moved ''host-b'' ''host-b/dev'' True 100 160 (2 * minute) = Inr d \<and> ea_Allowed d"
proof -
  have "is_ok (CheckExclusiveAccess demo_moved ''host-b'' ''host-b/dev'' True 100 160 (2 * minute))"
    unfolding demo_moved_def demo_root_def by code_simp
  then obtain d where "CheckExclusiveAccess demo_moved ''host-b'' ''host-b/dev'' True 100 160 (2 * minute) = Inr d"
    by (auto simp: is_ok_iff)
  from exclusive_access_exact [OF this] this show ?thesis by (simp add: demo_moved_def)
qed

end
