(* ===== verification/Credential_Sync.thy ===== *)
theory Credential_Sync
  imports Credential_Ledger
begin

text \<open>
  Peers of the credential ledger and the schedule of their synchronization
  (\<open>internal/credential/policy.go\<close>): validation and enrolment of a peer, the retry delay, and the
  state kept per peer.  Times are Unix seconds in 64-bit integers, failures are counted in an \<open>int\<close>.
\<close>

section \<open>Peers\<close>

record CredentialPeer =
  cp_SchemaVersion :: int
  cp_Name :: string
  cp_ActorID :: string
  cp_AgeRecipient :: string
  cp_SigningPublic :: string
  cp_Transport :: string
  cp_Dest :: string
  cp_OwnerYardName :: string
  cp_ManualOnly :: bool
  cp_Trusted :: bool

datatype peer_error =
    InvalidPeerIdentity
  | LocalPeerRemote
  | InvalidSSHPeer
  | InboundPeerActive
  | UnknownTransport
  | InvalidEnrolled peer_error
  | ActorChanged
  | CryptoIdentityChanged

definition line_or_nul :: string where
  "line_or_nul = [CHR 0x0D, CHR 0x0A, CHR 0x00]"

definition ValidatePeer :: "CredentialPeer \<Rightarrow> peer_error err" where
  "ValidatePeer peer =
     (if cp_SchemaVersion peer \<noteq> 1 \<or> \<not> SafeName (cp_Name peer) \<or> \<not> SafeID (cp_ActorID peer)
         \<or> \<not> HasPrefix (cp_AgeRecipient peer) ''age1'' \<or> ContainsAny (cp_AgeRecipient peer) line_or_nul
         \<or> \<not> HasPrefix (cp_SigningPublic peer) ''ssh-ed25519 '' \<or> ContainsAny (cp_SigningPublic peer) line_or_nul
         \<or> \<not> cp_Trusted peer
      then Some InvalidPeerIdentity
      else if cp_Transport peer = ''local''
      then (if cp_Dest peer \<noteq> '''' \<or> cp_OwnerYardName peer \<noteq> '''' then Some LocalPeerRemote else None)
      else if cp_Transport peer = ''ssh''
      then (if cp_Dest peer = '''' \<or> HasPrefix (cp_Dest peer) ''-'' \<or> ContainsAny (cp_Dest peer) line_or_nul
              \<or> cp_OwnerYardName peer \<noteq> '''' \<and> \<not> SafeName (cp_OwnerYardName peer)
            then Some InvalidSSHPeer else None)
      else if cp_Transport peer = ''inbound''
      then (if cp_Dest peer \<noteq> '''' \<or> cp_OwnerYardName peer \<noteq> '''' \<or> \<not> cp_ManualOnly peer
            then Some InboundPeerActive else None)
      else Some UnknownTransport)"

definition MergePeer :: "CredentialPeer \<Rightarrow> CredentialPeer option \<Rightarrow> peer_error + CredentialPeer" where
  "MergePeer incoming existing =
     (case ValidatePeer incoming of
        Some e \<Rightarrow> Inl e
      | None \<Rightarrow>
          (case existing of
             None \<Rightarrow> Inr incoming
           | Some peer \<Rightarrow>
               (case ValidatePeer peer of
                  Some e \<Rightarrow> Inl (InvalidEnrolled e)
                | None \<Rightarrow>
                    if cp_ActorID peer \<noteq> cp_ActorID incoming then Inl ActorChanged
                    else if cp_AgeRecipient peer \<noteq> cp_AgeRecipient incoming
                        \<or> cp_SigningPublic peer \<noteq> cp_SigningPublic incoming then Inl CryptoIdentityChanged
                    else if cp_Transport incoming = ''inbound''
                        \<and> (cp_Transport peer = ''local'' \<or> cp_Transport peer = ''ssh'')
                    then Inr (peer\<lparr>cp_Trusted := True\<rparr>)
                    else Inr incoming)))"

section \<open>The schedule\<close>

record CredentialSyncState =
  cs_Peer :: string
  cs_LastAttempt :: int
  cs_LastSuccess :: int
  cs_Error :: string
  cs_LastHead :: string
  cs_ConsecutiveFailures :: int
  cs_NextRetry :: int

datatype sync_error =
    SyncPeerRequired
  | OtherPeer
  | InvalidSyncPeer
  | InvalidSyncState
  | SyncErrorTooLong
  | InvalidSyncHead
  | RetryOutOfRange
  | InvalidSyncTime

definition RetryDelay :: "int \<Rightarrow> duration" where
  "RetryDelay failures =
     (if failures \<le> 0 then 6 * hour
      else
        (let exponent = (if failures - 1 > 6 then 6 else failures - 1);
             delay = 5 * minute * 2 ^ nat exponent in
         if delay > 6 * hour then 6 * hour else delay))"

definition ValidateSyncState :: "CredentialSyncState \<Rightarrow> sync_error err" where
  "ValidateSyncState state =
     (if cs_Peer state \<noteq> '''' \<and> \<not> SafeName (cs_Peer state) then Some InvalidSyncPeer
      else if cs_LastAttempt state < 0 \<or> cs_LastSuccess state < 0 \<or> cs_NextRetry state < 0
          \<or> cs_ConsecutiveFailures state < 0 \<or> cs_LastSuccess state > cs_LastAttempt state
      then Some InvalidSyncState
      else if length (cs_Error state) > 300 then Some SyncErrorTooLong
      else if cs_LastHead state \<noteq> '''' \<and> \<not> safeGitObjectID (cs_LastHead state) then Some InvalidSyncHead
      else None)"

definition NextSyncState :: "CredentialSyncState \<Rightarrow> string \<Rightarrow> int \<Rightarrow> bool \<Rightarrow> string \<Rightarrow> string \<Rightarrow> duration
    \<Rightarrow> sync_error + CredentialSyncState" where
  "NextSyncState current peer now success message head successRetry =
     (if \<not> SafeName peer \<or> now < 1 then Inl SyncPeerRequired
      else if cs_Peer current \<noteq> '''' \<and> cs_Peer current \<noteq> peer then Inl OtherPeer
      else case ValidateSyncState current of
        Some e \<Rightarrow> Inl e
      | None \<Rightarrow>
          if length message > 300 then Inl SyncErrorTooLong
          else if head \<noteq> '''' \<and> \<not> safeGitObjectID head then Inl InvalidSyncHead
          else
            (let failures = wrap64 (cs_ConsecutiveFailures current + 1);
                 next = current\<lparr>cs_Peer := peer, cs_LastAttempt := now, cs_Error := message, cs_LastHead := head\<rparr> in
             if success
             then (if successRetry \<le> 0 \<or> successRetry > 7 * 24 * hour then Inl RetryOutOfRange
                   else Inr (next\<lparr>cs_LastSuccess := now, cs_ConsecutiveFailures := 0, cs_Error := '''',
                          cs_NextRetry := wrap64 (now + successRetry div second)\<rparr>))
             else Inr (next\<lparr>cs_ConsecutiveFailures := failures,
                    cs_NextRetry := wrap64 (now + RetryDelay failures div second)\<rparr>)))"

definition SyncDue :: "CredentialSyncState \<Rightarrow> int \<Rightarrow> duration \<Rightarrow> sync_error + bool" where
  "SyncDue state now minimum =
     (if now < 1 \<or> minimum < 0 then Inl InvalidSyncTime
      else case ValidateSyncState state of
        Some e \<Rightarrow> Inl e
      | None \<Rightarrow>
          if cs_NextRetry state > 0 then Inr (now \<ge> cs_NextRetry state)
          else Inr (now - cs_LastAttempt state \<ge> minimum div second))"

section \<open>Enrolment keeps the identity\<close>

text \<open>
  Enrolling a peer again keeps its cryptographic identity: the result is a valid peer of the
  incoming actor and keys, these are the enrolled ones if the peer was enrolled before, and a
  passive announcement never takes away the route of a peer that has one.
\<close>

theorem merged_peer_keeps_identity:
  assumes "MergePeer incoming existing = Inr peer"
  shows "ValidatePeer peer = None \<and> cp_ActorID peer = cp_ActorID incoming
    \<and> cp_AgeRecipient peer = cp_AgeRecipient incoming \<and> cp_SigningPublic peer = cp_SigningPublic incoming
    \<and> (\<forall>old. existing = Some old \<longrightarrow>
         cp_ActorID peer = cp_ActorID old \<and> cp_AgeRecipient peer = cp_AgeRecipient old
         \<and> cp_SigningPublic peer = cp_SigningPublic old
         \<and> (cp_Transport old \<noteq> ''inbound'' \<and> cp_Transport incoming = ''inbound'' \<longrightarrow>
              cp_Transport peer = cp_Transport old \<and> cp_Dest peer = cp_Dest old))"
proof (cases existing)
  case None
  then show ?thesis using assms by (auto simp: MergePeer_def split: option.split_asm)
next
  case (Some old)
  have trusted: "old\<lparr>cp_Trusted := True\<rparr> = old" if "ValidatePeer old = None"
    using that by (cases old) (auto simp: ValidatePeer_def split: if_split_asm)
  have transport: "cp_Transport old \<in> {''local'', ''ssh'', ''inbound''}" if "ValidatePeer old = None"
    using that by (auto simp: ValidatePeer_def split: if_split_asm)
  show ?thesis
    using assms Some trusted transport unfolding MergePeer_def
    by (auto split: option.split_asm if_split_asm)
qed

definition demo_peer :: CredentialPeer where
  "demo_peer = \<lparr>cp_SchemaVersion = 1, cp_Name = ''laptop'', cp_ActorID = ''host-b'', cp_AgeRecipient = ''age1x'',
     cp_SigningPublic = ''ssh-ed25519 AAAA'', cp_Transport = ''ssh'', cp_Dest = ''me@laptop'', cp_OwnerYardName = '''',
     cp_ManualOnly = False, cp_Trusted = True\<rparr>"

theorem merged_peer_keeps_identity_witness:
  "\<exists>peer. MergePeer (demo_peer\<lparr>cp_Transport := ''inbound'', cp_Dest := '''', cp_ManualOnly := True\<rparr>) (Some demo_peer) = Inr peer
     \<and> cp_Transport peer = ''ssh'' \<and> cp_Dest peer = ''me@laptop''"
proof -
  let ?inbound = "demo_peer\<lparr>cp_Transport := ''inbound'', cp_Dest := '''', cp_ManualOnly := True\<rparr>"
  have "is_ok (MergePeer ?inbound (Some demo_peer))" unfolding demo_peer_def by code_simp
  then obtain peer where p: "MergePeer ?inbound (Some demo_peer) = Inr peer" by (auto simp: is_ok_iff)
  from merged_peer_keeps_identity [OF this] p show ?thesis by (simp add: demo_peer_def)
qed

section \<open>Retries\<close>

lemma RetryDelay_bounds: "5 * minute \<le> RetryDelay failures \<and> RetryDelay failures \<le> 6 * hour"
proof -
  have "2 ^ nat e \<in> {1, 2, 4, 8, 16, 32, 64 :: int}" if "0 \<le> e" "e \<le> 6" for e :: int
  proof -
    have "e \<in> {0, 1, 2, 3, 4, 5, 6}" using that by auto
    then show ?thesis by auto
  qed
  from this [of "failures - 1"] this [of 6] show ?thesis
    by (auto simp: RetryDelay_def Let_def)
qed

definition demo_sync :: CredentialSyncState where
  "demo_sync = \<lparr>cs_Peer = ''laptop'', cs_LastAttempt = 1000, cs_LastSuccess = 1000, cs_Error = '''', cs_LastHead = '''',
     cs_ConsecutiveFailures = 0, cs_NextRetry = 22600\<rparr>"

lemma demo_sync_valid: "SafeName ''laptop''" "ValidateSyncState demo_sync = None"
  unfolding demo_sync_def by code_simp+



text \<open>
  C38: a failed attempt after the clock was set back blocks the peer.  If the clock is behind the
  last success, the state after a failed attempt has its last success after its last attempt; that
  state is rejected by every later check, so the peer is neither due nor ever recorded again.
\<close>

theorem clock_set_back_blocks_sync:
  assumes "ValidateSyncState current = None" and "SafeName peer" and "cs_Peer current = peer \<or> cs_Peer current = ''''"
    and "1 \<le> now" and "now < cs_LastSuccess current" and "length message \<le> 300"
    and "1 \<le> now'" and "0 \<le> minimum"
  shows "\<exists>next. NextSyncState current peer now False message '''' retry = Inr next
    \<and> SyncDue next now' minimum = Inl InvalidSyncState
    \<and> NextSyncState next peer now' success message' head' retry' = Inl InvalidSyncState"
proof -
  obtain state' where n: "NextSyncState current peer now False message '''' retry = Inr state'"
    and f: "cs_Peer state' = peer" "cs_LastAttempt state' = now" "cs_LastSuccess state' = cs_LastSuccess current"
    using assms by (auto simp: NextSyncState_def Let_def)
  then have "ValidateSyncState state' = Some InvalidSyncState" using assms(2,5) by (simp add: ValidateSyncState_def)
  then have "SyncDue state' now' minimum = Inl InvalidSyncState"
    "NextSyncState state' peer now' success message' head' retry' = Inl InvalidSyncState"
    using f(1) assms(2,7,8) by (simp_all add: SyncDue_def NextSyncState_def)
  with n show ?thesis by blast
qed


theorem clock_set_back_blocks_sync_witness:
  "\<exists>state'. NextSyncState demo_sync ''laptop'' 900 False ''timeout'' '''' hour = Inr state'
     \<and> SyncDue state' 2000 hour = Inl InvalidSyncState"
  using clock_set_back_blocks_sync [OF demo_sync_valid(2,1), of 900 "''timeout''" 2000 hour hour True "''''" "''''" hour]
  by (simp add: demo_sync_def) blast

end
