(* ===== verification/Project_Files.thy ===== *)
theory Project_Files
  imports Identity Go_Files Go_Json Go_Sha256
begin

unbundle bit_operations_syntax

text \<open>
  The files of the project store (\<open>internal/state/store.go\<close>): what \<open>Lstat\<close>, opening and decoding
  show of a state file, the reads with their permission checks, and the repair of records written by
  the original shell store.  Permission bits are nine-bit words, as \<open>Mode().Perm()\<close> gives them.
\<close>

datatype file_kind = RegularFile | Directory | Symlink | OtherKind

datatype file_body = Decoded ProjectRecord | NotDecodable | TrailingData

record state_file =
  sf_Kind :: file_kind
  sf_Perm :: "9 word"
  sf_Special :: bool
  sf_Size :: int
  sf_Owned :: bool
  sf_Body :: file_body

text \<open>
  Inspecting or opening a file may fail; the opened file is the inspected one or, with the content
  given, another one put in its place.
\<close>

datatype access = StatFails | OpenFails | OpensSame | OpensOther file_body

datatype store_error =
    NotExist
  | DirectoryNotAbsolute
  | StateNotDirectory
  | EscapesDirectory
  | DirectoryTooBroad
  | DirectoryNotOwned
  | DirectoryFailed
  | LockFailed
  | NotRegular
  | PermissionsTooBroad
  | StateTooLarge
  | StatFailed
  | OpenFailed
  | ChangedWhileOpening
  | NotOwned
  | DecodeFailed
  | HasTrailingData
  | InvalidRecord record_error
  | InvalidID string
  | NotFound string
  | InvalidProjectName string
  | NameConflict string string
  | PendingConflict string string
  | WriteFailed
  | SyncFailed
  | RemoveFailed
  | OperationIDRequired
  | SourceRequired
  | UnsupportedMode ProjectMode
  | ModeConflict string
  | ImplicitRename string string
  | DifferentRequest
  | AdmissionPending
  | ExplicitConflict string string string
  | NeverReturns
  | InvalidOperationID
  | DifferentReservation
  | InvalidReservation
  | ReservationMismatch
  | InvalidMigration
  | CanonicalConflict string

definition max_state_size :: int where
  "max_state_size = 1024 * 1024"

definition decodeRecord :: "file_body \<Rightarrow> string \<Rightarrow> store_error + ProjectRecord" where
  "decodeRecord body expectedID =
     (case body of
        NotDecodable \<Rightarrow> Inl DecodeFailed
      | TrailingData \<Rightarrow> Inl HasTrailingData
      | Decoded r \<Rightarrow>
          (case ProjectRecord_Validate r expectedID of Some e \<Rightarrow> Inl (InvalidRecord e) | None \<Rightarrow> Inr r))"

definition group_or_other :: "9 word" where
  "group_or_other = 0x3F"

definition owner_rw :: "9 word" where
  "owner_rw = 0x180"

definition all_rw :: "9 word" where
  "all_rw = 0x1B6"

definition readRecord :: "access \<Rightarrow> state_file option \<Rightarrow> string \<Rightarrow> store_error + ProjectRecord" where
  "readRecord acc path expectedID =
     (case path of
        None \<Rightarrow> Inl NotExist
      | Some f \<Rightarrow>
          if acc = StatFails then Inl StatFailed
          else if sf_Kind f \<noteq> RegularFile then Inl NotRegular
          else if sf_Perm f AND group_or_other \<noteq> 0 then Inl PermissionsTooBroad
          else if sf_Size f > max_state_size then Inl StateTooLarge
          else case acc of
            OpensSame \<Rightarrow> decodeRecord (sf_Body f) expectedID
          | OpensOther body \<Rightarrow> decodeRecord body expectedID
          | _ \<Rightarrow> Inl OpenFailed)"

text \<open>The legacy modes: readable and writable by the owner, nothing but read and write bits.\<close>

definition legacy_mode :: "state_file \<Rightarrow> bool" where
  "legacy_mode f \<longleftrightarrow>
     sf_Perm f AND owner_rw = owner_rw \<and> sf_Perm f AND NOT all_rw = 0 \<and> \<not> sf_Special f"

definition opened_checks :: "access \<Rightarrow> state_file \<Rightarrow> store_error err" where
  "opened_checks acc f =
     (case acc of
        OpensSame \<Rightarrow>
          if \<not> sf_Owned f then Some NotOwned
          else if sf_Size f > max_state_size then Some StateTooLarge
          else None
      | OpensOther _ \<Rightarrow> Some ChangedWhileOpening
      | _ \<Rightarrow> Some OpenFailed)"

definition readRecordReadOnly :: "access \<Rightarrow> state_file option \<Rightarrow> string \<Rightarrow> store_error + ProjectRecord" where
  "readRecordReadOnly acc path expectedID =
     (case path of
        None \<Rightarrow> Inl NotExist
      | Some f \<Rightarrow>
          if acc = StatFails then Inl StatFailed
          else if sf_Kind f \<noteq> RegularFile then Inl NotRegular
          else if \<not> legacy_mode f then Inl PermissionsTooBroad
          else case opened_checks acc f of
            Some e \<Rightarrow> Inl e
          | None \<Rightarrow> decodeRecord (sf_Body f) expectedID)"

text \<open>The repaired file, and whether it was changed; a failed sync leaves the new mode in place.\<close>

definition repairLegacyRecord ::
  "access \<Rightarrow> write_outcome \<Rightarrow> state_file \<Rightarrow> string \<Rightarrow> state_file \<times> (store_error + bool)" where
  "repairLegacyRecord acc outcome f expectedID =
     (if acc = StatFails then (f, Inl StatFailed)
      else if sf_Kind f \<noteq> RegularFile then (f, Inl NotRegular)
      else if sf_Perm f AND group_or_other = 0 then (f, Inr False)
      else if \<not> legacy_mode f then (f, Inl PermissionsTooBroad)
      else case opened_checks acc f of
        Some e \<Rightarrow> (f, Inl e)
      | None \<Rightarrow>
          (case decodeRecord (sf_Body f) expectedID of
             Inl e \<Rightarrow> (f, Inl e)
           | Inr _ \<Rightarrow>
               (case outcome of
                  NotWritten \<Rightarrow> (f, Inl WriteFailed)
                | WrittenNotSynced \<Rightarrow> (f\<lparr>sf_Perm := owner_rw\<rparr>, Inl WriteFailed)
                | Written \<Rightarrow> (f\<lparr>sf_Perm := owner_rw\<rparr>, Inr True))))"

definition json_mode :: "ProjectMode \<Rightarrow> ProjectMode" where
  "json_mode m = (case m of OtherMode t \<Rightarrow> OtherMode (json_text t) | _ \<Rightarrow> m)"

text \<open>What reading gives for a record that was written: strings pass through JSON.\<close>

definition json_record :: "ProjectRecord \<Rightarrow> ProjectRecord" where
  "json_record r =
     r\<lparr>pr_ProjectID := json_text (pr_ProjectID r), pr_Name := json_text (pr_Name r),
       pr_HostPath := json_text (pr_HostPath r), pr_SourceKey := json_text (pr_SourceKey r),
       pr_YardPath := json_text (pr_YardPath r),
       pr_Mode := json_mode (pr_Mode r),
       pr_SSHHost := json_text (pr_SSHHost r), pr_ImportedAt := json_text (pr_ImportedAt r),
       pr_Target := json_text (pr_Target r), pr_Profile := json_text (pr_Profile r),
       pr_RegistrySource := json_text (pr_RegistrySource r)\<rparr>"

text \<open>The candidate that \<open>putUnlocked\<close> writes, given the size of its encoding.\<close>

definition candidate_file :: "int \<Rightarrow> ProjectRecord \<Rightarrow> state_file" where
  "candidate_file n r =
     \<lparr>sf_Kind = RegularFile, sf_Perm = owner_rw, sf_Special = False, sf_Size = n, sf_Owned = True,
      sf_Body = Decoded (json_record r)\<rparr>"

section \<open>Repair tightens permissions only\<close>

lemma owner_rw_subset: "owner_rw AND group_or_other = 0"
  by (simp add: owner_rw_def group_or_other_def)

text \<open>
  Repairing a legacy record never grants a permission: the new mode has no bit the old one did
  not have, and whatever happens to the write, kind, owner, size and content stay as they were.  A
  repaired record is readable by the strict read exactly as the read-only view showed it before.
\<close>

theorem repair_only_tightens:
  assumes "repairLegacyRecord acc outcome f expectedID = (f', r)"
  shows "sf_Perm f' AND NOT (sf_Perm f) = 0 \<and> f'\<lparr>sf_Perm := sf_Perm f\<rparr> = f
    \<and> (r = Inr True \<longrightarrow> readRecord acc (Some f') expectedID = readRecordReadOnly acc (Some f) expectedID
         \<and> is_ok (readRecord acc (Some f') expectedID))
    \<and> (r = Inr False \<longrightarrow> f' = f)"
proof -
  have old: "p AND NOT p = 0" for p :: "9 word" by simp
  have new: "owner_rw AND NOT (sf_Perm f) = 0" if "legacy_mode f"
  proof -
    have "owner_rw AND NOT (sf_Perm f) = (sf_Perm f AND owner_rw) AND NOT (sf_Perm f)"
      using that by (simp add: legacy_mode_def)
    then show ?thesis by (simp add: and.left_commute and.commute)
  qed
  show ?thesis
    using assms new old owner_rw_subset
    by (auto simp: repairLegacyRecord_def readRecord_def readRecordReadOnly_def opened_checks_def
        split: if_split_asm option.split_asm sum.split_asm write_outcome.split_asm access.split_asm)
qed

text \<open>A record with mode 0664, as the shell store left it.\<close>

definition shell_record :: ProjectRecord where
  "shell_record =
     \<lparr>pr_Schema = 1, pr_IdentityVersion = 0, pr_ProjectID = ''demo'', pr_Name = ''Demo project'',
      pr_HostPath = '''', pr_SourceKey = '''', pr_YardPath = ''/srv/workspaces/demo/src'', pr_Mode = ProjectGit,
      pr_SSHHost = ''yard'', pr_ImportedAt = '''', pr_Target = '''', pr_Profile = '''', pr_RegistrySource = ''yard''\<rparr>"

definition shell_file :: state_file where
  "shell_file =
     \<lparr>sf_Kind = RegularFile, sf_Perm = 0x1B4, sf_Special = False, sf_Size = 300, sf_Owned = True,
      sf_Body = Decoded shell_record\<rparr>"

lemma shell_record_valid: "ProjectRecord_Validate shell_record ''demo'' = None"
proof -
  have "SafeID ''demo''"
    by (simp add: SafeID_bytes HasPrefix_def id_char_def byte_class_defs)
  then show ?thesis
    by (simp add: ProjectRecord_Validate_def Let_def shell_record_def path_Join_workspace [OF SafeID_plain])
qed

theorem repair_only_tightens_witness:
  "repairLegacyRecord OpensSame Written shell_file ''demo'' = (shell_file\<lparr>sf_Perm := owner_rw\<rparr>, Inr True)
   \<and> readRecord OpensSame (Some (shell_file\<lparr>sf_Perm := owner_rw\<rparr>)) ''demo'' = Inr shell_record"
proof -
  have decode: "decodeRecord (Decoded shell_record) ''demo'' = Inr shell_record"
    by (simp add: decodeRecord_def shell_record_valid)
  have repair: "repairLegacyRecord OpensSame Written shell_file ''demo'' = (shell_file\<lparr>sf_Perm := owner_rw\<rparr>, Inr True)"
    by (simp add: repairLegacyRecord_def shell_file_def group_or_other_def legacy_mode_def owner_rw_def all_rw_def
        opened_checks_def max_state_size_def decode)
  have "readRecordReadOnly OpensSame (Some shell_file) ''demo'' = Inr shell_record"
    by (simp add: readRecordReadOnly_def shell_file_def legacy_mode_def owner_rw_def all_rw_def opened_checks_def
        max_state_size_def decode)
  with repair_only_tightens [OF repair] repair show ?thesis by simp
qed

end
