(* ===== verification/Project_Store.thy ===== *)
theory Project_Store
  imports Project_Files "HOL-Library.AList"
begin

unbundle bit_operations_syntax

text \<open>
  The project store (\<open>internal/state/store.go\<close>) with the part of \<open>internal/state/admission.go\<close> that
  reads and removes reservations.  The state is the content of the state directory; what the file
  system, the lock and the clock answer during one call is an environment record.  An operation
  returns the new state beside its result, also when it fails.
\<close>

section \<open>The state directory\<close>

record dir_info =
  di_Kind :: file_kind
  di_Perm :: "9 word"
  di_Owned :: bool

record ProjectReservation =
  rv_Schema :: int
  rv_OperationID :: string
  rv_ProjectID :: string
  rv_Name :: string
  rv_Source :: string
  rv_Mode :: ProjectMode
  rv_Requested :: string
  rv_Explicit :: bool
  rv_CreatedAt :: time

text \<open>
  An entry of \<open>.reservations\<close>; a listed file may be gone when it is read, which is \<open>ResFile NoFile\<close>.
\<close>

datatype res_entry = ResDirectory | ResFile "ProjectReservation doc"

record projectNameMigrationTarget =
  mt_ProjectID :: string
  mt_Name :: string
  mt_SourceKey :: string

record projectNameMigration =
  mj_Schema :: int
  mj_Targets :: "projectNameMigrationTarget list"

record journal_file =
  jf_Kind :: file_kind
  jf_Size :: int
  jf_Doc :: "projectNameMigration doc"

text \<open>
  \<open>sd_Files\<close> are the entries of the directory other than \<open>.lock\<close>, \<open>.reservations\<close> and
  \<open>.name-migration\<close>, which no listing of records includes.
\<close>

record store_dir =
  sd_Path :: string
  sd_Info :: "dir_info option"
  sd_Files :: "(string \<times> state_file) list"
  sd_Reservations :: "(string \<times> res_entry) list option"
  sd_Journal :: "journal_file option"

text \<open>
  The answers of the environment during one call.  Writes of records are told apart by a round, for
  operations that write a record twice, and by project ID; \<open>se_Size\<close> is the length of a record's
  encoding and \<open>se_JournalSize\<close> that of a journal's.
\<close>

record store_env =
  se_Mkdir :: write_outcome
  se_Umask :: "9 word"
  se_Lock :: bool
  se_ReadDir :: bool
  se_ReadReservations :: bool
  se_Access :: "string \<Rightarrow> access"
  se_Now :: time
  se_CreatedAt :: time
  se_Size :: "ProjectRecord \<Rightarrow> int"
  se_JournalSize :: "projectNameMigration \<Rightarrow> int"
  se_Put :: "nat \<Rightarrow> string \<Rightarrow> write_outcome"
  se_Remove :: "string \<Rightarrow> write_outcome"
  se_Chmod :: "string \<Rightarrow> write_outcome"
  se_SyncDir :: bool
  se_MkdirReservations :: bool
  se_WriteReservation :: write_outcome
  se_RemoveReservation :: "string \<Rightarrow> write_outcome"
  se_WriteJournal :: write_outcome
  se_RemoveJournal :: "nat \<Rightarrow> write_outcome"
  se_Foreign :: bool

type_synonym 'a store_op = "(store_dir, store_error, 'a) io"

definition json_suffix :: string where
  "json_suffix = ''.json''"

definition entry_name :: "string \<Rightarrow> string" where
  "entry_name pid = pid @ json_suffix"

definition NewFileStore :: "string \<Rightarrow> store_error + string" where
  "NewFileStore directory = (if \<not> IsAbs directory then Inl DirectoryNotAbsolute else Inr (Clean directory))"

section \<open>Directory checks and the lock\<close>

definition ensurePrivateDirectory :: "store_env \<Rightarrow> unit store_op" where
  "ensurePrivateDirectory e s =
     (case sd_Info s of
        Some info \<Rightarrow>
          if di_Kind info \<noteq> Directory then (s, Inl StateNotDirectory)
          else if di_Perm info AND group_or_other \<noteq> 0 then (s, Inl DirectoryTooBroad)
          else (s, Inr ())
      | None \<Rightarrow>
          (case se_Mkdir e of
             NotWritten \<Rightarrow> (s, Inl DirectoryFailed)
           | WrittenNotSynced \<Rightarrow>
               (s\<lparr>sd_Info := Some \<lparr>di_Kind = Directory, di_Perm = 0x1C0 AND NOT (se_Umask e), di_Owned = True\<rparr>\<rparr>,
                Inl DirectoryFailed)
           | Written \<Rightarrow>
               (s\<lparr>sd_Info := Some \<lparr>di_Kind = Directory, di_Perm = 0x1C0, di_Owned = True\<rparr>\<rparr>, Inr ())))"

definition validateReadOnlyStateDirectory :: "store_dir \<Rightarrow> store_error + bool" where
  "validateReadOnlyStateDirectory s =
     (case sd_Info s of
        None \<Rightarrow> Inr False
      | Some info \<Rightarrow>
          if di_Kind info \<noteq> Directory then Inl StateNotDirectory
          else if di_Perm info AND group_or_other \<noteq> 0 then Inl DirectoryTooBroad
          else if \<not> di_Owned info then Inl DirectoryNotOwned
          else Inr True)"

definition lock :: "store_env \<Rightarrow> unit store_op" where
  "lock e = io_bind (ensurePrivateDirectory e) (\<lambda>_. if se_Lock e then io_return () else io_fail LockFailed)"

section \<open>Reading\<close>

definition json_entries :: "store_dir \<Rightarrow> (string \<times> state_file) list" where
  "json_entries s =
     filter (\<lambda>(n, f). \<not> (sf_Kind f = Directory \<or> \<not> HasSuffix n json_suffix)) (sort_key fst (sd_Files s))"

definition listUnlocked :: "store_env \<Rightarrow> store_dir \<Rightarrow> store_error + ProjectRecord list" where
  "listUnlocked e s =
     (if sd_Info s = None then Inr []
      else if \<not> se_ReadDir e then Inl DirectoryFailed
      else res_bind
        (map_res (\<lambda>(n, f). readRecord (se_Access e n) (Some f) (TrimSuffix n json_suffix)) (json_entries s))
        (\<lambda>records. Inr (sort_key pr_ProjectID records)))"

definition List :: "store_env \<Rightarrow> ProjectRecord list store_op" where
  "List e = io_bind (lock e) (\<lambda>_. io_lift (listUnlocked e))"

definition ListReadOnly :: "store_env \<Rightarrow> store_dir \<Rightarrow> store_error + ProjectRecord list" where
  "ListReadOnly e s =
     res_bind (validateReadOnlyStateDirectory s) (\<lambda>exists.
       if \<not> exists then Inr []
       else if \<not> se_ReadDir e then Inl DirectoryFailed
       else res_bind
         (map_res (\<lambda>(n, f). readRecordReadOnly (se_Access e n) (Some f) (TrimSuffix n json_suffix))
           (json_entries s))
         (\<lambda>records. Inr (sort_key pr_ProjectID records)))"

definition lookup_file :: "store_dir \<Rightarrow> string \<Rightarrow> state_file option" where
  "lookup_file s pid = map_of (sd_Files s) (entry_name pid)"

definition not_found :: "string \<Rightarrow> store_error + ProjectRecord \<Rightarrow> store_error + ProjectRecord" where
  "not_found pid r = (if r = Inl NotExist then Inl (NotFound pid) else r)"

definition Get :: "store_env \<Rightarrow> string \<Rightarrow> ProjectRecord store_op" where
  "Get e pid =
     (if \<not> SafeID pid then io_fail (InvalidID pid)
      else io_bind (lock e) (\<lambda>_. io_lift (\<lambda>s.
        not_found pid (readRecord (se_Access e (entry_name pid)) (lookup_file s pid) pid))))"

definition GetReadOnly :: "store_env \<Rightarrow> string \<Rightarrow> store_dir \<Rightarrow> store_error + ProjectRecord" where
  "GetReadOnly e pid s =
     (if \<not> SafeID pid then Inl (InvalidID pid)
      else res_bind (validateReadOnlyStateDirectory s) (\<lambda>exists.
        if \<not> exists then Inl (NotFound pid)
        else not_found pid (readRecordReadOnly (se_Access e (entry_name pid)) (lookup_file s pid) pid)))"

section \<open>Reservations\<close>

definition reservationTTL :: duration where
  "reservationTTL = 6 * 3600 * 1000000000"

definition SourceKey :: "string \<Rightarrow> string" where
  "SourceKey source = sha256_hex source"

definition reservationPath :: "store_dir \<Rightarrow> string \<Rightarrow> string" where
  "reservationPath s operationID = path_Join [path_Join [sd_Path s, ''.reservations''], entry_name operationID]"

definition readReservation :: "store_dir \<Rightarrow> string \<Rightarrow> store_error + ProjectReservation" where
  "readReservation s operationID =
     (if \<not> SafeID operationID then Inl InvalidOperationID
      else case Option.bind (sd_Reservations s) (\<lambda>entries. map_of entries (entry_name operationID)) of
        None \<Rightarrow> Inl NotExist
      | Some ResDirectory \<Rightarrow> Inl OpenFailed
      | Some (ResFile content) \<Rightarrow>
          (case content of
             NoFile \<Rightarrow> Inl NotExist
           | Unreadable \<Rightarrow> Inl OpenFailed
           | Garbled \<Rightarrow> Inl DecodeFailed
           | Content r \<Rightarrow>
               if rv_Schema r \<noteq> 1 \<or> rv_OperationID r \<noteq> operationID
                 \<or> \<not> SafeProjectName (rv_ProjectID r) \<or> rv_ProjectID r \<noteq> rv_Name r \<or> rv_Source r = ''''
                 \<or> \<not> SafeProjectName (rv_Requested r) \<or> rv_CreatedAt r = 0
               then Inl InvalidReservation
               else Inr r))"

text \<open>
  The path of a reservation is joined lexically, so an operation ID with separators may name another
  file of the state directory.  Files outside the directory are not part of the state.
\<close>

definition remove_path :: "string \<Rightarrow> store_dir \<Rightarrow> store_dir" where
  "remove_path path s =
     s\<lparr>sd_Files := filter (\<lambda>(n, _). path_Join [sd_Path s, n] \<noteq> path) (sd_Files s),
       sd_Reservations := map_option
         (filter (\<lambda>(n, _). path_Join [path_Join [sd_Path s, ''.reservations''], n] \<noteq> path)) (sd_Reservations s)\<rparr>"

definition removeReservation :: "store_env \<Rightarrow> string \<Rightarrow> unit store_op" where
  "removeReservation e operationID s =
     (let s' = remove_path (reservationPath s operationID) s in
      if s' = s then (s, Inr ())
      else case se_RemoveReservation e operationID of
        NotWritten \<Rightarrow> (s, Inl RemoveFailed)
      | WrittenNotSynced \<Rightarrow> (s', Inl RemoveFailed)
      | Written \<Rightarrow> (s', Inr ()))"

fun reservation_loop ::
  "store_env \<Rightarrow> time \<Rightarrow> bool \<Rightarrow> (string \<times> res_entry) list \<Rightarrow> ProjectReservation list store_op" where
  "reservation_loop e now prune [] s = (s, Inr [])"
| "reservation_loop e now prune ((n, entry) # entries) s =
     (if entry = ResDirectory \<or> \<not> HasSuffix n json_suffix then reservation_loop e now prune entries s
      else case readReservation s (TrimSuffix n json_suffix) of
        Inl err \<Rightarrow>
          if \<not> prune \<and> err = NotExist then reservation_loop e now prune entries s else (s, Inl err)
      | Inr r \<Rightarrow>
          if time_sub now (rv_CreatedAt r) \<ge> reservationTTL then
            if prune then
              io_bind (removeReservation e (TrimSuffix n json_suffix))
                (\<lambda>_. reservation_loop e now prune entries) s
            else reservation_loop e now prune entries s
          else io_bind (reservation_loop e now prune entries) (\<lambda>rs. io_return (r # rs)) s)"

definition readReservations :: "store_env \<Rightarrow> time \<Rightarrow> bool \<Rightarrow> ProjectReservation list store_op" where
  "readReservations e now prune s =
     (case sd_Reservations s of
        None \<Rightarrow> (s, Inr [])
      | Some entries \<Rightarrow>
          if \<not> se_ReadReservations e then (s, Inl DirectoryFailed)
          else io_bind (reservation_loop e now prune (sort_key fst entries))
            (\<lambda>rs. io_return (sort_key rv_OperationID rs)) s)"

section \<open>Writing\<close>

definition name_conflict :: "(nat \<Rightarrow> nat) \<Rightarrow> ProjectRecord \<Rightarrow> ProjectRecord \<Rightarrow> bool" where
  "name_conflict ul record candidate \<longleftrightarrow>
     ProjectNamesEqual ul (pr_ProjectID candidate) (pr_Name record)
     \<or> ProjectNamesEqual ul (pr_Name candidate) (pr_Name record)
     \<or> ProjectNamesEqual ul (pr_Name candidate) (pr_ProjectID record)"

definition reservation_conflict :: "(nat \<Rightarrow> nat) \<Rightarrow> ProjectRecord \<Rightarrow> ProjectReservation \<Rightarrow> bool" where
  "reservation_conflict ul record r \<longleftrightarrow>
     ProjectNamesEqual ul (rv_Name r) (pr_Name record) \<or> ProjectNamesEqual ul (rv_Name r) (pr_ProjectID record)"

definition validateProjectNameUnlocked ::
  "(nat \<Rightarrow> nat) \<Rightarrow> store_env \<Rightarrow> ProjectRecord \<Rightarrow> string \<Rightarrow> unit store_op" where
  "validateProjectNameUnlocked ul e record ignoredOperation =
     (if \<not> SafeProjectName (pr_Name record) then io_fail (InvalidProjectName (pr_Name record))
      else io_bind (io_lift (listUnlocked e)) (\<lambda>records.
        case find_first (\<lambda>c. pr_ProjectID c \<noteq> pr_ProjectID record \<and> name_conflict ul record c) records of
          Some c \<Rightarrow> io_fail (NameConflict (pr_Name record) (pr_ProjectID c))
        | None \<Rightarrow>
            io_bind (readReservations e (se_Now e) True) (\<lambda>reservations.
              case find_first (\<lambda>r. rv_OperationID r \<noteq> ignoredOperation \<and> reservation_conflict ul record r)
                reservations of
                Some r \<Rightarrow> io_fail (PendingConflict (pr_Name record) (rv_OperationID r))
              | None \<Rightarrow> io_return ())))"

definition putUnlocked :: "store_env \<Rightarrow> nat \<Rightarrow> ProjectRecord \<Rightarrow> unit store_op" where
  "putUnlocked e k record s =
     (let f = candidate_file (se_Size e record) record;
          n = entry_name (pr_ProjectID record);
          s' = s\<lparr>sd_Files := AList.update n f (sd_Files s)\<rparr> in
      if se_Put e k (pr_ProjectID record) = NotWritten then (s, Inl WriteFailed)
      else case readRecord OpensSame (Some f) (pr_ProjectID record) of
        Inl err \<Rightarrow> (s, Inl err)
      | Inr _ \<Rightarrow>
          if (case map_of (sd_Files s) n of Some g \<Rightarrow> sf_Kind g = Directory | None \<Rightarrow> False)
          then (s, Inl WriteFailed)
          else (s', if se_Put e k (pr_ProjectID record) = Written then Inr () else Inl SyncFailed))"

definition Put :: "(nat \<Rightarrow> nat) \<Rightarrow> store_env \<Rightarrow> ProjectRecord \<Rightarrow> unit store_op" where
  "Put ul e record =
     (case ProjectRecord_Validate record (pr_ProjectID record) of
        Some err \<Rightarrow> io_fail (InvalidRecord err)
      | None \<Rightarrow>
          io_bind (lock e) (\<lambda>_.
          io_bind (validateProjectNameUnlocked ul e record '''') (\<lambda>_.
          putUnlocked e 0 record)))"

definition remove_record :: "store_env \<Rightarrow> string \<Rightarrow> unit store_op" where
  "remove_record e pid s =
     (let s' = s\<lparr>sd_Files := AList.delete (entry_name pid) (sd_Files s)\<rparr> in
      if lookup_file s pid = None then (s, if se_SyncDir e then Inr () else Inl SyncFailed)
      else case se_Remove e pid of
        NotWritten \<Rightarrow> (s, Inl RemoveFailed)
      | WrittenNotSynced \<Rightarrow> (s', Inl SyncFailed)
      | Written \<Rightarrow> (s', Inr ()))"

definition Delete :: "store_env \<Rightarrow> string \<Rightarrow> unit store_op" where
  "Delete e pid =
     (if \<not> SafeID pid then io_fail (InvalidID pid)
      else io_bind (lock e) (\<lambda>_. remove_record e pid))"

section \<open>Repair of legacy permissions\<close>

fun repair_loop :: "store_env \<Rightarrow> (string \<times> state_file) list \<Rightarrow> bool \<Rightarrow> bool store_op" where
  "repair_loop e [] changed s = (s, Inr changed)"
| "repair_loop e ((n, f) # entries) changed s =
     (case repairLegacyRecord (se_Access e n) (se_Chmod e n) f (TrimSuffix n json_suffix) of
        (f', Inl err) \<Rightarrow> (s\<lparr>sd_Files := AList.update n f' (sd_Files s)\<rparr>, Inl err)
      | (f', Inr repaired) \<Rightarrow>
          repair_loop e entries (changed \<or> repaired) (s\<lparr>sd_Files := AList.update n f' (sd_Files s)\<rparr>))"

definition repair_records :: "store_env \<Rightarrow> bool store_op" where
  "repair_records e s =
     (if \<not> se_ReadDir e then (s, Inl DirectoryFailed)
      else io_bind (repair_loop e (json_entries s) False) (\<lambda>changed.
        if changed \<and> \<not> se_SyncDir e then io_fail SyncFailed else io_return changed) s)"

definition RepairLegacyPermissions :: "store_env \<Rightarrow> bool store_op" where
  "RepairLegacyPermissions e s =
     (if sd_Info s = None then (s, Inr False)
      else io_bind (lock e) (\<lambda>_. repair_records e) s)"

section \<open>Candidates\<close>

text \<open>\<open>filepath.Rel\<close> for two absolute clean paths, and the check of an unpublished candidate.\<close>

definition path_elems :: "string \<Rightarrow> string list" where
  "path_elems p = filter (\<lambda>e. e \<noteq> []) (Split p slash)"

definition path_Rel :: "string \<Rightarrow> string \<Rightarrow> string" where
  "path_Rel base target =
     (let b = path_elems base; t = path_elems target; k = length (longest_common_prefix b t);
          es = replicate (length b - k) ''..'' @ drop k t
      in if es = [] then ''.'' else Join es [slash])"

definition path_Abs :: "string option \<Rightarrow> string \<Rightarrow> string option" where
  "path_Abs cwd p =
     (if IsAbs p then Some (Clean p) else case cwd of None \<Rightarrow> None | Some d \<Rightarrow> Some (path_Join [d, p]))"

definition ValidateFile ::
  "string option \<Rightarrow> (string \<Rightarrow> state_file option) \<Rightarrow> access \<Rightarrow> string \<Rightarrow> string \<Rightarrow> string \<Rightarrow> store_error err" where
  "ValidateFile cwd fs acc directory path expectedID =
     (case path_Abs cwd path of
        None \<Rightarrow> Some DirectoryFailed
      | Some absolute \<Rightarrow>
          (let relative = path_Rel directory absolute in
           if relative = ''..'' \<or> HasPrefix relative ''../'' then Some EscapesDirectory
           else case readRecord acc (fs absolute) expectedID of Inl err \<Rightarrow> Some err | Inr _ \<Rightarrow> None))"

end
