(* ===== verification/Project_Names.thy ===== *)
theory Project_Names
  imports Identity
begin

text \<open>
  Allocation of project names (\<open>nextAvailableProjectName\<close> in \<open>internal/state/migration.go\<close>).  The loop
  of the source has no bound of its own and its counter is a 64-bit integer; it is a partial function
  here, and it is shown to return while fewer names are taken than the counter can count.
\<close>

definition candidate_name :: "string \<Rightarrow> int \<Rightarrow> string" where
  "candidate_name base number =
     (let tail = ''-'' @ fmt_d number;
          keep = 50 - length tail;
          candidateBase = (if length base > keep then take keep base else base)
      in candidateBase @ tail)"

partial_function (option) next_name :: "(string \<Rightarrow> bool) \<Rightarrow> string \<Rightarrow> int \<Rightarrow> string option" where
  "next_name available base number =
     (if available (candidate_name base number) then Some (candidate_name base number)
      else next_name available base (wrap64 (number + 1)))"

definition nextAvailableProjectName :: "string \<Rightarrow> (string \<Rightarrow> bool) \<Rightarrow> string option" where
  "nextAvailableProjectName base available = next_name available base 2"

section \<open>Candidates\<close>

lemma fmt_d_nat: "0 \<le> i \<Longrightarrow> fmt_d i = dec (nat i)"
  by (simp add: fmt_d_def)

lemma last_split_unique:
  assumes "xs @ c # ys = xs' @ c # ys'" and "c \<notin> set ys" and "c \<notin> set ys'"
  shows "ys = ys'"
proof -
  have "takeWhile (\<lambda>d. d \<noteq> c) (rev (zs @ c # us)) = rev us" if "c \<notin> set us" for zs us :: "'a list"
    using that by (simp, subst takeWhile_append2) auto
  from this [of ys xs] this [of ys' xs'] assms have "rev ys = rev ys'" by metis
  then show ?thesis by simp
qed

lemma digit_lower: "is_digit c \<Longrightarrow> ascii_lower c = c"
  by (auto simp: ascii_lower_def is_upper_def is_digit_def)

lemma minus_not_digit: "CHR ''-'' \<notin> set (dec n)"
  using dec_digits [of "CHR ''-''" n] by (auto simp: byte_class_defs)

lemma ascii_lower_dec: "map ascii_lower (dec n) = dec n"
  by (simp add: map_idI dec_digits digit_lower)

lemma length_suffix:
  assumes "0 \<le> i" and "i \<le> max_int64"
  shows "length (fmt_d i) \<le> 19"
proof -
  have "nat i < 10 ^ Suc 18" using assms by (simp add: max_int64_def)
  then have "length (dec (nat i)) \<le> Suc 18" by (rule length_dec_le)
  then show ?thesis using assms by (simp add: fmt_d_nat)
qed

lemma candidate_split:
  assumes "0 \<le> i" and "i \<le> max_int64"
  shows "\<exists>k \<ge> 30. candidate_name base i = take k base @ CHR ''-'' # dec (nat i)
    \<and> k + 1 + length (dec (nat i)) = 50"
proof -
  let ?k = "50 - (1 + length (dec (nat i)))"
  have len: "length (dec (nat i)) \<le> 19" using length_suffix [OF assms] assms by (simp add: fmt_d_nat)
  have "candidate_name base i = take ?k base @ CHR ''-'' # dec (nat i)"
    using assms by (simp add: candidate_name_def fmt_d_nat Let_def)
  with len show ?thesis by (intro exI [of _ ?k]) simp
qed

lemma candidate_safe:
  assumes base: "SafeID base" and i: "min_int64 \<le> i" "i \<le> max_int64"
  shows "SafeProjectName (candidate_name base i)"
proof -
  define k where "k = 50 - (1 + length (fmt_d i))"
  have len: "length (fmt_d i) \<le> 20"
  proof (cases "0 \<le> i")
    case True
    with length_suffix [OF True i(2)] show ?thesis by simp
  next
    case False
    then have "nat (- i) < 10 ^ Suc 18" using i(1) by (simp add: min_int64_def)
    from length_dec_le [OF this] False show ?thesis by (simp add: fmt_d_def)
  qed
  then have k: "k \<ge> 29" "candidate_name base i = take k base @ CHR ''-'' # fmt_d i"
      "k + 1 + length (fmt_d i) = 50"
    by (simp_all add: k_def candidate_name_def Let_def)
  obtain c cs where b: "base = c # cs" using base by (cases base) (auto simp: SafeID_bytes)
  obtain m where m: "k = Suc m" using k(1) by (cases k) auto
  have "fmt_d i \<noteq> []" by (simp add: fmt_d_def)
  have "id_char d" if "d \<in> set (fmt_d i)" for d
    using that dec_digits [of d] by (auto simp: id_char_def fmt_d_def byte_class_defs split: if_split_asm)
  then have "all_bytes id_char (candidate_name base i)"
    using base unfolding k(2) all_bytes_iff
    by (auto simp: id_char_def byte_class_defs dest!: in_set_takeD SafeID_chars)
  moreover have "c \<noteq> CHR ''-''" using base b by (auto simp: SafeID_bytes HasPrefix_def)
  moreover have "2 < length (candidate_name base i)"
    using k(2) b m \<open>fmt_d i \<noteq> []\<close> by (cases "fmt_d i") auto
  moreover have "length (candidate_name base i) \<le> 50" using k by simp
  moreover have "\<not> HasPrefix (candidate_name base i) ''-''"
    using k(2) b m \<open>c \<noteq> CHR ''-''\<close> by (simp add: HasPrefix_def)
  ultimately show ?thesis
    unfolding SafeProjectName_def SafeID_bytes by auto
qed

lemma candidate_key_inj:
  assumes base: "SafeID base" and i: "0 \<le> i" "i \<le> max_int64" and j: "0 \<le> j" "j \<le> max_int64"
    and eq: "ProjectNamesEqual ul (candidate_name base i) (candidate_name base j)"
  shows "i = j"
proof -
  have key: "\<exists>b. ProjectNameKey ul (candidate_name base n) = b @ CHR ''-'' # dec (nat n)"
    if n: "0 \<le> n" "n \<le> max_int64" for n
  proof -
    have "is_ascii (candidate_name base n)"
      using candidate_safe [OF base _ n(2)] n(1) by (simp add: SafeProjectName_def SafeID_ascii min_int64_def)
    moreover obtain k where "candidate_name base n = take k base @ CHR ''-'' # dec (nat n)"
      using candidate_split [OF n] by blast
    ultimately show ?thesis
      by (auto simp: ProjectNameKey_def ToLower_ascii ascii_lower_dec ascii_lower_def byte_class_defs)
  qed
  obtain b b' where "b @ CHR ''-'' # dec (nat i) = b' @ CHR ''-'' # dec (nat j)"
    using key [OF i] key [OF j] eq unfolding ProjectNamesEqual_def by metis
  then have "dec (nat i) = dec (nat j)" by (rule last_split_unique) (rule minus_not_digit)+
  with i j show ?thesis by (simp add: dec_inj)
qed

section \<open>The search ends\<close>

lemma next_name_first:
  assumes "2 + int n \<le> max_int64" and "available (candidate_name base (2 + int n))"
    and "m \<le> n" and "\<forall>k. m \<le> k \<and> k < n \<longrightarrow> \<not> available (candidate_name base (2 + int k))"
  shows "next_name available base (2 + int m) = Some (candidate_name base (2 + int n))"
  using assms(3,4)
proof (induction "n - m" arbitrary: m)
  case 0
  with assms show ?case by (simp add: next_name.simps)
next
  case (Suc d)
  then have "m < n" by simp
  have "wrap64 (2 + int m + 1) = 2 + int (Suc m)"
    using \<open>m < n\<close> assms(1) by (subst wrap64_id) (auto simp: min_int64_def)
  moreover have "next_name available base (2 + int (Suc m)) = Some (candidate_name base (2 + int n))"
    using Suc by (intro Suc.hyps) auto
  moreover have "\<not> available (candidate_name base (2 + int m))" using Suc.prems \<open>m < n\<close> by simp
  ultimately show ?case by (subst next_name.simps) simp
qed

lemma free_candidate:
  assumes base: "SafeID base" and taken: "\<And>c. \<not> available c \<Longrightarrow> ProjectNameKey ul c \<in> set taken"
    and few: "int (length taken) + 2 \<le> max_int64"
  shows "\<exists>n \<le> length taken. available (candidate_name base (2 + int n))"
proof (rule ccontr)
  let ?key = "\<lambda>n. ProjectNameKey ul (candidate_name base (2 + int n))"
  assume none: "\<not> ?thesis"
  have "inj_on ?key {..length taken}"
  proof (rule inj_onI)
    fix m n
    assume m: "m \<in> {..length taken}" and n: "n \<in> {..length taken}" and eq: "?key m = ?key n"
    have "2 + int m = 2 + int n"
      using base eq few m n by (intro candidate_key_inj [of base _ _ ul]) (auto simp: ProjectNamesEqual_def)
    then show "m = n" by simp
  qed
  then have "card (?key ` {..length taken}) = Suc (length taken)" by (simp add: card_image)
  moreover have "?key ` {..length taken} \<subseteq> set taken" using none taken by auto
  then have "card (?key ` {..length taken}) \<le> length taken"
    by (meson List.finite_set card_length card_mono order_trans)
  ultimately show False by simp
qed

lemma next_name_sound:
  assumes "next_name available base i = Some name" and "min_int64 \<le> i" "i \<le> max_int64"
  shows "\<exists>j. name = candidate_name base j \<and> min_int64 \<le> j \<and> j \<le> max_int64 \<and> available name"
proof -
  let ?P = "\<lambda>available base i name. min_int64 \<le> i \<longrightarrow> i \<le> max_int64 \<longrightarrow>
    (\<exists>j. name = candidate_name base j \<and> min_int64 \<le> j \<and> j \<le> max_int64 \<and> available name)"
  have "?P available base i name"
  proof (rule next_name.raw_induct [where P = ?P, OF _ assms(1)])
    fix f available base i name
    assume "\<And>a b n y. f a b n = Some y \<Longrightarrow> ?P a b n y"
      and "(if available (candidate_name base i) then Some (candidate_name base i)
        else f available base (wrap64 (i + 1))) = Some name"
    then show "?P available base i name"
      using wrap64_range [of "i + 1"] by (auto split: if_split_asm)
  qed
  with assms(2,3) show ?thesis by blast
qed

lemma nextAvailableProjectName_sound:
  assumes "nextAvailableProjectName base available = Some name" and "SafeID base"
  shows "available name" "SafeProjectName name"
proof -
  obtain j where "name = candidate_name base j" "min_int64 \<le> j" "j \<le> max_int64" "available name"
    using next_name_sound assms(1)
    by (fastforce simp: nextAvailableProjectName_def min_int64_def max_int64_def)
  with candidate_safe [OF assms(2)] show "available name" "SafeProjectName name" by auto
qed

lemma nextAvailableProjectName_returns:
  assumes "SafeID base" and "\<And>c. \<not> available c \<Longrightarrow> ProjectNameKey ul c \<in> set taken"
    and "int (length taken) + 2 \<le> max_int64"
  shows "\<exists>n \<le> length taken. nextAvailableProjectName base available = Some (candidate_name base (2 + int n))
    \<and> available (candidate_name base (2 + int n)) \<and> SafeProjectName (candidate_name base (2 + int n))
    \<and> (\<forall>k < n. \<not> available (candidate_name base (2 + int k)))"
proof -
  define n where "n = (LEAST n. available (candidate_name base (2 + int n)))"
  obtain m where m: "m \<le> length taken" "available (candidate_name base (2 + int m))"
    using free_candidate [OF assms] by blast
  have n: "available (candidate_name base (2 + int n))" unfolding n_def by (rule LeastI [of _ m]) (rule m)
  have le: "n \<le> m" unfolding n_def by (rule Least_le) (rule m)
  have first: "\<not> available (candidate_name base (2 + int k))" if "k < n" for k
    using that not_less_Least unfolding n_def by blast
  have "next_name available base (2 + int 0) = Some (candidate_name base (2 + int n))"
    by (rule next_name_first) (use n le m first assms(3) in auto)
  moreover have "SafeProjectName (candidate_name base (2 + int n))"
    by (rule candidate_safe [OF assms(1)]) (use le m assms(3) in \<open>auto simp: min_int64_def\<close>)
  ultimately show ?thesis
    using n le m first by (intro exI [of _ n]) (auto simp: nextAvailableProjectName_def)
qed

end
