(* ===== verification/Project_Admission.thy ===== *)
theory Project_Admission
  imports Project_Store Project_Names
begin

text \<open>
  Admission of projects (\<open>internal/state/admission.go\<close>): a name is reserved under an operation ID
  before the workspace is created, and the reservation becomes a record or is withdrawn.
\<close>

record Admission =
  ad_ProjectID :: string
  ad_Name :: string
  ad_Existing :: "ProjectRecord option"
  ad_Reservation :: "ProjectReservation option"

section \<open>Names in use\<close>

definition nextProjectName :: "(nat \<Rightarrow> nat) \<Rightarrow> string \<Rightarrow> (string \<times> string) list \<Rightarrow> string option" where
  "nextProjectName ul base occupied =
     nextAvailableProjectName base (\<lambda>candidate. map_of occupied (ProjectNameKey ul candidate) = None)"

text \<open>The map of occupied names, latest entry first.\<close>

definition occupied_names ::
  "(nat \<Rightarrow> nat) \<Rightarrow> ProjectRecord list \<Rightarrow> ProjectReservation list \<Rightarrow> string list \<Rightarrow> (string \<times> string) list" where
  "occupied_names ul records reservations workspaceNames =
     rev (concat (map (\<lambda>r. [(ProjectNameKey ul (pr_ProjectID r), pr_ProjectID r),
                            (ProjectNameKey ul (pr_Name r), pr_ProjectID r)]) records)
          @ map (\<lambda>r. (ProjectNameKey ul (rv_ProjectID r), rv_ProjectID r)) reservations
          @ map (\<lambda>w. (ProjectNameKey ul w, w)) workspaceNames)"

definition choose_name ::
  "(nat \<Rightarrow> nat) \<Rightarrow> string \<Rightarrow> bool \<Rightarrow> (string \<times> string) list \<Rightarrow> store_error + string" where
  "choose_name ul requestedName explicit occupied =
     (case map_of occupied (ProjectNameKey ul requestedName) of
        None \<Rightarrow> Inr requestedName
      | Some owner \<Rightarrow>
          (case nextProjectName ul requestedName occupied of
             None \<Rightarrow> Inl NeverReturns
           | Some name \<Rightarrow> if explicit then Inl (ExplicitConflict requestedName owner name) else Inr name))"

definition source_matches :: "string \<Rightarrow> ProjectRecord \<Rightarrow> bool" where
  "source_matches source record \<longleftrightarrow>
     \<not> (pr_SourceKey record \<noteq> SourceKey source \<and> (pr_SourceKey record \<noteq> '''' \<or> pr_HostPath record \<noteq> source))"

fun existing_record ::
  "string \<Rightarrow> ProjectMode \<Rightarrow> string \<Rightarrow> bool \<Rightarrow> ProjectRecord list \<Rightarrow> store_error + ProjectRecord option" where
  "existing_record source mode requestedName explicit [] = Inr None"
| "existing_record source mode requestedName explicit (record # records) =
     (if \<not> source_matches source record then existing_record source mode requestedName explicit records
      else if pr_Mode record \<noteq> mode then Inl (ModeConflict (pr_Name record))
      else if mode = ProjectSync \<or> mode = ProjectGit
        then existing_record source mode requestedName explicit records
      else if explicit \<and> pr_Name record \<noteq> requestedName
        then Inl (ImplicitRename (pr_Name record) requestedName)
      else Inr (Some record))"

definition admission_request :: "string \<Rightarrow> ProjectMode \<Rightarrow> string \<Rightarrow> store_error err" where
  "admission_request source mode requestedName =
     (if source = '''' then Some SourceRequired
      else if mode \<noteq> ProjectSync \<and> mode \<noteq> ProjectBind \<and> mode \<noteq> ProjectGit then Some (UnsupportedMode mode)
      else if \<not> SafeProjectName requestedName then Some (InvalidProjectName requestedName)
      else None)"

section \<open>Preview\<close>

definition PreviewAdmission ::
  "(nat \<Rightarrow> nat) \<Rightarrow> store_env \<Rightarrow> string \<Rightarrow> ProjectMode \<Rightarrow> string \<Rightarrow> bool \<Rightarrow> string list \<Rightarrow> Admission store_op" where
  "PreviewAdmission ul e source mode requestedName explicit workspaceNames =
     (case admission_request source mode requestedName of
        Some err \<Rightarrow> io_fail err
      | None \<Rightarrow>
          io_bind (io_lift (ListReadOnly e)) (\<lambda>records.
          io_bind (io_lift (\<lambda>_. existing_record source mode requestedName explicit records)) (\<lambda>existing.
          case existing of
            Some record \<Rightarrow>
              io_return \<lparr>ad_ProjectID = pr_ProjectID record, ad_Name = pr_Name record,
                ad_Existing = Some record, ad_Reservation = None\<rparr>
          | None \<Rightarrow>
              io_bind (readReservations e (se_Now e) False) (\<lambda>reservations.
              io_bind (io_lift (\<lambda>_. choose_name ul requestedName explicit
                  (occupied_names ul records reservations workspaceNames))) (\<lambda>name.
              io_return \<lparr>ad_ProjectID = name, ad_Name = name, ad_Existing = None, ad_Reservation = None\<rparr>)))))"

section \<open>Reservations\<close>

definition json_reservation :: "ProjectReservation \<Rightarrow> ProjectReservation" where
  "json_reservation r =
     r\<lparr>rv_OperationID := json_text (rv_OperationID r), rv_ProjectID := json_text (rv_ProjectID r),
       rv_Name := json_text (rv_Name r), rv_Source := json_text (rv_Source r),
       rv_Mode := json_mode (rv_Mode r), rv_Requested := json_text (rv_Requested r)\<rparr>"

definition writeReservation :: "store_env \<Rightarrow> ProjectReservation \<Rightarrow> unit store_op" where
  "writeReservation e reservation s =
     (let n = entry_name (rv_OperationID reservation);
          entries = (case sd_Reservations s of None \<Rightarrow> [] | Some es \<Rightarrow> es);
          s1 = s\<lparr>sd_Reservations := Some entries\<rparr>;
          s2 = s\<lparr>sd_Reservations := Some (entries @ [(n, ResFile (Content (json_reservation reservation)))])\<rparr> in
      if \<not> SafeID (rv_OperationID reservation) then (s, Inl InvalidOperationID)
      else if \<not> se_MkdirReservations e then (s, Inl DirectoryFailed)
      else if se_WriteReservation e = NotWritten then (s1, Inl WriteFailed)
      else if map_of entries n \<noteq> None then
        (s1, if readReservation s1 (rv_OperationID reservation) = Inr reservation then Inr ()
             else Inl DifferentReservation)
      else (s2, if se_WriteReservation e = Written then Inr () else Inl SyncFailed))"

text \<open>What an unfinished admission says about a new request for the same source.\<close>

fun pending_admission ::
  "string \<Rightarrow> string \<Rightarrow> ProjectMode \<Rightarrow> string \<Rightarrow> bool \<Rightarrow> ProjectReservation list
     \<Rightarrow> store_error + ProjectReservation option" where
  "pending_admission operationID source mode requestedName explicit [] = Inr None"
| "pending_admission operationID source mode requestedName explicit (r # rs) =
     (if rv_Source r = source then
        if rv_OperationID r = operationID then
          if rv_Mode r \<noteq> mode \<or> rv_Requested r \<noteq> requestedName \<or> rv_Explicit r \<noteq> explicit
          then Inl DifferentRequest
          else Inr (Some r)
        else if mode = ProjectBind \<or> rv_Mode r \<noteq> mode then Inl AdmissionPending
        else pending_admission operationID source mode requestedName explicit rs
      else pending_admission operationID source mode requestedName explicit rs)"

text \<open>The reservation of a name for a source that is not registered yet.\<close>

definition reserve_project ::
  "(nat \<Rightarrow> nat) \<Rightarrow> store_env \<Rightarrow> string \<Rightarrow> string \<Rightarrow> ProjectMode \<Rightarrow> string \<Rightarrow> bool \<Rightarrow> string list
     \<Rightarrow> ProjectRecord list \<Rightarrow> Admission store_op" where
  "reserve_project ul e operationID source mode requestedName explicit workspaceNames records =
     io_bind (readReservations e (se_Now e) True) (\<lambda>reservations.
     io_bind (io_lift (\<lambda>_. pending_admission operationID source mode requestedName explicit reservations))
       (\<lambda>pending.
     case pending of
       Some r \<Rightarrow>
         io_return \<lparr>ad_ProjectID = rv_ProjectID r, ad_Name = rv_Name r,
           ad_Existing = None, ad_Reservation = Some r\<rparr>
     | None \<Rightarrow>
         io_bind (io_lift (\<lambda>_. choose_name ul requestedName explicit
             (occupied_names ul records reservations workspaceNames))) (\<lambda>name.
         let reservation = \<lparr>rv_Schema = 1, rv_OperationID = operationID, rv_ProjectID = name,
               rv_Name = name, rv_Source = source, rv_Mode = mode, rv_Requested = requestedName,
               rv_Explicit = explicit, rv_CreatedAt = se_CreatedAt e\<rparr> in
         io_bind (writeReservation e reservation) (\<lambda>_.
         io_return \<lparr>ad_ProjectID = name, ad_Name = name, ad_Existing = None,
           ad_Reservation = Some reservation\<rparr>))))"

definition Admit ::
  "(nat \<Rightarrow> nat) \<Rightarrow> store_env \<Rightarrow> string \<Rightarrow> string \<Rightarrow> ProjectMode \<Rightarrow> string \<Rightarrow> bool \<Rightarrow> string list
     \<Rightarrow> Admission store_op" where
  "Admit ul e operationID source mode requestedName explicit workspaceNames =
     (if operationID = '''' \<or> \<not> SafeID operationID then io_fail OperationIDRequired
      else case admission_request source mode requestedName of
        Some err \<Rightarrow> io_fail err
      | None \<Rightarrow>
          io_bind (lock e) (\<lambda>_.
          io_bind (io_lift (listUnlocked e)) (\<lambda>records.
          io_bind (io_lift (\<lambda>_. existing_record source mode requestedName explicit records)) (\<lambda>existing.
          case existing of
            Some record \<Rightarrow>
              io_return \<lparr>ad_ProjectID = pr_ProjectID record, ad_Name = pr_Name record,
                ad_Existing = Some record, ad_Reservation = None\<rparr>
          | None \<Rightarrow> reserve_project ul e operationID source mode requestedName explicit workspaceNames records))))"

definition reservation_matches :: "ProjectRecord \<Rightarrow> ProjectReservation \<Rightarrow> bool" where
  "reservation_matches record r \<longleftrightarrow>
     \<not> (pr_ProjectID record \<noteq> rv_ProjectID r \<or> pr_Name record \<noteq> rv_Name r \<or> pr_HostPath record \<noteq> rv_Source r
        \<or> pr_Mode record \<noteq> rv_Mode r \<or> pr_SourceKey record \<noteq> SourceKey (rv_Source r))"

definition FinalizeOperation :: "(nat \<Rightarrow> nat) \<Rightarrow> store_env \<Rightarrow> string \<Rightarrow> ProjectRecord \<Rightarrow> unit store_op" where
  "FinalizeOperation ul e operationID record =
     (case ProjectRecord_Validate record (pr_ProjectID record) of
        Some err \<Rightarrow> io_fail (InvalidRecord err)
      | None \<Rightarrow>
          io_bind (lock e) (\<lambda>_.
          io_bind (io_lift (\<lambda>s. readReservation s operationID)) (\<lambda>reservation.
          if \<not> reservation_matches record reservation then io_fail ReservationMismatch
          else
            io_bind (validateProjectNameUnlocked ul e record (rv_OperationID reservation)) (\<lambda>_.
            io_bind (putUnlocked e 0 record) (\<lambda>_.
            removeReservation e (rv_OperationID reservation))))))"

definition AbortAdmission :: "store_env \<Rightarrow> string \<Rightarrow> unit store_op" where
  "AbortAdmission e operationID =
     (if operationID = '''' then io_return ()
      else io_bind (lock e) (\<lambda>_. removeReservation e operationID))"

section \<open>A free name is always found\<close>

text \<open>
  The search for a free name ends: with fewer names in use than the 64-bit counter can count, it
  returns the first candidate that is free, after at most as many steps as names are in use, and the
  result is again a safe project name of at most fifty characters.
\<close>

theorem next_project_name_is_found:
  assumes "SafeProjectName base" and "int (length occupied) + 2 \<le> max_int64"
  shows "\<exists>n \<le> length occupied. nextProjectName ul base occupied = Some (candidate_name base (2 + int n))
    \<and> map_of occupied (ProjectNameKey ul (candidate_name base (2 + int n))) = None
    \<and> SafeProjectName (candidate_name base (2 + int n))
    \<and> (\<forall>k < n. map_of occupied (ProjectNameKey ul (candidate_name base (2 + int k))) \<noteq> None)"
proof -
  have "ProjectNameKey ul c \<in> set (map fst occupied)" if "map_of occupied (ProjectNameKey ul c) \<noteq> None" for c
    using that by (auto simp: map_of_eq_None_iff)
  from nextAvailableProjectName_returns [of base "\<lambda>c. map_of occupied (ProjectNameKey ul c) = None" ul "map fst occupied", OF _ this]
  show ?thesis using assms by (simp add: nextProjectName_def SafeProjectName_def)
qed

theorem next_project_name_is_found_witness:
  "\<exists>n \<le> 2. nextProjectName (\<lambda>r. r) ''Demo'' [(''demo'', ''demo''), (''demo-2'', ''other'')]
      = Some (candidate_name ''Demo'' (2 + int n))
    \<and> map_of [(''demo'', ''demo''), (''demo-2'', ''other'')] (ProjectNameKey (\<lambda>r. r) (candidate_name ''Demo'' (2 + int n))) = None"
proof -
  have "SafeProjectName ''Demo''"
    by (simp add: SafeProjectName_def SafeID_bytes HasPrefix_def id_char_def byte_class_defs)
  from next_project_name_is_found [OF this, of "[(''demo'', ''demo''), (''demo-2'', ''other'')]" "\<lambda>r. r"]
  show ?thesis by (auto simp: max_int64_def numeral_2_eq_2)
qed

end
