(* ===== verification/Project_Migration.thy ===== *)
theory Project_Migration
  imports Project_Admission "HOL-Library.Product_Lexorder"
begin

text \<open>
  The migration of legacy project names (\<open>internal/state/migration.go\<close>): the plan that gives every
  record a unique name, its journal, and the operations that apply it.  \<open>time.Parse\<close> is an argument.
\<close>

section \<open>The plan\<close>

definition importedTime :: "(string \<Rightarrow> time option) \<Rightarrow> string \<Rightarrow> time option" where
  "importedTime parse value = (if value = '''' then None else parse value)"

text \<open>
  The comparison of the stable sort as a key: parsed import times first and in order, then the
  identifiers.
\<close>

definition import_key :: "(string \<Rightarrow> time option) \<Rightarrow> ProjectRecord \<Rightarrow> bool \<times> time \<times> string" where
  "import_key parse r =
     (case importedTime parse (pr_ImportedAt r) of
        Some t \<Rightarrow> (False, t, pr_ProjectID r)
      | None \<Rightarrow> (True, 0, pr_ProjectID r))"

definition base_name :: "ProjectRecord \<Rightarrow> string" where
  "base_name r = (if SafeProjectName (pr_Name r) then pr_Name r else take 50 (pr_ProjectID r))"

definition base_key :: "(nat \<Rightarrow> nat) \<Rightarrow> ProjectRecord \<Rightarrow> string" where
  "base_key ul r = ProjectNameKey ul (base_name r)"

text \<open>Indices by base name, latest entry first: the first record of a name, or a canonical one.\<close>

definition keepers :: "(nat \<Rightarrow> nat) \<Rightarrow> ProjectRecord list \<Rightarrow> (string \<times> nat) list" where
  "keepers ul records =
     (let indexed = enumerate 0 records;
          first = fold (\<lambda>(i, r) ks. if map_of ks (base_key ul r) = None then (base_key ul r, i) # ks else ks) indexed []
      in fold (\<lambda>(i, r) ks. if pr_IdentityVersion r = 2 then (base_key ul r, i) # ks else ks) indexed first)"

definition idOwners :: "(nat \<Rightarrow> nat) \<Rightarrow> ProjectRecord list \<Rightarrow> string \<Rightarrow> string list" where
  "idOwners ul records k =
     map pr_ProjectID (filter (\<lambda>r. ProjectNameKey ul (pr_ProjectID r) = k) records)"

definition hasForeignProjectID :: "string list \<Rightarrow> string \<Rightarrow> bool" where
  "hasForeignProjectID owners projectID \<longleftrightarrow> list_ex (\<lambda>owner. owner \<noteq> projectID) owners"

definition protected_names ::
  "(nat \<Rightarrow> nat) \<Rightarrow> ProjectRecord list \<Rightarrow> (string \<times> nat) list \<Rightarrow> string \<Rightarrow> string option" where
  "protected_names ul records ks k =
     (case map_of ks k of
        None \<Rightarrow> None
      | Some i \<Rightarrow>
          if hasForeignProjectID (idOwners ul records k) (pr_ProjectID (records ! i)) then None
          else Some (pr_ProjectID (records ! i)))"

definition projectNameUnavailable ::
  "(nat \<Rightarrow> nat) \<Rightarrow> string \<Rightarrow> string \<Rightarrow> (string \<Rightarrow> string list) \<Rightarrow> (string \<Rightarrow> string option)
     \<Rightarrow> (string \<times> string) list \<Rightarrow> bool" where
  "projectNameUnavailable ul name projectID owners protected assigned \<longleftrightarrow>
     (let k = ProjectNameKey ul name in
      hasForeignProjectID (owners k) projectID
      \<or> (case protected k of Some owner \<Rightarrow> owner \<noteq> projectID | None \<Rightarrow> False)
      \<or> (case map_of assigned k of Some owner \<Rightarrow> owner \<noteq> projectID | None \<Rightarrow> False))"

text \<open>The name of one record, given the names assigned so far; none if the search does not end.\<close>

definition assign_name ::
  "(nat \<Rightarrow> nat) \<Rightarrow> ProjectRecord list \<Rightarrow> (string \<times> nat) list \<Rightarrow> (string \<times> string) list \<Rightarrow> nat \<Rightarrow> string option" where
  "assign_name ul records ks assigned i =
     (let r = records ! i;
          base = base_name (records ! the (map_of ks (base_key ul r)));
          unavailable = (\<lambda>name. projectNameUnavailable ul name (pr_ProjectID r) (idOwners ul records)
            (protected_names ul records ks) assigned)
      in if map_of ks (ProjectNameKey ul base) \<noteq> Some i \<or> unavailable base
         then nextAvailableProjectName base (\<lambda>candidate. \<not> unavailable candidate)
         else Some base)"

fun assign_names ::
  "(nat \<Rightarrow> nat) \<Rightarrow> ProjectRecord list \<Rightarrow> (string \<times> nat) list \<Rightarrow> (string \<times> string) list \<Rightarrow> nat list
     \<Rightarrow> string list option" where
  "assign_names ul records ks assigned [] = Some []"
| "assign_names ul records ks assigned (i # rest) =
     (case assign_name ul records ks assigned i of
        None \<Rightarrow> None
      | Some name \<Rightarrow>
          map_option (\<lambda>names. name # names)
            (assign_names ul records ks ((ProjectNameKey ul name, pr_ProjectID (records ! i)) # assigned) rest))"

definition planned_key :: "ProjectRecord \<Rightarrow> string" where
  "planned_key r =
     (if pr_SourceKey r = '''' \<and> pr_HostPath r \<noteq> '''' then SourceKey (pr_HostPath r) else pr_SourceKey r)"

definition plan_targets :: "ProjectRecord list \<Rightarrow> string list \<Rightarrow> projectNameMigrationTarget list" where
  "plan_targets records names =
     map (\<lambda>(r, name). \<lparr>mt_ProjectID = pr_ProjectID r, mt_Name = name, mt_SourceKey = planned_key r\<rparr>)
       (filter (\<lambda>(r, name). pr_Name r \<noteq> name \<or> pr_SourceKey r \<noteq> planned_key r) (zip records names))"

text \<open>The plan sorts the records in place; the sorted records are returned with it.\<close>

definition planProjectNameMigration ::
  "(nat \<Rightarrow> nat) \<Rightarrow> (string \<Rightarrow> time option) \<Rightarrow> ProjectRecord list
     \<Rightarrow> (ProjectRecord list \<times> projectNameMigrationTarget list) option" where
  "planProjectNameMigration ul parse records =
     (let sorted = sort_key (import_key parse) records in
      map_option (\<lambda>names. (sorted, plan_targets sorted names))
        (assign_names ul sorted (keepers ul sorted) [] [0..<length sorted]))"

section \<open>The journal\<close>

definition validateCanonicalMigrationTargets ::
  "ProjectRecord list \<Rightarrow> projectNameMigrationTarget list \<Rightarrow> store_error err" where
  "validateCanonicalMigrationTargets records targets =
     (let versions = map_of (rev (map (\<lambda>r. (pr_ProjectID r, pr_IdentityVersion r)) records)) in
      first_error (\<lambda>t. if versions (mt_ProjectID t) = Some 2 \<and> mt_Name t \<noteq> mt_ProjectID t
        then Some (CanonicalConflict (mt_ProjectID t)) else None) targets)"

definition target_valid :: "projectNameMigrationTarget \<Rightarrow> bool" where
  "target_valid t \<longleftrightarrow>
     SafeID (mt_ProjectID t) \<and> SafeProjectName (mt_Name t)
     \<and> (mt_SourceKey t = ''''
        \<or> \<not> (length (mt_SourceKey t) \<noteq> 64 \<or> Trim (mt_SourceKey t) ''0123456789abcdef'' \<noteq> ''''))"

definition validateProjectNameMigration :: "projectNameMigration \<Rightarrow> store_error err" where
  "validateProjectNameMigration journal =
     (if mj_Schema journal \<noteq> 1 \<or> mj_Targets journal = [] then Some InvalidMigration
      else if \<not> list_all target_valid (mj_Targets journal) then Some InvalidMigration
      else if \<not> distinct (map mt_ProjectID (mj_Targets journal)) then Some InvalidMigration
      else None)"

definition readProjectNameMigration :: "store_dir \<Rightarrow> store_error + projectNameMigration option" where
  "readProjectNameMigration s =
     (case sd_Journal s of
        None \<Rightarrow> Inr None
      | Some f \<Rightarrow>
          if jf_Kind f \<noteq> RegularFile \<or> jf_Size f > 64 * 1024 * 1024 then Inl InvalidMigration
          else case jf_Doc f of
            Content journal \<Rightarrow>
              (case validateProjectNameMigration journal of Some err \<Rightarrow> Inl err | None \<Rightarrow> Inr (Some journal))
          | Garbled \<Rightarrow> Inl DecodeFailed
          | _ \<Rightarrow> Inl OpenFailed)"

definition json_migration :: "projectNameMigration \<Rightarrow> projectNameMigration" where
  "json_migration j =
     j\<lparr>mj_Targets := map (\<lambda>t. t\<lparr>mt_ProjectID := json_text (mt_ProjectID t), mt_Name := json_text (mt_Name t),
        mt_SourceKey := json_text (mt_SourceKey t)\<rparr>) (mj_Targets j)\<rparr>"

definition writeProjectNameMigration :: "store_env \<Rightarrow> projectNameMigration \<Rightarrow> unit store_op" where
  "writeProjectNameMigration e journal s =
     (let s' = s\<lparr>sd_Journal := Some \<lparr>jf_Kind = RegularFile, jf_Size = se_JournalSize e journal,
            jf_Doc = Content (json_migration journal)\<rparr>\<rparr> in
      case validateProjectNameMigration journal of
        Some err \<Rightarrow> (s, Inl err)
      | None \<Rightarrow>
          (case se_WriteJournal e of
             NotWritten \<Rightarrow> (s, Inl WriteFailed)
           | WrittenNotSynced \<Rightarrow> (s', Inl SyncFailed)
           | Written \<Rightarrow> (s', Inr ())))"

definition removeProjectNameMigration :: "store_env \<Rightarrow> nat \<Rightarrow> unit store_op" where
  "removeProjectNameMigration e k s =
     (case se_RemoveJournal e k of
        NotWritten \<Rightarrow> (s, if sd_Journal s = None then Inl SyncFailed else Inl RemoveFailed)
      | WrittenNotSynced \<Rightarrow> (s\<lparr>sd_Journal := None\<rparr>, Inl SyncFailed)
      | Written \<Rightarrow> (s\<lparr>sd_Journal := None\<rparr>, Inr ()))"

fun apply_targets ::
  "store_env \<Rightarrow> nat \<Rightarrow> (string \<Rightarrow> ProjectRecord option) \<Rightarrow> projectNameMigrationTarget list \<Rightarrow> bool \<Rightarrow> bool store_op" where
  "apply_targets e k byID [] changed s = (s, Inr changed)"
| "apply_targets e k byID (t # ts) changed s =
     (case byID (mt_ProjectID t) of
        None \<Rightarrow> apply_targets e k byID ts changed s
      | Some r \<Rightarrow>
          if pr_Name r = mt_Name t \<and> pr_SourceKey r = mt_SourceKey t then apply_targets e k byID ts changed s
          else io_bind (putUnlocked e k (r\<lparr>pr_Name := mt_Name t, pr_SourceKey := mt_SourceKey t\<rparr>))
            (\<lambda>_. apply_targets e k byID ts True) s)"

definition applyProjectNameMigration :: "store_env \<Rightarrow> nat \<Rightarrow> projectNameMigration \<Rightarrow> bool store_op" where
  "applyProjectNameMigration e k journal =
     io_bind (io_lift (listUnlocked e)) (\<lambda>records.
       apply_targets e k (map_of (rev (map (\<lambda>r. (pr_ProjectID r, r)) records))) (mj_Targets journal) False)"

definition resumeProjectNameMigration :: "store_env \<Rightarrow> bool store_op" where
  "resumeProjectNameMigration e =
     io_bind (io_lift readProjectNameMigration) (\<lambda>found.
     case found of
       None \<Rightarrow> io_return False
     | Some journal \<Rightarrow>
         io_bind (applyProjectNameMigration e 0 journal) (\<lambda>_.
         io_bind (removeProjectNameMigration e 0) (\<lambda>_.
         io_return True)))"

section \<open>Operations\<close>

definition plan :: "(nat \<Rightarrow> nat) \<Rightarrow> (string \<Rightarrow> time option) \<Rightarrow> ProjectRecord list
    \<Rightarrow> (ProjectRecord list \<times> projectNameMigrationTarget list) store_op" where
  "plan ul parse records =
     (case planProjectNameMigration ul parse records of None \<Rightarrow> io_fail NeverReturns | Some p \<Rightarrow> io_return p)"

definition check :: "store_error err \<Rightarrow> unit store_op" where
  "check r = (case r of None \<Rightarrow> io_return () | Some err \<Rightarrow> io_fail err)"

definition MigrateLegacyNames :: "(nat \<Rightarrow> nat) \<Rightarrow> (string \<Rightarrow> time option) \<Rightarrow> store_env \<Rightarrow> bool store_op" where
  "MigrateLegacyNames ul parse e =
     io_bind (lock e) (\<lambda>_.
     io_bind (resumeProjectNameMigration e) (\<lambda>resumed.
     io_bind (io_lift (listUnlocked e)) (\<lambda>found.
     io_bind (plan ul parse found) (\<lambda>(records, targets).
     if targets = [] then io_return resumed
     else
       io_bind (check (validateCanonicalMigrationTargets records targets)) (\<lambda>_.
       io_bind (writeProjectNameMigration e \<lparr>mj_Schema = 1, mj_Targets = targets\<rparr>) (\<lambda>_.
       io_bind (applyProjectNameMigration e 1 \<lparr>mj_Schema = 1, mj_Targets = targets\<rparr>) (\<lambda>_.
       io_bind (removeProjectNameMigration e 1) (\<lambda>_.
       io_return True))))))))"

definition LegacyNameMigrationPending :: "(nat \<Rightarrow> nat) \<Rightarrow> (string \<Rightarrow> time option) \<Rightarrow> store_env \<Rightarrow> bool store_op" where
  "LegacyNameMigrationPending ul parse e =
     io_bind (lock e) (\<lambda>_.
     io_bind (io_lift (listUnlocked e)) (\<lambda>found.
     io_bind (io_lift readProjectNameMigration) (\<lambda>journal.
     case journal of
       Some j \<Rightarrow>
         io_bind (check (validateCanonicalMigrationTargets found (mj_Targets j))) (\<lambda>_. io_return True)
     | None \<Rightarrow>
         io_bind (plan ul parse found) (\<lambda>(records, targets).
         io_bind (check (validateCanonicalMigrationTargets records targets)) (\<lambda>_.
         io_return (targets \<noteq> []))))))"

definition YardPath :: "string \<Rightarrow> string" where
  "YardPath pid = path_Join [''/srv/workspaces'', pid, ''src'']"

definition observed_record :: "ProjectRecord \<Rightarrow> string \<Rightarrow> ProjectRecord" where
  "observed_record observed sshHost =
     \<lparr>pr_Schema = pr_Schema observed, pr_IdentityVersion = pr_IdentityVersion observed,
      pr_ProjectID = pr_ProjectID observed, pr_Name = pr_Name observed, pr_HostPath = '''', pr_SourceKey = '''',
      pr_YardPath = pr_YardPath observed, pr_Mode = pr_Mode observed, pr_SSHHost = sshHost,
      pr_ImportedAt = pr_ImportedAt observed, pr_Target = pr_Target observed,
      pr_Profile = (if pr_Target observed \<noteq> '''' \<and> pr_Target observed \<noteq> ''yard'' then pr_Target observed else ''''),
      pr_RegistrySource = ''yard''\<rparr>"

definition reserved_record :: "string \<Rightarrow> ProjectReservation \<Rightarrow> ProjectRecord" where
  "reserved_record sshHost r =
     \<lparr>pr_Schema = 1, pr_IdentityVersion = 2, pr_ProjectID = rv_ProjectID r, pr_Name = rv_Name r, pr_HostPath = '''',
      pr_SourceKey = '''', pr_YardPath = YardPath (rv_ProjectID r), pr_Mode = rv_Mode r, pr_SSHHost = sshHost,
      pr_ImportedAt = '''', pr_Target = '''', pr_Profile = '''', pr_RegistrySource = ''''\<rparr>"

text \<open>
  A project ID from the data plane is not validated before its file is looked up: with separators the
  path leads elsewhere, where there is a file that is refused or none.
\<close>

definition read_observed :: "store_env \<Rightarrow> string \<Rightarrow> store_dir \<Rightarrow> store_error + ProjectRecord" where
  "read_observed e pid s =
     (if slash \<in> set pid then if se_Foreign e then Inl StatFailed else Inl NotExist
      else readRecord (se_Access e (entry_name pid)) (lookup_file s pid) pid)"

definition publish_observed ::
  "(nat \<Rightarrow> nat) \<Rightarrow> (string \<Rightarrow> time option) \<Rightarrow> store_env \<Rightarrow> ProjectRecord \<Rightarrow> ProjectRecord list \<Rightarrow> unit store_op" where
  "publish_observed ul parse e r plannedRecords =
     io_bind (plan ul parse plannedRecords) (\<lambda>(planned, targets).
     if targets = [] then putUnlocked e 2 r
     else
       io_bind (check (validateCanonicalMigrationTargets planned targets)) (\<lambda>_.
       io_bind (writeProjectNameMigration e \<lparr>mj_Schema = 1, mj_Targets = targets\<rparr>) (\<lambda>_.
       io_bind (applyProjectNameMigration e 1 \<lparr>mj_Schema = 1, mj_Targets = targets\<rparr>) (\<lambda>_.
       io_bind (putUnlocked e 2
         (case find_first (\<lambda>t. mt_ProjectID t = pr_ProjectID r) targets of
            None \<Rightarrow> r
          | Some t \<Rightarrow> r\<lparr>pr_Name := mt_Name t, pr_SourceKey := mt_SourceKey t\<rparr>)) (\<lambda>_.
       removeProjectNameMigration e 1)))))"

definition ConvergeObserved ::
  "(nat \<Rightarrow> nat) \<Rightarrow> (string \<Rightarrow> time option) \<Rightarrow> store_env \<Rightarrow> ProjectRecord \<Rightarrow> string \<Rightarrow> unit store_op" where
  "ConvergeObserved ul parse e observed sshHost =
     io_bind (lock e) (\<lambda>_.
     io_bind (\<lambda>s. (s, case read_observed e (pr_ProjectID observed) s of
         Inr _ \<Rightarrow> Inr True | Inl err \<Rightarrow> if err = NotExist then Inr False else Inl err)) (\<lambda>known.
     if known then io_return ()
     else
       io_bind (readReservations e (se_Now e) True) (\<lambda>reservations.
       if list_ex (\<lambda>r. ProjectNamesEqual ul (rv_ProjectID r) (pr_ProjectID observed)) reservations
       then io_fail AdmissionPending
       else
         io_bind (check (map_option InvalidRecord
           (ProjectRecord_Validate (observed_record observed sshHost) (pr_ProjectID observed)))) (\<lambda>_.
         io_bind (io_lift (listUnlocked e)) (\<lambda>records.
         publish_observed ul parse e (observed_record observed sshHost)
           (records @ [observed_record observed sshHost] @ map (reserved_record sshHost) reservations))))))"

end
