(* ===== verification/Project_Integrity.thy ===== *)
theory Project_Integrity
  imports Project_Admission Machines
begin

text \<open>
  Names in the project store: no operation gives two projects the same name, takes a name that is
  reserved for another project, or reserves a name twice.
\<close>

section \<open>Stored records and pending reservations\<close>

definition file_record :: "string \<times> state_file \<Rightarrow> ProjectRecord option" where
  "file_record nf =
     (if sf_Kind (snd nf) = RegularFile \<and> HasSuffix (fst nf) json_suffix
      then case decodeRecord (sf_Body (snd nf)) (TrimSuffix (fst nf) json_suffix) of
        Inl _ \<Rightarrow> None | Inr r \<Rightarrow> Some r
      else None)"

definition stored :: "store_dir \<Rightarrow> ProjectRecord set" where
  "stored s = {r. Some r \<in> file_record ` set (sd_Files s)}"

definition pending :: "store_dir \<Rightarrow> ProjectReservation set" where
  "pending s = {v. Inr v \<in> range (readReservation s)}"

text \<open>
  A finished admission may leave its reservation behind; the name it holds is then the one of the
  record it made.
\<close>

definition names_ok :: "(nat \<Rightarrow> nat) \<Rightarrow> ProjectRecord set \<Rightarrow> ProjectReservation set \<Rightarrow> bool" where
  "names_ok ul R V \<longleftrightarrow>
     (\<forall>r \<in> R. \<forall>c \<in> R. pr_ProjectID r \<noteq> pr_ProjectID c \<longrightarrow> \<not> name_conflict ul r c)
     \<and> (\<forall>r \<in> R. \<forall>v \<in> V. reservation_conflict ul r v \<longrightarrow> pr_ProjectID r = rv_ProjectID v)
     \<and> (\<forall>v \<in> V. \<forall>w \<in> V. rv_OperationID v \<noteq> rv_OperationID w
          \<longrightarrow> \<not> ProjectNamesEqual ul (rv_Name v) (rv_Name w))"

definition names_held :: "(nat \<Rightarrow> nat) \<Rightarrow> store_dir \<Rightarrow> bool" where
  "names_held ul s \<longleftrightarrow> names_ok ul (stored s) (pending s)"

definition shrinks :: "store_dir \<Rightarrow> store_dir \<Rightarrow> bool" where
  "shrinks s t \<longleftrightarrow> stored t \<subseteq> stored s \<and> pending t \<subseteq> pending s
     \<and> (sd_Info s \<noteq> None \<longrightarrow> sd_Info t \<noteq> None) \<and> sd_Journal t = sd_Journal s"

lemma reflp_shrinks [simp]: "reflp shrinks"
  by (simp add: reflp_def shrinks_def)

lemma transp_shrinks [simp]: "transp shrinks"
  by (auto simp: transp_def shrinks_def)

lemmas keeps_shrinks_bind = keeps_bind [OF transp_shrinks]

lemma names_ok_mono: "names_ok ul R V \<Longrightarrow> R' \<subseteq> R \<Longrightarrow> V' \<subseteq> V \<Longrightarrow> names_ok ul R' V'"
  unfolding names_ok_def by (intro conjI ballI impI; metis subsetD)

lemma names_held_shrinks: "names_held ul s \<Longrightarrow> shrinks s t \<Longrightarrow> names_held ul t"
  unfolding names_held_def shrinks_def by (blast intro: names_ok_mono)

lemma pending_pick: "v \<in> pending s \<longleftrightarrow> (\<exists>op. readReservation s op = Inr v)"
  unfolding pending_def by (metis (mono_tags, lifting) mem_Collect_eq rangeE rangeI)

lemma readReservation_Inr:
  assumes "readReservation s op = Inr v"
  shows "SafeID op" "rv_OperationID v = op" "SafeProjectName (rv_ProjectID v)" "rv_Name v = rv_ProjectID v"
    "\<exists>es. sd_Reservations s = Some es \<and> map_of es (entry_name op) = Some (ResFile (Content v))"
    "rv_Source v \<noteq> ''''"
  using assms
  by (auto simp: readReservation_def bind_eq_Some_conv split: if_split_asm option.split_asm res_entry.split_asm doc.split_asm)

lemma readReservation_cong:
  assumes "Option.bind (sd_Reservations s) (\<lambda>es. map_of es (entry_name op))
    = Option.bind (sd_Reservations t) (\<lambda>es. map_of es (entry_name op))"
  shows "readReservation s op = readReservation t op"
  using assms unfolding readReservation_def by simp

lemma pending_cong: "sd_Reservations s = sd_Reservations t \<Longrightarrow> pending s = pending t"
  unfolding pending_def readReservation_def by simp

lemma stored_mono: "set (sd_Files t) \<subseteq> set (sd_Files s) \<Longrightarrow> stored t \<subseteq> stored s"
  unfolding stored_def by blast

lemma shrinks_filesI:
  assumes "set (sd_Files t) \<subseteq> set (sd_Files s)" "sd_Reservations t = sd_Reservations s"
    and "sd_Info s \<noteq> None \<Longrightarrow> sd_Info t \<noteq> None" "sd_Journal t = sd_Journal s"
  shows "shrinks s t"
  using assms
  unfolding shrinks_def by (metis stored_mono pending_cong order_refl)

section \<open>Operations that only remove\<close>

lemma map_of_filter_key: "map_of (filter (\<lambda>(n, _). P n) xs) k = (if P k then map_of xs k else None)"
  by (induction xs) auto

lemma readReservation_remove_path:
  assumes "readReservation (remove_path p s) op = Inr v"
  shows "readReservation s op = Inr v"
proof -
  obtain es where es: "sd_Reservations (remove_path p s) = Some es"
      "map_of es (entry_name op) = Some (ResFile (Content v))"
    using readReservation_Inr(5) [OF assms] by blast
  then obtain es' where es': "sd_Reservations s = Some es'"
    by (auto simp: remove_path_def)
  then have "map_of es' (entry_name op) = Some (ResFile (Content v))"
    using es by (auto simp: remove_path_def map_of_filter_key split: if_split_asm)
  with es es' show ?thesis
    using readReservation_cong [of "remove_path p s" op s] assms by simp
qed

lemma shrinks_remove_path: "shrinks s (remove_path p s)"
  unfolding shrinks_def
proof (intro conjI)
  show "stored (remove_path p s) \<subseteq> stored s"
    by (rule stored_mono) (auto simp: remove_path_def)
  show "pending (remove_path p s) \<subseteq> pending s"
    unfolding subset_iff pending_pick by (metis readReservation_remove_path)
qed (simp_all add: remove_path_def)

lemma removeReservation_cases:
  assumes "removeReservation e op s = (t, r)"
  shows "t = s \<or> t = remove_path (reservationPath s op) s"
  using assms by (auto simp: removeReservation_def Let_def split: if_split_asm write_outcome.split_asm)

lemma removeReservation_shrinks: "keeps shrinks (removeReservation e op)"
  unfolding keeps_def
proof
  fix s
  show "shrinks s (fst (removeReservation e op s))"
    using removeReservation_cases [of e op s] shrinks_remove_path reflpD [OF reflp_shrinks]
    by (metis prod.collapse)
qed

lemma removeReservation_removes:
  assumes "removeReservation e op s = (t, Inr ())"
  shows "\<exists>err. readReservation t op = Inl err"
proof (rule ccontr)
  assume "\<not> ?thesis"
  then obtain v where v: "readReservation t op = Inr v" by (metis sum.exhaust_sel)
  have t: "t = remove_path (reservationPath s op) s"
    using assms by (auto simp: removeReservation_def Let_def split: if_split_asm write_outcome.split_asm)
  obtain es where "sd_Reservations t = Some es" "map_of es (entry_name op) = Some (ResFile (Content v))"
    using readReservation_Inr(5) [OF v] by blast
  then show False
    by (auto simp: t remove_path_def reservationPath_def map_of_filter_key split: if_split_asm)
qed

lemma lock_result:
  assumes "lock e s = (t, r)"
  shows "sd_Files t = sd_Files s" "sd_Reservations t = sd_Reservations s" "r = Inr () \<Longrightarrow> sd_Info t \<noteq> None"
    "sd_Path t = sd_Path s" "sd_Journal t = sd_Journal s" "sd_Info s \<noteq> None \<Longrightarrow> sd_Info t = sd_Info s"
  using assms
  by (auto simp: lock_def ensurePrivateDirectory_def io_bind_def
      split: option.split_asm if_split_asm write_outcome.split_asm)

lemma lock_shrinks: "keeps shrinks (lock e)"
  unfolding keeps_def
proof
  fix s
  obtain t r where "lock e s = (t, r)" by force
  then show "shrinks s (fst (lock e s))" using lock_result [of e s t r] by (auto intro: shrinks_filesI)
qed

lemma reservation_loop_keeps:
  assumes refl: "reflp R" and trans: "transp R"
    and remove: "\<And>op. SafeID op \<Longrightarrow> keeps R (removeReservation e op)"
  shows "R s (fst (reservation_loop e now prune es s))"
  using remove
proof (induction e now prune es s rule: reservation_loop.induct)
  case (1 e now prune s)
  show ?case using refl by (simp add: reflpD)
next
  case (2 e now prune n entry es s)
  let ?op = "TrimSuffix n json_suffix"
  show ?case
  proof (cases "entry = ResDirectory \<or> \<not> HasSuffix n json_suffix")
    case True
    then show ?thesis using "2.IH"(1) "2.prems" by simp
  next
    case False
    note IH = "2.IH"(2-5) [OF False]
    show ?thesis
    proof (cases "readReservation s ?op")
      case (Inl err)
      with False IH(1) [OF Inl] "2.prems" refl show ?thesis by (simp add: reflpD)
    next
      case (Inr v)
      show ?thesis
      proof (cases "time_sub now (rv_CreatedAt v) \<ge> reservationTTL")
        case True
        show ?thesis
        proof (cases prune)
          case p: True
          obtain t r where t: "removeReservation e ?op s = (t, r)" by force
          have st: "R s t" using "2.prems" [OF readReservation_Inr(1) [OF Inr]] t by (rule keepsD)
          have tu: "R t (fst (reservation_loop e now prune es t))" using IH(2) [OF Inr True p] "2.prems" by blast
          have "R s (fst (reservation_loop e now prune es t))"
            using transpD [OF trans st tu] .
          with st False Inr True p t show ?thesis
            by (cases r) (simp_all add: io_bind_def)
        next
          case p: False
          with False Inr True IH(3) [OF Inr True p] "2.prems" show ?thesis by simp
        qed
      next
        case late: False
        have "R s (fst (reservation_loop e now prune es s))" using IH(4) [OF Inr late] "2.prems" by blast
        with False Inr late show ?thesis
          by (cases "reservation_loop e now prune es s"; cases "snd (reservation_loop e now prune es s)")
            (simp_all add: io_bind_def)
      qed
    qed
  qed
qed

lemma readReservations_keeps:
  assumes "reflp R" and "transp R" and "\<And>op. SafeID op \<Longrightarrow> keeps R (removeReservation e op)"
  shows "keeps R (readReservations e now prune)"
  unfolding keeps_def
proof
  fix s
  show "R s (fst (readReservations e now prune s))"
    using reservation_loop_keeps [OF assms] reflpD [OF assms(1)]
    by (simp add: readReservations_def split: option.split)
qed

lemma reservation_loop_shrinks: "shrinks s (fst (reservation_loop e now prune es s))"
  by (rule reservation_loop_keeps) (simp_all add: removeReservation_shrinks)

lemma pending_read: "v \<in> pending s \<Longrightarrow> readReservation s (rv_OperationID v) = Inr v"
  unfolding pending_pick using readReservation_Inr(2) by blast

lemma HasSuffix_entry [simp]: "HasSuffix (entry_name op) json_suffix"
  by (simp add: HasSuffix_def entry_name_def suffix_def)

lemma TrimSuffix_entry [simp]: "TrimSuffix (entry_name op) json_suffix = op"
  by (simp add: entry_name_def)

lemma reservation_loop_complete:
  assumes "reservation_loop e now True es s = (t, Inr rs)" and "v \<in> pending t"
    and "(entry_name (rv_OperationID v), ResFile (Content v)) \<in> set es"
  shows "v \<in> set rs"
  using assms
proof (induction es arbitrary: s rs)
  case (Cons x es)
  obtain n entry where x: "x = (n, entry)" by force
  let ?op = "TrimSuffix n json_suffix"
  have tail: "v \<in> set us" if "reservation_loop e now True es u = (t, Inr us)" "x \<noteq> (entry_name (rv_OperationID v), ResFile (Content v))" for u us
    using Cons.IH [OF that(1) Cons.prems(2)] Cons.prems(3) that(2) by simp
  show ?case
  proof (cases "entry = ResDirectory \<or> \<not> HasSuffix n json_suffix")
    case True
    then have "x \<noteq> (entry_name (rv_OperationID v), ResFile (Content v))" using x by auto
    with True Cons.prems(1) x show ?thesis by (intro tail) simp_all
  next
    case False
    then obtain w where w: "readReservation s ?op = Inr w"
      using Cons.prems(1) x by (cases "readReservation s ?op") auto
    have shr: "shrinks s t" using reservation_loop_shrinks [of s e now True "x # es"] Cons.prems(1) by simp
    then have v: "readReservation s (rv_OperationID v) = Inr v"
      using Cons.prems(2) pending_read unfolding shrinks_def by blast
    show ?thesis
    proof (cases "time_sub now (rv_CreatedAt w) \<ge> reservationTTL")
      case True
      obtain u where u: "removeReservation e ?op s = (u, Inr ())" "reservation_loop e now True es u = (t, Inr rs)"
        using Cons.prems(1) False w True x by (auto elim!: io_bind_InrE)
      have "shrinks u t" using reservation_loop_shrinks [of u e now True es] u(2) by simp
      then have "readReservation u (rv_OperationID v) = Inr v"
        using Cons.prems(2) pending_read unfolding shrinks_def by blast
      then have "x \<noteq> (entry_name (rv_OperationID v), ResFile (Content v))"
        using removeReservation_removes [OF u(1)] x by auto
      with u(2) show ?thesis by (rule tail)
    next
      case late: False
      obtain us where us: "reservation_loop e now True es s = (t, Inr us)" "rs = w # us"
        using Cons.prems(1) False w late x by (auto elim!: io_bind_InrE)
      show ?thesis
      proof (cases "x = (entry_name (rv_OperationID v), ResFile (Content v))")
        case True
        with x have "?op = rv_OperationID v" by auto
        with w v us show ?thesis by simp
      next
        case other: False
        with tail [OF us(1)] us(2) show ?thesis by simp
      qed
    qed
  qed
qed simp

lemma readReservations_complete:
  assumes "readReservations e now True s = (t, Inr rs)"
  shows "pending t \<subseteq> set rs"
proof (cases "sd_Reservations s")
  case None
  then have "pending s = {}" by (auto simp: pending_def readReservation_def)
  with None assms show ?thesis by (simp add: readReservations_def)
next
  case (Some es)
  obtain us where us: "reservation_loop e now True (sort_key fst es) s = (t, Inr us)" "rs = sort_key rv_OperationID us"
    using assms Some by (auto simp: readReservations_def elim!: io_bind_InrE split: if_split_asm)
  have shr: "shrinks s t" using reservation_loop_shrinks [of s e now True "sort_key fst es"] us(1) by simp
  show ?thesis
  proof
    fix v
    assume v: "v \<in> pending t"
    with shr have "readReservation s (rv_OperationID v) = Inr v"
      unfolding shrinks_def using pending_read by blast
    from readReservation_Inr(5) [OF this] Some
    have "(entry_name (rv_OperationID v), ResFile (Content v)) \<in> set (sort_key fst es)"
      by (auto dest: map_of_SomeD)
    with us v show "v \<in> set rs" using reservation_loop_complete [OF us(1) v] by simp
  qed
qed

lemma readReservations_shrinks: "keeps shrinks (readReservations e now prune)"
  by (rule readReservations_keeps) (simp_all add: removeReservation_shrinks)

section \<open>Listing and writing\<close>

text \<open>
  Under the lock, in a directory that is private to the user, nobody else replaces a file between
  its inspection and its opening.
\<close>

definition private_env :: "store_env \<Rightarrow> bool" where
  "private_env e \<longleftrightarrow> (\<forall>n b. se_Access e n \<noteq> OpensOther b)"

lemma readRecord_Inr:
  assumes "readRecord acc (Some f) pid = Inr r" and "\<And>b. acc \<noteq> OpensOther b"
  shows "sf_Kind f = RegularFile" "decodeRecord (sf_Body f) pid = Inr r"
  using assms by (auto simp: readRecord_def split: if_split_asm access.split_asm)

lemma file_record_iff:
  "file_record (n, f) = Some r \<longleftrightarrow>
     sf_Kind f = RegularFile \<and> HasSuffix n json_suffix \<and> decodeRecord (sf_Body f) (TrimSuffix n json_suffix) = Inr r"
  by (auto simp: file_record_def split: sum.split)

lemma stored_iff: "r \<in> stored s \<longleftrightarrow> (\<exists>n f. (n, f) \<in> set (sd_Files s) \<and> file_record (n, f) = Some r)"
  unfolding stored_def by (force simp: image_iff)

lemma list_stored:
  assumes e: "private_env e" and dir: "sd_Info s \<noteq> None" and rs: "listUnlocked e s = Inr rs"
  shows "set rs = stored s"
proof -
  let ?read = "\<lambda>(n, f). readRecord (se_Access e n) (Some f) (TrimSuffix n json_suffix)"
  obtain us where us: "list_all2 (\<lambda>x y. ?read x = Inr y) (json_entries s) us" and eq: "set rs = set us"
    using rs dir by (auto simp: listUnlocked_def res_bind_Inr map_res_Inr split: if_split_asm)
  have one: "r \<in> set us \<longleftrightarrow> (\<exists>x \<in> set (json_entries s). ?read x = Inr r)" for r
    using us by (induction rule: list_all2_induct) auto
  have "(\<exists>x \<in> set (json_entries s). ?read x = Inr r) \<longleftrightarrow> r \<in> stored s" for r
  proof
    assume "\<exists>x \<in> set (json_entries s). ?read x = Inr r"
    then obtain n f where nf: "(n, f) \<in> set (sd_Files s)" "HasSuffix n json_suffix"
        "readRecord (se_Access e n) (Some f) (TrimSuffix n json_suffix) = Inr r"
      by (auto simp: json_entries_def)
    with e show "r \<in> stored s"
      using readRecord_Inr [OF nf(3)] unfolding stored_iff file_record_iff private_env_def by blast
  next
    assume "r \<in> stored s"
    then obtain n f where nf: "(n, f) \<in> set (sd_Files s)" "file_record (n, f) = Some r"
      by (auto simp: stored_iff)
    then have x: "(n, f) \<in> set (json_entries s)" by (auto simp: json_entries_def file_record_iff)
    with us obtain r' where r': "?read (n, f) = Inr r'"
      by (auto simp: list_all2_conv_all_nth in_set_conv_nth)
    with e nf have "r' = r"
      using readRecord_Inr(2) [of "se_Access e n" f "TrimSuffix n json_suffix" r']
      by (auto simp: private_env_def file_record_iff)
    with x r' show "\<exists>x \<in> set (json_entries s). ?read x = Inr r" by blast
  qed
  with one eq show ?thesis by blast
qed

lemma validateProjectName_ok:
  assumes e: "private_env e" and dir: "sd_Info s \<noteq> None"
    and v: "validateProjectNameUnlocked ul e record ign s = (t, Inr ())"
  shows "SafeProjectName (pr_Name record)"
    and "\<And>c. c \<in> stored t \<Longrightarrow> pr_ProjectID c \<noteq> pr_ProjectID record \<Longrightarrow> \<not> name_conflict ul record c"
    and "\<And>w. w \<in> pending t \<Longrightarrow> rv_OperationID w \<noteq> ign \<Longrightarrow> \<not> reservation_conflict ul record w"
    and "shrinks s t"
proof -
  show "SafeProjectName (pr_Name record)"
    using v by (auto simp: validateProjectNameUnlocked_def split: if_split_asm)
  obtain rs ws where rs: "listUnlocked e s = Inr rs"
      "find_first (\<lambda>c. pr_ProjectID c \<noteq> pr_ProjectID record \<and> name_conflict ul record c) rs = None"
    and ws: "readReservations e (se_Now e) True s = (t, Inr ws)"
      "find_first (\<lambda>r. rv_OperationID r \<noteq> ign \<and> reservation_conflict ul record r) ws = None"
    using v by (auto simp: validateProjectNameUnlocked_def split: if_split_asm option.split_asm elim!: io_bind_InrE)
  show shr: "shrinks s t" using readReservations_shrinks ws(1) by (rule keepsD)
  show "\<not> name_conflict ul record c" if "c \<in> stored t" "pr_ProjectID c \<noteq> pr_ProjectID record" for c
    using that shr rs(2) list_stored [OF e dir rs(1)] by (auto simp: shrinks_def)
  show "\<not> reservation_conflict ul record w" if "w \<in> pending t" "rv_OperationID w \<noteq> ign" for w
    using that readReservations_complete [OF ws(1)] ws(2) by auto
qed

lemma validateProjectName_shrinks: "keeps shrinks (validateProjectNameUnlocked ul e record ign)"
  unfolding validateProjectNameUnlocked_def
  by (auto intro!: keeps_shrinks_bind readReservations_shrinks split: option.split)

lemma set_update_subset: "set (AList.update k v xs) \<subseteq> insert (k, v) (set xs)"
  by (induction xs) auto

lemma json_record_names:
  assumes "SafeID (pr_ProjectID r)" and "SafeProjectName (pr_Name r)"
  shows "pr_ProjectID (json_record r) = pr_ProjectID r" "pr_Name (json_record r) = pr_Name r"
  using assms by (simp_all add: json_record_def SafeID_ascii SafeProjectName_def)

lemma name_conflict_sym: "name_conflict ul r c \<longleftrightarrow> name_conflict ul c r"
  by (auto simp: name_conflict_def ProjectNamesEqual_def)

lemma putUnlocked_cases:
  assumes "putUnlocked e k record s = (t, r)"
  shows "t = s \<or> t = s\<lparr>sd_Files := AList.update (entry_name (pr_ProjectID record))
    (candidate_file (se_Size e record) record) (sd_Files s)\<rparr>"
  using assms by (auto simp: putUnlocked_def Let_def split: if_split_asm sum.split_asm)

lemma putUnlocked_stored:
  assumes "putUnlocked e k record s = (t, r)"
  shows "stored t \<subseteq> insert (json_record record) (stored s)" "pending t = pending s"
    "sd_Info t = sd_Info s" "sd_Journal t = sd_Journal s"
proof -
  let ?nf = "(entry_name (pr_ProjectID record), candidate_file (se_Size e record) record)"
  have "file_record ?nf \<in> {None, Some (json_record record)}"
    by (auto simp: file_record_def candidate_file_def decodeRecord_def split: option.split)
  moreover have "set (sd_Files t) \<subseteq> insert ?nf (set (sd_Files s))"
    using putUnlocked_cases [OF assms] set_update_subset by force
  ultimately show "stored t \<subseteq> insert (json_record record) (stored s)"
    unfolding stored_def by (auto simp: image_iff)
  show "pending t = pending s"
    using putUnlocked_cases [OF assms] pending_cong [of t s] by auto
  show "sd_Info t = sd_Info s" "sd_Journal t = sd_Journal s"
    using putUnlocked_cases [OF assms] by auto
qed

lemma putUnlocked_held:
  assumes s: "names_held ul s" and put: "putUnlocked e k record s = (t, r)"
    and safe: "SafeID (pr_ProjectID record)" "SafeProjectName (pr_Name record)"
    and free: "\<And>c. c \<in> stored s \<Longrightarrow> pr_ProjectID c \<noteq> pr_ProjectID record \<Longrightarrow> \<not> name_conflict ul record c"
    and own: "\<And>w. w \<in> pending s \<Longrightarrow> reservation_conflict ul record w \<Longrightarrow> pr_ProjectID record = rv_ProjectID w"
  shows "names_held ul t"
proof -
  note json = json_record_names [OF safe]
  have new: "name_conflict ul (json_record record) c \<longleftrightarrow> name_conflict ul record c"
    "name_conflict ul c (json_record record) \<longleftrightarrow> name_conflict ul record c"
    "reservation_conflict ul (json_record record) w \<longleftrightarrow> reservation_conflict ul record w" for c w
    by (auto simp: name_conflict_def reservation_conflict_def ProjectNamesEqual_def json)

  have "names_ok ul (insert (json_record record) (stored s)) (pending s)"
    unfolding names_ok_def
  proof (intro conjI ballI impI)
    fix r c
    assume "r \<in> insert (json_record record) (stored s)" "c \<in> insert (json_record record) (stored s)"
      "pr_ProjectID r \<noteq> pr_ProjectID c"
    then show "\<not> name_conflict ul r c"
      using s free new json unfolding names_held_def names_ok_def by auto
  next
    fix r w
    assume "r \<in> insert (json_record record) (stored s)" "w \<in> pending s" "reservation_conflict ul r w"
    then show "pr_ProjectID r = rv_ProjectID w"
      using s own new json unfolding names_held_def names_ok_def by auto
  next
    fix v w
    assume "v \<in> pending s" "w \<in> pending s" "rv_OperationID v \<noteq> rv_OperationID w"
    then show "\<not> ProjectNamesEqual ul (rv_Name v) (rv_Name w)"
      using s unfolding names_held_def names_ok_def by blast
  qed
  then show ?thesis
    unfolding names_held_def using putUnlocked_stored [OF put] by (auto intro: names_ok_mono)
qed

section \<open>Every operation keeps the names apart\<close>

text \<open>The part of an operation that writes a checked record.\<close>

lemma checked_put_held:
  assumes e: "private_env e" and s: "names_held ul s" and dir: "sd_Info s \<noteq> None"
    and valid: "ProjectRecord_Validate record (pr_ProjectID record) = None"
    and own: "\<And>w. w \<in> pending s \<Longrightarrow> rv_OperationID w = ign \<Longrightarrow> pr_ProjectID record = rv_ProjectID w"
    and rest: "\<And>u. keeps shrinks (rest u)"
    and run: "io_bind (validateProjectNameUnlocked ul e record ign)
      (\<lambda>_. io_bind (putUnlocked e 0 record) rest) s = (t, r)"
  shows "names_held ul t"
  using run
proof (cases rule: io_bind_cases)
  case (err x)
  then show ?thesis using s names_held_shrinks keepsD [OF validateProjectName_shrinks] by blast
next
  case (ok v b)
  have v: "validateProjectNameUnlocked ul e record ign s = (v, Inr ())" using ok(1) by simp
  note facts = validateProjectName_ok [OF e dir v]
  have own': "pr_ProjectID record = rv_ProjectID w"
    if "w \<in> pending v" "reservation_conflict ul record w" for w
    using that own facts(3,4) unfolding shrinks_def by blast
  have held: "names_held ul u" if "putUnlocked e 0 record v = (u, x)" for u x
    by (rule putUnlocked_held [OF names_held_shrinks [OF s facts(4)] that])
      (use ProjectRecord_Validate_facts(1) [OF valid] facts(1,2) own' in auto)
  from ok(2) show ?thesis
  proof (cases rule: io_bind_cases)
    case (err x)
    then show ?thesis using held by blast
  next
    case (ok u a)
    then show ?thesis using held names_held_shrinks keepsD [OF rest] by blast
  qed
qed

lemma lock_bind_held:
  assumes s: "names_held ul s" and "\<And>u. names_held ul u \<Longrightarrow> sd_Info u \<noteq> None \<Longrightarrow> shrinks s u \<Longrightarrow> names_held ul (fst (f () u))"
  shows "names_held ul (fst (io_bind (lock e) f s))"
proof (cases "lock e s")
  case (Pair u r)
  have "shrinks s u" using keepsD [OF lock_shrinks Pair] .
  with s have u: "names_held ul u" by (rule names_held_shrinks)
  show ?thesis
  proof (cases r)
    case (Inl err)
    with Pair u show ?thesis by (simp add: io_bind_def)
  next
    case (Inr a)
    with Pair have "sd_Info u \<noteq> None" using lock_result(3) by simp
    with assms(2) [OF u this \<open>shrinks s u\<close>] Pair Inr show ?thesis by (simp add: io_bind_def)
  qed
qed

lemma Put_held:
  assumes "private_env e" and "names_held ul s"
  shows "names_held ul (fst (Put ul e record s))"
proof (cases "ProjectRecord_Validate record (pr_ProjectID record)")
  case None
  have op: "rv_OperationID w \<noteq> ''''" if "w \<in> pending u" for w u
    using readReservation_Inr(1) [OF pending_read [OF that]] by (auto simp: SafeID_bytes)
  have "names_held ul (fst (io_bind (validateProjectNameUnlocked ul e record '''') (\<lambda>_. putUnlocked e 0 record) u))"
    if "names_held ul u" "sd_Info u \<noteq> None" for u
    using checked_put_held [OF assms(1) that None, of "''''" "\<lambda>_. io_return ()"] op
    by (cases "io_bind (validateProjectNameUnlocked ul e record '''') (\<lambda>_. putUnlocked e 0 record) u") simp
  then show ?thesis using None assms(2) by (auto simp: Put_def intro!: lock_bind_held)
qed (simp add: Put_def assms)

lemma reservation_op: "v \<in> pending s \<Longrightarrow> w \<in> pending s \<Longrightarrow> rv_OperationID v = rv_OperationID w \<Longrightarrow> v = w"
  by (metis pending_read sum.inject(2))

lemma FinalizeOperation_held:
  assumes e: "private_env e" and s: "names_held ul s"
  shows "names_held ul (fst (FinalizeOperation ul e op record s))"
proof (cases "ProjectRecord_Validate record (pr_ProjectID record)")
  case None
  let ?publish = "\<lambda>v. io_bind (validateProjectNameUnlocked ul e record (rv_OperationID v)) (\<lambda>_.
    io_bind (putUnlocked e 0 record) (\<lambda>_. removeReservation e (rv_OperationID v)))"
  have stays: "names_held ul (fst (?publish v u))"
    if "names_held ul u" "sd_Info u \<noteq> None" "readReservation u op = Inr v" "reservation_matches record v" for u v
  proof -
    obtain t r where t: "?publish v u = (t, r)" by force
    have "v \<in> pending u" using that(3) pending_pick by blast
    then have own: "pr_ProjectID record = rv_ProjectID w" if "w \<in> pending u" "rv_OperationID w = rv_OperationID v" for w
      using reservation_op [OF that(1)] that(2) \<open>reservation_matches record v\<close> by (auto simp: reservation_matches_def)
    have "names_held ul t"
      by (rule checked_put_held [OF e that(1,2) None own removeReservation_shrinks t])
    with t show ?thesis by simp
  qed
  have "names_held ul (fst (io_bind (io_lift (\<lambda>s. readReservation s op)) (\<lambda>reservation.
      if \<not> reservation_matches record reservation then io_fail ReservationMismatch else ?publish reservation) u))"
    if "names_held ul u" "sd_Info u \<noteq> None" for u
  proof (cases "readReservation u op")
    case (Inl err)
    then show ?thesis using that by (simp add: io_bind_lift)
  next
    case (Inr v)
    then show ?thesis using that stays [OF that Inr] by (simp add: io_bind_lift)
  qed
  then show ?thesis
    unfolding FinalizeOperation_def None option.case using s by (intro lock_bind_held) auto
qed (simp add: FinalizeOperation_def s)

lemma keeps_held: "keeps shrinks m \<Longrightarrow> names_held ul s \<Longrightarrow> names_held ul (fst (m s))"
  unfolding keeps_def using names_held_shrinks by blast

lemma Abort_shrinks: "keeps shrinks (AbortAdmission e op)"
  unfolding AbortAdmission_def by (simp add: keeps_shrinks_bind lock_shrinks removeReservation_shrinks)

lemma Delete_shrinks: "keeps shrinks (Delete e pid)"
proof -
  have "keeps shrinks (remove_record e pid)"
    unfolding keeps_def
  proof
    fix s
    have "shrinks s (s\<lparr>sd_Files := AList.delete (entry_name pid) (sd_Files s)\<rparr>)"
      by (rule shrinks_filesI) (auto simp: AList.delete_eq)
    then show "shrinks s (fst (remove_record e pid s))"
      using reflpD [OF reflp_shrinks] by (auto simp: remove_record_def Let_def split: write_outcome.split)
  qed
  then show ?thesis
    unfolding Delete_def by (simp add: keeps_shrinks_bind lock_shrinks)
qed

lemma repair_file_record:
  "file_record (n, fst (repairLegacyRecord acc outcome f pid)) = file_record (n, f)"
proof -
  have "fst (repairLegacyRecord acc outcome f pid) \<in> {f, f\<lparr>sf_Perm := owner_rw\<rparr>}"
    by (simp add: repairLegacyRecord_def split: option.split sum.split write_outcome.split)
  then show ?thesis by (auto simp: file_record_def)
qed

lemma repair_loop_frame:
  assumes "set entries \<subseteq> set (sd_Files s0)" and "stored s \<subseteq> stored s0" and "repair_loop e entries changed s = (t, r)"
  shows "stored t \<subseteq> stored s0 \<and> sd_Reservations t = sd_Reservations s \<and> sd_Info t = sd_Info s
    \<and> sd_Journal t = sd_Journal s \<and> sd_Path t = sd_Path s"
  using assms
proof (induction e entries changed s rule: repair_loop.induct)
  case (2 e n f entries changed s)
  obtain g q where rep: "repairLegacyRecord (se_Access e n) (se_Chmod e n) f (TrimSuffix n json_suffix) = (g, q)"
    by force
  let ?u = "s\<lparr>sd_Files := AList.update n g (sd_Files s)\<rparr>"
  have fr: "file_record (n, g) = file_record (n, f)"
    using repair_file_record [of n "se_Access e n" "se_Chmod e n" f "TrimSuffix n json_suffix"] rep by simp
  have u: "stored ?u \<subseteq> stored s0"
  proof
    fix r
    assume "r \<in> stored ?u"
    then obtain m h where h: "(m, h) \<in> set (AList.update n g (sd_Files s))" "file_record (m, h) = Some r"
      by (auto simp: stored_iff)
    then consider "(m, h) \<in> set (sd_Files s)" | "m = n" "h = g"
      using set_update_subset by force
    then show "r \<in> stored s0"
    proof cases
      case 1
      with h(2) have "r \<in> stored s" by (auto simp: stored_iff)
      with 2 show ?thesis by blast
    next
      case m: 2
      with h(2) fr have "file_record (n, f) = Some r" by simp
      then show ?thesis using "2.prems"(1) by (auto simp: stored_iff)
    qed
  qed
  show ?case
  proof (cases q)
    case (Inl err)
    with "2.prems"(3) rep have "t = ?u" by simp
    with u show ?thesis by simp
  next
    case (Inr b)
    with "2.prems"(3) rep have "repair_loop e entries (changed \<or> b) ?u = (t, r)" by simp
    from "2.IH" [OF rep [symmetric] Inr _ u this] "2.prems"(1) show ?thesis by simp
  qed
qed simp

lemma Repair_shrinks: "keeps shrinks (RepairLegacyPermissions e)"
proof -
  have "keeps shrinks (repair_records e)"
    unfolding keeps_def
  proof
    fix s
    obtain t r where t: "repair_loop e (json_entries s) False s = (t, r)" by force
    have "set (json_entries s) \<subseteq> set (sd_Files s)" by (auto simp: json_entries_def)
    from repair_loop_frame [OF this order_refl t] have "shrinks s t"
      using pending_cong [of t s] by (auto simp: shrinks_def)
    with t show "shrinks s (fst (repair_records e s))"
      by (auto simp: repair_records_def io_bind_def reflpD split: sum.split)
  qed
  then have "keeps shrinks (io_bind (lock e) (\<lambda>_. repair_records e))"
    by (simp add: keeps_shrinks_bind lock_shrinks)
  then show ?thesis
    by (simp add: keeps_def RepairLegacyPermissions_def reflpD)
qed

lemma occupied_None:
  "map_of (occupied_names ul rs vs ws) k = None \<longleftrightarrow>
     (\<forall>r \<in> set rs. ProjectNameKey ul (pr_ProjectID r) \<noteq> k \<and> ProjectNameKey ul (pr_Name r) \<noteq> k)
     \<and> (\<forall>v \<in> set vs. ProjectNameKey ul (rv_ProjectID v) \<noteq> k) \<and> (\<forall>w \<in> set ws. ProjectNameKey ul w \<noteq> k)"
  unfolding occupied_names_def map_of_eq_None_iff by (auto simp: image_Un image_UN image_image)

lemma choose_name_free:
  assumes "choose_name ul requested explicit occupied = Inr name" and "SafeProjectName requested"
  shows "map_of occupied (ProjectNameKey ul name) = None" "SafeProjectName name"
  using assms nextAvailableProjectName_sound
  by (auto simp: choose_name_def nextProjectName_def SafeProjectName_def split: option.split_asm if_split_asm)

lemma entry_name_inj [simp]: "entry_name a = entry_name b \<longleftrightarrow> a = b"
  by (simp add: entry_name_def)

lemma writeReservation_pending:
  assumes "writeReservation e v s = (t, r)"
  shows "stored t = stored s" "pending t \<subseteq> insert (json_reservation v) (pending s)"
    "sd_Info t = sd_Info s" "sd_Journal t = sd_Journal s"
proof -
  let ?n = "entry_name (rv_OperationID v)"
  let ?entries = "case sd_Reservations s of None \<Rightarrow> [] | Some es \<Rightarrow> es"
  let ?new = "?entries @ [(?n, ResFile (Content (json_reservation v)))]"
  have t: "t = s \<or> t = s\<lparr>sd_Reservations := Some ?entries\<rparr> \<or> t = s\<lparr>sd_Reservations := Some ?new\<rparr> \<and> map_of ?entries ?n = None"
    using assms by (auto simp: writeReservation_def Let_def split: if_split_asm)
  then have files: "sd_Files t = sd_Files s" "sd_Info t = sd_Info s" "sd_Journal t = sd_Journal s" by auto
  then show "stored t = stored s" "sd_Info t = sd_Info s" "sd_Journal t = sd_Journal s" by (simp_all add: stored_def)
  show "pending t \<subseteq> insert (json_reservation v) (pending s)"
  proof
    fix w
    assume "w \<in> pending t"
    then obtain op where op: "readReservation t op = Inr w" by (auto simp: pending_pick)
    obtain es where es: "sd_Reservations t = Some es" "map_of es (entry_name op) = Some (ResFile (Content w))"
      using readReservation_Inr(5) [OF op] by blast
    show "w \<in> insert (json_reservation v) (pending s)"
    proof (cases "map_of ?entries (entry_name op) = Some (ResFile (Content w))")
      case True
      then obtain es' where "sd_Reservations s = Some es'" "map_of es' (entry_name op) = Some (ResFile (Content w))"
        by (cases "sd_Reservations s") auto
      with es op readReservation_cong [of s op t] show ?thesis by (auto simp: pending_pick)
    next
      case False
      then have "es = ?new" "map_of ?entries ?n = None" using t es by auto
      then have "w = json_reservation v"
        using es(2) False by (auto simp: map_add_def split: option.split_asm if_split_asm)
      then show ?thesis by simp
    qed
  qed
qed

lemma names_ok_reserve:
  assumes "names_ok ul R V" and "SafeProjectName name"
    and "\<And>r. r \<in> R \<Longrightarrow> ProjectNameKey ul (pr_ProjectID r) \<noteq> ProjectNameKey ul name
      \<and> ProjectNameKey ul (pr_Name r) \<noteq> ProjectNameKey ul name"
    and "\<And>w. w \<in> V \<Longrightarrow> ProjectNameKey ul (rv_Name w) \<noteq> ProjectNameKey ul name"
    and "rv_Name v = name"
  shows "names_ok ul R (insert v V)"
  unfolding names_ok_def
proof (intro conjI ballI impI)
  fix r c
  assume "r \<in> R" "c \<in> R" "pr_ProjectID r \<noteq> pr_ProjectID c"
  then show "\<not> name_conflict ul r c" using assms(1) unfolding names_ok_def by blast
next
  fix r w
  assume "r \<in> R" "w \<in> insert v V" "reservation_conflict ul r w"
  moreover from \<open>r \<in> R\<close> have "\<not> reservation_conflict ul r v"
    using assms(3) [of r] assms(5) by (auto simp: reservation_conflict_def ProjectNamesEqual_def)
  ultimately show "pr_ProjectID r = rv_ProjectID w"
    using assms(1) unfolding names_ok_def by auto
next
  fix w x
  assume "w \<in> insert v V" "x \<in> insert v V" "rv_OperationID w \<noteq> rv_OperationID x"
  then show "\<not> ProjectNamesEqual ul (rv_Name w) (rv_Name x)"
    using assms(1,4,5) unfolding names_ok_def ProjectNamesEqual_def by force
qed

lemma writeReservation_held:
  assumes u: "names_held ul u" "stored u \<subseteq> set rs" "pending u \<subseteq> set vs" and req: "SafeProjectName requested"
    and name: "choose_name ul requested explicit (occupied_names ul rs vs ws) = Inr name" and v: "rv_Name v = name"
  shows "names_held ul (fst (writeReservation e v u))"
proof -
  note free = choose_name_free [OF name req]
  have proj: "rv_Name w = rv_ProjectID w" if "w \<in> pending u" for w
    using readReservation_Inr(4) [OF pending_read [OF that]] .
  have "rv_Name (json_reservation v) = name"
    using free(2) v by (simp add: json_reservation_def SafeProjectName_def SafeID_ascii)
  then have "names_ok ul (stored u) (insert (json_reservation v) (pending u))"
    using u free proj unfolding names_held_def
    by (intro names_ok_reserve [of ul _ _ name]) (auto simp: occupied_None)
  then show ?thesis
    using writeReservation_pending [of e v u] unfolding names_held_def
    by (metis names_ok_mono order_refl prod.collapse)
qed

lemma reserve_project_held:
  assumes u: "names_held ul u" "stored u \<subseteq> set rs" and req: "SafeProjectName requested"
  shows "names_held ul (fst (reserve_project ul e op source mode requested explicit ws rs u))"
proof (cases "readReservations e (se_Now e) True u")
  case (Pair t r)
  have shr: "shrinks u t" using keepsD [OF readReservations_shrinks Pair] .
  then have t: "names_held ul t" "stored t \<subseteq> set rs"
    using u names_held_shrinks by (auto simp: shrinks_def)
  show ?thesis
  proof (cases r)
    case (Inl err)
    with Pair t show ?thesis by (simp add: reserve_project_def io_bind_def)
  next
    case (Inr vs)
    with Pair have vs: "pending t \<subseteq> set vs" using readReservations_complete by blast
    have "readReservations e (se_Now e) True u = (t, Inr vs)" using Pair Inr by simp
    then show ?thesis
      unfolding reserve_project_def
      using t writeReservation_held [OF t vs req]
      by (simp add: io_bind_ok io_bind_lift Let_def split: sum.split option.split)
  qed
qed

lemma Admit_held:
  assumes e: "private_env e" and s: "names_held ul s"
  shows "names_held ul (fst (Admit ul e op source mode requested explicit ws s))"
proof (cases "op = '''' \<or> \<not> SafeID op \<or> admission_request source mode requested \<noteq> None")
  case True
  then show ?thesis using s by (auto simp: Admit_def)
next
  case False
  then have req: "SafeProjectName requested"
    by (auto simp: admission_request_def split: if_split_asm)
  have reserve: "names_held ul (fst (reserve_project ul e op source mode requested explicit ws rs u))"
    if "names_held ul u" "sd_Info u = Some y" "listUnlocked e u = Inr rs" for u y rs
    using list_stored [OF e _ that(3)] that(1,2) by (intro reserve_project_held [OF _ _ req]) simp_all
  show ?thesis
    unfolding Admit_def
    using False s
    by (auto simp: io_bind_lift reserve intro!: lock_bind_held split: sum.split option.split)
qed

text \<open>The calls that change the store.\<close>

datatype store_call =
    CallPut store_env ProjectRecord
  | CallDelete store_env string
  | CallRepair store_env
  | CallAdmit store_env string string ProjectMode string bool "string list"
  | CallFinalize store_env string ProjectRecord
  | CallAbort store_env string

fun call_env :: "store_call \<Rightarrow> store_env" where
  "call_env (CallPut e _) = e"
| "call_env (CallDelete e _) = e"
| "call_env (CallRepair e) = e"
| "call_env (CallAdmit e _ _ _ _ _ _) = e"
| "call_env (CallFinalize e _ _) = e"
| "call_env (CallAbort e _) = e"

fun store_step :: "(nat \<Rightarrow> nat) \<Rightarrow> store_call \<Rightarrow> store_dir \<Rightarrow> store_dir" where
  "store_step ul (CallPut e r) s = fst (Put ul e r s)"
| "store_step ul (CallDelete e pid) s = fst (Delete e pid s)"
| "store_step ul (CallRepair e) s = fst (RepairLegacyPermissions e s)"
| "store_step ul (CallAdmit e op source mode name explicit ws) s = fst (Admit ul e op source mode name explicit ws s)"
| "store_step ul (CallFinalize e op r) s = fst (FinalizeOperation ul e op r s)"
| "store_step ul (CallAbort e op) s = fst (AbortAdmission e op s)"

interpretation store_machine: guarded_machine "store_step ul" "names_held ul" "private_env \<circ> call_env"
proof
  fix c s
  assume "(private_env \<circ> call_env) c" and "names_held ul s"
  then show "names_held ul (store_step ul c s)"
    by (cases c) (simp_all add: Put_held FinalizeOperation_held Admit_held
        keeps_held [OF Delete_shrinks] keeps_held [OF Repair_shrinks] keeps_held [OF Abort_shrinks])
qed

lemma empty_store_held: "sd_Files s = [] \<Longrightarrow> sd_Reservations s = None \<Longrightarrow> names_held ul s"
  by (auto simp: names_held_def names_ok_def stored_def pending_def readReservation_def image_iff)


text \<open>An environment in which everything succeeds, and a run in it.\<close>

definition calm_env :: store_env where
  "calm_env =
     \<lparr>se_Mkdir = Written, se_Umask = 0, se_Lock = True, se_ReadDir = True, se_ReadReservations = True,
      se_Access = (\<lambda>_. OpensSame), se_Now = 1000, se_CreatedAt = 1000, se_Size = (\<lambda>_. 400),
      se_JournalSize = (\<lambda>_. 400), se_Put = (\<lambda>_ _. Written), se_Remove = (\<lambda>_. Written),
      se_Chmod = (\<lambda>_. Written), se_SyncDir = True, se_MkdirReservations = True,
      se_WriteReservation = Written, se_RemoveReservation = (\<lambda>_. Written), se_WriteJournal = Written,
      se_RemoveJournal = (\<lambda>_. Written), se_Foreign = False\<rparr>"

definition empty_store :: "string \<Rightarrow> store_dir" where
  "empty_store path =
     \<lparr>sd_Path = path, sd_Info = None, sd_Files = [], sd_Reservations = None, sd_Journal = None\<rparr>"

definition demo_calls :: "store_call list" where
  "demo_calls = [CallAdmit calm_env ''op1'' ''/home/u/demo'' ProjectSync ''demo'' True []]"

definition demo_reservation :: ProjectReservation where
  "demo_reservation =
     \<lparr>rv_Schema = 1, rv_OperationID = ''op1'', rv_ProjectID = ''demo'', rv_Name = ''demo'',
      rv_Source = ''/home/u/demo'', rv_Mode = ProjectSync, rv_Requested = ''demo'', rv_Explicit = True,
      rv_CreatedAt = 1000\<rparr>"

lemma demo_safe: "SafeID ''op1''" "SafeID ''demo''" "SafeProjectName ''demo''"
  by (simp_all add: SafeProjectName_def SafeID_bytes HasPrefix_def id_char_def byte_class_defs)

lemma demo_run:
  "fold (store_step ul) demo_calls (empty_store p) =
     \<lparr>sd_Path = p, sd_Info = Some \<lparr>di_Kind = Directory, di_Perm = 0x1C0, di_Owned = True\<rparr>, sd_Files = [],
      sd_Reservations = Some [(''op1.json'', ResFile (Content demo_reservation))], sd_Journal = None\<rparr>"
  using demo_safe
  by (simp add: demo_calls_def demo_reservation_def Admit_def admission_request_def lock_def
      ensurePrivateDirectory_def io_bind_def empty_store_def calm_env_def listUnlocked_def json_entries_def
      reserve_project_def readReservations_def choose_name_def occupied_names_def writeReservation_def
      json_reservation_def json_mode_def entry_name_def json_suffix_def Let_def is_ascii_def byte_def)


end
