(* ===== verification/Project_Promise.thy ===== *)
theory Project_Promise
  imports Project_Integrity
begin

text \<open>
  What a reservation promises: while it stands, the admitted project can be finalized under its name.
  Paths of reservations and records are told apart, and the two ways in which the promise or the
  records themselves can be lost are shown at the end.
\<close>

section \<open>Records survive encoding\<close>

lemma json_text_Nil [simp]: "json_text s = [] \<longleftrightarrow> s = []"
proof (cases "chunks s")
  case Nil
  then have "s = []" using concat_chunks [of s] by simp
  then show ?thesis by (simp add: json_text_def)
next
  case (Cons x xs)
  have "snd x \<noteq> [] \<and> s \<noteq> []"
    using Cons by (cases s) (auto simp: Let_def)
  with Cons show ?thesis
    by (auto simp: json_text_def encode_rune_def rune_error_def split: prod.split)
qed

lemma hex_ascii:
  assumes "list_all (\<lambda>character. character \<in> set (runes ''0123456789abcdef'')) (runes s)"
  shows "is_ascii s"
proof -
  have "r < 128" if "r \<in> set (runes ''0123456789abcdef'')" for r
    using that by (simp add: runes_def rune_width_def rune_value_def byte_def Let_def cont_def) auto
  from range_ascii [of "\<lambda>r. r \<in> set (runes ''0123456789abcdef'')", OF this] assms
  have "all_bytes (\<lambda>c. byte c \<in> set (runes ''0123456789abcdef'')) s" by simp
  with \<open>\<And>r. r \<in> set (runes ''0123456789abcdef'') \<Longrightarrow> r < 128\<close> show ?thesis
    by (auto simp: all_bytes_iff is_ascii_def)
qed

lemma SourceKey_valid:
  "length (SourceKey source) = 64"
  "list_all (\<lambda>character. character \<in> set (runes ''0123456789abcdef'')) (runes (SourceKey source))"
proof -
  have hex: "byte c \<in> set (runes ''0123456789abcdef'')" if "is_hex c" for c
  proof -
    have "set (runes ''0123456789abcdef'') = {48,49,50,51,52,53,54,55,56,57,97,98,99,100,101,102}"
      by (simp add: runes_def rune_width_def rune_value_def byte_def Let_def cont_def)
    moreover have "byte c \<in> {48,49,50,51,52,53,54,55,56,57,97,98,99,100,101,102}"
      using that by (simp add: is_hex_def is_digit_def) presburger
    ultimately show ?thesis by simp
  qed
  have "is_ascii (SourceKey source)"
    using is_hex_sha256_hex by (fastforce simp: SourceKey_def is_ascii_def is_hex_def is_digit_def)
  then show "list_all (\<lambda>character. character \<in> set (runes ''0123456789abcdef'')) (runes (SourceKey source))"
    using hex is_hex_sha256_hex by (auto simp: runes_ascii list_all_iff SourceKey_def)
qed (simp add: SourceKey_def)

lemma Validate_json:
  assumes "ProjectRecord_Validate r pid = None"
  shows "ProjectRecord_Validate (json_record r) pid = None"
proof -
  note v = assms [unfolded ProjectRecord_Validate_def Let_def guard_None]
  have pid: "is_ascii (pr_ProjectID r)" using v by (blast intro: SafeID_ascii)
  have name: "pr_IdentityVersion r = 2 \<Longrightarrow> json_text (pr_Name r) = pr_Name r" using v pid by auto
  have "is_ascii (pr_SourceKey r)" using v hex_ascii by (cases "pr_SourceKey r = ''''") (auto simp: is_ascii_def)
  moreover have "is_ascii (pr_YardPath r)"
    using ProjectRecord_Validate_facts(3) [OF assms] pid by (auto simp: is_ascii_def byte_def)
  moreover have ascii: "is_ascii ''''" "is_ascii ''yard''" by (simp_all add: is_ascii_def byte_def)
  have "pr_Target r = '''' \<or> pr_Target r = ''yard'' \<or> SafeName (pr_Target r)"
    "pr_Profile r = '''' \<or> SafeName (pr_Profile r)"
    "pr_RegistrySource r = '''' \<or> pr_RegistrySource r = ''yard''"
    using v by blast+
  then have "is_ascii (pr_Target r)" "is_ascii (pr_Profile r)" "is_ascii (pr_RegistrySource r)"
    using SafeName_ascii ascii by (metis, metis, metis)
  moreover have "pr_Mode r = ProjectSync \<or> pr_Mode r = ProjectGit \<or> pr_Mode r = ProjectBind" using v by blast
  then have "json_mode (pr_Mode r) = pr_Mode r" by (auto simp: json_mode_def)
  ultimately have j: "pr_Schema (json_record r) = pr_Schema r" "pr_IdentityVersion (json_record r) = pr_IdentityVersion r"
      "pr_ProjectID (json_record r) = pr_ProjectID r" "pr_SourceKey (json_record r) = pr_SourceKey r"
      "pr_YardPath (json_record r) = pr_YardPath r" "pr_Mode (json_record r) = pr_Mode r"
      "pr_Target (json_record r) = pr_Target r" "pr_Profile (json_record r) = pr_Profile r"
      "pr_RegistrySource (json_record r) = pr_RegistrySource r"
      "pr_Name (json_record r) = json_text (pr_Name r)" "pr_SSHHost (json_record r) = json_text (pr_SSHHost r)"
    using pid by (simp_all add: json_record_def)
  show ?thesis
    unfolding ProjectRecord_Validate_def Let_def guard_None j json_text_Nil
    using v name by metis
qed

section \<open>Records and reservations have different paths\<close>

definition well_placed :: "store_dir \<Rightarrow> bool" where
  "well_placed s \<longleftrightarrow>
     (\<exists>es. sd_Path s = slash # Join es [slash] \<and> (\<forall>e \<in> set es. plain_elem e))
     \<and> (\<forall>nf \<in> set (sd_Files s). plain_elem (fst nf))"

lemma NewFileStore_placed:
  "NewFileStore d = Inr p \<Longrightarrow> \<exists>es. p = slash # Join es [slash] \<and> (\<forall>e \<in> set es. plain_elem e)"
  by (auto simp: NewFileStore_def elim: Clean_rooted_form split: if_split_asm)

lemma plain_entry: "SafeID op \<Longrightarrow> plain_elem (entry_name op)"
  using SafeID_plain [of op] by (auto simp: plain_elem_def entry_name_def json_suffix_def)

lemma plain_reservations: "plain_elem ''.reservations''"
  by (simp add: plain_elem_def)

lemma removeReservation_files:
  assumes s: "well_placed s" and op: "SafeID op"
  shows "sd_Files (fst (removeReservation e op s)) = sd_Files s"
proof -
  obtain es where es: "sd_Path s = slash # Join es [slash]" "\<forall>e \<in> set es. plain_elem e"
    using s by (auto simp: well_placed_def)
  have "reservationPath s op = slash # Join (es @ [''.reservations'', entry_name op]) [slash]"
    using es plain_entry [OF op] plain_reservations path_Join_plain [of es "''.reservations''"]
      path_Join_plain [of "es @ [''.reservations'']" "entry_name op"]
    by (simp add: reservationPath_def)
  then have "path_Join [sd_Path s, n] \<noteq> reservationPath s op" if "plain_elem n" for n
    using es that plain_entry [OF op] plain_reservations path_Join_plain [of es n]
      rooted_inj [of "es @ [n]" "es @ [''.reservations'', entry_name op]"]
    by simp
  then have "filter (\<lambda>(n, _). path_Join [sd_Path s, n] \<noteq> reservationPath s op) (sd_Files s) = sd_Files s"
    using s by (intro filter_True) (auto simp: well_placed_def)
  then show ?thesis
    by (simp add: removeReservation_def remove_path_def Let_def split: write_outcome.split)
qed

definition same_files :: "store_dir \<Rightarrow> store_dir \<Rightarrow> bool" where
  "same_files s t \<longleftrightarrow> sd_Path t = sd_Path s \<and> sd_Info t = sd_Info s \<and> (well_placed s \<longrightarrow> sd_Files t = sd_Files s)"

lemma reflp_same_files [simp]: "reflp same_files"
  by (simp add: reflp_def same_files_def)

lemma transp_same_files [simp]: "transp same_files"
  by (auto simp: transp_def same_files_def well_placed_def)

lemma removeReservation_same_files: "SafeID op \<Longrightarrow> keeps same_files (removeReservation e op)"
  using removeReservation_files
  by (auto simp: keeps_def same_files_def removeReservation_def remove_path_def Let_def split: write_outcome.split)

lemma readReservations_same_files: "keeps same_files (readReservations e now prune)"
  by (rule readReservations_keeps) (simp_all add: removeReservation_same_files)

section \<open>A reservation is honoured\<close>

lemma reservation_loop_sound:
  assumes "reservation_loop e now prune es s = (t, Inr rs)"
  shows "set rs \<subseteq> pending s"
  using assms
proof (induction es arbitrary: s rs)
  case (Cons x es)
  obtain n entry where x: "x = (n, entry)" by force
  let ?op = "TrimSuffix n json_suffix"
  show ?case
  proof (cases "entry = ResDirectory \<or> \<not> HasSuffix n json_suffix")
    case True
    with Cons x show ?thesis by simp
  next
    case False
    show ?thesis
    proof (cases "readReservation s ?op")
      case (Inl err)
      with Cons x False show ?thesis by (simp split: if_split_asm)
    next
      case (Inr w)
      consider u where "removeReservation e ?op s = (u, Inr ())" "reservation_loop e now prune es u = (t, Inr rs)"
        | "reservation_loop e now prune es s = (t, Inr rs)"
        | us where "reservation_loop e now prune es s = (t, Inr us)" "rs = w # us"
        using Cons.prems False Inr x by (auto elim!: io_bind_InrE split: if_split_asm)
      then show ?thesis
      proof cases
        case 1
        have "set rs \<subseteq> pending u" using Cons.IH 1(2) .
        with keepsD [OF removeReservation_shrinks 1(1)] show ?thesis unfolding shrinks_def by blast
      next
        case 2
        with Cons.IH show ?thesis by blast
      next
        case 3
        with Cons.IH Inr show ?thesis by (auto simp: pending_pick)
      qed
    qed
  qed
qed simp

lemma readReservations_sound:
  assumes "readReservations e now prune s = (t, Inr rs)"
  shows "set rs \<subseteq> pending s"
proof (cases "sd_Reservations s")
  case None
  with assms show ?thesis by (simp add: readReservations_def)
next
  case (Some es)
  then obtain us where "reservation_loop e now prune (sort_key fst es) s = (t, Inr us)" "set rs = set us"
    using assms by (auto simp: readReservations_def elim!: io_bind_InrE split: if_split_asm)
  then show ?thesis using reservation_loop_sound by simp
qed

text \<open>
  The environment lets a write through: the directory is private and can be locked, every record and
  reservation can be read, the encoding of the record is not too large, and the writes succeed.
\<close>

definition serves :: "store_env \<Rightarrow> store_dir \<Rightarrow> string \<Rightarrow> ProjectRecord \<Rightarrow> bool" where
  "serves e s operationID record \<longleftrightarrow>
     lock e s = (s, Inr ()) \<and> is_ok (listUnlocked e s) \<and> is_ok (snd (readReservations e (se_Now e) True s))
     \<and> se_Put e 0 (pr_ProjectID record) = Written \<and> se_Size e record \<le> max_state_size
     \<and> list_all (\<lambda>nf. sf_Kind (snd nf) \<noteq> Directory) (sd_Files s)
     \<and> se_RemoveReservation e operationID = Written"

lemma in_update: "(k, v) \<in> set (AList.update k v xs)"
  by (induction xs) auto

lemma putUnlocked_ok:
  assumes "ProjectRecord_Validate record (pr_ProjectID record) = None" and "se_Put e k (pr_ProjectID record) = Written"
    and "se_Size e record \<le> max_state_size" and "\<forall>nf \<in> set (sd_Files s). sf_Kind (snd nf) \<noteq> Directory"
  shows "putUnlocked e k record s = (s\<lparr>sd_Files := AList.update (entry_name (pr_ProjectID record))
      (candidate_file (se_Size e record) record) (sd_Files s)\<rparr>, Inr ())"
proof -
  have "readRecord OpensSame (Some (candidate_file (se_Size e record) record)) (pr_ProjectID record)
      = Inr (json_record record)"
    using assms(3) Validate_json [OF assms(1)]
    by (simp add: readRecord_def candidate_file_def decodeRecord_def owner_rw_subset)
  moreover have "\<not> (case map_of (sd_Files s) (entry_name (pr_ProjectID record)) of
      Some g \<Rightarrow> sf_Kind g = Directory | None \<Rightarrow> False)"
    using assms(4) map_of_SomeD [of "sd_Files s" "entry_name (pr_ProjectID record)"]
    by (cases "map_of (sd_Files s) (entry_name (pr_ProjectID record))") force+
  ultimately show ?thesis using assms(2) by (simp add: putUnlocked_def Let_def)
qed

lemma finalize_name_valid:
  assumes held: "names_held ul s" and e: "private_env e" and dir: "sd_Info s \<noteq> None"
    and v: "readReservation s op = Inr v" "reservation_matches record v"
    and rs: "listUnlocked e s = Inr rs" and vs: "readReservations e (se_Now e) True s = (u, Inr vs)"
  shows "validateProjectNameUnlocked ul e record (rv_OperationID v) s = (u, Inr ())"
proof -
  note same = readReservation_Inr [OF v(1)]
  have rec: "pr_ProjectID record = rv_Name v" "pr_Name record = rv_Name v"
    using v(2) same(4) by (auto simp: reservation_matches_def)
  have vp: "v \<in> pending s" using v(1) pending_pick by blast
  have free: "\<not> name_conflict ul record c" if "c \<in> set rs" "pr_ProjectID c \<noteq> pr_ProjectID record" for c
  proof -
    have "c \<in> stored s" using list_stored [OF e dir rs] that(1) by simp
    moreover have "reservation_conflict ul c v" if "name_conflict ul record c"
      using that rec by (auto simp: name_conflict_def reservation_conflict_def ProjectNamesEqual_def)
    ultimately show ?thesis using held vp that(2) rec same(4) unfolding names_held_def names_ok_def by auto
  qed
  have kept: "\<not> reservation_conflict ul record w" if "w \<in> set vs" "rv_OperationID w \<noteq> rv_OperationID v" for w
  proof -
    have "w \<in> pending s" using readReservations_sound [OF vs] that(1) by blast
    with held vp that(2) have "\<not> ProjectNamesEqual ul (rv_Name w) (rv_Name v)"
      unfolding names_held_def names_ok_def by blast
    then show ?thesis using rec by (simp add: reservation_conflict_def)
  qed
  have "find_first (\<lambda>c. pr_ProjectID c \<noteq> pr_ProjectID record \<and> name_conflict ul record c) rs = None"
    "find_first (\<lambda>r. rv_OperationID r \<noteq> rv_OperationID v \<and> reservation_conflict ul record r) vs = None"
    unfolding find_first_None using free kept by blast+
  moreover have "SafeProjectName (pr_Name record)" using same(3,4) rec by simp
  ultimately show ?thesis
    using rs vs by (simp add: validateProjectNameUnlocked_def io_bind_lift io_bind_ok del: find_first_None)
qed

lemma finalize_goes_through:
  assumes held: "names_held ul s" and placed: "well_placed s" and e: "private_env e"
    and v: "readReservation s op = Inr v" "reservation_matches record v"
    and valid: "ProjectRecord_Validate record (pr_ProjectID record) = None" and ok: "serves e s op record"
  shows "\<exists>t. FinalizeOperation ul e op record s = (t, Inr ()) \<and> json_record record \<in> stored t \<and> v \<notin> pending t"
proof -
  let ?f = "candidate_file (se_Size e record) record" and ?n = "entry_name (pr_ProjectID record)"
  have lock: "lock e s = (s, Inr ())" and kinds: "\<forall>nf \<in> set (sd_Files s). sf_Kind (snd nf) \<noteq> Directory"
    using ok by (simp_all add: serves_def list_all_iff)
  then have dir: "sd_Info s \<noteq> None" using lock_result(3) by blast
  obtain rs u vs where rs: "listUnlocked e s = Inr rs" and vs: "readReservations e (se_Now e) True s = (u, Inr vs)"
    using ok by (auto simp: serves_def is_ok_iff) (metis prod.collapse)
  have u: "sd_Path u = sd_Path s" "sd_Files u = sd_Files s"
    using keepsD [OF readReservations_same_files vs] placed by (simp_all add: same_files_def)
  define w where "w = u\<lparr>sd_Files := AList.update ?n ?f (sd_Files u)\<rparr>"
  have put: "putUnlocked e 0 record u = (w, Inr ())"
    using putUnlocked_ok [OF valid, of e 0 u] ok kinds u by (simp add: serves_def w_def)
  have op: "rv_OperationID v = op" "SafeID op" using readReservation_Inr [OF v(1)] by simp_all
  have "SafeID (pr_ProjectID record)" using ProjectRecord_Validate_facts(1) [OF valid] .
  then have "well_placed w"
    using placed u plain_entry set_update_subset [of ?n ?f "sd_Files s"] by (force simp: well_placed_def w_def)
  obtain t where t: "removeReservation e op w = (t, Inr ())"
    using ok by (cases "remove_path (reservationPath w op) w = w")
      (simp_all add: removeReservation_def serves_def Let_def)
  have files: "sd_Files t = sd_Files w" using removeReservation_files [OF \<open>well_placed w\<close> op(2), of e] t by simp
  have "FinalizeOperation ul e op record s = (t, Inr ())"
    using valid lock v finalize_name_valid [OF held e dir v rs vs] put t op
    by (simp add: FinalizeOperation_def io_bind_ok io_bind_lift)
  moreover have "(?n, ?f) \<in> set (sd_Files t)"
    using files by (simp add: w_def in_update)
  then have "json_record record \<in> stored t"
    using Validate_json [OF valid]
    by (auto simp: stored_iff file_record_iff candidate_file_def decodeRecord_def intro!: exI [of _ ?n])
  moreover have "v \<notin> pending t"
    using removeReservation_removes [OF t] pending_read [of v t] op by auto
  ultimately show ?thesis by blast
qed

section \<open>The promise holds after any calls\<close>

definition keeps_placed :: "store_dir \<Rightarrow> store_dir \<Rightarrow> bool" where
  "keeps_placed s t \<longleftrightarrow> (well_placed s \<longrightarrow> well_placed t)"

lemma reflp_keeps_placed [simp]: "reflp keeps_placed"
  by (simp add: reflp_def keeps_placed_def)

lemma transp_keeps_placed [simp]: "transp keeps_placed"
  by (simp add: transp_def keeps_placed_def)

lemmas keeps_placed_bind = keeps_bind [OF transp_keeps_placed]

lemma placed_filesI:
  "sd_Path t = sd_Path s \<Longrightarrow> fst ` set (sd_Files t) \<subseteq> insert n (fst ` set (sd_Files s)) \<Longrightarrow> plain_elem n
    \<Longrightarrow> keeps_placed s t"
  by (force simp: keeps_placed_def well_placed_def)

lemma placed_subsetI:
  "sd_Path t = sd_Path s \<Longrightarrow> set (sd_Files t) \<subseteq> set (sd_Files s) \<Longrightarrow> keeps_placed s t"
  by (auto simp: keeps_placed_def well_placed_def)

lemma lock_placed: "keeps keeps_placed (lock e)"
  unfolding keeps_def
proof
  fix s
  show "keeps_placed s (fst (lock e s))"
    using lock_result [of e s] by (intro placed_subsetI) (metis prod.collapse order_refl)+
qed

lemma removeReservation_placed: "keeps keeps_placed (removeReservation e op)"
  unfolding keeps_def
proof
  fix s
  have "keeps_placed s (remove_path p s)" for p by (rule placed_subsetI) (auto simp: remove_path_def)
  then show "keeps_placed s (fst (removeReservation e op s))"
    using removeReservation_cases [of e op s] reflpD [OF reflp_keeps_placed] by (metis prod.collapse)
qed

lemma readReservations_placed: "keeps keeps_placed (readReservations e now prune)"
  by (rule readReservations_keeps) (simp_all add: removeReservation_placed)

lemma validateProjectName_placed: "keeps keeps_placed (validateProjectNameUnlocked ul e record ign)"
  unfolding validateProjectNameUnlocked_def
  by (auto intro!: keeps_placed_bind readReservations_placed split: option.split)

lemma putUnlocked_placed: "SafeID (pr_ProjectID record) \<Longrightarrow> keeps keeps_placed (putUnlocked e k record)"
  unfolding keeps_def
proof
  fix s :: store_dir
  let ?t = "s\<lparr>sd_Files := AList.update (entry_name (pr_ProjectID record)) (candidate_file (se_Size e record) record) (sd_Files s)\<rparr>"
  assume "SafeID (pr_ProjectID record)"
  then have "keeps_placed s ?t"
    using set_update_subset by (intro placed_filesI [OF _ _ plain_entry]) force+
  then show "keeps_placed s (fst (putUnlocked e k record s))"
    using putUnlocked_cases [of e k _ s] reflpD [OF reflp_keeps_placed] by (metis prod.collapse)
qed

lemma Put_placed: "keeps keeps_placed (Put ul e record)"
  using ProjectRecord_Validate_facts(1)
  by (auto simp: Put_def intro!: keeps_placed_bind lock_placed validateProjectName_placed putUnlocked_placed split: option.split)

lemma Finalize_placed: "keeps keeps_placed (FinalizeOperation ul e op record)"
  using ProjectRecord_Validate_facts(1)
  by (auto simp: FinalizeOperation_def removeReservation_placed
      intro!: keeps_placed_bind lock_placed validateProjectName_placed putUnlocked_placed split: option.split)

lemma writeReservation_placed: "keeps keeps_placed (writeReservation e v)"
proof -
  have "sd_Files (fst (writeReservation e v s)) = sd_Files s" "sd_Path (fst (writeReservation e v s)) = sd_Path s" for s
    by (simp_all add: writeReservation_def Let_def)
  then show ?thesis unfolding keeps_def by (simp add: placed_subsetI)
qed

lemma Admit_placed: "keeps keeps_placed (Admit ul e op source mode name explicit ws)"
  by (auto simp: Admit_def reserve_project_def Let_def
      intro!: keeps_placed_bind lock_placed readReservations_placed writeReservation_placed split: option.split)

lemma Delete_placed: "keeps keeps_placed (Delete e pid)"
proof -
  have "keeps_placed s (s\<lparr>sd_Files := AList.delete (entry_name pid) (sd_Files s)\<rparr>)" for s
    by (rule placed_subsetI) (auto simp: AList.delete_eq)
  then have "keeps keeps_placed (remove_record e pid)"
    unfolding keeps_def using reflpD [OF reflp_keeps_placed]
    by (auto simp: remove_record_def Let_def split: write_outcome.split)
  then show ?thesis by (simp add: Delete_def keeps_placed_bind lock_placed)
qed

lemma repair_loop_placed:
  "fst ` set entries \<subseteq> fst ` set (sd_Files s) \<Longrightarrow> keeps_placed s (fst (repair_loop e entries changed s))"
proof (induction e entries changed s rule: repair_loop.induct)
  case (1 e changed s)
  show ?case by (simp add: reflpD)
next
  case (2 e n f entries changed s)
  obtain g q where rep: "repairLegacyRecord (se_Access e n) (se_Chmod e n) f (TrimSuffix n json_suffix) = (g, q)"
    by force
  let ?u = "s\<lparr>sd_Files := AList.update n g (sd_Files s)\<rparr>"
  have same: "fst ` set (AList.update n g (sd_Files s)) = fst ` set (sd_Files s)"
    using "2.prems" by (simp add: dom_update insert_absorb)
  have "(\<forall>nf \<in> set (AList.update n g (sd_Files s)). plain_elem (fst nf)) \<longleftrightarrow> (\<forall>nf \<in> set (sd_Files s). plain_elem (fst nf))"
    using arg_cong [OF same, of "\<lambda>A. \<forall>m \<in> A. plain_elem m"] by simp
  then have u: "keeps_placed s ?u" by (simp add: keeps_placed_def well_placed_def)
  show ?case
  proof (cases q)
    case (Inl err)
    with rep u show ?thesis by simp
  next
    case (Inr b)
    have "keeps_placed ?u (fst (repair_loop e entries (changed \<or> b) ?u))"
      using "2.IH" [OF rep [symmetric] Inr] "2.prems" same by simp
    with rep Inr u show ?thesis by (simp add: keeps_placed_def)
  qed
qed

lemma Repair_placed: "keeps keeps_placed (RepairLegacyPermissions e)"
proof -
  have "keeps_placed s (fst (repair_loop e (json_entries s) False s))" for s
    by (rule repair_loop_placed) (auto simp: json_entries_def)
  then have "keeps keeps_placed (repair_records e)"
    unfolding keeps_def by (auto simp: repair_records_def io_bind_def reflpD split: prod.split sum.split) (metis fst_conv)+
  then have "keeps keeps_placed (io_bind (lock e) (\<lambda>_. repair_records e))"
    by (simp add: keeps_placed_bind lock_placed)
  then show ?thesis by (simp add: keeps_def RepairLegacyPermissions_def reflpD)
qed

interpretation placed_machine: invariant_machine "store_step ul" well_placed
proof
  fix c s
  assume "well_placed s"
  have abort: "keeps keeps_placed (AbortAdmission e op)" for e op
    by (auto simp: AbortAdmission_def intro!: keeps_placed_bind lock_placed removeReservation_placed)
  have "keeps_placed s (store_step ul c s)"
    using Put_placed Delete_placed Repair_placed Admit_placed Finalize_placed abort
    by (cases c) (simp_all add: keeps_def)
  with \<open>well_placed s\<close> show "well_placed (store_step ul c s)" by (simp add: keeps_placed_def)
qed


definition demo_record :: ProjectRecord where
  "demo_record =
     \<lparr>pr_Schema = 1, pr_IdentityVersion = 2, pr_ProjectID = ''demo'', pr_Name = ''demo'',
      pr_HostPath = ''/home/u/demo'', pr_SourceKey = SourceKey ''/home/u/demo'',
      pr_YardPath = ''/srv/workspaces/demo/src'', pr_Mode = ProjectSync, pr_SSHHost = ''yard'',
      pr_ImportedAt = '''', pr_Target = '''', pr_Profile = '''', pr_RegistrySource = ''''\<rparr>"

lemma demo_record_valid: "ProjectRecord_Validate demo_record ''demo'' = None"
  using demo_safe SourceKey_valid [of "''/home/u/demo''"] path_Join_workspace [OF SafeID_plain [OF demo_safe(2)]]
  by (simp add: ProjectRecord_Validate_def Let_def demo_record_def)

lemma demo_read:
  "readReservation (fold (store_step ul) demo_calls (empty_store p)) ''op1'' = Inr demo_reservation"
  using demo_safe
  by (simp add: demo_run readReservation_def entry_name_def json_suffix_def demo_reservation_def)

lemma demo_serves: "serves calm_env (fold (store_step ul) demo_calls (empty_store p)) ''op1'' demo_record"
proof -
  have "rv_CreatedAt demo_reservation = 1000" by (simp add: demo_reservation_def)
  then show ?thesis
    using demo_read [of ul p]
    by (simp add: serves_def demo_run lock_def ensurePrivateDirectory_def io_bind_def calm_env_def listUnlocked_def
      json_entries_def readReservations_def group_or_other_def max_state_size_def HasSuffix_def suffix_def
      json_suffix_def TrimSuffix_def time_sub_def reservationTTL_def min_int64_def max_int64_def)
qed


section \<open>Two defects\<close>

text \<open>
  Aborting does not check the operation ID, which becomes part of a path: an ID that steps out of
  the reservation directory removes the record of a project.
\<close>

theorem abort_can_remove_a_record:
  assumes "well_placed s" and "SafeID pid" and "lookup_file s pid \<noteq> None" and "lock e s = (s, Inr ())"
    and "se_RemoveReservation e (''../'' @ pid) = Written"
  shows "\<exists>t. AbortAdmission e (''../'' @ pid) s = (t, Inr ()) \<and> lookup_file t pid = None"
proof -
  let ?op = "''../'' @ pid"
  obtain es where es: "sd_Path s = slash # Join es [slash]" "\<forall>e \<in> set es. plain_elem e"
    using assms(1) by (auto simp: well_placed_def)
  have n: "slash \<notin> set (entry_name pid)" "plain_elem (entry_name pid)"
    using plain_entry [OF assms(2)] by (simp_all add: plain_elem_def)
  have split: "Split (entry_name ?op) slash = [''..'', entry_name pid]"
    using n(1) Split_append [of slash "''..''" "entry_name pid"] by (simp add: entry_name_def Split_no_sep)
  have "reservationPath s ?op = slash # Join (clean_elems True (rev (es @ [''.reservations''])) (Split (entry_name ?op) slash)) [slash]"
    using es plain_reservations path_Join_plain [OF es(2) plain_reservations]
      path_Join_rooted [of "es @ [''.reservations'']" "entry_name ?op"]
    by (simp add: reservationPath_def entry_name_def)
  also have "\<dots> = path_Join [sd_Path s, entry_name pid]"
    unfolding split using es n(2) path_Join_plain [OF es(2) n(2)] by (simp add: plain_elem_def)
  finally have path: "reservationPath s ?op = path_Join [sd_Path s, entry_name pid]" .
  let ?t = "remove_path (reservationPath s ?op) s"
  have none: "lookup_file ?t pid = None"
    unfolding path by (simp add: lookup_file_def remove_path_def map_of_filter_key)
  then have "?t \<noteq> s" using assms(3) by metis
  then have "removeReservation e ?op s = (?t, Inr ())"
    using assms(5) by (simp add: removeReservation_def Let_def)
  with none assms(4) show ?thesis by (simp add: AbortAdmission_def io_bind_ok)
qed

text \<open>
  A source path is stored in the reservation as JSON text, where bytes that are not valid UTF-8 are
  replaced; finalizing compares it with the path itself.  Such a source can be admitted but never
  finalized.
\<close>

lemma json_text_same: "json_text s = s \<longleftrightarrow> ValidString s"
proof
  let ?f = "\<lambda>p. if fst p = rune_error \<and> length (snd p) = 1 then encode_rune rune_error else snd p"
  have eq: "json_text s = concat (map ?f (chunks s))"
    by (simp add: json_text_def case_prod_unfold)
  have le: "length (snd p) \<le> length (?f p)" for p by (simp add: encode_rune_def rune_error_def)
  have sum: "length (concat (map snd cs)) \<le> length (concat (map ?f cs))
      \<and> (length (concat (map ?f cs)) = length (concat (map snd cs))
           \<longrightarrow> list_all (\<lambda>(r, bs). \<not> (r = rune_error \<and> length bs = 1)) cs)" for cs
  proof (induction cs)
    case (Cons p cs)
    then show ?case using le [of p]
      by (cases p) (auto simp: encode_rune_def rune_error_def)
  qed simp
  assume "json_text s = s"
  then have "length (concat (map ?f (chunks s))) = length (concat (map snd (chunks s)))"
    using eq by simp
  with sum show "ValidString s" unfolding ValidString_def by blast
qed (rule json_text_valid)

lemma written_reservation:
  assumes "readReservation s (rv_OperationID v) = Inl NotExist" and "writeReservation e v s = (t, Inr ())"
    and "readReservation t (rv_OperationID v) = Inr w"
  shows "w = json_reservation v"
proof -
  let ?n = "entry_name (rv_OperationID v)"
  let ?entries = "case sd_Reservations s of None \<Rightarrow> [] | Some es \<Rightarrow> es"
  let ?s1 = "s\<lparr>sd_Reservations := Some ?entries\<rparr>"
  have "readReservation ?s1 (rv_OperationID v) = readReservation s (rv_OperationID v)"
    by (rule readReservation_cong) (simp split: option.split)
  then have "map_of ?entries ?n = None"
    "t = s\<lparr>sd_Reservations := Some (?entries @ [(?n, ResFile (Content (json_reservation v)))])\<rparr>"
    using assms(1,2) by (auto simp: writeReservation_def Let_def split: if_split_asm)
  with readReservation_Inr(5) [OF assms(3)] show ?thesis
    by (auto simp: map_add_def split: option.split_asm)
qed

theorem undecodable_source_is_never_finalized:
  assumes "\<not> ValidString (pr_HostPath r)" and "rv_Source v = pr_HostPath r"
    and "readReservation s (rv_OperationID v) = Inl NotExist" and "writeReservation e v s = (t, Inr ())"
  shows "\<not> is_ok (snd (FinalizeOperation ul e' (rv_OperationID v) r t))"
proof
  assume "is_ok (snd (FinalizeOperation ul e' (rv_OperationID v) r t))"
  then obtain z where "FinalizeOperation ul e' (rv_OperationID v) r t = (z, Inr ())"
    by (metis is_ok_iff old.unit.exhaust prod.collapse)
  then obtain u w where "lock e' t = (u, Inr ())" "readReservation u (rv_OperationID v) = Inr w" "reservation_matches r w"
    by (auto simp: FinalizeOperation_def elim!: io_bind_InrE split: option.split_asm if_split_asm)
  moreover from this have "readReservation t (rv_OperationID v) = Inr w"
    using lock_result(2) readReservation_cong by metis
  then have "rv_Source w = json_text (rv_Source v)"
    using written_reservation [OF assms(3,4)] by (simp add: json_reservation_def)
  ultimately have "pr_HostPath r = json_text (pr_HostPath r)"
    using assms(2) by (simp add: reservation_matches_def)
  with assms(1) json_text_same show False by metis
qed

end
