(* ===== verification/Project_View.thy ===== *)
theory Project_View
  imports Project_Promise
begin

text \<open>
  The project store as a map from project IDs to records: what each operation of the file store does
  to that map, whatever fails on the way.
\<close>

text \<open>
  File names are distinct and name their project; a file called just \<open>.json\<close> would be read without
  comparing the identifier of its record.
\<close>

definition well_named :: "store_dir \<Rightarrow> bool" where
  "well_named s \<longleftrightarrow> well_placed s \<and> distinct (map fst (sd_Files s)) \<and> json_suffix \<notin> fst ` set (sd_Files s)"

definition view :: "store_dir \<Rightarrow> string \<Rightarrow> ProjectRecord option" where
  "view s pid = Option.bind (lookup_file s pid) (\<lambda>f. file_record (entry_name pid, f))"

lemma file_record_id:
  assumes "file_record (n, f) = Some r" and "n \<noteq> json_suffix"
  shows "n = entry_name (pr_ProjectID r)" "SafeID (pr_ProjectID r)"
    "ProjectRecord_Validate r (pr_ProjectID r) = None"
proof -
  have suffix: "HasSuffix n json_suffix" and dec: "decodeRecord (sf_Body f) (TrimSuffix n json_suffix) = Inr r"
    using assms(1) by (auto simp: file_record_iff)
  obtain pid where n: "n = entry_name pid"
    using suffix by (auto simp: HasSuffix_def suffix_def entry_name_def)
  then have "pid \<noteq> ''''" using assms(2) by (auto simp: entry_name_def)
  moreover have v: "ProjectRecord_Validate r pid = None"
    using dec n by (auto simp: decodeRecord_def split: file_body.split_asm option.split_asm)
  ultimately show "n = entry_name (pr_ProjectID r)" "SafeID (pr_ProjectID r)" "ProjectRecord_Validate r (pr_ProjectID r) = None"
    using n ProjectRecord_Validate_facts(1,2) [OF v] Validate_expected [OF v] by auto
qed

lemma view_id:
  assumes "view s pid = Some r" and "pid \<noteq> ''''"
  shows "pr_ProjectID r = pid" "SafeID pid" "ProjectRecord_Validate r pid = None"
proof -
  obtain f where "file_record (entry_name pid, f) = Some r"
    using assms(1) by (auto simp: view_def bind_eq_Some_conv)
  moreover have "entry_name pid \<noteq> json_suffix" using assms(2) by (simp add: entry_name_def)
  ultimately show "pr_ProjectID r = pid" "SafeID pid" "ProjectRecord_Validate r pid = None"
    using file_record_id by fastforce+
qed

lemma stored_view:
  assumes "well_named s"
  shows "r \<in> stored s \<longleftrightarrow> view s (pr_ProjectID r) = Some r"
proof
  assume "r \<in> stored s"
  then obtain n f where f: "(n, f) \<in> set (sd_Files s)" "file_record (n, f) = Some r" by (auto simp: stored_iff)
  have "n \<noteq> json_suffix" using assms f(1) by (force simp: well_named_def)
  then have "n = entry_name (pr_ProjectID r)" using file_record_id f(2) by blast
  moreover have "map_of (sd_Files s) n = Some f" using assms f(1) by (simp add: well_named_def)
  ultimately show "view s (pr_ProjectID r) = Some r" using f(2) by (simp add: view_def lookup_file_def)
next
  assume "view s (pr_ProjectID r) = Some r"
  then show "r \<in> stored s"
    by (auto simp: view_def lookup_file_def stored_iff bind_eq_Some_conv dest!: map_of_SomeD)
qed

lemma view_cong: "sd_Files t = sd_Files s \<Longrightarrow> view t = view s"
  by (simp add: view_def lookup_file_def fun_eq_iff)

lemma well_named_cong: "sd_Files t = sd_Files s \<Longrightarrow> sd_Path t = sd_Path s \<Longrightarrow> well_named t = well_named s"
  by (simp add: well_named_def well_placed_def)

section \<open>Operations on the map\<close>

text \<open>Steps that leave the map as it is.\<close>

definition same_view :: "store_dir \<Rightarrow> store_dir \<Rightarrow> bool" where
  "same_view s t \<longleftrightarrow> (well_named s \<longrightarrow> well_named t \<and> view t = view s)"

lemma reflp_same_view [simp]: "reflp same_view"
  by (simp add: reflp_def same_view_def)

lemma transp_same_view [simp]: "transp same_view"
  by (auto simp: transp_def same_view_def)

lemmas same_view_bind = keeps_bind [OF transp_same_view]

lemma lock_same_view: "keeps same_view (lock e)"
  unfolding keeps_def
proof
  fix s
  obtain t r where t: "lock e s = (t, r)" by force
  show "same_view s (fst (lock e s))"
    using lock_result(1,4) [OF t] view_cong [of t s] well_named_cong [of t s] t by (simp add: same_view_def)
qed

lemma same_files_view: "same_files s t \<Longrightarrow> same_view s t"
  using view_cong [of t s] well_named_cong [of t s] by (auto simp: same_files_def same_view_def well_named_def)

lemma readReservations_same_view: "keeps same_view (readReservations e now prune)"
  using readReservations_same_files same_files_view by (auto simp: keeps_def)

lemma validateProjectName_same_view: "keeps same_view (validateProjectNameUnlocked ul e record ign)"
  unfolding validateProjectNameUnlocked_def
  by (auto intro!: same_view_bind readReservations_same_view split: option.split)

lemma json_suffix_entry: "SafeID pid \<Longrightarrow> entry_name pid \<noteq> json_suffix"
  by (auto simp: entry_name_def SafeID_bytes)

lemma map_of_update: "map_of (AList.update k v xs) = (map_of xs)(k \<mapsto> v)"
  by (rule update_conv')

lemma map_of_delete: "map_of (AList.delete k xs) = (map_of xs)(k := None)"
  by (simp add: delete_conv')

lemma putUnlocked_view:
  assumes put: "putUnlocked e k r s = (t, x)" and safe: "SafeID (pr_ProjectID r)" and s: "well_named s"
  shows "well_named t"
    and "view t = view s \<and> (\<exists>err. x = Inl err) \<or> view t = (view s)(pr_ProjectID r \<mapsto> json_record r)"
    and "sd_Journal t = sd_Journal s" "sd_Info t = sd_Info s"
proof -
  let ?f = "candidate_file (se_Size e r) r" and ?n = "entry_name (pr_ProjectID r)"
  let ?t = "s\<lparr>sd_Files := AList.update ?n ?f (sd_Files s)\<rparr>"
  have cases: "t = s \<and> (\<exists>err. x = Inl err)
      \<or> t = ?t \<and> readRecord OpensSame (Some ?f) (pr_ProjectID r) = Inr (json_record r)"
    using put by (auto simp: putUnlocked_def Let_def readRecord_def candidate_file_def decodeRecord_def
        split: if_split_asm sum.split_asm option.split_asm)
  have "well_placed ?t"
    using putUnlocked_placed [OF safe] s set_update_subset [of ?n ?f "sd_Files s"] plain_entry [OF safe]
    by (force simp: well_named_def well_placed_def)
  then have "well_named ?t"
    using s set_update_subset [of ?n ?f "sd_Files s"] json_suffix_entry [OF safe]
    by (force simp: well_named_def distinct_update)
  moreover have "view ?t = (view s)(pr_ProjectID r \<mapsto> json_record r)"
    if "readRecord OpensSame (Some ?f) (pr_ProjectID r) = Inr (json_record r)"
  proof -
    have "file_record (?n, ?f) = Some (json_record r)"
      using readRecord_Inr [OF that] by (simp add: file_record_iff)
    then show ?thesis by (auto simp: view_def lookup_file_def map_of_update fun_eq_iff)
  qed
  ultimately show "well_named t"
    "view t = view s \<and> (\<exists>err. x = Inl err) \<or> view t = (view s)(pr_ProjectID r \<mapsto> json_record r)"
    using cases s by auto
  show "sd_Journal t = sd_Journal s" "sd_Info t = sd_Info s" using cases by auto
qed

lemma Put_view:
  assumes put: "Put ul e r s = (t, x)" and s: "well_named s"
  shows "well_named t \<and> (view t = view s \<and> (\<exists>err. x = Inl err) \<or> view t = (view s)(pr_ProjectID r \<mapsto> json_record r))"
proof (cases "ProjectRecord_Validate r (pr_ProjectID r)")
  case (Some err)
  with put s show ?thesis by (auto simp: Put_def)
next
  case None
  have pre: "keeps same_view (io_bind (lock e) (\<lambda>_. validateProjectNameUnlocked ul e r ''''))"
    by (simp add: same_view_bind lock_same_view validateProjectName_same_view)
  have "io_bind (io_bind (lock e) (\<lambda>_. validateProjectNameUnlocked ul e r '''')) (\<lambda>_. putUnlocked e 0 r) s = (t, x)"
    using put None by (simp add: Put_def io_bind_assoc)
  then show ?thesis
  proof (cases rule: io_bind_cases)
    case (err y)
    with keepsD [OF pre err(1)] s show ?thesis by (simp add: same_view_def)
  next
    case (ok u a)
    with keepsD [OF pre ok(1)] s have u: "well_named u" "view u = view s" by (simp_all add: same_view_def)
    from putUnlocked_view(1,2) [OF ok(2) ProjectRecord_Validate_facts(1) [OF None] u(1)] u(2) show ?thesis by simp
  qed
qed

lemma remove_record_view:
  assumes "remove_record e pid s = (t, x)" and s: "well_named s"
  shows "well_named t \<and> (view t = view s \<and> (\<exists>err. x = Inl err) \<or> view t = (view s)(pid := None))"
proof -
  let ?t = "s\<lparr>sd_Files := AList.delete (entry_name pid) (sd_Files s)\<rparr>"
  have "well_named ?t" using s by (auto simp: well_named_def well_placed_def AList.delete_eq distinct_map_filter)
  moreover have "view ?t = (view s)(pid := None)"
    by (auto simp: view_def lookup_file_def map_of_delete fun_eq_iff)
  moreover have "view s = (view s)(pid := None)" if "lookup_file s pid = None"
    using that by (auto simp: view_def fun_eq_iff)
  ultimately show ?thesis
    using assms by (auto simp: remove_record_def Let_def split: if_split_asm write_outcome.split_asm)
qed

lemma Delete_view:
  assumes "Delete e pid s = (t, x)" and s: "well_named s"
  shows "well_named t \<and> (view t = view s \<and> (\<exists>err. x = Inl err) \<or> view t = (view s)(pid := None))"
proof (cases "SafeID pid")
  case False
  with assms show ?thesis by (auto simp: Delete_def)
next
  case True
  then have "io_bind (lock e) (\<lambda>_. remove_record e pid) s = (t, x)" using assms by (simp add: Delete_def)
  then show ?thesis
  proof (cases rule: io_bind_cases)
    case (err y)
    with keepsD [OF lock_same_view err(1)] s show ?thesis by (simp add: same_view_def)
  next
    case (ok u a)
    with keepsD [OF lock_same_view ok(1)] s have "well_named u" "view u = view s" by (simp_all add: same_view_def)
    with remove_record_view [OF ok(2)] show ?thesis by simp
  qed
qed

lemma Get_view:
  assumes get: "Get e pid s = (t, x)" and s: "well_named s" and e: "private_env e"
  shows "well_named t \<and> view t = view s \<and> (\<forall>r. x = Inr r \<longrightarrow> view s pid = Some r)
    \<and> (\<forall>q. x = Inl (NotFound q) \<longrightarrow> view s pid = None)"
proof (cases "SafeID pid")
  case False
  with get s show ?thesis by (auto simp: Get_def)
next
  case True
  then have "io_bind (lock e) (\<lambda>_. io_lift (\<lambda>s. not_found pid (readRecord (se_Access e (entry_name pid)) (lookup_file s pid) pid))) s = (t, x)"
    using get by (simp add: Get_def)
  then show ?thesis
  proof (cases rule: io_bind_cases)
    case (err y)
    then have "y \<noteq> NotFound q" for q
      by (auto simp: lock_def ensurePrivateDirectory_def io_bind_def
          split: option.split_asm if_split_asm write_outcome.split_asm)
    with err keepsD [OF lock_same_view err(1)] s show ?thesis by (auto simp: same_view_def)
  next
    case (ok u a)
    with keepsD [OF lock_same_view ok(1)] s have u: "well_named u" "view u = view s" by (simp_all add: same_view_def)
    have t: "t = u" and x: "x = not_found pid (readRecord (se_Access e (entry_name pid)) (lookup_file u pid) pid)"
      using ok(2) by auto
    have "view u pid = Some r" if "x = Inr r" for r
      using that x e readRecord_Inr [of "se_Access e (entry_name pid)" _ pid r]
      by (auto simp: not_found_def readRecord_def view_def file_record_iff private_env_def split: if_split_asm option.split_asm)
    moreover have "view u pid = None" if "x = Inl (NotFound q)" for q
      using that x by (auto simp: not_found_def readRecord_def view_def decodeRecord_def
          split: if_split_asm option.split_asm access.split_asm file_body.split_asm)
    ultimately show ?thesis using t u by auto
  qed
qed

lemma List_view:
  assumes "List e s = (t, x)" and s: "well_named s" and e: "private_env e"
  shows "well_named t \<and> view t = view s \<and> (\<forall>rs. x = Inr rs \<longrightarrow> (\<forall>r. r \<in> set rs \<longleftrightarrow> view s (pr_ProjectID r) = Some r))"
proof -
  have "io_bind (lock e) (\<lambda>_. io_lift (listUnlocked e)) s = (t, x)" using assms(1) by (simp add: List_def)
  then show ?thesis
  proof (cases rule: io_bind_cases)
    case (err y)
    with keepsD [OF lock_same_view err(1)] s show ?thesis by (simp add: same_view_def)
  next
    case (ok u a)
    with keepsD [OF lock_same_view ok(1)] s have u: "well_named u" "view u = view s" by (simp_all add: same_view_def)
    have "sd_Info u \<noteq> None" using ok(1) lock_result(3) by simp
    with ok(2) u list_stored [OF e] stored_view [OF u(1)] show ?thesis by auto
  qed
qed

lemma listUnlocked_ids:
  assumes "listUnlocked e s = Inr rs" and s: "well_named s" and e: "private_env e"
  shows "distinct (map pr_ProjectID rs)"
proof (cases "sd_Info s")
  case None
  then show ?thesis using assms(1) by (simp add: listUnlocked_def)
next
  case (Some info)
  let ?read = "\<lambda>(n, f). readRecord (se_Access e n) (Some f) (TrimSuffix n json_suffix)"
  obtain us where us: "list_all2 (\<lambda>x y. ?read x = Inr y) (json_entries s) us" and rs: "rs = sort_key pr_ProjectID us"
    using assms(1) Some by (auto simp: listUnlocked_def res_bind_Inr map_res_Inr split: if_split_asm)
  have "map fst (json_entries s) = map (entry_name \<circ> pr_ProjectID) us"
  proof (rule nth_equalityI)
    show "length (map fst (json_entries s)) = length (map (entry_name \<circ> pr_ProjectID) us)"
      using us by (simp add: list_all2_lengthD)
    fix i
    assume i: "i < length (map fst (json_entries s))"
    obtain n f where nf: "json_entries s ! i = (n, f)" by force
    have "(n, f) \<in> set (json_entries s)" using i nf nth_mem [of i "json_entries s"] by simp
    then have mem: "(n, f) \<in> set (sd_Files s)" and suffix: "HasSuffix n json_suffix" by (auto simp: json_entries_def)
    have "readRecord (se_Access e n) (Some f) (TrimSuffix n json_suffix) = Inr (us ! i)"
      using list_all2_nthD [OF us, of i] i nf by simp
    then have "file_record (n, f) = Some (us ! i)"
      using readRecord_Inr e suffix unfolding file_record_iff private_env_def by blast
    moreover have "n \<noteq> json_suffix" using mem s by (force simp: well_named_def)
    ultimately have "n = entry_name (pr_ProjectID (us ! i))" by (rule file_record_id)
    then show "map fst (json_entries s) ! i = map (entry_name \<circ> pr_ProjectID) us ! i"
      using i nf us by (simp add: list_all2_lengthD)
  qed
  moreover have "distinct (map fst (json_entries s))"
  proof -
    have "distinct (map fst (sort_key fst (sd_Files s)))"
      using s unfolding well_named_def by (metis distinct_map mset_eq_imp_distinct_iff mset_sort set_sort)
    then show ?thesis unfolding json_entries_def by (rule distinct_map_filter)
  qed
  ultimately have "distinct (map (entry_name \<circ> pr_ProjectID) us)" by simp
  then have "distinct (map pr_ProjectID us)" by (simp add: distinct_map comp_inj_on_iff inj_on_def)
  then show ?thesis
    unfolding rs by (metis distinct_map mset_eq_imp_distinct_iff mset_sort set_sort)
qed

lemma view_Nil: "well_named s \<Longrightarrow> view s '''' = None"
  by (auto simp: view_def lookup_file_def entry_name_def well_named_def bind_eq_None_conv map_of_eq_None_iff split: option.split)

section \<open>A store with one record\<close>

definition shell_state :: store_dir where
  "shell_state =
     \<lparr>sd_Path = ''/state'', sd_Info = Some \<lparr>di_Kind = Directory, di_Perm = 0x1C0, di_Owned = True\<rparr>,
      sd_Files = [(''demo.json'', shell_file\<lparr>sf_Perm := owner_rw\<rparr>)], sd_Reservations = None, sd_Journal = None\<rparr>"

lemma shell_state_named: "well_named shell_state"
proof -
  have "''/state'' = slash # Join [''state''] [slash]" by simp
  then have "\<exists>es. ''/state'' = slash # Join es [slash] \<and> (\<forall>e \<in> set es. plain_elem e)"
    by (intro exI [of _ "[''state'']"]) (simp add: plain_elem_def)
  then show ?thesis
    by (simp add: well_named_def well_placed_def shell_state_def plain_elem_def json_suffix_def)
qed

lemma shell_file_record: "file_record (''demo.json'', shell_file\<lparr>sf_Perm := p\<rparr>) = Some shell_record"
proof -
  have "''demo.json'' = entry_name ''demo''" by (simp add: entry_name_def json_suffix_def)
  then show ?thesis
    using HasSuffix_entry [of "''demo''"] TrimSuffix_entry [of "''demo''"] shell_record_valid
    by (simp add: file_record_iff shell_file_def decodeRecord_def)
qed

lemma shell_view: "view shell_state = [''demo'' \<mapsto> shell_record]"
proof
  fix pid
  have "entry_name pid = ''demo.json'' \<longleftrightarrow> pid = ''demo''"
    using entry_name_inj [of pid "''demo''"] by (simp add: entry_name_def json_suffix_def)
  then show "view shell_state pid = [''demo'' \<mapsto> shell_record] pid"
    using shell_file_record by (auto simp: view_def lookup_file_def shell_state_def)
qed

lemma shell_stored: "stored shell_state = {shell_record}"
  using shell_file_record by (simp add: stored_def shell_state_def)

lemma shell_held: "names_held ul shell_state"
  unfolding names_held_def names_ok_def shell_stored
  by (simp add: pending_def readReservation_def shell_state_def image_iff)

lemma shell_lock: "lock calm_env shell_state = (shell_state, Inr ())"
  by (simp add: lock_def ensurePrivateDirectory_def io_bind_def shell_state_def calm_env_def group_or_other_def)

lemma shell_read: "readRecord OpensSame (Some (shell_file\<lparr>sf_Perm := owner_rw\<rparr>)) ''demo'' = Inr shell_record"
  using shell_record_valid
  by (simp add: readRecord_def shell_file_def owner_rw_def group_or_other_def max_state_size_def decodeRecord_def)

lemma shell_list: "listUnlocked calm_env shell_state = Inr [shell_record]"
proof -
  have "''demo.json'' = entry_name ''demo''" by (simp add: entry_name_def json_suffix_def)
  then have "HasSuffix ''demo.json'' json_suffix" "TrimSuffix ''demo.json'' json_suffix = ''demo''"
    using HasSuffix_entry [of "''demo''"] TrimSuffix_entry [of "''demo''"] by simp_all
  then show ?thesis
    using shell_read by (simp add: listUnlocked_def json_entries_def shell_state_def calm_env_def shell_file_def)
qed

end
