(* ===== verification/Project_Service.thy ===== *)
theory Project_Service
  imports Project_Migration Project_View
begin

text \<open>
  The project service and the resolver (\<open>internal/state/service.go\<close>, \<open>internal/state/resolver.go\<close>)
  over the store interface \<open>ports.ProjectStore\<close>, which is a record of functions here.  Its laws are a
  locale; the file store satisfies them.
\<close>

section \<open>The store interface\<close>

record ('s, 'e) ProjectStore =
  ps_List :: "('s, 'e, ProjectRecord list) io"
  ps_Get :: "string \<Rightarrow> ('s, 'e, ProjectRecord) io"
  ps_Put :: "ProjectRecord \<Rightarrow> ('s, 'e, unit) io"
  ps_Delete :: "string \<Rightarrow> ('s, 'e, unit) io"
  ps_NotFound :: "'e \<Rightarrow> bool"
  ps_Converge :: "(ProjectRecord \<Rightarrow> string \<Rightarrow> ('s, 'e, unit) io) option"

datatype 'e service_error =
    StoreError 'e
  | StoreRequired
  | UnsupportedField string
  | InvalidName
  | NameTaken string string
  | StaleRename string string string
  | SourceKeyRequired
  | SourceChanged

definition from_store :: "('s, 'e, 'a) io \<Rightarrow> ('s, 'e service_error, 'a) io" where
  "from_store m s = (case m s of (t, Inl err) \<Rightarrow> (t, Inl (StoreError err)) | (t, Inr a) \<Rightarrow> (t, Inr a))"

text \<open>A call whose error the caller inspects.\<close>

definition attempt :: "('s, 'e, 'a) io \<Rightarrow> ('s, 'f, 'e + 'a) io" where
  "attempt m s = (fst (m s), Inr (snd (m s)))"

section \<open>The service\<close>

definition Service_Validate :: "('s, 'e) ProjectStore option \<Rightarrow> ('s, 'e service_error, unit) io" where
  "Service_Validate store =
     (case store of
        None \<Rightarrow> io_fail StoreRequired
      | Some st \<Rightarrow> io_bind (from_store (ps_List st)) (\<lambda>_. io_return ()))"

definition Service_Write ::
  "('s, 'e) ProjectStore \<Rightarrow> string \<Rightarrow> string \<Rightarrow> string \<Rightarrow> string \<Rightarrow> ProjectMode \<Rightarrow> string \<Rightarrow> string
     \<Rightarrow> ('s, 'e service_error, unit) io" where
  "Service_Write st pid name hostPath yardPath mode sshHost importedAt =
     from_store (ps_Put st
       \<lparr>pr_Schema = 1, pr_IdentityVersion = 0, pr_ProjectID = pid, pr_Name = name, pr_HostPath = hostPath,
        pr_SourceKey = '''', pr_YardPath = yardPath, pr_Mode = mode, pr_SSHHost = sshHost,
        pr_ImportedAt = importedAt, pr_Target = '''', pr_Profile = '''', pr_RegistrySource = ''''\<rparr>)"

definition set_field :: "string \<Rightarrow> string \<Rightarrow> ProjectRecord \<Rightarrow> ProjectRecord option" where
  "set_field field value r =
     (if field = ''target'' then Some (r\<lparr>pr_Target := value\<rparr>)
      else if field = ''profile'' then Some (r\<lparr>pr_Profile := value\<rparr>)
      else if field = ''registrySource'' then Some (r\<lparr>pr_RegistrySource := value\<rparr>)
      else None)"

definition Service_Set ::
  "('s, 'e) ProjectStore \<Rightarrow> string \<Rightarrow> string \<Rightarrow> string \<Rightarrow> ('s, 'e service_error, unit) io" where
  "Service_Set st pid field value =
     io_bind (from_store (ps_Get st pid)) (\<lambda>r.
     case set_field field value r of
       None \<Rightarrow> io_fail (UnsupportedField field)
     | Some r' \<Rightarrow> from_store (ps_Put st r'))"

text \<open>The record that \<open>UpsertProject\<close> writes, from the stored one or a new one.\<close>

definition upserted ::
  "string \<Rightarrow> ProjectRecord \<Rightarrow> string \<Rightarrow> ProjectMode \<Rightarrow> string \<Rightarrow> string \<Rightarrow> string \<Rightarrow> string \<Rightarrow> int
     \<Rightarrow> ProjectRecord" where
  "upserted pid r name mode target sshHost hostPath importedAt identityVersion =
     (let r1 = r\<lparr>pr_Name := name\<rparr>;
          r2 = (if identityVersion \<noteq> 0 then r1\<lparr>pr_IdentityVersion := identityVersion\<rparr> else r1);
          r3 = r2\<lparr>pr_Mode := mode, pr_Target := target,
                 pr_Profile := (if target \<noteq> '''' \<and> target \<noteq> ''yard'' then target else ''''),
                 pr_YardPath := YardPath pid, pr_SSHHost := sshHost\<rparr>;
          r4 = (if hostPath \<noteq> '''' then r3\<lparr>pr_HostPath := hostPath, pr_SourceKey := SourceKey hostPath\<rparr> else r3);
          r5 = (if importedAt \<noteq> '''' then r4\<lparr>pr_ImportedAt := importedAt\<rparr> else r4)
      in r5\<lparr>pr_RegistrySource := (if pr_HostPath r5 = '''' then ''yard'' else '''')\<rparr>)"

definition new_record :: "string \<Rightarrow> ProjectRecord" where
  "new_record pid =
     \<lparr>pr_Schema = 1, pr_IdentityVersion = 0, pr_ProjectID = pid, pr_Name = '''', pr_HostPath = '''',
      pr_SourceKey = '''', pr_YardPath = '''', pr_Mode = OtherMode '''', pr_SSHHost = '''',
      pr_ImportedAt = '''', pr_Target = '''', pr_Profile = '''', pr_RegistrySource = ''yard''\<rparr>"

definition UpsertProject ::
  "(nat \<Rightarrow> nat) \<Rightarrow> ('s, 'e) ProjectStore \<Rightarrow> string \<Rightarrow> string \<Rightarrow> ProjectMode \<Rightarrow> string \<Rightarrow> string \<Rightarrow> string \<Rightarrow> string
     \<Rightarrow> int \<Rightarrow> ('s, 'e service_error, unit) io" where
  "UpsertProject ul st pid name mode target sshHost hostPath importedAt identityVersion =
     (if \<not> SafeProjectName name then io_fail InvalidName
      else
        io_bind (from_store (ps_List st)) (\<lambda>records.
        case find_first (\<lambda>c. pr_ProjectID c \<noteq> pid
            \<and> (ProjectNamesEqual ul (pr_Name c) name \<or> ProjectNamesEqual ul (pr_ProjectID c) name
               \<or> ProjectNamesEqual ul (pr_Name c) pid)) records of
          Some c \<Rightarrow> io_fail (NameTaken name (pr_ProjectID c))
        | None \<Rightarrow>
            io_bind (attempt (ps_Get st pid)) (\<lambda>found.
            case found of
              Inr r \<Rightarrow>
                if pr_Name r \<noteq> name then io_fail (StaleRename pid (pr_Name r) name)
                else from_store (ps_Put st (upserted pid r name mode target sshHost hostPath importedAt identityVersion))
            | Inl err \<Rightarrow>
                if \<not> ps_NotFound st err then io_fail (StoreError err)
                else from_store (ps_Put st
                  (upserted pid (new_record pid) name mode target sshHost hostPath importedAt identityVersion)))))"

definition UpsertYard ::
  "(nat \<Rightarrow> nat) \<Rightarrow> ('s, 'e) ProjectStore \<Rightarrow> string \<Rightarrow> string \<Rightarrow> ProjectMode \<Rightarrow> string \<Rightarrow> string
     \<Rightarrow> ('s, 'e service_error, unit) io" where
  "UpsertYard ul st pid name mode target sshHost = UpsertProject ul st pid name mode target sshHost '''' '''' 0"

definition UpsertObserved ::
  "(nat \<Rightarrow> nat) \<Rightarrow> ('s, 'e) ProjectStore \<Rightarrow> ProjectRecord \<Rightarrow> string \<Rightarrow> ('s, 'e service_error, unit) io" where
  "UpsertObserved ul st r sshHost =
     (case ps_Converge st of
        Some converge \<Rightarrow> from_store (converge r sshHost)
      | None \<Rightarrow>
          io_bind (attempt (ps_Get st (pr_ProjectID r))) (\<lambda>found.
          case found of
            Inr _ \<Rightarrow> io_return ()
          | Inl err \<Rightarrow>
              if \<not> ps_NotFound st err then io_fail (StoreError err)
              else UpsertProject ul st (pr_ProjectID r) (pr_Name r) (pr_Mode r) (pr_Target r) sshHost ''''
                (pr_ImportedAt r) (pr_IdentityVersion r)))"

definition UnregisterYard :: "('s, 'e) ProjectStore \<Rightarrow> string \<Rightarrow> ('s, 'e service_error, unit) io" where
  "UnregisterYard st pid =
     io_bind (attempt (ps_Get st pid)) (\<lambda>found.
     case found of
       Inl err \<Rightarrow> if ps_NotFound st err then io_return () else io_fail (StoreError err)
     | Inr r \<Rightarrow> if pr_HostPath r \<noteq> '''' then io_return () else from_store (ps_Delete st pid))"

definition record_source_key :: "ProjectRecord \<Rightarrow> string" where
  "record_source_key r =
     (if pr_SourceKey r = '''' \<and> pr_HostPath r \<noteq> '''' then SourceKey (pr_HostPath r) else pr_SourceKey r)"

definition RemoveProject :: "('s, 'e) ProjectStore \<Rightarrow> string \<Rightarrow> string \<Rightarrow> ('s, 'e service_error, unit) io" where
  "RemoveProject st pid sourceKey =
     (if length sourceKey \<noteq> 64 \<or> Trim sourceKey ''0123456789abcdef'' \<noteq> '''' then io_fail SourceKeyRequired
      else
        io_bind (attempt (ps_Get st pid)) (\<lambda>found.
        case found of
          Inl err \<Rightarrow> if ps_NotFound st err then io_return () else io_fail (StoreError err)
        | Inr r \<Rightarrow> if record_source_key r \<noteq> sourceKey then io_fail SourceChanged else from_store (ps_Delete st pid)))"

definition Field :: "ProjectRecord \<Rightarrow> string \<Rightarrow> string option" where
  "Field r name =
     (if name = ''projectId'' then Some (pr_ProjectID r)
      else if name = ''name'' then Some (pr_Name r)
      else if name = ''hostPath'' then Some (pr_HostPath r)
      else if name = ''yardPath'' then Some (pr_YardPath r)
      else if name = ''mode'' then Some (case pr_Mode r of ProjectSync \<Rightarrow> ''sync'' | ProjectGit \<Rightarrow> ''git''
        | ProjectBind \<Rightarrow> ''bind'' | OtherMode m \<Rightarrow> m)
      else if name = ''sshHost'' then Some (pr_SSHHost r)
      else if name = ''importedAt'' then Some (pr_ImportedAt r)
      else if name = ''target'' then Some (pr_Target r)
      else if name = ''profile'' then Some (pr_Profile r)
      else if name = ''registrySource'' then Some (pr_RegistrySource r)
      else None)"

section \<open>Technical identifiers\<close>

definition WorkspaceDevice :: "string \<Rightarrow> string" where
  "WorkspaceDevice pid =
     ''ws-'' @ concat (map (\<lambda>r. if 97 \<le> r \<and> r \<le> 122 \<or> 65 \<le> r \<and> r \<le> 90 \<or> 48 \<le> r \<and> r \<le> 57
        then encode_rune r else ''-'') (runes pid))"

definition TechnicalID :: "string \<Rightarrow> string" where
  "TechnicalID pid =
     concat (map (\<lambda>c. if is_lower c \<or> is_upper c \<or> is_digit c \<or> c = CHR ''-'' then [c]
        else CHR ''_'' # hex2 (byte c)) pid)"

definition DockerImageID :: "string \<Rightarrow> string" where
  "DockerImageID pid =
     CHR ''p'' # concat (map (\<lambda>c. if is_lower c \<or> is_digit c then [c] else CHR ''_'' # hex2 (byte c)) pid)"

definition ProjectTechnicalID :: "ProjectRecord \<Rightarrow> string" where
  "ProjectTechnicalID r =
     (if pr_IdentityVersion r = 2 then TechnicalID (pr_ProjectID r)
      else TrimPrefix (WorkspaceDevice (pr_ProjectID r)) ''ws-'')"

definition ProjectDockerImageID :: "ProjectRecord \<Rightarrow> string" where
  "ProjectDockerImageID r =
     (if pr_IdentityVersion r = 2 then DockerImageID (pr_ProjectID r) else pr_ProjectID r)"

definition WorkspaceDeviceFor :: "ProjectRecord \<Rightarrow> string" where
  "WorkspaceDeviceFor r = ''ws-'' @ ProjectTechnicalID r"

section \<open>The resolver\<close>

record Match =
  ma_Yard :: string
  ma_Record :: ProjectRecord

datatype 'e resolve_error =
    SelectorRequired
  | ListFailed 'e
  | YardListFailed string 'e
  | GetFailed 'e
  | NoMatch string
  | Ambiguous string nat

definition unique :: "string \<Rightarrow> Match list \<Rightarrow> 'e resolve_error + Match" where
  "unique selector matches =
     (case matches of [] \<Rightarrow> Inl (NoMatch selector) | [m] \<Rightarrow> Inr m | _ \<Rightarrow> Inl (Ambiguous selector (length matches)))"

definition resolve_name ::
  "(nat \<Rightarrow> nat) \<Rightarrow> string \<Rightarrow> ('s, 'e) ProjectStore \<Rightarrow> string \<Rightarrow> ('s, 'e resolve_error, Match) io" where
  "resolve_name ul yard st selector =
     io_bind (attempt (ps_List st)) (\<lambda>listed.
     case listed of
       Inl err \<Rightarrow> io_fail (ListFailed err)
     | Inr records \<Rightarrow>
         io_lift (\<lambda>_. unique selector (map (\<lambda>r. \<lparr>ma_Yard = yard, ma_Record = r\<rparr>)
           (filter (\<lambda>r. ProjectNamesEqual ul (pr_Name r) selector) records))))"

definition resolveOne ::
  "(nat \<Rightarrow> nat) \<Rightarrow> string \<Rightarrow> ('s, 'e) ProjectStore \<Rightarrow> string \<Rightarrow> ('s, 'e resolve_error, Match) io" where
  "resolveOne ul yard st selector =
     (if SafeID selector then
        io_bind (attempt (ps_Get st selector)) (\<lambda>found.
        case found of
          Inr r \<Rightarrow> io_return \<lparr>ma_Yard = yard, ma_Record = r\<rparr>
        | Inl err \<Rightarrow> if ps_NotFound st err then resolve_name ul yard st selector else io_fail (GetFailed err))
      else resolve_name ul yard st selector)"

text \<open>The stores of all yards, in the order in which the map is iterated.\<close>

fun matches_across ::
  "(nat \<Rightarrow> nat) \<Rightarrow> string \<Rightarrow> (string \<times> ('s, 'e) ProjectStore) list \<Rightarrow> Match list \<Rightarrow> Match list
     \<Rightarrow> ('s, 'e resolve_error, Match list \<times> Match list) io" where
  "matches_across ul selector [] exact named s = (s, Inr (exact, named))"
| "matches_across ul selector ((yard, st) # stores) exact named s =
     io_bind (attempt (ps_List st)) (\<lambda>listed.
     case listed of
       Inl err \<Rightarrow> io_fail (YardListFailed yard err)
     | Inr records \<Rightarrow>
         (let found = (\<lambda>P. map (\<lambda>r. \<lparr>ma_Yard = yard, ma_Record = r\<rparr>) (filter P records)) in
          matches_across ul selector stores (exact @ found (\<lambda>r. pr_ProjectID r = selector))
            (named @ found (\<lambda>r. ProjectNamesEqual ul (pr_Name r) selector)))) s"

definition resolveAcross ::
  "(nat \<Rightarrow> nat) \<Rightarrow> (string \<times> ('s, 'e) ProjectStore) list \<Rightarrow> string \<Rightarrow> ('s, 'e resolve_error, Match) io" where
  "resolveAcross ul stores selector =
     io_bind (matches_across ul selector stores [] []) (\<lambda>(exact, named).
     io_lift (\<lambda>_. if exact \<noteq> [] then unique selector exact else unique selector named))"

definition Resolver_Resolve ::
  "(nat \<Rightarrow> nat) \<Rightarrow> (string \<times> ('s, 'e) ProjectStore) list \<Rightarrow> string \<Rightarrow> ('s, 'e resolve_error, Match) io" where
  "Resolver_Resolve ul stores selector =
     (if selector = '''' then io_fail SelectorRequired
      else case Cut selector slash of
        (yard, rest, qualified) \<Rightarrow>
          (case map_of stores yard of
             Some st \<Rightarrow> if qualified \<and> rest \<noteq> '''' then resolveOne ul yard st rest else resolveAcross ul stores selector
           | None \<Rightarrow> resolveAcross ul stores selector))"

end
