(* ===== verification/Project_Laws.thy ===== *)
theory Project_Laws
  imports Project_Service
begin

text \<open>
  The laws of the store interface, what they give the service and the resolver, and the proof that
  the file store satisfies them.
\<close>

section \<open>The interface\<close>

definition names_apart :: "(nat \<Rightarrow> nat) \<Rightarrow> (string \<Rightarrow> ProjectRecord option) \<Rightarrow> bool" where
  "names_apart ul m \<longleftrightarrow>
     (\<forall>p q r c. m p = Some r \<and> m q = Some c \<and> pr_ProjectID r \<noteq> pr_ProjectID c \<longrightarrow> \<not> name_conflict ul r c)"

lemma singleton_list:
  assumes "distinct xs" and "set xs = {a}"
  shows "xs = [a]"
proof (cases xs)
  case (Cons x ys)
  with assms show ?thesis by (cases ys) auto
qed (use assms in simp)

locale project_store =
  fixes store :: "('s, 'e) ProjectStore" and records :: "'s \<Rightarrow> string \<Rightarrow> ProjectRecord option"
    and wf :: "'s \<Rightarrow> bool" and encoded :: "ProjectRecord \<Rightarrow> ProjectRecord"
  assumes get_law: "wf s \<Longrightarrow> ps_Get store pid s = (t, x) \<Longrightarrow>
      wf t \<and> records t = records s \<and> (\<forall>r. x = Inr r \<longrightarrow> records s pid = Some r)
      \<and> (\<forall>err. x = Inl err \<and> ps_NotFound store err \<longrightarrow> records s pid = None)"
    and put_law: "wf s \<Longrightarrow> ps_Put store r s = (t, y) \<Longrightarrow>
      wf t \<and> (records t = records s \<and> (\<exists>err. y = Inl err) \<or> records t = (records s)(pr_ProjectID r \<mapsto> encoded r))"
    and delete_law: "wf s \<Longrightarrow> ps_Delete store pid s = (t, z) \<Longrightarrow>
      wf t \<and> (records t = records s \<and> (\<exists>err. z = Inl err) \<or> records t = (records s)(pid := None))"
    and list_law: "wf s \<Longrightarrow> ps_List store s = (t, l) \<Longrightarrow>
      wf t \<and> records t = records s
      \<and> (\<forall>rs. l = Inr rs \<longrightarrow> distinct rs \<and> (\<forall>r. r \<in> set rs \<longleftrightarrow> records s (pr_ProjectID r) = Some r))"
    and own_id: "wf s \<Longrightarrow> records s pid = Some r \<Longrightarrow> pr_ProjectID r = pid"
    and encoded_name: "SafeProjectName (pr_Name r) \<Longrightarrow> pr_Name (encoded r) = pr_Name r"
begin

lemma put_step:
  assumes "wf s" and "from_store (ps_Put store r) s = (t, x)"
  shows "wf t" "records t = records s \<and> (\<exists>err. x = Inl err) \<or> records t = (records s)(pr_ProjectID r \<mapsto> encoded r)"
  using put_law [OF assms(1), of r] assms(2)
  by (auto simp: from_store_def split: prod.split_asm sum.split_asm)

lemma delete_step:
  assumes "wf s" and "from_store (ps_Delete store pid) s = (t, x)"
  shows "wf t" "records t = records s \<and> (\<exists>err. x = Inl err) \<or> records t = (records s)(pid := None)"
  using delete_law [OF assms(1), of pid] assms(2)
  by (auto simp: from_store_def split: prod.split_asm sum.split_asm)

lemma get_cases:
  assumes s: "wf s" and run: "io_bind (attempt (ps_Get store pid)) f s = (t, x)"
  obtains (found) u r where "wf u" "records u = records s" "records s pid = Some r" "f (Inr r) u = (t, x)"
  | (missing) u err where "wf u" "records u = records s" "records s pid = None" "ps_NotFound store err" "f (Inl err) u = (t, x)"
  | (failed) u err where "wf u" "records u = records s" "\<not> ps_NotFound store err" "f (Inl err) u = (t, x)"
proof -
  obtain u y where u: "ps_Get store pid s = (u, y)" by force
  note law = get_law [OF s u]
  have f: "f y u = (t, x)" using run u by (simp add: io_bind_def attempt_def)
  show thesis
  proof (cases y)
    case (Inr r)
    with law f found show ?thesis by blast
  next
    case (Inl err)
    with law f missing failed show ?thesis by blast
  qed
qed

text \<open>A record is unregistered only when it has no source on an owner's machine.\<close>

lemma unregister_law:
  assumes "wf s" and "UnregisterYard store pid s = (t, x)"
  shows "wf t \<and> (records t = records s
    \<or> (\<exists>r. records s pid = Some r \<and> pr_HostPath r = '''' \<and> records t = (records s)(pid := None)))"
  using assms(2) unfolding UnregisterYard_def
proof (cases rule: get_cases [OF assms(1), consumes 1, case_names found missing failed])
  case (found u r)
  then show ?thesis
    using delete_step [OF found(1), of pid t x] by (auto split: if_split_asm)
qed auto

text \<open>A project is removed only for the source it was registered with.\<close>

lemma remove_law:
  assumes s: "wf s" and "RemoveProject store pid sourceKey s = (t, x)"
  shows "wf t \<and> (records t = records s
    \<or> (\<exists>r. records s pid = Some r \<and> record_source_key r = sourceKey \<and> records t = (records s)(pid := None)))
    \<and> (x = Inr () \<longrightarrow> records t pid = None)"
proof (cases "length sourceKey \<noteq> 64 \<or> Trim sourceKey ''0123456789abcdef'' \<noteq> ''''")
  case True
  with assms show ?thesis by (auto simp: RemoveProject_def)
next
  case False
  then have "io_bind (attempt (ps_Get store pid)) (\<lambda>found. case found of
      Inl err \<Rightarrow> if ps_NotFound store err then io_return () else io_fail (StoreError err)
    | Inr r \<Rightarrow> if record_source_key r \<noteq> sourceKey then io_fail SourceChanged else from_store (ps_Delete store pid)) s = (t, x)"
    using assms(2) by (auto simp: RemoveProject_def)
  then show ?thesis
  proof (cases rule: get_cases [OF s, consumes 1, case_names found missing failed])
    case (found u r)
    then show ?thesis
      using delete_step [OF found(1), of pid t x] by (auto split: if_split_asm)
  qed auto
qed

lemma upserted_simps [simp]:
  "pr_ProjectID (upserted pid r name mode target sshHost hostPath importedAt v) = pr_ProjectID r"
  "pr_Name (upserted pid r name mode target sshHost hostPath importedAt v) = name"
  by (simp_all add: upserted_def Let_def)

text \<open>An update concerns one project and never renames it.\<close>

lemma upsert_law:
  assumes s: "wf s" and run: "UpsertProject ul store pid name mode target sshHost hostPath importedAt v s = (t, x)"
  shows "wf t \<and> (records t = records s
    \<or> (\<exists>r. records t = (records s)(pid \<mapsto> r) \<and> pr_Name r = name
        \<and> (\<forall>old. records s pid = Some old \<longrightarrow> pr_Name old = name)))
    \<and> (x = Inr () \<longrightarrow> (\<exists>r. records t pid = Some r \<and> pr_Name r = name))"
proof (cases "SafeProjectName name")
  case False
  with assms show ?thesis by (auto simp: UpsertProject_def)
next
  case name: True
  let ?get = "io_bind (attempt (ps_Get store pid)) (\<lambda>found. case found of
      Inr r \<Rightarrow> if pr_Name r \<noteq> name then io_fail (StaleRename pid (pr_Name r) name)
        else from_store (ps_Put store (upserted pid r name mode target sshHost hostPath importedAt v))
    | Inl err \<Rightarrow> if \<not> ps_NotFound store err then io_fail (StoreError err)
        else from_store (ps_Put store (upserted pid (new_record pid) name mode target sshHost hostPath importedAt v)))"
  obtain u l where l: "ps_List store s = (u, l)" by force
  have u: "wf u" "records u = records s" using list_law [OF s l] by simp_all
  consider (stop) err where "t = u" "x = Inl err" | (go) "?get u = (t, x)"
    using run name l by (auto simp: UpsertProject_def io_bind_def from_store_def split: sum.split_asm option.split_asm)
  then show ?thesis
  proof cases
    case stop
    with u show ?thesis by simp
  next
    case go
    then show ?thesis
    proof (cases rule: get_cases [OF u(1), consumes 1, case_names found missing failed])
      case (found w r)
      have pid: "pr_ProjectID r = pid" using own_id [OF u(1)] found(3) by blast
      from found show ?thesis
        using put_step [OF found(1), of "upserted pid r name mode target sshHost hostPath importedAt v" t x]
          encoded_name [of "upserted pid r name mode target sshHost hostPath importedAt v"] name u pid
        by (auto split: if_split_asm)
    next
      case (missing w err)
      then show ?thesis
        using put_step [OF missing(1), of "upserted pid (new_record pid) name mode target sshHost hostPath importedAt v" t x]
          encoded_name [of "upserted pid (new_record pid) name mode target sshHost hostPath importedAt v"] name u
        by (auto simp: new_record_def split: if_split_asm)
    next
      case (failed w err)
      with u show ?thesis by auto
    qed
  qed
qed

text \<open>While names are kept apart, a name leads to its project and to no other.\<close>

lemma resolve_name_law:
  assumes s: "wf s" and apart: "names_apart ul (records s)" and r: "records s pid = Some r"
    and name: "ProjectNamesEqual ul (pr_Name r) selector" and run: "resolve_name ul yard store selector s = (t, x)"
  shows "records t = records s \<and> (x = Inr \<lparr>ma_Yard = yard, ma_Record = r\<rparr> \<or> (\<exists>err. x = Inl (ListFailed err)))"
proof -
  obtain u l where l: "ps_List store s = (u, l)" by force
  note law = list_law [OF s l]
  show ?thesis
  proof (cases l)
    case (Inl err)
    with run l law show ?thesis by (auto simp: resolve_name_def io_bind_def attempt_def)
  next
    case (Inr rs)
    let ?hits = "filter (\<lambda>r. ProjectNamesEqual ul (pr_Name r) selector) rs"
    have rs: "distinct rs" "\<And>c. c \<in> set rs \<longleftrightarrow> records s (pr_ProjectID c) = Some c" using law Inr by blast+
    have "c = r" if "c \<in> set ?hits" for c
    proof (rule ccontr)
      assume "c \<noteq> r"
      have c: "records s (pr_ProjectID c) = Some c" "ProjectNamesEqual ul (pr_Name c) selector" using that rs(2) by auto
      with \<open>c \<noteq> r\<close> r own_id [OF s r] have "pr_ProjectID r \<noteq> pr_ProjectID c" by auto
      moreover have "name_conflict ul r c" using name c(2) by (simp add: name_conflict_def ProjectNamesEqual_def)
      ultimately show False using apart r c(1) unfolding names_apart_def by blast
    qed
    moreover have "r \<in> set ?hits" using rs(2) r own_id [OF s r] name by simp
    ultimately have "set ?hits = {r}" by blast
    moreover have "distinct ?hits" using rs(1) by simp
    ultimately have "?hits = [r]" by (intro singleton_list)
    then show ?thesis
      using run l Inr law by (auto simp: resolve_name_def io_bind_def attempt_def unique_def)
  qed
qed

lemma resolve_law:
  assumes s: "wf s" and apart: "names_apart ul (records s)" and r: "records s pid = Some r"
    and name: "ProjectNamesEqual ul (pr_Name r) selector" and run: "resolveOne ul yard store selector s = (t, x)"
  shows "records t = records s
    \<and> (x = Inr \<lparr>ma_Yard = yard, ma_Record = r\<rparr> \<or> (\<exists>err. x = Inl (ListFailed err) \<or> x = Inl (GetFailed err)))"
proof (cases "SafeID selector")
  case False
  then have "resolve_name ul yard store selector s = (t, x)" using run by (simp add: resolveOne_def)
  from resolve_name_law [OF s apart r name this] show ?thesis by blast
next
  case True
  then have "io_bind (attempt (ps_Get store selector)) (\<lambda>found. case found of
      Inr r \<Rightarrow> io_return \<lparr>ma_Yard = yard, ma_Record = r\<rparr>
    | Inl err \<Rightarrow> if ps_NotFound store err then resolve_name ul yard store selector else io_fail (GetFailed err)) s = (t, x)"
    using run by (simp add: resolveOne_def)
  then show ?thesis
  proof (cases rule: get_cases [OF s, consumes 1, case_names found missing failed])
    case (found u c)
    have "c = r"
    proof (rule ccontr)
      assume "c \<noteq> r"
      have c: "pr_ProjectID c = selector" using own_id [OF s found(3)] .
      with \<open>c \<noteq> r\<close> r found(3) own_id [OF s r] have "pr_ProjectID r \<noteq> pr_ProjectID c" by auto
      moreover have "name_conflict ul r c" using name c by (simp add: name_conflict_def ProjectNamesEqual_def)
      ultimately show False using apart r found(3) unfolding names_apart_def by blast
    qed
    with found show ?thesis by simp
  next
    case (missing u err)
    then have again: "resolve_name ul yard store selector u = (t, x)" by simp
    have "names_apart ul (records u)" "records u pid = Some r" using apart r missing(2) by simp_all
    from resolve_name_law [OF missing(1) this name again] missing(2) show ?thesis by auto
  next
    case (failed u err)
    then show ?thesis by auto
  qed
qed

end

section \<open>The file store\<close>

text \<open>
  A store over the file system, with the environment that each method meets.  In a private directory
  no file is replaced between its inspection and its opening.
\<close>

definition secluded :: "store_env \<Rightarrow> store_env" where
  "secluded e = e\<lparr>se_Access := (\<lambda>n. case se_Access e n of OpensOther _ \<Rightarrow> OpensSame | a \<Rightarrow> a)\<rparr>"

lemma private_secluded [simp]: "private_env (secluded e)"
  by (auto simp: private_env_def secluded_def split: access.split)

lemma secluded_private: "private_env e \<Longrightarrow> secluded e = e"
proof -
  assume e: "private_env e"
  have "(\<lambda>n. case se_Access e n of OpensOther _ \<Rightarrow> OpensSame | a \<Rightarrow> a) = se_Access e"
    using e by (auto simp: private_env_def fun_eq_iff split: access.split)
  then show ?thesis by (simp add: secluded_def)
qed

definition file_store ::
  "(nat \<Rightarrow> nat) \<Rightarrow> (string \<Rightarrow> time option) \<Rightarrow> store_env \<Rightarrow> store_env \<Rightarrow> store_env \<Rightarrow> store_env \<Rightarrow> store_env
     \<Rightarrow> (store_dir, store_error) ProjectStore" where
  "file_store ul parse el eg ep ed ec =
     \<lparr>ps_List = List el, ps_Get = Get eg, ps_Put = Put ul ep, ps_Delete = Delete ed,
      ps_NotFound = (\<lambda>err. case err of NotFound _ \<Rightarrow> True | _ \<Rightarrow> False),
      ps_Converge = Some (ConvergeObserved ul parse ec)\<rparr>"

interpretation files: project_store "file_store ul parse (secluded el) (secluded eg) ep ed ec" view well_named json_record
proof
  fix s t pid x
  assume "well_named s" "ps_Get (file_store ul parse (secluded el) (secluded eg) ep ed ec) pid s = (t, x)"
  then show "well_named t \<and> view t = view s \<and> (\<forall>r. x = Inr r \<longrightarrow> view s pid = Some r)
      \<and> (\<forall>err. x = Inl err \<and> ps_NotFound (file_store ul parse (secluded el) (secluded eg) ep ed ec) err \<longrightarrow> view s pid = None)"
    using Get_view [of "secluded eg" pid s t x] by (auto simp: file_store_def split: store_error.split_asm)
next
  fix s t r y
  assume "well_named s" "ps_Put (file_store ul parse (secluded el) (secluded eg) ep ed ec) r s = (t, y)"
  then show "well_named t \<and> (view t = view s \<and> (\<exists>err. y = Inl err) \<or> view t = (view s)(pr_ProjectID r \<mapsto> json_record r))"
    using Put_view [of ul ep r s t y] by (simp add: file_store_def)
next
  fix s t pid z
  assume "well_named s" "ps_Delete (file_store ul parse (secluded el) (secluded eg) ep ed ec) pid s = (t, z)"
  then show "well_named t \<and> (view t = view s \<and> (\<exists>err. z = Inl err) \<or> view t = (view s)(pid := None))"
    using Delete_view [of ed pid s t z] by (simp add: file_store_def)
next
  fix s t l
  assume s: "well_named s" and l: "ps_List (file_store ul parse (secluded el) (secluded eg) ep ed ec) s = (t, l)"
  then have run: "List (secluded el) s = (t, l)" by (simp add: file_store_def)
  have "distinct rs" if ok: "l = Inr rs" for rs
  proof -
    obtain u where u: "lock (secluded el) s = (u, Inr ())" "listUnlocked (secluded el) u = Inr rs"
      using run ok by (auto simp: List_def elim!: io_bind_InrE)
    have "well_named u" using keepsD [OF lock_same_view u(1)] s by (simp add: same_view_def)
    from listUnlocked_ids [OF u(2) this private_secluded] show ?thesis by (simp add: distinct_map)
  qed
  with List_view [OF run s private_secluded]
  show "well_named t \<and> view t = view s
      \<and> (\<forall>rs. l = Inr rs \<longrightarrow> distinct rs \<and> (\<forall>r. r \<in> set rs \<longleftrightarrow> view s (pr_ProjectID r) = Some r))"
    by auto
next
  fix s pid r
  assume "well_named s" "view s pid = Some r"
  then show "pr_ProjectID r = pid" using view_id(1) [of s pid r] view_Nil [of s] by (cases "pid = []") auto
next
  fix r :: ProjectRecord
  assume "SafeProjectName (pr_Name r)"
  then show "pr_Name (json_record r) = pr_Name r" by (simp add: json_record_def SafeProjectName_def SafeID_ascii)
qed

section \<open>Properties of the store, the service and the resolver\<close>

text \<open>
  C19: the file store behaves like a map from project IDs to records: a successful write or removal
  updates exactly one entry, an unsuccessful one updates that entry or nothing, reading returns the
  entry, an absent entry is reported as not found, and a listing has exactly the entries.
\<close>

theorem file_store_refines_map:
  assumes "well_named s" and "private_env e"
  shows "(Put ul e r s = (t, y) \<longrightarrow> well_named t
        \<and> (view t = (view s)(pr_ProjectID r \<mapsto> json_record r) \<or> view t = view s \<and> y \<noteq> Inr ()))
    \<and> (Delete e pid s = (t, y) \<longrightarrow> well_named t \<and> (view t = (view s)(pid := None) \<or> view t = view s \<and> y \<noteq> Inr ()))
    \<and> (Get e pid s = (t, x) \<longrightarrow> well_named t \<and> view t = view s \<and> (\<forall>c. x = Inr c \<longrightarrow> view s pid = Some c)
        \<and> (x = Inl (NotFound pid) \<longrightarrow> view s pid = None))
    \<and> (List e s = (t, l) \<longrightarrow> well_named t \<and> view t = view s
        \<and> (\<forall>rs. l = Inr rs \<longrightarrow> distinct rs \<and> (\<forall>c. c \<in> set rs \<longleftrightarrow> view s (pr_ProjectID c) = Some c)))"
proof -
  have e: "secluded e = e" using secluded_private [OF assms(2)] .
  have "Put ul e r s = (t, y) \<longrightarrow> well_named t
      \<and> (view t = (view s)(pr_ProjectID r \<mapsto> json_record r) \<or> view t = view s \<and> y \<noteq> Inr ())"
    using files.put_law [OF assms(1), of ul "\<lambda>_. None" e e e e e r t y] by (auto simp: file_store_def)
  moreover have "Delete e pid s = (t, y) \<longrightarrow> well_named t \<and> (view t = (view s)(pid := None) \<or> view t = view s \<and> y \<noteq> Inr ())"
    using files.delete_law [OF assms(1), of ul "\<lambda>_. None" e e e e e pid t y] by (auto simp: file_store_def)
  moreover have "Get e pid s = (t, x) \<longrightarrow> well_named t \<and> view t = view s \<and> (\<forall>c. x = Inr c \<longrightarrow> view s pid = Some c)
      \<and> (x = Inl (NotFound pid) \<longrightarrow> view s pid = None)"
    using files.get_law [OF assms(1), of ul "\<lambda>_. None" e e e e e pid t x] by (auto simp: file_store_def e)
  moreover have "List e s = (t, l) \<longrightarrow> well_named t \<and> view t = view s
      \<and> (\<forall>rs. l = Inr rs \<longrightarrow> distinct rs \<and> (\<forall>c. c \<in> set rs \<longleftrightarrow> view s (pr_ProjectID c) = Some c))"
    using files.list_law [OF assms(1), of ul "\<lambda>_. None" e e e e e t l] by (simp add: file_store_def e)
  ultimately show ?thesis by blast
qed

lemma shell_get: "Get calm_env ''demo'' shell_state = (shell_state, Inr shell_record)"
proof -
  have "lookup_file shell_state ''demo'' = Some (shell_file\<lparr>sf_Perm := owner_rw\<rparr>)" "se_Access calm_env n = OpensSame" for n
    by (simp_all add: lookup_file_def shell_state_def entry_name_def json_suffix_def calm_env_def)
  then show ?thesis
    using shell_lock shell_read demo_safe(2) by (simp add: Get_def io_bind_ok not_found_def)
qed

lemma calm_private: "private_env calm_env"
  by (simp add: private_env_def calm_env_def)

theorem file_store_refines_map_witness:
  "Get calm_env ''demo'' shell_state = (shell_state, Inr shell_record)
   \<and> view shell_state ''demo'' = Some shell_record
   \<and> snd (List calm_env shell_state) = Inr [shell_record]"
proof -
  have "List calm_env shell_state = (shell_state, Inr [shell_record])"
    using shell_lock shell_list by (simp add: List_def io_bind_ok)
  with file_store_refines_map [OF shell_state_named calm_private, of "\<lambda>r. r" shell_record shell_state "Inr ()" "''demo''" "Inr shell_record" "Inr [shell_record]"]
    shell_get
  show ?thesis by simp
qed


lemma shell_delete:
  "Delete calm_env ''demo'' shell_state = (shell_state\<lparr>sd_Files := []\<rparr>, Inr ())"
  using shell_lock demo_safe(2)
  by (simp add: Delete_def io_bind_ok remove_record_def lookup_file_def shell_state_def entry_name_def json_suffix_def
      calm_env_def Let_def)


lemma names_held_apart: "names_held ul s \<Longrightarrow> well_named s \<Longrightarrow> names_apart ul (view s)"
  unfolding names_apart_def names_held_def names_ok_def
  using stored_view [of s] view_id(1) view_Nil by (metis option.distinct(1))

text \<open>
  C22: in a store whose names are kept apart, selecting a project of a yard by its name, in any case,
  gives that project and no other, and is never ambiguous; only a failing store gives an error.
\<close>

theorem names_resolve_to_their_project:
  assumes "well_named s" and "private_env el" and "private_env eg" and "names_held ul s"
    and "view s pid = Some r" and "ProjectNamesEqual ul (pr_Name r) selector"
    and "resolveOne ul yard (file_store ul parse el eg ep ed ec) selector s = (t, x)"
  shows "view t = view s \<and> (x = Inr \<lparr>ma_Yard = yard, ma_Record = r\<rparr>
    \<or> (\<exists>err. x = Inl (ListFailed err) \<or> x = Inl (GetFailed err)))"
proof -
  have "file_store ul parse el eg ep ed ec = file_store ul parse (secluded el) (secluded eg) ep ed ec"
    using assms secluded_private by simp
  with assms(7) have "resolveOne ul yard (file_store ul parse (secluded el) (secluded eg) ep ed ec) selector s = (t, x)"
    by simp
  from files.resolve_law [OF assms(1) names_held_apart [OF assms(4,1)] assms(5,6) this] show ?thesis .
qed

theorem names_resolve_to_their_project_witness:
  "resolveOne (\<lambda>r. r) ''east'' (file_store (\<lambda>r. r) (\<lambda>_. None) calm_env calm_env calm_env calm_env calm_env) ''DEMO Project'' shell_state
    = (shell_state, Inr \<lparr>ma_Yard = ''east'', ma_Record = shell_record\<rparr>)"
proof -
  let ?st = "file_store (\<lambda>r. r) (\<lambda>_. None) calm_env calm_env calm_env calm_env calm_env"
  obtain t x where run: "resolveOne (\<lambda>r. r) ''east'' ?st ''DEMO Project'' shell_state = (t, x)" by force
  have name: "ProjectNamesEqual (\<lambda>r. r) (pr_Name shell_record) ''DEMO Project''"
    by code_simp
  have "view shell_state ''demo'' = Some shell_record" by (simp add: shell_view)
  note hit = names_resolve_to_their_project [OF shell_state_named calm_private calm_private shell_held this name run]
  have "\<not> SafeID ''DEMO Project''" by (simp add: SafeID_bytes HasPrefix_def id_char_def byte_class_defs)
  moreover have "List calm_env shell_state = (shell_state, Inr [shell_record])"
    using shell_lock shell_list by (simp add: List_def io_bind_ok)
  ultimately have "t = shell_state" "\<And>err. x \<noteq> Inl (ListFailed err)" "\<And>err. x \<noteq> Inl (GetFailed err)"
    using run name by (auto simp: resolveOne_def resolve_name_def file_store_def attempt_def io_bind_def unique_def)
  with hit run show ?thesis by auto
qed

end
