(* ===== verification/Project_Renaming.thy ===== *)
theory Project_Renaming
  imports Project_Laws
begin

text \<open>
  Correctness of the name migration: the plan is found, it gives every record a safe name that no
  other record has as name or identifier, planning again changes nothing, and the operation brings
  the store into that state.
\<close>

section \<open>Base names and keepers\<close>

lemma base_name_safe:
  assumes "SafeID (pr_ProjectID r)"
  shows "SafeProjectName (base_name r)"
proof (cases "SafeProjectName (pr_Name r)")
  case True
  then show ?thesis by (simp add: base_name_def)
next
  case False
  let ?p = "take 50 (pr_ProjectID r)"
  have "all_bytes id_char ?p"
    using assms by (auto simp: all_bytes_iff dest!: in_set_takeD SafeID_chars)
  moreover obtain c cs where "pr_ProjectID r = c # cs" "c \<noteq> CHR ''-''"
    using assms by (cases "pr_ProjectID r") (auto simp: SafeID_bytes HasPrefix_def)
  moreover have "?p \<noteq> ''.'' \<and> ?p \<noteq> ''..''"
  proof (cases "length (pr_ProjectID r) \<le> 50")
    case True
    then show ?thesis using assms by (simp add: SafeID_bytes)
  next
    case False
    then have "length ?p = 50" by simp
    moreover have "length ''.'' \<noteq> 50" "length ''..'' \<noteq> 50" by simp_all
    ultimately show ?thesis by metis
  qed
  ultimately show ?thesis
    using False by (simp add: base_name_def SafeProjectName_def SafeID_bytes HasPrefix_def)
qed

lemma first_keepers:
  fixes ks0 :: "(string \<times> nat) list" and ul :: "nat \<Rightarrow> nat"
  defines "step \<equiv> \<lambda>(i, r) ks. if map_of ks (base_key ul r) = None then (base_key ul r, i) # ks else ks"
  assumes "(i, r) \<in> set xs \<or> map_of ks0 (base_key ul r) \<noteq> None"
  shows "map_of (fold step xs ks0) (base_key ul r) \<noteq> None"
  using assms(2)
proof (induction xs arbitrary: ks0)
  case (Cons x xs)
  have "(i, r) \<in> set xs \<or> map_of (step x ks0) (base_key ul r) \<noteq> None"
    using Cons.prems by (cases x) (auto simp: step_def)
  from Cons.IH [OF this] show ?case by simp
qed simp

lemma keepers_entries:
  fixes ks0 :: "(string \<times> nat) list" and c :: "(nat \<times> ProjectRecord) \<Rightarrow> (string \<times> nat) list \<Rightarrow> bool"
  shows "set (fold (\<lambda>(i, r) ks. if c (i, r) ks then (base_key ul r, i) # ks else ks) xs ks0)
    \<subseteq> set ks0 \<union> (\<lambda>(i, r). (base_key ul r, i)) ` set xs"
  by (induction xs arbitrary: ks0) (force split: prod.split_asm if_split_asm)+

lemma second_keepers:
  fixes ks0 :: "(string \<times> nat) list"
  shows "map_of ks0 k \<noteq> None \<Longrightarrow>
    map_of (fold (\<lambda>(i, r) ks. if c (i, r) ks then (base_key ul r, i) # ks else ks) xs ks0) k \<noteq> None"
  by (induction xs arbitrary: ks0) auto

lemma keepers_found:
  assumes "r \<in> set records"
  shows "\<exists>j < length records. map_of (keepers ul records) (base_key ul r) = Some j
    \<and> base_key ul (records ! j) = base_key ul r"
proof -
  let ?xs = "enumerate 0 records"
  define first where "first = fold (\<lambda>(i, r) ks. if map_of ks (base_key ul r) = None then (base_key ul r, i) # ks else ks) ?xs []"
  obtain i where "i < length records" "records ! i = r" using assms by (auto simp: in_set_conv_nth)
  then have "(i, r) \<in> set ?xs" by (simp add: in_set_enumerate_eq)
  then have "map_of first (base_key ul r) \<noteq> None"
    unfolding first_def by (intro first_keepers) simp
  then have "map_of (keepers ul records) (base_key ul r) \<noteq> None"
    using second_keepers [of first "base_key ul r" "\<lambda>x _. pr_IdentityVersion (snd x) = 2" ul ?xs]
    by (simp add: keepers_def Let_def first_def)
  then obtain j where j: "map_of (keepers ul records) (base_key ul r) = Some j" by auto
  have "set (keepers ul records) \<subseteq> (\<lambda>(i, r). (base_key ul r, i)) ` set ?xs"
    using keepers_entries [of "\<lambda>x ks. map_of ks (base_key ul (snd x)) = None" ul ?xs "[]"]
      keepers_entries [of "\<lambda>x _. pr_IdentityVersion (snd x) = 2" ul ?xs first]
    by (auto simp: keepers_def Let_def first_def)
  with map_of_SomeD [OF j] have "(j, records ! j) \<in> set ?xs \<and> base_key ul (records ! j) = base_key ul r"
    by (auto simp: in_set_enumerate_eq)
  with j show ?thesis by (auto simp: in_set_enumerate_eq)
qed

section \<open>Names of the plan\<close>

abbreviation unavailable_for ::
  "(nat \<Rightarrow> nat) \<Rightarrow> ProjectRecord list \<Rightarrow> (string \<times> nat) list \<Rightarrow> (string \<times> string) list \<Rightarrow> nat \<Rightarrow> string \<Rightarrow> bool" where
  "unavailable_for ul records ks assigned i name \<equiv>
     projectNameUnavailable ul name (pr_ProjectID (records ! i)) (idOwners ul records)
       (protected_names ul records ks) assigned"

definition keepers_ok :: "(nat \<Rightarrow> nat) \<Rightarrow> ProjectRecord list \<Rightarrow> (string \<times> nat) list \<Rightarrow> bool" where
  "keepers_ok ul records ks \<longleftrightarrow>
     (\<forall>r \<in> set records. \<exists>j < length records. map_of ks (base_key ul r) = Some j
        \<and> base_key ul (records ! j) = base_key ul r)"

lemma keepers_ok_keepers: "keepers_ok ul records (keepers ul records)"
  unfolding keepers_ok_def using keepers_found by blast

lemma assign_name_sound:
  assumes safe: "\<forall>r \<in> set records. SafeID (pr_ProjectID r)" and ks: "keepers_ok ul records ks"
    and i: "i < length records" and name: "assign_name ul records ks assigned i = Some name"
  shows "SafeProjectName name" "\<not> unavailable_for ul records ks assigned i name"
proof -
  obtain j where j: "j < length records" "map_of ks (base_key ul (records ! i)) = Some j"
    using ks i unfolding keepers_ok_def by (meson nth_mem)
  let ?base = "base_name (records ! j)"
  have base: "SafeProjectName ?base" using safe j(1) by (intro base_name_safe) simp
  consider "name = ?base" "\<not> unavailable_for ul records ks assigned i ?base"
    | "nextAvailableProjectName ?base (\<lambda>c. \<not> unavailable_for ul records ks assigned i c) = Some name"
    using name j by (auto simp: assign_name_def Let_def split: if_split_asm)
  then have "SafeProjectName name \<and> \<not> unavailable_for ul records ks assigned i name"
    using base nextAvailableProjectName_sound [of ?base _ name] by cases (auto simp: SafeProjectName_def)
  then show "SafeProjectName name" "\<not> unavailable_for ul records ks assigned i name" by blast+
qed

lemma assign_name_returns:
  assumes safe: "\<forall>r \<in> set records. SafeID (pr_ProjectID r)" and ks: "keepers_ok ul records ks"
    and i: "i < length records"
    and few: "int (length records) + int (length ks) + int (length assigned) + 2 \<le> max_int64"
  shows "\<exists>name. assign_name ul records ks assigned i = Some name"
proof -
  obtain j where j: "j < length records" "map_of ks (base_key ul (records ! i)) = Some j"
    using ks i unfolding keepers_ok_def by (meson nth_mem)
  let ?base = "base_name (records ! j)"
  let ?taken = "map (\<lambda>r. ProjectNameKey ul (pr_ProjectID r)) records @ map fst ks @ map fst assigned"
  have "ProjectNameKey ul c \<in> set ?taken" if un: "unavailable_for ul records ks assigned i c" for c
  proof -
    consider "hasForeignProjectID (idOwners ul records (ProjectNameKey ul c)) (pr_ProjectID (records ! i))"
      | "map_of ks (ProjectNameKey ul c) \<noteq> None" | "map_of assigned (ProjectNameKey ul c) \<noteq> None"
      using un by (auto simp: projectNameUnavailable_def protected_names_def Let_def split: option.split_asm)
    then show ?thesis
      by cases (auto simp: hasForeignProjectID_def idOwners_def list_ex_iff map_of_eq_None_iff intro!: image_eqI)
  qed
  moreover have "SafeID ?base"
    using base_name_safe safe j(1) by (simp add: SafeProjectName_def)
  ultimately obtain name where "nextAvailableProjectName ?base (\<lambda>c. \<not> unavailable_for ul records ks assigned i c) = Some name"
    using nextAvailableProjectName_returns [of ?base "\<lambda>c. \<not> unavailable_for ul records ks assigned i c" ul ?taken] few
    by auto
  then show ?thesis using j by (auto simp: assign_name_def Let_def)
qed

definition owners_unique :: "(string \<times> string) set \<Rightarrow> bool" where
  "owners_unique S \<longleftrightarrow> (\<forall>k o1 o2. (k, o1) \<in> S \<longrightarrow> (k, o2) \<in> S \<longrightarrow> o1 = o2)"

lemma assign_names_sound:
  assumes safe: "\<forall>r \<in> set records. SafeID (pr_ProjectID r)" and ks: "keepers_ok ul records ks"
    and "\<forall>i \<in> set idx. i < length records" and "owners_unique (set assigned)"
    and "assign_names ul records ks assigned idx = Some names"
  shows "length names = length idx
    \<and> owners_unique (set assigned \<union> {(ProjectNameKey ul m, pr_ProjectID (records ! j)) |j m. (j, m) \<in> set (zip idx names)})
    \<and> (\<forall>(i, name) \<in> set (zip idx names). SafeProjectName name
         \<and> \<not> hasForeignProjectID (idOwners ul records (ProjectNameKey ul name)) (pr_ProjectID (records ! i)))"
  using assms(3-5)
proof (induction idx arbitrary: assigned names)
  case (Cons i idx)
  obtain name rest where name: "assign_name ul records ks assigned i = Some name"
    and rest: "assign_names ul records ks ((ProjectNameKey ul name, pr_ProjectID (records ! i)) # assigned) idx = Some rest"
    and names: "names = name # rest"
    using Cons.prems(3) by (auto split: option.split_asm)
  have i: "i < length records" using Cons.prems(1) by simp
  note sound = assign_name_sound [OF safe ks i name]
  let ?new = "(ProjectNameKey ul name, pr_ProjectID (records ! i))"
  have "owners_unique (set (?new # assigned))"
  proof -
    have "owner = pr_ProjectID (records ! i)" if mem: "(ProjectNameKey ul name, owner) \<in> set assigned" for owner
    proof -
      have "ProjectNameKey ul name \<in> fst ` set assigned" using mem by force
      then obtain owner' where o: "map_of assigned (ProjectNameKey ul name) = Some owner'"
        by (cases "map_of assigned (ProjectNameKey ul name)") (auto simp: map_of_eq_None_iff)
      then have "owner' = owner" using Cons.prems(2) mem map_of_SomeD [OF o] unfolding owners_unique_def by blast
      with o sound(2) show ?thesis by (auto simp: projectNameUnavailable_def Let_def)
    qed
    then show ?thesis using Cons.prems(2) unfolding owners_unique_def by auto
  qed
  from Cons.IH [OF _ this rest] Cons.prems(1) have IH: "length rest = length idx"
    "owners_unique (set (?new # assigned) \<union> {(ProjectNameKey ul m, pr_ProjectID (records ! j)) |j m. (j, m) \<in> set (zip idx rest)})"
    "\<forall>(i, name) \<in> set (zip idx rest). SafeProjectName name
       \<and> \<not> hasForeignProjectID (idOwners ul records (ProjectNameKey ul name)) (pr_ProjectID (records ! i))"
    by simp_all
  have sets: "set assigned \<union> {(ProjectNameKey ul m, pr_ProjectID (records ! j)) |j m. (j, m) \<in> set (zip (i # idx) names)}
      = set (?new # assigned) \<union> {(ProjectNameKey ul m, pr_ProjectID (records ! j)) |j m. (j, m) \<in> set (zip idx rest)}"
    unfolding names by auto
  have "\<not> hasForeignProjectID (idOwners ul records (ProjectNameKey ul name)) (pr_ProjectID (records ! i))"
    using sound(2) by (auto simp: projectNameUnavailable_def Let_def)
  with IH sound(1) show ?case unfolding sets by (simp add: names)
qed simp

lemma assign_names_returns:
  assumes safe: "\<forall>r \<in> set records. SafeID (pr_ProjectID r)" and ks: "keepers_ok ul records ks"
    and "\<forall>i \<in> set idx. i < length records"
    and "int (length records) + int (length ks) + int (length assigned) + int (length idx) + 2 \<le> max_int64"
  shows "\<exists>names. assign_names ul records ks assigned idx = Some names"
  using assms(3,4)
proof (induction idx arbitrary: assigned)
  case (Cons i idx)
  have i: "i < length records" using Cons.prems(1) by simp
  obtain name where name: "assign_name ul records ks assigned i = Some name"
    using assign_name_returns [OF safe ks i, of assigned] Cons.prems(2) by auto
  have "\<exists>names. assign_names ul records ks ((ProjectNameKey ul name, pr_ProjectID (records ! i)) # assigned) idx = Some names"
    using Cons.prems by (intro Cons.IH) auto
  then show ?case using name by auto
qed simp

lemma length_keepers: "length (keepers ul records) \<le> 2 * length records"
proof -
  have grow: "length (fold (\<lambda>(i, r) ks. if c (i, r) ks then (base_key ul r, i) # ks else ks) xs ks0) \<le> length ks0 + length xs"
    for c and xs :: "(nat \<times> ProjectRecord) list" and ks0 :: "(string \<times> nat) list"
  proof (induction xs arbitrary: ks0)
    case (Cons x xs)
    obtain i r where x: "x = (i, r)" by force
    show ?case
      using Cons [of "(base_key ul r, i) # ks0"] Cons [of ks0] by (auto simp: x)
  qed simp
  let ?xs = "enumerate 0 records"
  show ?thesis
    using grow [of "\<lambda>x ks. map_of ks (base_key ul (snd x)) = None" ?xs "[]"]
      grow [of "\<lambda>x _. pr_IdentityVersion (snd x) = 2" ?xs
        "fold (\<lambda>(i, r) ks. if map_of ks (base_key ul r) = None then (base_key ul r, i) # ks else ks) ?xs []"]
    by (simp add: keepers_def Let_def)
qed

definition renamed :: "ProjectRecord \<Rightarrow> string \<Rightarrow> ProjectRecord" where
  "renamed r name = r\<lparr>pr_Name := name, pr_SourceKey := planned_key r\<rparr>"

text \<open>The names that a plan gives to records with safe identifiers.\<close>

definition good_names :: "(nat \<Rightarrow> nat) \<Rightarrow> ProjectRecord list \<Rightarrow> string list \<Rightarrow> bool" where
  "good_names ul records names \<longleftrightarrow>
     length names = length records \<and> list_all SafeProjectName names
     \<and> (\<forall>i < length records. \<forall>j < length records. pr_ProjectID (records ! i) \<noteq> pr_ProjectID (records ! j)
          \<longrightarrow> \<not> ProjectNamesEqual ul (names ! i) (names ! j) \<and> \<not> ProjectNamesEqual ul (names ! i) (pr_ProjectID (records ! j)))"

lemma plan_names:
  assumes safe: "\<forall>r \<in> set records. SafeID (pr_ProjectID r)"
    and "planProjectNameMigration ul parse records = Some (ordered, targets)"
  obtains names where "ordered = sort_key (import_key parse) records" "targets = plan_targets ordered names"
    "good_names ul ordered names"
proof -
  obtain names where ordered: "ordered = sort_key (import_key parse) records" and targets: "targets = plan_targets ordered names"
    and names: "assign_names ul ordered (keepers ul ordered) [] [0..<length ordered] = Some names"
    using assms(2) by (auto simp: planProjectNameMigration_def Let_def)
  let ?z = "zip [0..<length ordered] names"
  have safe': "\<forall>r \<in> set ordered. SafeID (pr_ProjectID r)" using safe ordered by simp
  have idx: "\<forall>i \<in> set [0..<length ordered]. i < length ordered" by simp
  have none: "owners_unique (set [])" by (simp add: owners_unique_def)
  note sound = assign_names_sound [OF safe' keepers_ok_keepers idx none names]
  have len: "length names = length ordered" and uniq: "owners_unique {(ProjectNameKey ul m, pr_ProjectID (ordered ! j)) |j m. (j, m) \<in> set ?z}"
    and each: "\<forall>(i, name) \<in> set ?z. SafeProjectName name
      \<and> \<not> hasForeignProjectID (idOwners ul ordered (ProjectNameKey ul name)) (pr_ProjectID (ordered ! i))"
    using sound [THEN conjunct1] sound [THEN conjunct2, THEN conjunct1] sound [THEN conjunct2, THEN conjunct2]
    by (simp, simp, blast)
  have z: "(i, names ! i) \<in> set ?z" if "i < length ordered" for i
    using that len by (auto simp: set_zip intro!: exI [of _ i])
  have "good_names ul ordered names"
    unfolding good_names_def
  proof (intro conjI allI impI)
    show "length names = length ordered" by (rule len)
    show "list_all SafeProjectName names"
      using each z len by (fastforce simp: list_all_length)
    fix i j
    assume ij: "i < length ordered" "j < length ordered" "pr_ProjectID (ordered ! i) \<noteq> pr_ProjectID (ordered ! j)"
    show "\<not> ProjectNamesEqual ul (names ! i) (names ! j)"
      using uniq z [OF ij(1)] z [OF ij(2)] ij(3) unfolding owners_unique_def ProjectNamesEqual_def by blast
    show "\<not> ProjectNamesEqual ul (names ! i) (pr_ProjectID (ordered ! j))"
    proof
      assume "ProjectNamesEqual ul (names ! i) (pr_ProjectID (ordered ! j))"
      then have "pr_ProjectID (ordered ! j) \<in> set (idOwners ul ordered (ProjectNameKey ul (names ! i)))"
        using ij(2) by (auto simp: idOwners_def ProjectNamesEqual_def)
      then have "hasForeignProjectID (idOwners ul ordered (ProjectNameKey ul (names ! i))) (pr_ProjectID (ordered ! i))"
        using ij(3) unfolding hasForeignProjectID_def list_ex_iff by metis
      with each z [OF ij(1)] show False by blast
    qed
  qed
  with that ordered targets show thesis by blast
qed

section \<open>Planning again changes nothing\<close>

lemma planned_key_renamed [simp]: "planned_key (renamed r name) = planned_key r"
  by (auto simp: renamed_def planned_key_def SourceKey_def)

lemma import_key_renamed [simp]: "import_key parse (renamed r name) = import_key parse r"
  by (simp add: import_key_def renamed_def split: option.split)

lemma renamed_simps [simp]:
  "pr_ProjectID (renamed r name) = pr_ProjectID r" "pr_Name (renamed r name) = name"
  "pr_SourceKey (renamed r name) = planned_key r"
  by (simp_all add: renamed_def)

lemma assign_names_stable:
  assumes len: "length names = length records" and names: "\<And>i. i < length records \<Longrightarrow> base_name (records ! i) = names ! i"
    and keeper: "\<And>i. i < length records \<Longrightarrow> map_of ks (ProjectNameKey ul (names ! i)) = Some i"
    and foreign: "\<And>i. i < length records \<Longrightarrow> \<not> hasForeignProjectID (idOwners ul records (ProjectNameKey ul (names ! i))) (pr_ProjectID (records ! i))"
    and inj: "\<And>i j. i < length records \<Longrightarrow> j < length records \<Longrightarrow> ProjectNameKey ul (names ! i) = ProjectNameKey ul (names ! j) \<Longrightarrow> i = j"
    and "\<forall>i \<in> set idx. i < length records"
    and "set assigned \<subseteq> {(ProjectNameKey ul (names ! j), pr_ProjectID (records ! j)) |j. j < length records}"
  shows "assign_names ul records ks assigned idx = Some (map ((!) names) idx)"
  using assms(6,7)
proof (induction idx arbitrary: assigned)
  case (Cons i idx)
  have i: "i < length records" using Cons.prems(1) by simp
  have key: "base_key ul (records ! i) = ProjectNameKey ul (names ! i)" using names [OF i] by (simp add: base_key_def)
  have "owner = pr_ProjectID (records ! i)" if "map_of assigned (ProjectNameKey ul (names ! i)) = Some owner" for owner
    using Cons.prems(2) map_of_SomeD [OF that] inj [OF i] by auto
  then have "\<not> unavailable_for ul records ks assigned i (names ! i)"
    using foreign [OF i] keeper [OF i]
    by (auto simp: projectNameUnavailable_def protected_names_def Let_def split: option.split)
  then have "assign_name ul records ks assigned i = Some (names ! i)"
    using keeper [OF i] names [OF i] by (simp add: assign_name_def Let_def key)
  moreover have "assign_names ul records ks ((ProjectNameKey ul (names ! i), pr_ProjectID (records ! i)) # assigned) idx
      = Some (map ((!) names) idx)"
    using Cons.prems i by (intro Cons.IH) auto
  ultimately show ?case by simp
qed simp

lemma plan_stable:
  assumes good: "good_names ul ordered names" and ids: "distinct (map pr_ProjectID ordered)"
    and sorted: "sorted (map (import_key parse) ordered)"
  shows "planProjectNameMigration ul parse (map2 renamed ordered names) = Some (map2 renamed ordered names, [])"
proof -
  let ?new = "map2 renamed ordered names"
  have len: "length names = length ordered" using good by (simp add: good_names_def)
  have nth: "?new ! i = renamed (ordered ! i) (names ! i)" if "i < length ordered" for i
    using that len by simp
  have safe: "SafeProjectName (names ! i)" if "i < length ordered" for i
    using good that by (simp add: good_names_def list_all_length)
  have differ: "pr_ProjectID (ordered ! i) \<noteq> pr_ProjectID (ordered ! j)" if "i < length ordered" "j < length ordered" "i \<noteq> j" for i j
    using ids that by (auto simp: distinct_conv_nth)
  have base: "base_name (?new ! i) = names ! i" if "i < length ordered" for i
    using nth [OF that] safe [OF that] by (simp add: base_name_def)
  have inj: "i = j" if "i < length ordered" "j < length ordered" "ProjectNameKey ul (names ! i) = ProjectNameKey ul (names ! j)" for i j
    using good differ that unfolding good_names_def ProjectNamesEqual_def by blast
  have keeper: "map_of (keepers ul ?new) (ProjectNameKey ul (names ! i)) = Some i" if i: "i < length ordered" for i
  proof -
    have mem: "?new ! i \<in> set ?new" using i len by (intro nth_mem) simp
    obtain j where j: "j < length ?new" "map_of (keepers ul ?new) (base_key ul (?new ! i)) = Some j"
        "base_key ul (?new ! j) = base_key ul (?new ! i)"
      using keepers_found [OF mem] by blast
    have "j < length ordered" using j(1) by simp
    then have "j = i" using j(3) base i inj unfolding base_key_def by metis
    with j(2) base [OF i] show ?thesis by (simp add: base_key_def)
  qed
  have foreign: "\<not> hasForeignProjectID (idOwners ul ?new (ProjectNameKey ul (names ! i))) (pr_ProjectID (?new ! i))"
    if i: "i < length ordered" for i
  proof
    assume "hasForeignProjectID (idOwners ul ?new (ProjectNameKey ul (names ! i))) (pr_ProjectID (?new ! i))"
    then obtain j where "j < length ordered" "ProjectNameKey ul (pr_ProjectID (ordered ! j)) = ProjectNameKey ul (names ! i)"
        "pr_ProjectID (ordered ! j) \<noteq> pr_ProjectID (ordered ! i)"
      using nth i len by (auto simp: hasForeignProjectID_def list_ex_iff idOwners_def in_set_conv_nth)
    with good i show False unfolding good_names_def ProjectNamesEqual_def by metis
  qed
  have "sort_key (import_key parse) ?new = ?new"
  proof (rule sort_key_id_if_sorted)
    have "map (import_key parse) ?new = map (import_key parse) ordered"
      using len by (auto intro!: nth_equalityI)
    with sorted show "sorted (map (import_key parse) ?new)" by simp
  qed
  moreover have "assign_names ul ?new (keepers ul ?new) [] [0..<length ?new] = Some (map ((!) names) [0..<length ?new])"
    by (rule assign_names_stable) (use len base keeper foreign inj in auto)
  moreover have "map ((!) names) [0..<length ?new] = names" using len map_nth [of names] by simp
  moreover have "plan_targets ?new names = []"
    using len by (auto simp: plan_targets_def filter_empty_conv in_set_zip)
  ultimately show ?thesis by (simp add: planProjectNameMigration_def Let_def)
qed

section \<open>The operation\<close>

definition target_for :: "projectNameMigrationTarget list \<Rightarrow> string \<Rightarrow> projectNameMigrationTarget option" where
  "target_for ts pid = find_first (\<lambda>t. mt_ProjectID t = pid) ts"

definition retarget :: "projectNameMigrationTarget option \<Rightarrow> ProjectRecord \<Rightarrow> ProjectRecord" where
  "retarget target r =
     (case target of
        None \<Rightarrow> r
      | Some t \<Rightarrow>
          if pr_Name r = mt_Name t \<and> pr_SourceKey r = mt_SourceKey t then r
          else json_record (r\<lparr>pr_Name := mt_Name t, pr_SourceKey := mt_SourceKey t\<rparr>))"

lemma target_for_Cons: "target_for (t # ts) pid = (if mt_ProjectID t = pid then Some t else target_for ts pid)"
  by (simp add: target_for_def)

lemma target_for_None: "target_for ts pid = None \<longleftrightarrow> pid \<notin> mt_ProjectID ` set ts"
  by (auto simp: target_for_def)

lemma retarget_simps [simp]:
  "retarget None r = r"
  "pr_Name r = mt_Name t \<and> pr_SourceKey r = mt_SourceKey t \<Longrightarrow> retarget (Some t) r = r"
  by (simp_all add: retarget_def)

lemma apply_targets_view:
  assumes "apply_targets e k byID ts changed s = (t, Inr b)" and "well_named s"
    and "\<And>tg. tg \<in> set ts \<Longrightarrow> byID (mt_ProjectID tg) = view s (mt_ProjectID tg)"
    and "distinct (map mt_ProjectID ts)"
  shows "well_named t \<and> sd_Info t = sd_Info s \<and> sd_Journal t = sd_Journal s
    \<and> view t = (\<lambda>pid. map_option (retarget (target_for ts pid)) (view s pid))"
  using assms
proof (induction ts arbitrary: changed s)
  case Nil
  then show ?case by (auto simp: target_for_def option.map_ident)
next
  case (Cons tg ts)
  let ?id = "mt_ProjectID tg"
  have none: "target_for ts ?id = None" using Cons.prems(4) by (simp add: target_for_None)
  have byID: "byID ?id = view s ?id" using Cons.prems(3) by simp
  have step: "?case" if run: "apply_targets e k byID ts c u = (t, Inr b)" and u: "well_named u" "sd_Info u = sd_Info s"
      "sd_Journal u = sd_Journal s" "view u = (view s)(?id := map_option (retarget (Some tg)) (view s ?id))" for c u
  proof -
    have "byID (mt_ProjectID tg') = view u (mt_ProjectID tg')" if tg': "tg' \<in> set ts" for tg'
    proof -
      have "mt_ProjectID tg' \<noteq> ?id" using tg' Cons.prems(4) by (metis distinct.simps(2) image_eqI list.map(2) set_map)
      then show ?thesis using Cons.prems(3) [of tg'] u(4) tg' by simp
    qed
    from Cons.IH [OF run u(1) this] Cons.prems(4) have
      "well_named t \<and> sd_Info t = sd_Info u \<and> sd_Journal t = sd_Journal u
        \<and> view t = (\<lambda>pid. map_option (retarget (target_for ts pid)) (view u pid))" by simp
    then show ?thesis
      using u none by (auto simp: target_for_Cons fun_eq_iff option.map_comp comp_def option.map_ident)
  qed
  show ?case
  proof (cases "view s ?id")
    case None
    have "view s = (view s)(?id := map_option (retarget (Some tg)) (view s ?id))" using None by auto
    then show ?thesis using Cons.prems(1,2) byID None by (intro step [of changed s]) simp_all
  next
    case (Some r)
    have pid: "?id \<noteq> ''''" using Some view_Nil [OF Cons.prems(2)] by auto
    note id = view_id [OF Some pid]
    show ?thesis
    proof (cases "pr_Name r = mt_Name tg \<and> pr_SourceKey r = mt_SourceKey tg")
      case True
      then have "view s = (view s)(?id := map_option (retarget (Some tg)) (view s ?id))" using Some by auto
      then show ?thesis using Cons.prems(1,2) byID Some True by (intro step [of changed s]) simp_all
    next
      case False
      let ?r = "r\<lparr>pr_Name := mt_Name tg, pr_SourceKey := mt_SourceKey tg\<rparr>"
      obtain u where u: "putUnlocked e k ?r s = (u, Inr ())" "apply_targets e k byID ts True u = (t, Inr b)"
        using Cons.prems(1) byID Some False by (auto elim!: io_bind_InrE)
      have "view u = (view s)(?id := map_option (retarget (Some tg)) (view s ?id))"
        using putUnlocked_view(2) [OF u(1) _ Cons.prems(2)] id Some False by (auto simp: retarget_def)
      with putUnlocked_view [OF u(1) _ Cons.prems(2)] id u(2) show ?thesis by (intro step [of True u]) simp_all
    qed
  qed
qed

lemma list_byID:
  assumes "listUnlocked e s = Inr rs" and "well_named s" and "private_env e" and "sd_Info s \<noteq> None"
  shows "map_of (rev (map (\<lambda>r. (pr_ProjectID r, r)) rs)) = view s"
proof
  fix pid
  let ?al = "rev (map (\<lambda>r. (pr_ProjectID r, r)) rs)"
  have "distinct (map fst ?al)"
    using listUnlocked_ids [OF assms(1-3)] by (simp add: comp_def rev_map [symmetric])
  then have "map_of ?al pid = Some r \<longleftrightarrow> r \<in> set rs \<and> pr_ProjectID r = pid" for r
    by (auto simp: map_of_eq_Some_iff)
  moreover have "r \<in> set rs \<longleftrightarrow> view s (pr_ProjectID r) = Some r" for r
    using list_stored [OF assms(3,4,1)] stored_view [OF assms(2)] by simp
  moreover have "pr_ProjectID r = pid" if "view s pid = Some r" for r
    using that view_id(1) [of s pid r] view_Nil [OF assms(2)] by (cases "pid = []") auto
  ultimately have eq: "map_of ?al pid = Some r \<longleftrightarrow> view s pid = Some r" for r by auto
  show "map_of ?al pid = view s pid"
  proof (cases "view s pid")
    case None
    with eq [of "the (map_of ?al pid)"] show ?thesis by (cases "map_of ?al pid") simp_all
  next
    case (Some r)
    with eq [of r] show ?thesis by simp
  qed
qed

lemma apply_migration_view:
  assumes "applyProjectNameMigration e k j s = (t, Inr b)" and "well_named s" and "private_env e"
    and "sd_Info s \<noteq> None" and "distinct (map mt_ProjectID (mj_Targets j))"
  shows "well_named t \<and> sd_Info t = sd_Info s \<and> sd_Journal t = sd_Journal s
    \<and> view t = (\<lambda>pid. map_option (retarget (target_for (mj_Targets j) pid)) (view s pid))"
proof -
  obtain rs where rs: "listUnlocked e s = Inr rs"
    and run: "apply_targets e k (map_of (rev (map (\<lambda>r. (pr_ProjectID r, r)) rs))) (mj_Targets j) False s = (t, Inr b)"
    using assms(1) by (auto simp: applyProjectNameMigration_def io_bind_lift split: sum.split_asm)
  show ?thesis
    using apply_targets_view [OF run assms(2) _ assms(5)] list_byID [OF rs assms(2-4)] by simp
qed

lemma resume_view:
  assumes "resumeProjectNameMigration e s = (t, Inr b)" and "well_named s" and "private_env e" and "sd_Info s \<noteq> None"
  shows "well_named t \<and> sd_Info t = sd_Info s \<and> sd_Journal t = None \<and> dom (view t) = dom (view s)"
proof (cases "readProjectNameMigration s")
  case (Inl err)
  with assms(1) show ?thesis by (simp add: resumeProjectNameMigration_def io_bind_lift)
next
  case (Inr found)
  show ?thesis
  proof (cases found)
    case None
    with Inr have "sd_Journal s = None"
      by (auto simp: readProjectNameMigration_def split: option.split_asm if_split_asm doc.split_asm)
    with assms Inr None show ?thesis by (simp add: resumeProjectNameMigration_def io_bind_lift)
  next
    case (Some j)
    have j: "distinct (map mt_ProjectID (mj_Targets j))"
      using Inr Some by (auto simp: readProjectNameMigration_def validateProjectNameMigration_def
          split: option.split_asm if_split_asm doc.split_asm)
    obtain u c where u: "applyProjectNameMigration e 0 j s = (u, Inr c)" "removeProjectNameMigration e 0 u = (t, Inr ())"
      using assms(1) Inr Some by (auto simp: resumeProjectNameMigration_def io_bind_lift elim!: io_bind_InrE)
    have "t = u\<lparr>sd_Journal := None\<rparr>"
      using u(2) by (auto simp: removeProjectNameMigration_def split: write_outcome.split_asm if_split_asm)
    moreover from this have "view t = view u" "well_named t = well_named u"
      using view_cong [of t u] well_named_cong [of t u] by simp_all
    ultimately show ?thesis using apply_migration_view [OF u(1) assms(2-4) j] by (auto simp: dom_def)
  qed
qed

lemma plan_targets_ids:
  assumes "distinct (map pr_ProjectID ordered)" and "length names = length ordered"
  shows "distinct (map mt_ProjectID (plan_targets ordered names))"
proof -
  let ?P = "\<lambda>(r, name). pr_Name r \<noteq> name \<or> pr_SourceKey r \<noteq> planned_key r"
  have "map mt_ProjectID (plan_targets ordered names) = map (pr_ProjectID \<circ> fst) (filter ?P (zip ordered names))"
    by (simp add: plan_targets_def case_prod_unfold)
  moreover have "map (pr_ProjectID \<circ> fst) (zip ordered names) = map pr_ProjectID ordered"
    using assms(2) by (metis map_fst_zip map_map)
  then have "distinct (map (pr_ProjectID \<circ> fst) (filter ?P (zip ordered names)))"
    using assms(1) by (intro distinct_map_filter) simp
  ultimately show ?thesis by simp
qed

lemma plan_target_for:
  assumes ids: "distinct (map pr_ProjectID ordered)" and len: "length names = length ordered" and i: "i < length ordered"
  shows "target_for (plan_targets ordered names) (pr_ProjectID (ordered ! i)) =
    (if pr_Name (ordered ! i) \<noteq> names ! i \<or> pr_SourceKey (ordered ! i) \<noteq> planned_key (ordered ! i)
     then Some \<lparr>mt_ProjectID = pr_ProjectID (ordered ! i), mt_Name = names ! i, mt_SourceKey = planned_key (ordered ! i)\<rparr>
     else None)" (is "?l = (if ?c then Some ?t else None)")
proof -
  have mem: "tg \<in> set (plan_targets ordered names) \<longleftrightarrow>
      (\<exists>j < length ordered. tg = \<lparr>mt_ProjectID = pr_ProjectID (ordered ! j), mt_Name = names ! j, mt_SourceKey = planned_key (ordered ! j)\<rparr>
        \<and> (pr_Name (ordered ! j) \<noteq> names ! j \<or> pr_SourceKey (ordered ! j) \<noteq> planned_key (ordered ! j)))" for tg
    using len by (auto simp: plan_targets_def set_zip)
  have inj: "j = i" if "j < length ordered" "pr_ProjectID (ordered ! j) = pr_ProjectID (ordered ! i)" for j
    using ids i that by (auto simp: distinct_conv_nth)
  show ?thesis
  proof (cases ?c)
    case True
    then have "?t \<in> set (plan_targets ordered names)" using mem i by blast
    then have "pr_ProjectID (ordered ! i) \<in> mt_ProjectID ` set (plan_targets ordered names)"
      by (rule image_eqI [rotated]) simp
    then have "?l \<noteq> None" by (simp only: target_for_None not_not)
    then obtain tg where tg: "?l = Some tg" by auto
    then have hit: "tg \<in> set (plan_targets ordered names)" "mt_ProjectID tg = pr_ProjectID (ordered ! i)"
      unfolding target_for_def by (auto dest: find_first_SomeD)
    then obtain j where j: "j < length ordered"
        "tg = \<lparr>mt_ProjectID = pr_ProjectID (ordered ! j), mt_Name = names ! j, mt_SourceKey = planned_key (ordered ! j)\<rparr>"
      using mem by blast
    then have "j = i" using hit(2) inj by simp
    with j(2) tg True show ?thesis by simp
  next
    case False
    have "pr_ProjectID (ordered ! i) \<notin> mt_ProjectID ` set (plan_targets ordered names)"
    proof
      assume "pr_ProjectID (ordered ! i) \<in> mt_ProjectID ` set (plan_targets ordered names)"
      then obtain tg where "tg \<in> set (plan_targets ordered names)" "mt_ProjectID tg = pr_ProjectID (ordered ! i)" by auto
      then obtain j where "j < length ordered" "pr_ProjectID (ordered ! j) = pr_ProjectID (ordered ! i)"
          "pr_Name (ordered ! j) \<noteq> names ! j \<or> pr_SourceKey (ordered ! j) \<noteq> planned_key (ordered ! j)"
        using mem by auto
      with inj False show False by metis
    qed
    with False show ?thesis by (simp add: target_for_None)
  qed
qed

lemma retarget_planned:
  assumes ids: "distinct (map pr_ProjectID ordered)" and good: "good_names ul ordered names" and i: "i < length ordered"
    and safe: "SafeID (pr_ProjectID (ordered ! i))"
  shows "pr_Name (retarget (target_for (plan_targets ordered names) (pr_ProjectID (ordered ! i))) (ordered ! i)) = names ! i"
    and "pr_ProjectID (retarget (target_for (plan_targets ordered names) (pr_ProjectID (ordered ! i))) (ordered ! i)) = pr_ProjectID (ordered ! i)"
proof -
  have len: "length names = length ordered" and name: "SafeProjectName (names ! i)"
    using good i by (auto simp: good_names_def list_all_length)
  show "pr_Name (retarget (target_for (plan_targets ordered names) (pr_ProjectID (ordered ! i))) (ordered ! i)) = names ! i"
    "pr_ProjectID (retarget (target_for (plan_targets ordered names) (pr_ProjectID (ordered ! i))) (ordered ! i)) = pr_ProjectID (ordered ! i)"
    using plan_target_for [OF ids len i] name safe
    by (auto simp: retarget_def json_record_def SafeProjectName_def SafeID_ascii)
qed

lemma writeMigration_frame:
  assumes "writeProjectNameMigration e j s = (t, x)"
  shows "view t = view s" "well_named t = well_named s" "sd_Info t = sd_Info s"
proof -
  have "sd_Files t = sd_Files s" "sd_Path t = sd_Path s" "sd_Info t = sd_Info s"
    using assms by (auto simp: writeProjectNameMigration_def Let_def split: option.split_asm write_outcome.split_asm)
  then show "view t = view s" "well_named t = well_named s" "sd_Info t = sd_Info s"
    using view_cong [of t s] well_named_cong [of t s] by simp_all
qed

lemma removeMigration_done:
  assumes "removeProjectNameMigration e k s = (t, Inr ())"
  shows "view t = view s" "well_named t = well_named s" "sd_Journal t = None"
proof -
  have "t = s\<lparr>sd_Journal := None\<rparr>"
    using assms by (auto simp: removeProjectNameMigration_def split: write_outcome.split_asm if_split_asm)
  then show "view t = view s" "well_named t = well_named s" "sd_Journal t = None"
    using view_cong [of t s] well_named_cong [of t s] by simp_all
qed

lemma Migrate_steps:
  assumes run: "MigrateLegacyNames ul parse e s = (t, Inr b)" and s: "well_named s" and e: "private_env e"
  obtains v rs ordered targets where "well_named v" "dom (view v) = dom (view s)" "sd_Info v \<noteq> None"
    "listUnlocked e v = Inr rs" "planProjectNameMigration ul parse rs = Some (ordered, targets)"
    "distinct (map mt_ProjectID targets) \<longrightarrow> well_named t \<and> sd_Journal t = None
       \<and> view t = (\<lambda>pid. map_option (retarget (target_for targets pid)) (view v pid))"
proof -
  obtain u v resumed rs ordered targets where u: "lock e s = (u, Inr ())" and v: "resumeProjectNameMigration e u = (v, Inr resumed)"
    and rs: "listUnlocked e v = Inr rs" and plan: "planProjectNameMigration ul parse rs = Some (ordered, targets)"
    and rest: "(if targets = [] then io_return resumed
      else io_bind (check (validateCanonicalMigrationTargets ordered targets)) (\<lambda>_.
        io_bind (writeProjectNameMigration e \<lparr>mj_Schema = 1, mj_Targets = targets\<rparr>) (\<lambda>_.
        io_bind (applyProjectNameMigration e 1 \<lparr>mj_Schema = 1, mj_Targets = targets\<rparr>) (\<lambda>_.
        io_bind (removeProjectNameMigration e 1) (\<lambda>_. io_return True))))) v = (t, Inr b)"
    using run by (auto simp: MigrateLegacyNames_def plan_def elim!: io_bind_InrE split: option.split_asm)
  have u': "well_named u" "view u = view s" "sd_Info u \<noteq> None"
    using keepsD [OF lock_same_view u] s lock_result(3) [OF u] by (simp_all add: same_view_def)
  have v': "well_named v" "dom (view v) = dom (view s)" "sd_Info v \<noteq> None" "sd_Journal v = None"
    using resume_view [OF v u'(1) e u'(3)] u' by simp_all
  have "well_named t \<and> sd_Journal t = None \<and> view t = (\<lambda>pid. map_option (retarget (target_for targets pid)) (view v pid))"
    if ids: "distinct (map mt_ProjectID targets)"
  proof (cases "targets = []")
    case True
    moreover have "map_option (retarget None) m = m" for m by (cases m) simp_all
    ultimately show ?thesis using rest v' by (auto simp: target_for_def)
  next
    case False
    let ?j = "\<lparr>mj_Schema = 1, mj_Targets = targets\<rparr>"
    obtain w y c where w: "writeProjectNameMigration e ?j v = (w, Inr ())" "applyProjectNameMigration e 1 ?j w = (y, Inr c)"
        "removeProjectNameMigration e 1 y = (t, Inr ())"
      using rest False by (auto simp: check_def elim!: io_bind_InrE split: option.split_asm)
    have w': "well_named w" "sd_Info w \<noteq> None" "view w = view v" using writeMigration_frame [OF w(1)] v' by simp_all
    show ?thesis
      using apply_migration_view [OF w(2) w'(1) e w'(2)] ids w'(3) removeMigration_done [OF w(3)] by simp
  qed
  with that v' rs plan show thesis by blast
qed

lemma good_names_apart:
  assumes good: "good_names ul ordered names"
    and each: "\<And>pid r. m pid = Some r \<Longrightarrow>
      \<exists>i < length ordered. pr_ProjectID (ordered ! i) = pid \<and> pr_ProjectID r = pid \<and> pr_Name r = names ! i"
  shows "names_apart ul m" "\<forall>r \<in> ran m. SafeProjectName (pr_Name r)"
proof -
  show "names_apart ul (m)"
    unfolding names_apart_def
  proof (intro allI impI, elim conjE)
    fix p q r c
    assume r: "m p = Some r" and c: "m q = Some c" and neq: "pr_ProjectID r \<noteq> pr_ProjectID c"
    obtain i where i: "i < length ordered" "pr_ProjectID (ordered ! i) = pr_ProjectID r" "pr_Name r = names ! i"
      using each [OF r] by auto
    obtain j where j: "j < length ordered" "pr_ProjectID (ordered ! j) = pr_ProjectID c" "pr_Name c = names ! j"
      using each [OF c] by auto
    have apart: "\<not> ProjectNamesEqual ul (names ! k) (names ! l) \<and> \<not> ProjectNamesEqual ul (names ! k) (pr_ProjectID (ordered ! l))"
      if "k < length ordered" "l < length ordered" "pr_ProjectID (ordered ! k) \<noteq> pr_ProjectID (ordered ! l)" for k l
      using good that unfolding good_names_def by blast
    from apart [OF i(1) j(1)] apart [OF j(1) i(1)] i j neq show "\<not> name_conflict ul r c"
      unfolding name_conflict_def ProjectNamesEqual_def by auto
  qed
  show "\<forall>r \<in> ran (m). SafeProjectName (pr_Name r)"
  proof
    fix r
    assume "r \<in> ran (m)"
    then obtain pid where "m pid = Some r" by (auto simp: ran_def)
    from each [OF this] good show "SafeProjectName (pr_Name r)" by (auto simp: good_names_def list_all_length)
  qed
qed

text \<open>
  C14: a successful migration leaves a store in which every project has a safe name, no project has the
  name or the identifier of another as its name, no journal is left, and no project was added or
  lost, whatever names the legacy records and an interrupted earlier pass had left behind.
\<close>

theorem migration_makes_names_unique:
  assumes run: "MigrateLegacyNames ul parse e s = (t, Inr b)" and s: "well_named s" and e: "private_env e"
  shows "well_named t \<and> sd_Journal t = None \<and> dom (view t) = dom (view s) \<and> names_apart ul (view t)
    \<and> (\<forall>r \<in> ran (view t). SafeProjectName (pr_Name r))"
proof -
  obtain v rs ordered targets where v: "well_named v" "dom (view v) = dom (view s)" "sd_Info v \<noteq> None"
    and rs: "listUnlocked e v = Inr rs" and plan: "planProjectNameMigration ul parse rs = Some (ordered, targets)"
    and after: "distinct (map mt_ProjectID targets) \<longrightarrow> well_named t \<and> sd_Journal t = None
       \<and> view t = (\<lambda>pid. map_option (retarget (target_for targets pid)) (view v pid))"
    using Migrate_steps [OF run s e] .
  have mem: "r \<in> set rs \<longleftrightarrow> view v (pr_ProjectID r) = Some r" for r
    using list_stored [OF e v(3) rs] stored_view [OF v(1)] by simp
  have own: "pr_ProjectID r = pid \<and> SafeID pid" if "view v pid = Some r" for pid r
    using that view_id [of v pid r] view_Nil [OF v(1)] by (cases "pid = []") auto
  have safe: "\<forall>r \<in> set rs. SafeID (pr_ProjectID r)" using mem own by blast
  obtain names where ordered: "ordered = sort_key (import_key parse) rs" and targets: "targets = plan_targets ordered names"
    and good: "good_names ul ordered names"
    using plan_names [OF safe plan] .
  have ids: "distinct (map pr_ProjectID ordered)"
    using listUnlocked_ids [OF rs v(1) e] unfolding ordered by (metis distinct_map mset_eq_imp_distinct_iff mset_sort set_sort)
  have len: "length names = length ordered" using good by (simp add: good_names_def)
  have t: "well_named t" "sd_Journal t = None" "view t = (\<lambda>pid. map_option (retarget (target_for targets pid)) (view v pid))"
    using after plan_targets_ids [OF ids len] targets by simp_all
  have each: "\<exists>i < length ordered. pr_ProjectID (ordered ! i) = pid \<and> pr_ProjectID r = pid \<and> pr_Name r = names ! i"
    if r: "view t pid = Some r" for pid r
  proof -
    obtain r0 where r0: "view v pid = Some r0" "r = retarget (target_for targets pid) r0" using r t(3) by auto
    have "r0 \<in> set ordered" using mem own [OF r0(1)] r0(1) ordered by simp
    then obtain i where i: "i < length ordered" "ordered ! i = r0" by (auto simp: in_set_conv_nth)
    with retarget_planned [OF ids good i(1)] own [OF r0(1)] r0(2) targets show ?thesis by auto
  qed
  have "names_apart ul (view t)" "\<forall>r \<in> ran (view t). SafeProjectName (pr_Name r)"
    using good_names_apart [OF good each] by blast+
  moreover have "dom (view t) = dom (view s)" using t(3) v(2) by (auto simp: dom_def)
  ultimately show ?thesis using t by blast
qed

text \<open>The record of the shell store has a name with a space; it is renamed to its identifier.\<close>

definition shell_targets :: "projectNameMigrationTarget list" where
  "shell_targets = [\<lparr>mt_ProjectID = ''demo'', mt_Name = ''demo'', mt_SourceKey = ''''\<rparr>]"

lemma shell_unsafe: "\<not> SafeProjectName (pr_Name shell_record)" "base_name shell_record = ''demo''" "planned_key shell_record = ''''"
proof -
  show "\<not> SafeProjectName (pr_Name shell_record)"
    by (simp add: shell_record_def SafeProjectName_def SafeID_bytes id_char_def byte_class_defs)
  then show "base_name shell_record = ''demo''" by (simp add: base_name_def shell_record_def)
  show "planned_key shell_record = ''''" by (simp add: planned_key_def shell_record_def)
qed

lemma shell_fields:
  "pr_IdentityVersion shell_record = 0" "pr_ProjectID shell_record = ''demo''" "pr_Name shell_record = ''Demo project''"
  "pr_SourceKey shell_record = ''''"
  by (simp_all add: shell_record_def)

lemma shell_plan: "planProjectNameMigration ul parse [shell_record] = Some ([shell_record], shell_targets)"
proof -
  have keepers: "keepers ul [shell_record] = [(ProjectNameKey ul ''demo'', 0)]"
    by (simp add: keepers_def base_key_def shell_unsafe shell_fields)
  have "assign_name ul [shell_record] (keepers ul [shell_record]) [] 0 = Some ''demo''"
    by (simp add: assign_name_def keepers base_key_def shell_unsafe projectNameUnavailable_def protected_names_def
        hasForeignProjectID_def idOwners_def Let_def shell_fields)
  moreover have "pr_Name shell_record \<noteq> ''demo''" by (simp add: shell_record_def)
  ultimately show ?thesis
    by (simp add: planProjectNameMigration_def plan_targets_def shell_targets_def shell_unsafe shell_fields)
qed

lemma shell_migrates: "\<exists>t. MigrateLegacyNames ul parse calm_env shell_state = (t, Inr True)"
proof -
  let ?j = "\<lparr>mj_Schema = 1, mj_Targets = shell_targets\<rparr>"
  let ?r = "shell_record\<lparr>pr_Name := ''demo'', pr_SourceKey := ''''\<rparr>"
  have valid: "ProjectRecord_Validate ?r ''demo'' = None"
    using path_Join_workspace [OF SafeID_plain [OF demo_safe(2)]] demo_safe(2)
    by (simp add: ProjectRecord_Validate_def Let_def shell_record_def)
  have target: "target_valid \<lparr>mt_ProjectID = ''demo'', mt_Name = ''demo'', mt_SourceKey = ''''\<rparr>"
    using demo_safe by (simp add: target_valid_def)
  obtain w where w: "writeProjectNameMigration calm_env ?j shell_state = (w, Inr ())" "sd_Files w = sd_Files shell_state"
      "sd_Info w = sd_Info shell_state"
    using target by (simp add: writeProjectNameMigration_def validateProjectNameMigration_def shell_targets_def calm_env_def)
  have list: "listUnlocked calm_env w = Inr [shell_record]"
    using shell_list unfolding listUnlocked_def json_entries_def w(2,3) .
  have put: "\<exists>u. putUnlocked calm_env 1 ?r w = (u, Inr ())"
    using putUnlocked_ok [of ?r calm_env 1 w] valid w(2)
    by (simp add: calm_env_def max_state_size_def shell_state_def shell_file_def shell_fields)
  then obtain u where "applyProjectNameMigration calm_env 1 ?j w = (u, Inr True)"
    using list by (auto simp: applyProjectNameMigration_def io_bind_lift shell_targets_def shell_fields io_bind_ok)
  moreover have "validateCanonicalMigrationTargets [shell_record] shell_targets = None"
    by (simp add: validateCanonicalMigrationTargets_def shell_targets_def shell_fields)
  moreover have "removeProjectNameMigration calm_env 1 u = (u\<lparr>sd_Journal := None\<rparr>, Inr ())" "shell_targets \<noteq> []"
    by (simp_all add: removeProjectNameMigration_def calm_env_def shell_targets_def)
  moreover have "resumeProjectNameMigration calm_env shell_state = (shell_state, Inr False)"
    by (simp add: resumeProjectNameMigration_def io_bind_lift readProjectNameMigration_def shell_state_def)
  ultimately show ?thesis
    using shell_lock shell_list shell_plan [of ul parse] w(1)
    by (simp add: MigrateLegacyNames_def io_bind_ok io_bind_lift plan_def check_def)
qed

theorem migration_makes_names_unique_witness:
  "\<exists>t. MigrateLegacyNames (\<lambda>r. r) (\<lambda>_. None) calm_env shell_state = (t, Inr True)
    \<and> sd_Journal t = None \<and> dom (view t) = {''demo''} \<and> names_apart (\<lambda>r. r) (view t)"
proof -
  obtain t where t: "MigrateLegacyNames (\<lambda>r. r) (\<lambda>_. None) calm_env shell_state = (t, Inr True)"
    using shell_migrates by blast
  from migration_makes_names_unique [OF t shell_state_named calm_private] t show ?thesis by (auto simp: shell_view)
qed

text \<open>
  C20: planning ends and settles: for records with distinct safe identifiers, fewer than a quarter of
  the counter's range, the plan is found; it gives every record a safe name that is neither the name
  nor the identifier of another record, and planning again for the renamed records has nothing left to
  do.
\<close>

theorem name_migration_settles:
  assumes safe: "\<forall>r \<in> set records. SafeID (pr_ProjectID r)" and ids: "distinct (map pr_ProjectID records)"
    and few: "4 * int (length records) + 2 \<le> max_int64" and ordered: "ordered = sort_key (import_key parse) records"
  shows "\<exists>names. planProjectNameMigration ul parse records = Some (ordered, plan_targets ordered names)
    \<and> good_names ul ordered names
    \<and> planProjectNameMigration ul parse (map2 renamed ordered names) = Some (map2 renamed ordered names, [])"
proof -
  have safe': "\<forall>r \<in> set ordered. SafeID (pr_ProjectID r)" and len: "length ordered = length records"
    using safe ordered by simp_all
  obtain names where "assign_names ul ordered (keepers ul ordered) [] [0..<length ordered] = Some names"
    using assign_names_returns [OF safe' keepers_ok_keepers, of "[0..<length ordered]" ul "[]"] length_keepers [of ul ordered] few len
    by auto
  then have plan: "planProjectNameMigration ul parse records = Some (ordered, plan_targets ordered names)"
    by (simp add: planProjectNameMigration_def ordered Let_def)
  then obtain names' where names': "plan_targets ordered names = plan_targets ordered names'" "good_names ul ordered names'"
    using plan_names [OF safe plan] by metis
  have "distinct (map pr_ProjectID ordered)" "sorted (map (import_key parse) ordered)"
    using ids unfolding ordered by (metis distinct_map mset_eq_imp_distinct_iff mset_sort set_sort) simp
  from plan_stable [OF names'(2) this] plan names' show ?thesis by auto
qed

theorem name_migration_settles_witness:
  "\<exists>names. planProjectNameMigration (\<lambda>r. r) (\<lambda>_. None) [shell_record]
      = Some ([shell_record], plan_targets [shell_record] names)
    \<and> good_names (\<lambda>r. r) [shell_record] names
    \<and> planProjectNameMigration (\<lambda>r. r) (\<lambda>_. None) (map2 renamed [shell_record] names)
        = Some (map2 renamed [shell_record] names, [])"
  by (rule name_migration_settles) (use demo_safe in \<open>simp_all add: shell_record_def max_int64_def\<close>)

section \<open>The journal of a plan\<close>

lemma hex_key_trim:
  assumes "list_all (\<lambda>character. character \<in> set (runes ''0123456789abcdef'')) (runes s)"
  shows "Trim s ''0123456789abcdef'' = ''''" "is_ascii s"
proof -
  show ascii: "is_ascii s" using hex_ascii [OF assms] .
  have hex: "is_ascii ''0123456789abcdef''" by (simp add: is_ascii_def byte_def)
  have "set s \<subseteq> set ''0123456789abcdef''"
  proof
    fix c
    assume "c \<in> set s"
    then have "byte c \<in> byte ` set ''0123456789abcdef''"
      using assms unfolding runes_ascii [OF ascii] runes_ascii [OF hex] by (auto simp: list_all_iff)
    then show "c \<in> set ''0123456789abcdef''" unfolding image_iff byte_inj by blast
  qed
  then show "Trim s ''0123456789abcdef'' = ''''" by (simp only: Trim_Nil)
qed

lemma planned_key_ok:
  assumes "ProjectRecord_Validate r pid = None"
  shows "is_ascii (planned_key r)"
    and "planned_key r = '''' \<or> length (planned_key r) = 64 \<and> Trim (planned_key r) ''0123456789abcdef'' = ''''"
proof -
  note v = assms [unfolded ProjectRecord_Validate_def Let_def guard_None]
  let ?hex = "\<lambda>k. list_all (\<lambda>character. character \<in> set (runes ''0123456789abcdef'')) (runes k)"
  have "pr_SourceKey r = '''' \<or> length (pr_SourceKey r) = 64 \<and> ?hex (pr_SourceKey r)" using v by blast
  then have "planned_key r = '''' \<or> length (planned_key r) = 64 \<and> ?hex (planned_key r)"
    using SourceKey_valid by (auto simp: planned_key_def)
  then show "is_ascii (planned_key r)"
    "planned_key r = '''' \<or> length (planned_key r) = 64 \<and> Trim (planned_key r) ''0123456789abcdef'' = ''''"
    using hex_key_trim [of "planned_key r"] by auto
qed

text \<open>
  C32: every plan for valid records with distinct identifiers is a well-formed journal: writing it is
  never refused by the validation, and what a later pass reads back from the file is exactly the plan.
\<close>

theorem planned_journal_is_well_formed:
  assumes valid: "\<forall>r \<in> set records. ProjectRecord_Validate r (pr_ProjectID r) = None"
    and ids: "distinct (map pr_ProjectID records)"
    and plan: "planProjectNameMigration ul parse records = Some (ordered, targets)" and "targets \<noteq> []"
    and "journal = \<lparr>mj_Schema = 1, mj_Targets = targets\<rparr>"
    and "se_WriteJournal e = Written" and "se_JournalSize e journal \<le> 64 * 1024 * 1024"
  shows "\<exists>t. writeProjectNameMigration e journal s = (t, Inr ()) \<and> readProjectNameMigration t = Inr (Some journal)"
proof -
  have safe: "\<forall>r \<in> set records. SafeID (pr_ProjectID r)" using valid ProjectRecord_Validate_facts(1) by blast
  obtain names where ordered: "ordered = sort_key (import_key parse) records" and targets: "targets = plan_targets ordered names"
    and good: "good_names ul ordered names"
    using plan_names [OF safe plan] .
  have ids': "distinct (map pr_ProjectID ordered)"
    using ids unfolding ordered by (metis distinct_map mset_eq_imp_distinct_iff mset_sort set_sort)
  have len: "length names = length ordered" using good by (simp add: good_names_def)
  have each: "target_valid tg \<and> is_ascii (mt_ProjectID tg) \<and> is_ascii (mt_Name tg) \<and> is_ascii (mt_SourceKey tg)"
    if tg: "tg \<in> set targets" for tg
  proof -
    obtain i where i: "i < length ordered"
        "tg = \<lparr>mt_ProjectID = pr_ProjectID (ordered ! i), mt_Name = names ! i, mt_SourceKey = planned_key (ordered ! i)\<rparr>"
      using tg len by (auto simp: targets plan_targets_def set_zip)
    have r: "ordered ! i \<in> set records" using i(1) ordered by (metis nth_mem set_sort)
    have name: "SafeProjectName (names ! i)" using good i(1) len by (simp add: good_names_def list_all_length)
    have key: "ProjectRecord_Validate (ordered ! i) (pr_ProjectID (ordered ! i)) = None" using valid r by blast
    from name show ?thesis
      using i(2) safe r planned_key_ok [OF key] by (auto simp: target_valid_def SafeProjectName_def SafeID_ascii)
  qed
  have "validateProjectNameMigration journal = None"
    using assms(4,5) each plan_targets_ids [OF ids' len] targets by (simp add: validateProjectNameMigration_def list_all_iff)
  moreover have "json_migration journal = journal"
    using each assms(5) by (simp add: json_migration_def map_idI)
  ultimately show ?thesis
    using assms(6,7) by (simp add: writeProjectNameMigration_def readProjectNameMigration_def Let_def)
qed

theorem planned_journal_is_well_formed_witness:
  "\<exists>t. writeProjectNameMigration calm_env \<lparr>mj_Schema = 1, mj_Targets = shell_targets\<rparr> shell_state = (t, Inr ())
    \<and> readProjectNameMigration t = Inr (Some \<lparr>mj_Schema = 1, mj_Targets = shell_targets\<rparr>)"
  by (rule planned_journal_is_well_formed [OF _ _ shell_plan [of "\<lambda>r. r" "\<lambda>_. None"] _ refl])
    (use shell_record_valid in \<open>simp_all add: shell_targets_def calm_env_def shell_record_def\<close>)

end
