(* ===== verification/Go_Net.thy ===== *)
theory Go_Net
  imports Go_Sha256 Go_Json "HOL-Library.Finite_Map"
begin

text \<open>
  What the network components use of \<open>net/netip\<close>, \<open>net\<close>, \<open>maps\<close> and \<open>strings.EqualFold\<close>.  Addresses are
  32-bit words: where the program parses an address it also requires an IPv4 address, so the parsers
  here return nothing for the IPv6 forms.
\<close>

unbundle bit_operations_syntax

section \<open>Maps with string keys\<close>

type_synonym str_map = "(string, string) fmap"

text \<open>Reading a missing key gives the zero value.\<close>

definition mget :: "str_map \<Rightarrow> string \<Rightarrow> string" where
  "mget m k = (case fmlookup m k of Some v \<Rightarrow> v | None \<Rightarrow> '''')"

definition dget :: "(string, str_map) fmap \<Rightarrow> string \<Rightarrow> str_map" where
  "dget m k = (case fmlookup m k of Some d \<Rightarrow> d | None \<Rightarrow> fmempty)"

definition map_any :: "('k \<Rightarrow> 'v \<Rightarrow> bool) \<Rightarrow> ('k, 'v) fmap \<Rightarrow> bool" where
  "map_any P m \<longleftrightarrow> \<not> fmpred (\<lambda>k v. \<not> P k v) m"

definition map_len :: "('k, 'v) fmap \<Rightarrow> nat" where
  "map_len m = card (fset (fmdom m))"

definition map_entries :: "('k::linorder, 'v) fmap \<Rightarrow> ('k \<times> 'v) list" where
  "map_entries m = map (\<lambda>k. (k, the (fmlookup m k))) (sorted_list_of_set (fset (fmdom m)))"

lemma map_any_iff: "map_any P m \<longleftrightarrow> (\<exists>k v. fmlookup m k = Some v \<and> P k v)"
  by (auto simp: map_any_def)

lemma mget_upd [simp]: "mget (fmupd k v m) j = (if j = k then v else mget m j)"
  by (simp add: mget_def)

lemma mget_empty [simp]: "mget fmempty k = ''''"
  by (simp add: mget_def)

text \<open>Decoding an encoded map; later keys win when two keys become equal.\<close>

definition json_map :: "str_map \<Rightarrow> str_map" where
  "json_map m = fmap_of_list (rev (map (\<lambda>(k, v). (json_text k, json_text v)) (map_entries m)))"

lemma json_map_valid:
  assumes "\<And>k v. fmlookup m k = Some v \<Longrightarrow> ValidString k \<and> ValidString v"
  shows "json_map m = m"
proof -
  have keys: "set (map fst (map_entries m)) = fset (fmdom m)" "distinct (map fst (map_entries m))"
    by (auto simp: map_entries_def comp_def)
  have entry: "(k, v) \<in> set (map_entries m) \<longleftrightarrow> fmlookup m k = Some v" for k v
    by (auto simp: map_entries_def fmlookup_dom_iff intro: image_eqI)
  have "map (\<lambda>(k, v). (json_text k, json_text v)) (map_entries m) = map_entries m"
    using assms entry by (intro map_idI) (auto simp: json_text_valid)
  moreover have "map_of (rev (map_entries m)) k = fmlookup m k" for k
  proof (cases "fmlookup m k")
    case None
    then show ?thesis using keys(1) entry by (auto simp: map_of_eq_None_iff)
  next
    case (Some v)
    then show ?thesis using keys(2) entry by (simp add: map_of_eq_Some_iff rev_map [symmetric])
  qed
  ultimately show ?thesis by (auto intro!: fmap_ext simp: json_map_def fmlookup_of_list)
qed

section \<open>Case folding\<close>

text \<open>
  \<open>strings.EqualFold\<close> with an ASCII text: besides upper case letters only the long s and the Kelvin sign
  fold to ASCII letters.
\<close>

definition fold_rune :: "nat \<Rightarrow> nat" where
  "fold_rune r = (if 65 \<le> r \<and> r \<le> 90 then r + 32 else if r = 0x17F then 115 else if r = 0x212A then 107 else r)"

definition EqualFold :: "string \<Rightarrow> string \<Rightarrow> bool" where
  "EqualFold s t \<longleftrightarrow> map fold_rune (runes s) = map fold_rune (runes t)"

section \<open>IPv4 addresses\<close>

type_synonym addr = "32 word"

definition octet :: "string \<Rightarrow> nat option" where
  "octet p =
     (if p \<noteq> '''' \<and> all_bytes is_digit p \<and> (hd p = CHR ''0'' \<longrightarrow> length p = 1) \<and> undec p \<le> 255
      then Some (undec p) else None)"

definition AddrFrom4 :: "nat \<Rightarrow> nat \<Rightarrow> nat \<Rightarrow> nat \<Rightarrow> addr" where
  "AddrFrom4 a b c d = word_of_nat (((a * 256 + b) * 256 + c) * 256 + d)"

definition As4 :: "addr \<Rightarrow> nat list" where
  "As4 w = (let n = unat w in
     [n div 256 div 256 div 256, n div 256 div 256 mod 256, n div 256 mod 256, n mod 256])"

definition ParseAddr :: "string \<Rightarrow> addr option" where
  "ParseAddr s =
     (case map octet (Split s CHR ''.'') of
        [Some a, Some b, Some c, Some d] \<Rightarrow> Some (AddrFrom4 a b c d)
      | _ \<Rightarrow> None)"

definition Addr_String :: "addr \<Rightarrow> string" where
  "Addr_String w = Join (map dec (As4 w)) ''.''"

definition Addr_Next :: "addr \<Rightarrow> addr option" where
  "Addr_Next w = (if w + 1 = 0 then None else Some (w + 1))"

definition IsLoopback :: "addr \<Rightarrow> bool" where
  "IsLoopback w \<longleftrightarrow> As4 w ! 0 = 127"

definition IsMulticast :: "addr \<Rightarrow> bool" where
  "IsMulticast w \<longleftrightarrow> As4 w ! 0 div 16 = 14"

definition IsLinkLocalUnicast :: "addr \<Rightarrow> bool" where
  "IsLinkLocalUnicast w \<longleftrightarrow> As4 w ! 0 = 169 \<and> As4 w ! 1 = 254"

definition IsGlobalUnicast :: "addr \<Rightarrow> bool" where
  "IsGlobalUnicast w \<longleftrightarrow>
     w \<noteq> 0 \<and> w \<noteq> AddrFrom4 255 255 255 255 \<and> \<not> IsLoopback w \<and> \<not> IsMulticast w \<and> \<not> IsLinkLocalUnicast w"

definition IsPrivate :: "addr \<Rightarrow> bool" where
  "IsPrivate w \<longleftrightarrow>
     As4 w ! 0 = 10 \<or> As4 w ! 0 = 172 \<and> As4 w ! 1 div 16 = 1 \<or> As4 w ! 0 = 192 \<and> As4 w ! 1 = 168"

section \<open>Prefixes and ports\<close>

text \<open>The text before and after the last occurrence of a character.\<close>

definition cut_last :: "string \<Rightarrow> char \<Rightarrow> (string \<times> string) option" where
  "cut_last s c =
     (if c \<in> set s
      then (let t = rev (takeWhile (\<lambda>d. d \<noteq> c) (rev s)) in Some (take (length s - 1 - length t) s, t))
      else None)"

record Prefix =
  px_Addr :: addr
  px_Bits :: nat

definition ParsePrefix :: "string \<Rightarrow> Prefix option" where
  "ParsePrefix s =
     (case cut_last s slash of
        None \<Rightarrow> None
      | Some (ip, bits) \<Rightarrow>
          (case (ParseAddr ip, Atoi bits) of
             (Some a, Some n) \<Rightarrow>
               if 1 < length bits \<and> \<not> (49 \<le> byte (hd bits) \<and> byte (hd bits) \<le> 57) \<or> n < 0 \<or> 32 < n then None
               else Some \<lparr>px_Addr = a, px_Bits = nat n\<rparr>
           | _ \<Rightarrow> None))"

definition Contains :: "Prefix \<Rightarrow> addr option \<Rightarrow> bool" where
  "Contains p a =
     (case a of None \<Rightarrow> False | Some w \<Rightarrow> drop_bit (32 - px_Bits p) (w XOR px_Addr p) = 0)"

definition Masked_Addr :: "Prefix \<Rightarrow> addr" where
  "Masked_Addr p = push_bit (32 - px_Bits p) (drop_bit (32 - px_Bits p) (px_Addr p))"

record AddrPort =
  ap_Addr :: addr
  ap_Port :: nat

definition ParseUint16 :: "string \<Rightarrow> nat option" where
  "ParseUint16 s = (if s \<noteq> '''' \<and> all_bytes is_digit s \<and> undec s < 65536 then Some (undec s) else None)"

definition ParseAddrPort :: "string \<Rightarrow> AddrPort option" where
  "ParseAddrPort s =
     (case cut_last s CHR '':'' of
        None \<Rightarrow> None
      | Some (ip, port) \<Rightarrow>
          (case (ParseAddr ip, ParseUint16 port) of
             (Some a, Some n) \<Rightarrow> Some \<lparr>ap_Addr = a, ap_Port = n\<rparr>
           | _ \<Rightarrow> None))"

definition AddrPort_String :: "AddrPort \<Rightarrow> string" where
  "AddrPort_String p = Addr_String (ap_Addr p) @ '':'' @ dec (ap_Port p)"

section \<open>Hardware addresses\<close>

definition hex_val :: "char \<Rightarrow> nat option" where
  "hex_val c =
     (if is_hex c then Some (unhex c)
      else if 65 \<le> byte c \<and> byte c \<le> 70 then Some (byte c - 55)
      else None)"

definition xtoi2 :: "char \<Rightarrow> char \<Rightarrow> nat option" where
  "xtoi2 a b = (case (hex_val a, hex_val b) of (Some x, Some y) \<Rightarrow> Some (16 * x + y) | _ \<Rightarrow> None)"

fun mac_bytes :: "char \<Rightarrow> string \<Rightarrow> nat list option" where
  "mac_bytes sep [a, b] = map_option (\<lambda>x. [x]) (xtoi2 a b)"
| "mac_bytes sep (a # b # c # rest) =
     (if c \<noteq> sep then None
      else case (xtoi2 a b, mac_bytes sep rest) of (Some x, Some xs) \<Rightarrow> Some (x # xs) | _ \<Rightarrow> None)"
| "mac_bytes sep _ = None"

fun mac_words :: "string \<Rightarrow> nat list option" where
  "mac_words [a, b, c, d] = (case (xtoi2 a b, xtoi2 c d) of (Some x, Some y) \<Rightarrow> Some [x, y] | _ \<Rightarrow> None)"
| "mac_words (a # b # c # d # e # rest) =
     (if e \<noteq> CHR ''.'' then None
      else case (xtoi2 a b, xtoi2 c d, mac_words rest) of
        (Some x, Some y, Some xs) \<Rightarrow> Some (x # y # xs) | _ \<Rightarrow> None)"
| "mac_words _ = None"

definition ParseMAC :: "string \<Rightarrow> nat list option" where
  "ParseMAC s =
     (if length s < 14 then None
      else if s ! 2 = CHR '':'' \<or> s ! 2 = CHR ''-'' then
        (if (length s + 1) div 3 \<in> {6, 8, 20} then mac_bytes (s ! 2) s else None)
      else if s ! 4 = CHR ''.'' then
        (if 2 * ((length s + 1) div 5) \<in> {6, 8, 20} then mac_words s else None)
      else None)"

definition MAC_String :: "nat list \<Rightarrow> string" where
  "MAC_String m = Join (map hex2 m) '':''"

section \<open>Printing and parsing addresses\<close>

lemma hd_dec: "hd (dec n) = CHR ''0'' \<longleftrightarrow> n = 0"
proof (induction n rule: dec.induct)
  case (1 n)
  show ?case
  proof (cases "n < 10")
    case True
    then have b: "byte (hd (dec n)) = 48 + n" by (simp add: dec.simps [of n] byte_digit_char)
    have "byte (hd (dec n)) = byte CHR ''0'' \<longleftrightarrow> n = 0" unfolding b by (simp add: byte_def)
    then show ?thesis unfolding byte_inj .
  next
    case False
    then have "hd (dec n) = hd (dec (n div 10))" by (simp add: dec.simps [of n])
    with False "1.IH" show ?thesis by simp
  qed
qed

lemma undec_snoc: "undec (s @ [c]) = 10 * undec s + (byte c - 48)"
  by (simp add: undec_def)

lemma digit_char_byte: "is_digit c \<Longrightarrow> digit_char (byte c - 48) = c"
  by (simp add: is_digit_def digit_char_def byte_def)

lemma dec_undec:
  assumes "s \<noteq> []" and "\<forall>c \<in> set s. is_digit c" and "hd s = CHR ''0'' \<longrightarrow> length s = 1"
  shows "dec (undec s) = s"
  using assms
proof (induction s rule: rev_induct)
  case (snoc c t)
  have c: "is_digit c" and d: "byte c - 48 < 10" using snoc.prems by (auto simp: is_digit_def)
  show ?case
  proof (cases "t = []")
    case True
    then show ?thesis using c d by (simp add: undec_def dec.simps [of "byte c - 48"] digit_char_byte)
  next
    case False
    then have t: "hd t \<noteq> CHR ''0''" using snoc.prems by (cases t) auto
    with snoc False have IH: "dec (undec t) = t" by auto
    then have "undec t \<noteq> 0" using hd_dec [of "undec t"] t by auto
    then show ?thesis
      using c d IH by (simp add: undec_snoc dec.simps [of "10 * undec t + (byte c - 48)"] digit_char_byte)
  qed
qed simp

lemma length_dec_1: "length (dec n) = Suc 0 \<longleftrightarrow> n < 10"
  by (simp add: dec.simps [of n])

lemma octet_dec: "n \<le> 255 \<Longrightarrow> octet (dec n) = Some n"
  by (simp add: octet_def all_bytes_iff dec_digits hd_dec length_dec_1)

lemma octet_Some: "octet p = Some n \<Longrightarrow> n \<le> 255 \<and> dec n = p"
  by (auto simp: octet_def all_bytes_iff dec_undec split: if_splits)

lemma As4_AddrFrom4:
  assumes "a \<le> 255" "b \<le> 255" "c \<le> 255" "d \<le> 255"
  shows "As4 (AddrFrom4 a b c d) = [a, b, c, d]"
proof -
  have "((a * 256 + b) * 256 + c) * 256 + d < 2 ^ 32" using assms by simp
  then have "unat (AddrFrom4 a b c d) = ((a * 256 + b) * 256 + c) * 256 + d"
    unfolding AddrFrom4_def unat_of_nat by simp
  moreover have "(x * 256 + y) div 256 = x" "(x * 256 + y) mod 256 = y" if "y \<le> 255" for x y :: nat
    using that by simp_all
  ultimately show ?thesis using assms unfolding As4_def Let_def by (simp only:)
qed

lemma As4_parts:
  obtains a b c d where "As4 w = [a, b, c, d]" "a \<le> 255" "b \<le> 255" "c \<le> 255" "d \<le> 255" "AddrFrom4 a b c d = w"
proof
  let ?n = "unat w"
  have n: "?n < 2 ^ 32" using unsigned_less [of w, where 'a=nat] by simp
  show "As4 w = [?n div 256 div 256 div 256, ?n div 256 div 256 mod 256, ?n div 256 mod 256, ?n mod 256]"
    unfolding As4_def Let_def by (rule refl)
  show "?n div 256 div 256 div 256 \<le> 255" using n by simp
  have "((?n div 256 div 256 div 256 * 256 + ?n div 256 div 256 mod 256) * 256 + ?n div 256 mod 256) * 256 + ?n mod 256 = ?n"
    by (simp only: div_mult_mod_eq)
  then show "AddrFrom4 (?n div 256 div 256 div 256) (?n div 256 div 256 mod 256) (?n div 256 mod 256) (?n mod 256) = w"
    unfolding AddrFrom4_def by (simp only:) simp
qed (simp_all add: mod_less_divisor less_Suc_eq_le [symmetric])

text \<open>Addresses are parsed from their printed form and from no other text.\<close>

lemma dot_not_dec: "CHR ''.'' \<notin> set (dec n)"
  using dec_digits by (force simp: is_digit_def byte_def)

lemma ParseAddr_iff: "ParseAddr s = Some w \<longleftrightarrow> s = Addr_String w"
proof
  assume "ParseAddr s = Some w"
  then obtain p q r t a b c d where parts: "Split s CHR ''.'' = [p, q, r, t]"
    and octets: "octet p = Some a" "octet q = Some b" "octet r = Some c" "octet t = Some d" and w: "w = AddrFrom4 a b c d"
    by (auto simp: ParseAddr_def split: list.split_asm option.split_asm)
  have "s = Join [p, q, r, t] ''.''" using Join_Split [of s "CHR ''.''"] parts by simp
  with octets w show "s = Addr_String w"
    by (auto dest!: octet_Some simp: Addr_String_def As4_AddrFrom4)
next
  assume s: "s = Addr_String w"
  obtain a b c d where w: "As4 w = [a, b, c, d]" "a \<le> 255" "b \<le> 255" "c \<le> 255" "d \<le> 255" "AddrFrom4 a b c d = w"
    by (rule As4_parts)
  have "Split s CHR ''.'' = map dec [a, b, c, d]"
    unfolding s Addr_String_def w(1) by (rule Split_Join) (auto simp: dot_not_dec)
  then show "ParseAddr s = Some w" using w by (simp add: ParseAddr_def octet_dec)
qed

lemma Addr_String_inj [simp]: "Addr_String a = Addr_String b \<longleftrightarrow> a = b"
  by (metis ParseAddr_iff option.inject)

lemma ParseAddr_String [simp]: "ParseAddr (Addr_String a) = Some a"
  by (simp add: ParseAddr_iff)

section \<open>Texts in ASCII\<close>

lemma is_ascii_Join: "(\<forall>p \<in> set ps. is_ascii p) \<Longrightarrow> is_ascii sep \<Longrightarrow> is_ascii (Join ps sep)"
  by (induction ps sep rule: Join.induct) auto

lemma is_ascii_dec [simp]: "is_ascii (dec n)"
  using dec_digits by (fastforce simp: is_ascii_def is_digit_def)

lemma is_ascii_Addr [simp]: "is_ascii (Addr_String a)"
  unfolding Addr_String_def by (rule is_ascii_Join) (auto simp: byte_def)

lemma is_ascii_AddrPort [simp]: "is_ascii (AddrPort_String p)"
  by (simp add: AddrPort_String_def byte_def)

lemma hex_val_ascii: "hex_val c \<noteq> None \<Longrightarrow> byte c < 128"
  by (auto simp: hex_val_def is_hex_def is_digit_def split: if_splits)

lemma xtoi2_ascii: "xtoi2 a b = Some n \<Longrightarrow> byte a < 128 \<and> byte b < 128"
  using hex_val_ascii by (auto simp: xtoi2_def split: option.splits)

lemma mac_bytes_ascii: "mac_bytes sep s = Some m \<Longrightarrow> byte sep < 128 \<Longrightarrow> is_ascii s"
  by (induction sep s arbitrary: m rule: mac_bytes.induct)
    (auto dest: xtoi2_ascii split: if_splits option.splits)

lemma mac_words_ascii: "mac_words s = Some m \<Longrightarrow> is_ascii s"
  by (induction s arbitrary: m rule: mac_words.induct)
    (auto dest: xtoi2_ascii simp: byte_def split: if_splits option.splits)

lemma ParseMAC_ascii: "ParseMAC s = Some m \<Longrightarrow> is_ascii s"
  by (auto simp: ParseMAC_def byte_def dest: mac_words_ascii mac_bytes_ascii split: if_splits)

end
