(* ===== verification/Network_Policy.thy ===== *)
theory Network_Policy
  imports Go_Net Identity "HOL-Library.Product_Lexorder"
begin

text \<open>
  \<open>internal/yardnetwork/policy.go\<close> and the data of \<open>host.go\<close>: the host-wide network policy with its
  links between yards and the recorded network identity of every isolated yard, its normal form, its
  JSON text, and the operations on links.
\<close>

section \<open>Data\<close>

record Yard =
  y_Name :: string
  y_Project :: string
  y_Instance :: string
  y_Network :: string

record Link =
  lk_A :: string
  lk_B :: string

record ApprovedIngress =
  ai_Device :: string
  ai_Protocol :: string
  ai_Listen :: string
  ai_GuestPort :: int
  ai_legacyFingerprint :: "string option"

record Binding =
  bd_Yard :: Yard
  bd_IPv4 :: string
  bd_MAC :: string
  bd_OriginalNIC :: str_map
  bd_OriginalAccess :: string
  bd_ApprovedIngress :: "ApprovedIngress list"

record Policy =
  po_Schema :: int
  po_Isolation :: bool
  po_Links :: "Link list"
  po_Revision :: "64 word"
  po_AppliedRevision :: "64 word"
  po_Bindings :: "Binding list"
  po_AppliedIsolation :: bool
  po_PendingStart :: "string list"
  po_Removing :: "string list"

datatype policy_error =
    PolicyTooLarge
  | PolicyNotDecodable
  | PolicyTrailing
  | UnsupportedPolicySchema int
  | AppliedBeyondDesired
  | InvalidLink
  | DuplicateLink
  | InvalidBinding
  | CollidingBindings
  | InvalidIngress
  | IngressFingerprint
  | InvalidPendingNames
  | RestartOfRemoved

definition SchemaVersion :: int where
  "SchemaVersion = 1"

definition MaxPolicySize :: nat where
  "MaxPolicySize = 2 ^ 20"

section \<open>Links\<close>

definition canonicalLink :: "string \<Rightarrow> string \<Rightarrow> policy_error + Link" where
  "canonicalLink a b =
     (if \<not> SafeName a \<or> \<not> SafeName b \<or> a = b then Inl InvalidLink
      else if b < a then Inr \<lparr>lk_A = b, lk_B = a\<rparr>
      else Inr \<lparr>lk_A = a, lk_B = b\<rparr>)"

definition link_key :: "Link \<Rightarrow> string \<times> string" where
  "link_key l = (lk_A l, lk_B l)"

definition sortLinks :: "Link list \<Rightarrow> Link list" where
  "sortLinks = sort_key link_key"

definition Policy_Link :: "string \<Rightarrow> string \<Rightarrow> Policy \<Rightarrow> policy_error + Policy" where
  "Policy_Link a b p =
     (case canonicalLink a b of
        Inl e \<Rightarrow> Inl e
      | Inr l \<Rightarrow> Inr (if l \<in> set (po_Links p) then p else p\<lparr>po_Links := sortLinks (po_Links p @ [l])\<rparr>))"

definition Policy_Unlink :: "string \<Rightarrow> string \<Rightarrow> Policy \<Rightarrow> policy_error + Policy" where
  "Policy_Unlink a b p =
     (case canonicalLink a b of
        Inl e \<Rightarrow> Inl e
      | Inr l \<Rightarrow> Inr (p\<lparr>po_Links := filter (\<lambda>candidate. candidate \<noteq> l) (po_Links p)\<rparr>))"

definition without_links :: "string \<Rightarrow> Policy \<Rightarrow> Policy" where
  "without_links name p =
     p\<lparr>po_Links := filter (\<lambda>l. \<not> (lk_A l = name \<or> lk_B l = name)) (po_Links p)\<rparr>"

definition Forget :: "string \<Rightarrow> Policy \<Rightarrow> Policy" where
  "Forget name p =
     (without_links name p)\<lparr>po_Bindings := filter (\<lambda>b. y_Name (bd_Yard b) \<noteq> name) (po_Bindings p)\<rparr>"

definition Peers :: "Policy \<Rightarrow> string \<Rightarrow> string list" where
  "Peers p name =
     sort (concat (map (\<lambda>l. if name = lk_A l then [lk_B l] else if name = lk_B l then [lk_A l] else []) (po_Links p)))"

section \<open>Approved ingress\<close>

text \<open>\<open>resource.ExplicitOwnerIPv4\<close> and \<open>resource.ProxyContract.OwnershipValue\<close>, which does not depend on the contract.\<close>

definition ExplicitOwnerIPv4 :: "addr \<Rightarrow> bool" where
  "ExplicitOwnerIPv4 a \<longleftrightarrow> IsGlobalUnicast a \<and> \<not> IsLoopback a \<and> \<not> IsLinkLocalUnicast a"

definition OwnershipValue :: "str_map \<Rightarrow> string" where
  "OwnershipValue device =
     ''v1:'' @ sha256_hex (''v1'' @ [CHR 0x0A]
       @ concat (map (\<lambda>(k, v). k @ ''='' @ v @ [CHR 0x0A]) (map_entries device)))"

definition Transport :: "ApprovedIngress \<Rightarrow> string" where
  "Transport approved = (if ai_Protocol approved = '''' then ''udp'' else ai_Protocol approved)"

definition proxy :: "ApprovedIngress \<Rightarrow> string \<Rightarrow> str_map" where
  "proxy approved ipv4 =
     fmap_of_list [(''type'', ''proxy''), (''listen'', ai_Listen approved),
       (''connect'', Transport approved @ '':'' @ ipv4 @ '':'' @ fmt_d (ai_GuestPort approved)),
       (''bind'', ''host''), (''nat'', ''true'')]"

definition valid_listen :: "string \<Rightarrow> string \<Rightarrow> bool" where
  "valid_listen transport listen \<longleftrightarrow>
     (case ParseAddrPort (TrimPrefix listen (transport @ '':'')) of
        None \<Rightarrow> False
      | Some endpoint \<Rightarrow>
          HasPrefix listen (transport @ '':'') \<and> ExplicitOwnerIPv4 (ap_Addr endpoint) \<and> ap_Port endpoint \<noteq> 0
          \<and> transport @ '':'' @ AddrPort_String endpoint = listen)"

fun ingress_loop :: "string \<Rightarrow> string list \<Rightarrow> ApprovedIngress list \<Rightarrow> policy_error + ApprovedIngress list" where
  "ingress_loop ipv4 devices [] = Inr []"
| "ingress_loop ipv4 devices (a # rest) =
     (let approved = (if ai_Protocol a = ''udp'' then a\<lparr>ai_Protocol := ''''\<rparr> else a) in
      if \<not> SafeName (ai_Device approved) \<or> ai_Device approved \<in> set devices
         \<or> Transport approved \<noteq> ''udp'' \<and> Transport approved \<noteq> ''tcp''
         \<or> ai_GuestPort approved < 1 \<or> 65535 < ai_GuestPort approved
         \<or> \<not> valid_listen (Transport approved) (ai_Listen approved)
      then Inl InvalidIngress
      else if ai_legacyFingerprint approved \<noteq> None
         \<and> ai_legacyFingerprint approved \<noteq> Some (OwnershipValue (proxy approved ipv4))
      then Inl IngressFingerprint
      else res_bind (ingress_loop ipv4 (ai_Device approved # devices) rest)
        (\<lambda>done'. Inr (approved\<lparr>ai_legacyFingerprint := None\<rparr> # done')))"

section \<open>The normal form\<close>

fun link_loop :: "Link list \<Rightarrow> Link list \<Rightarrow> policy_error + Link list" where
  "link_loop seen [] = Inr []"
| "link_loop seen (candidate # rest) =
     (case canonicalLink (lk_A candidate) (lk_B candidate) of
        Inl e \<Rightarrow> Inl e
      | Inr l \<Rightarrow>
          if l \<in> set seen then Inl DuplicateLink
          else res_bind (link_loop (l # seen) rest) (\<lambda>links. Inr (l # links)))"

definition identity_key :: "Binding \<Rightarrow> string" where
  "identity_key b = y_Project (bd_Yard b) @ ''/'' @ y_Instance (bd_Yard b)"

definition address_key :: "Binding \<Rightarrow> string" where
  "address_key b = y_Network (bd_Yard b) @ ''/'' @ bd_IPv4 b"

definition mac_key :: "Binding \<Rightarrow> string" where
  "mac_key b = y_Network (bd_Yard b) @ ''/'' @ MAC_String (the (ParseMAC (bd_MAC b)))"

definition unicast_mac :: "string \<Rightarrow> bool" where
  "unicast_mac s = (case ParseMAC s of None \<Rightarrow> False | Some m \<Rightarrow> length m = 6 \<and> even (hd m))"

definition valid_binding :: "Binding \<Rightarrow> bool" where
  "valid_binding b \<longleftrightarrow>
     SafeName (y_Name (bd_Yard b)) \<and> SafeName (y_Project (bd_Yard b)) \<and> SafeName (y_Instance (bd_Yard b))
     \<and> SafeName (y_Network (bd_Yard b)) \<and> ParseAddr (bd_IPv4 b) \<noteq> None \<and> unicast_mac (bd_MAC b)
     \<and> mget (bd_OriginalNIC b) ''type'' = ''nic'' \<and> mget (bd_OriginalNIC b) ''network'' = y_Network (bd_Yard b)"

fun binding_loop :: "Binding list \<Rightarrow> Binding list \<Rightarrow> policy_error + Binding list" where
  "binding_loop seen [] = Inr []"
| "binding_loop seen (b # rest) =
     (if \<not> valid_binding b \<or> y_Name (bd_Yard b) \<in> set (map (y_Name \<circ> bd_Yard) seen) then Inl InvalidBinding
      else if identity_key b \<in> set (map identity_key seen) \<or> address_key b \<in> set (map address_key seen)
         \<or> mac_key b \<in> set (map mac_key seen) then Inl CollidingBindings
      else res_bind (ingress_loop (bd_IPv4 b) [] (bd_ApprovedIngress b)) (\<lambda>approved.
        res_bind (binding_loop (b # seen) rest) (\<lambda>bindings.
          Inr (b\<lparr>bd_ApprovedIngress := sort_key ai_Device approved\<rparr> # bindings))))"

definition pending_names_ok :: "string list \<Rightarrow> bool" where
  "pending_names_ok names \<longleftrightarrow> list_all SafeName names \<and> distinct names"

definition normalize :: "Policy \<Rightarrow> policy_error + Policy" where
  "normalize p =
     (if po_Schema p \<noteq> SchemaVersion then Inl (UnsupportedPolicySchema (po_Schema p))
      else if po_Revision p < po_AppliedRevision p then Inl AppliedBeyondDesired
      else res_bind (link_loop [] (po_Links p)) (\<lambda>links.
        res_bind (binding_loop [] (po_Bindings p)) (\<lambda>bindings.
          if \<not> pending_names_ok (po_PendingStart p) \<or> \<not> pending_names_ok (po_Removing p) then Inl InvalidPendingNames
          else if list_ex (\<lambda>name. name \<in> set (po_PendingStart p)) (po_Removing p) then Inl RestartOfRemoved
          else Inr (p\<lparr>po_Links := sortLinks links, po_Bindings := sort_key (y_Name \<circ> bd_Yard) bindings\<rparr>))))"

section \<open>The JSON text\<close>

definition yard_json :: "Yard \<Rightarrow> json" where
  "yard_json y = JStruct [(''name'', JString (y_Name y)), (''project'', JString (y_Project y)),
     (''instance'', JString (y_Instance y)), (''network'', JString (y_Network y))]"

definition strings_json :: "str_map \<Rightarrow> json" where
  "strings_json m = JMap (map (\<lambda>(k, v). (k, JString v)) (map_entries m))"

definition ingress_json :: "ApprovedIngress \<Rightarrow> json" where
  "ingress_json a =
     JStruct ([(''device'', JString (ai_Device a))] @ omit_empty (ai_Protocol a = '''') ''protocol'' (JString (ai_Protocol a))
       @ [(''listen'', JString (ai_Listen a)), (''guestPort'', JInt (ai_GuestPort a))])"

definition binding_json :: "Binding \<Rightarrow> json" where
  "binding_json b =
     JStruct ([(''yard'', yard_json (bd_Yard b)), (''ipv4'', JString (bd_IPv4 b)), (''mac'', JString (bd_MAC b)),
        (''originalNic'', strings_json (bd_OriginalNIC b)), (''originalAccess'', JString (bd_OriginalAccess b))]
       @ omit_empty (bd_ApprovedIngress b = []) ''approvedIngress'' (JArray (map ingress_json (bd_ApprovedIngress b))))"

definition policy_json :: "Policy \<Rightarrow> json" where
  "policy_json p =
     JStruct ([(''schema'', JInt (po_Schema p)), (''isolation'', JBool (po_Isolation p))]
       @ omit_empty (po_Links p = []) ''links''
           (JArray (map (\<lambda>l. JStruct [(''a'', JString (lk_A l)), (''b'', JString (lk_B l))]) (po_Links p)))
       @ [(''revision'', JInt (int (unat (po_Revision p)))), (''appliedRevision'', JInt (int (unat (po_AppliedRevision p))))]
       @ omit_empty (po_Bindings p = []) ''bindings'' (JArray (map binding_json (po_Bindings p)))
       @ [(''appliedIsolation'', JBool (po_AppliedIsolation p))]
       @ omit_empty (po_PendingStart p = []) ''pendingStart'' (JArray (map JString (po_PendingStart p)))
       @ omit_empty (po_Removing p = []) ''removing'' (JArray (map JString (po_Removing p))))"

text \<open>What a text holds, as the decoder sees it, and what decoding gives for an encoded policy.\<close>

datatype policy_text = EmptyText | OversizedText | NotPolicy | TrailingText | PolicyText Policy

definition Decode :: "policy_text \<Rightarrow> policy_error + Policy" where
  "Decode content =
     (case content of
        EmptyText \<Rightarrow> Inr \<lparr>po_Schema = SchemaVersion, po_Isolation = False, po_Links = [], po_Revision = 0,
          po_AppliedRevision = 0, po_Bindings = [], po_AppliedIsolation = False, po_PendingStart = [], po_Removing = []\<rparr>
      | OversizedText \<Rightarrow> Inl PolicyTooLarge
      | NotPolicy \<Rightarrow> Inl PolicyNotDecodable
      | TrailingText \<Rightarrow> Inl PolicyTrailing
      | PolicyText p \<Rightarrow> normalize p)"

definition json_yard :: "Yard \<Rightarrow> Yard" where
  "json_yard y = \<lparr>y_Name = json_text (y_Name y), y_Project = json_text (y_Project y),
     y_Instance = json_text (y_Instance y), y_Network = json_text (y_Network y)\<rparr>"

definition json_ingress :: "ApprovedIngress \<Rightarrow> ApprovedIngress" where
  "json_ingress a = \<lparr>ai_Device = json_text (ai_Device a), ai_Protocol = json_text (ai_Protocol a),
     ai_Listen = json_text (ai_Listen a), ai_GuestPort = ai_GuestPort a, ai_legacyFingerprint = None\<rparr>"

definition json_binding :: "Binding \<Rightarrow> Binding" where
  "json_binding b = \<lparr>bd_Yard = json_yard (bd_Yard b), bd_IPv4 = json_text (bd_IPv4 b), bd_MAC = json_text (bd_MAC b),
     bd_OriginalNIC = json_map (bd_OriginalNIC b), bd_OriginalAccess = json_text (bd_OriginalAccess b),
     bd_ApprovedIngress = map json_ingress (bd_ApprovedIngress b)\<rparr>"

definition json_policy :: "Policy \<Rightarrow> Policy" where
  "json_policy p =
     p\<lparr>po_Links := map (\<lambda>l. \<lparr>lk_A = json_text (lk_A l), lk_B = json_text (lk_B l)\<rparr>) (po_Links p),
       po_Bindings := map json_binding (po_Bindings p),
       po_PendingStart := map json_text (po_PendingStart p), po_Removing := map json_text (po_Removing p)\<rparr>"

definition Encode :: "Policy \<Rightarrow> policy_error + string" where
  "Encode p =
     res_bind (normalize p) (\<lambda>q.
       let content = json_render (policy_json q) in
       if length content > MaxPolicySize then Inl PolicyTooLarge else Inr content)"

section \<open>What the normal form guarantees\<close>

definition link_ok :: "Link \<Rightarrow> bool" where
  "link_ok l \<longleftrightarrow> SafeName (lk_A l) \<and> SafeName (lk_B l) \<and> lk_A l < lk_B l"

lemma canonicalLink_Inr:
  "canonicalLink a b = Inr l \<longleftrightarrow> link_ok l \<and> {lk_A l, lk_B l} = {a, b}"
  by (cases l) (auto simp: canonicalLink_def link_ok_def doubleton_eq_iff)

lemma canonicalLink_ok [simp]: "link_ok l \<Longrightarrow> canonicalLink (lk_A l) (lk_B l) = Inr l"
  by (simp add: canonicalLink_Inr)

lemma link_loop_Inr:
  "link_loop seen ls = Inr ms \<longleftrightarrow>
     list_all2 (\<lambda>l m. canonicalLink (lk_A l) (lk_B l) = Inr m) ls ms \<and> distinct ms \<and> set ms \<inter> set seen = {}"
  by (induction ls arbitrary: seen ms) (auto simp: res_bind_Inr list_all2_Cons1 split: sum.split if_splits)

text \<open>An approved route after its normalisation.\<close>

definition ingress_ok :: "ApprovedIngress \<Rightarrow> bool" where
  "ingress_ok a \<longleftrightarrow>
     SafeName (ai_Device a) \<and> ai_Protocol a \<in> {'''', ''tcp''} \<and> 1 \<le> ai_GuestPort a \<and> ai_GuestPort a \<le> 65535
     \<and> valid_listen (Transport a) (ai_Listen a) \<and> ai_legacyFingerprint a = None"

lemma Transport_legacy [simp]: "Transport (a\<lparr>ai_legacyFingerprint := f\<rparr>) = Transport a"
  by (simp add: Transport_def)

lemma ingress_loop_Inr:
  "ingress_loop ipv4 devices as = Inr ms \<Longrightarrow>
     list_all ingress_ok ms \<and> distinct (map ai_Device ms) \<and> ai_Device ` set ms \<inter> set devices = {}"
proof (induction as arbitrary: devices ms)
  case (Cons a as)
  let ?n = "if ai_Protocol a = ''udp'' then a\<lparr>ai_Protocol := ''''\<rparr> else a"
  from Cons.prems obtain rest where rest: "ingress_loop ipv4 (ai_Device ?n # devices) as = Inr rest"
    and ms: "ms = ?n\<lparr>ai_legacyFingerprint := None\<rparr> # rest"
    and n: "SafeName (ai_Device ?n)" "ai_Device ?n \<notin> set devices" "Transport ?n = ''udp'' \<or> Transport ?n = ''tcp''"
      "1 \<le> ai_GuestPort ?n" "ai_GuestPort ?n \<le> 65535" "valid_listen (Transport ?n) (ai_Listen ?n)"
    by (auto simp: Let_def res_bind_Inr not_less split del: if_split)
  have "ai_Protocol ?n \<in> {'''', ''tcp''}" using n(3) by (auto simp: Transport_def split: if_splits)
  then have "ingress_ok (?n\<lparr>ai_legacyFingerprint := None\<rparr>)"
    using n by (simp add: ingress_ok_def split del: if_split)
  with Cons.IH [OF rest] n(2) show ?case unfolding ms by (auto split del: if_split)
qed simp

lemma ingress_loop_ok:
  "list_all ingress_ok as \<Longrightarrow> distinct (map ai_Device as) \<Longrightarrow> ai_Device ` set as \<inter> set devices = {}
     \<Longrightarrow> ingress_loop ipv4 devices as = Inr as"
proof (induction as arbitrary: devices)
  case (Cons a as)
  then have "ingress_loop ipv4 (ai_Device a # devices) as = Inr as" by auto
  with Cons.prems show ?case by (cases a) (auto simp: ingress_ok_def Transport_def)
qed simp

definition binding_keys_ok :: "Binding list \<Rightarrow> bool" where
  "binding_keys_ok bs \<longleftrightarrow>
     distinct (map (y_Name \<circ> bd_Yard) bs) \<and> distinct (map identity_key bs) \<and> distinct (map address_key bs)
     \<and> distinct (map mac_key bs)"

definition binding_ok :: "Binding \<Rightarrow> bool" where
  "binding_ok b \<longleftrightarrow>
     valid_binding b \<and> list_all ingress_ok (bd_ApprovedIngress b) \<and> distinct (map ai_Device (bd_ApprovedIngress b))
     \<and> sorted (map ai_Device (bd_ApprovedIngress b))"

text \<open>Normalising a binding changes its approved routes only.\<close>

definition same_binding :: "Binding \<Rightarrow> Binding \<Rightarrow> bool" where
  "same_binding b c \<longleftrightarrow> (\<exists>approved. c = b\<lparr>bd_ApprovedIngress := approved\<rparr>)"

lemma same_binding_fields:
  assumes "same_binding b c"
  shows "bd_Yard c = bd_Yard b" "bd_IPv4 c = bd_IPv4 b" "bd_MAC c = bd_MAC b" "bd_OriginalNIC c = bd_OriginalNIC b"
    "bd_OriginalAccess c = bd_OriginalAccess b" "identity_key c = identity_key b" "address_key c = address_key b"
    "mac_key c = mac_key b" "valid_binding c = valid_binding b"
  using assms
  by (auto simp: same_binding_def identity_key_def address_key_def mac_key_def valid_binding_def)

lemma same_bindings_maps:
  assumes "list_all2 same_binding bs cs"
  shows "map bd_Yard cs = map bd_Yard bs" "map identity_key cs = map identity_key bs"
    "map address_key cs = map address_key bs" "map mac_key cs = map mac_key bs" "map bd_IPv4 cs = map bd_IPv4 bs"
  using assms by (induction rule: list_all2_induct) (simp_all add: same_binding_fields)

lemma binding_loop_Inr:
  "binding_loop seen bs = Inr cs \<Longrightarrow>
     list_all2 same_binding bs cs \<and> list_all binding_ok cs \<and> binding_keys_ok bs
     \<and> (y_Name \<circ> bd_Yard) ` set bs \<inter> (y_Name \<circ> bd_Yard) ` set seen = {}
     \<and> identity_key ` set bs \<inter> identity_key ` set seen = {} \<and> address_key ` set bs \<inter> address_key ` set seen = {}
     \<and> mac_key ` set bs \<inter> mac_key ` set seen = {}"
proof (induction bs arbitrary: seen cs)
  case Nil
  then show ?case by (simp add: binding_keys_ok_def)
next
  case (Cons b bs)
  from Cons.prems obtain approved rest where b: "valid_binding b" "y_Name (bd_Yard b) \<notin> (y_Name \<circ> bd_Yard) ` set seen"
      "identity_key b \<notin> identity_key ` set seen" "address_key b \<notin> address_key ` set seen" "mac_key b \<notin> mac_key ` set seen"
    and approved: "ingress_loop (bd_IPv4 b) [] (bd_ApprovedIngress b) = Inr approved"
    and rest: "binding_loop (b # seen) bs = Inr rest"
    and cs: "cs = b\<lparr>bd_ApprovedIngress := sort_key ai_Device approved\<rparr> # rest"
    by (auto simp: res_bind_Inr image_comp [symmetric])
  have c: "same_binding b (hd cs)" by (auto simp: cs same_binding_def)
  moreover have "binding_ok (hd cs)"
    using ingress_loop_Inr [OF approved] b(1) same_binding_fields(9) [OF c]
    by (auto simp: cs binding_ok_def list_all_iff distinct_map)
  ultimately show ?case
    using Cons.IH [OF rest] b by (auto simp: cs binding_keys_ok_def)
qed

lemma binding_loop_ok:
  "list_all binding_ok bs \<Longrightarrow> binding_keys_ok bs
     \<Longrightarrow> (y_Name \<circ> bd_Yard) ` set bs \<inter> (y_Name \<circ> bd_Yard) ` set seen = {}
     \<Longrightarrow> identity_key ` set bs \<inter> identity_key ` set seen = {} \<Longrightarrow> address_key ` set bs \<inter> address_key ` set seen = {}
     \<Longrightarrow> mac_key ` set bs \<inter> mac_key ` set seen = {} \<Longrightarrow> binding_loop seen bs = Inr bs"
proof (induction bs arbitrary: seen)
  case (Cons b bs)
  have "binding_loop (b # seen) bs = Inr bs"
    using Cons.prems by (intro Cons.IH) (auto simp: binding_keys_ok_def)
  moreover have "ingress_loop (bd_IPv4 b) [] (bd_ApprovedIngress b) = Inr (bd_ApprovedIngress b)"
    using Cons.prems(1) by (intro ingress_loop_ok) (auto simp: binding_ok_def)
  moreover have "sort_key ai_Device (bd_ApprovedIngress b) = bd_ApprovedIngress b"
    using Cons.prems(1) by (simp add: binding_ok_def sort_key_id_if_sorted)
  ultimately show ?case using Cons.prems by (auto simp: binding_ok_def image_comp [symmetric])
qed simp

end
