(* ===== verification/Network_Observed.thy ===== *)
theory Network_Observed
  imports Network_Policy
begin

text \<open>
  What the planner reads of the host (\<open>internal/yardnetwork/host.go\<close>) and the checks it makes on it: the
  owned public routes of a yard (\<open>planner.go\<close>, \<open>previewroute/route.go\<close> and the proxy contracts of
  \<open>resource/registry.go\<close>), the bridge, the owner of an ACL, and the shape of a yard's network devices.
  A nil map or slice and an empty one are the same value here.
\<close>

section \<open>Observations\<close>

record ProxyContract =
  pc_Profile :: string
  pc_Resource :: string
  pc_Device :: string
  pc_AdvertiseHostSetting :: string
  pc_HostPortSetting :: string
  pc_OwnerInterfaceSetting :: string
  pc_Connect :: string
  pc_AddressPolicy :: string
  pc_OwnershipMetadata :: bool

type_synonym devices = "(string, str_map) fmap"

record InstanceInfo =
  ii_Name :: string
  ii_Project :: string
  ii_Type :: YardKind
  ii_Status :: string
  ii_Config :: str_map
  ii_Devices :: devices
  ii_LocalConfig :: str_map
  ii_LocalDevices :: devices

record Rule =
  ru_Action :: string
  ru_State :: string
  ru_Source :: string
  ru_Destination :: string
  ru_Protocol :: string
  ru_DestinationPort :: string

record ACL =
  ac_Name :: string
  ac_Exists :: bool
  ac_ETag :: string
  ac_Config :: str_map
  ac_Ingress :: "Rule list"
  ac_Egress :: "Rule list"

record ObservedYard =
  oy_Yard :: Yard
  oy_IngressContracts :: "ProxyContract list"
  oy_ProjectFound :: bool
  oy_ProjectETag :: string
  oy_ProjectConfig :: str_map
  oy_ProfileFound :: bool
  oy_ProfileETag :: string
  oy_ProfileDevices :: devices
  oy_ProfileUsedBy :: "string list"
  oy_InstanceFound :: bool
  oy_InstanceInfo :: InstanceInfo
  oy_IPv4 :: string
  oy_MAC :: string
  oy_ACL :: ACL

abbreviation oy_Name :: "ObservedYard \<Rightarrow> string" where "oy_Name y \<equiv> y_Name (oy_Yard y)"
abbreviation oy_Network :: "ObservedYard \<Rightarrow> string" where "oy_Network y \<equiv> y_Network (oy_Yard y)"

record Network =
  nw_Name :: string
  nw_Type :: string
  nw_Managed :: bool
  nw_Config :: str_map

record ReservationClaim =
  rc_Project :: string
  rc_Instance :: string
  rc_Profile :: string
  rc_MAC :: string

record Snapshot =
  sn_Firewall :: string
  sn_Clustered :: bool
  sn_Yards :: "ObservedYard list"
  sn_Networks :: "(string, Network) fmap"
  sn_ReservationClaims :: "(string, (string, ReservationClaim list) fmap) fmap"

definition network_of :: "Snapshot \<Rightarrow> string \<Rightarrow> Network" where
  "network_of s name =
     (case fmlookup (sn_Networks s) name of
        Some n \<Rightarrow> n
      | None \<Rightarrow> \<lparr>nw_Name = '''', nw_Type = '''', nw_Managed = False, nw_Config = fmempty\<rparr>)"

definition claims_of :: "Snapshot \<Rightarrow> string \<Rightarrow> string \<Rightarrow> ReservationClaim list" where
  "claims_of s net ip =
     (case fmlookup (sn_ReservationClaims s) net of
        None \<Rightarrow> []
      | Some claims \<Rightarrow> (case fmlookup claims ip of Some cs \<Rightarrow> cs | None \<Rightarrow> []))"

definition ACLName :: "Yard \<Rightarrow> string" where
  "ACLName y = ''subyard-yard-'' @ concat (map hex2 (take 10 (Sum256 (y_Project y @ ''/'' @ y_Instance y))))"

datatype plan_error =
    PolicyError policy_error
  | EndpointsNotRegistered
  | UnsupportedHost
  | DifferentBridges
  | AddressClaimed string
  | TeardownIncomplete string
  | MissingProject string
  | ForeignNamespace string
  | IdentityChanged string
  | NoBridge string
  | AddressOutsideBridge string
  | MissingProfile string
  | ForeignNICACLs string
  | NoUsableAddress string
  | InvalidMAC string
  | IdentityCollision string string
  | NotRestricted string
  | UnsupportedNIC string
  | ExtraProfileNIC string
  | LocalNICOverride string
  | ExtraExpandedNIC string
  | ForeignACL string
  | SharedProfile string
  | ProfileChanged string
  | RevisionExhausted

section \<open>Proxy contracts\<close>

definition IsOwnerIPv4Ingress :: "ProxyContract \<Rightarrow> bool" where
  "IsOwnerIPv4Ingress c \<longleftrightarrow> pc_AddressPolicy c = ''owner-ipv4-udp'' \<or> pc_AddressPolicy c = ''owner-ipv4-tcp''"

definition valid_port :: "int \<Rightarrow> bool" where
  "valid_port n \<longleftrightarrow> 1 \<le> n \<and> n \<le> 65535"

definition GuestEndpoint :: "ProxyContract \<Rightarrow> int \<Rightarrow> string \<times> int \<times> bool" where
  "GuestEndpoint c hostPort =
     (let protocol = (if pc_AddressPolicy c = ''owner-ipv4-tcp'' then ''tcp'' else ''udp'');
          start = protocol @ '':guest:'';
          rest = TrimPrefix (pc_Connect c) start in
      if \<not> IsOwnerIPv4Ingress c \<or> \<not> HasPrefix (pc_Connect c) start then ('''', 0, False)
      else if rest = ''host-port'' then (protocol, hostPort, valid_port hostPort)
      else case Atoi rest of
        None \<Rightarrow> (protocol, 0, False)
      | Some port \<Rightarrow> (protocol, port, valid_port port \<and> fmt_d port = rest))"

definition OwnershipKey :: "ProxyContract \<Rightarrow> string" where
  "OwnershipKey c = ''user.subyard.resource.'' @ pc_Device c"

section \<open>The static preview route\<close>

definition preview_key :: string where
  "preview_key = ''user.subyard.preview_proxy''"

definition preview_device :: string where
  "preview_device = ''subyard-preview''"

definition Device :: "string \<Rightarrow> string \<Rightarrow> string \<Rightarrow> str_map" where
  "Device host port guest =
     (let device = fmap_of_list [(''type'', ''proxy''), (''bind'', ''host''),
            (''listen'', ''tcp:'' @ host @ '':'' @ port), (''connect'', ''tcp:127.0.0.1:8765'')] in
      if guest \<noteq> '''' then fmupd ''connect'' (''tcp:'' @ guest @ '':8765'') (fmupd ''nat'' ''true'' device) else device)"

definition TailscaleAddress :: "string \<Rightarrow> bool" where
  "TailscaleAddress host =
     (case ParseAddr host of
        None \<Rightarrow> False
      | Some a \<Rightarrow> Contains \<lparr>px_Addr = AddrFrom4 100 64 0 0, px_Bits = 10\<rparr> (Some a))"

definition Address :: "string \<Rightarrow> bool" where
  "Address host =
     (case ParseAddr host of
        None \<Rightarrow> False
      | Some a \<Rightarrow> Addr_String a = host \<and> (IsPrivate a \<or> TailscaleAddress host))"

definition private_guest :: "string \<Rightarrow> bool" where
  "private_guest guest =
     (case ParseAddr guest of None \<Rightarrow> False | Some a \<Rightarrow> IsPrivate a \<and> Addr_String a = guest)"

text \<open>The host, port and guest that a marker names, after its version and pending mark.\<close>

definition marker_route :: "string \<Rightarrow> string list \<Rightarrow> (string \<times> string \<times> string) option" where
  "marker_route version parts =
     (case parts of
        [host, port] \<Rightarrow> if version = ''v1'' then Some (host, port, '''') else None
      | [host, port, guest] \<Rightarrow> if version = ''v2'' \<and> private_guest guest then Some (host, port, guest) else None
      | _ \<Rightarrow> None)"

definition Owned :: "string \<Rightarrow> str_map \<Rightarrow> string \<times> string \<times> bool" where
  "Owned marker device =
     (case Cut marker CHR '':'' of (version, value, found) \<Rightarrow>
        if \<not> found \<or> version \<noteq> ''v1'' \<and> version \<noteq> ''v2'' then ('''', '''', False)
        else
          (case marker_route version (Split (TrimPrefix value ''pending:'') CHR '':'') of
             None \<Rightarrow> ('''', '''', False)
           | Some (host, port, guest) \<Rightarrow>
               (case Atoi port of
                  None \<Rightarrow> ('''', '''', False)
                | Some number \<Rightarrow>
                    if \<not> Address host \<or> number < 1024 \<or> 65535 < number \<or> fmt_d number \<noteq> port
                       \<or> device \<noteq> Device host port guest
                    then ('''', '''', False)
                    else (host, port, \<not> HasPrefix value ''pending:''))))"

section \<open>Owned public ingress\<close>

definition ownedPreviewIngress :: "ObservedYard \<Rightarrow> string \<Rightarrow> bool" where
  "ownedPreviewIngress y ipv4 =
     (let info = oy_InstanceInfo y; device = dget (ii_Devices info) preview_device in
      case Owned (mget (ii_LocalConfig info) preview_key) device of (host, port, ready) \<Rightarrow>
        oy_InstanceFound y \<and> ii_Type info = YardVM \<and> ready
        \<and> mget (dget (ii_Devices info) ''eth0'') ''ipv4.address'' = ipv4
        \<and> device = dget (ii_LocalDevices info) preview_device \<and> device = Device host port ipv4)"

definition ownedPublicIngress :: "ObservedYard \<Rightarrow> string \<Rightarrow> ProxyContract \<Rightarrow> string \<Rightarrow> int \<Rightarrow> bool" where
  "ownedPublicIngress y ipv4 c protocol guestPort =
     (let info = oy_InstanceInfo y; device = dget (ii_LocalDevices info) (pc_Device c) in
      map_len device = 5 \<and> mget device ''type'' = ''proxy'' \<and> mget device ''nat'' = ''true''
      \<and> mget device ''bind'' = ''host''
      \<and> mget device ''connect'' = protocol @ '':'' @ ipv4 @ '':'' @ fmt_d guestPort
      \<and> device = dget (ii_Devices info) (pc_Device c)
      \<and> fmpred (\<lambda>key _. key \<in> {''type'', ''listen'', ''connect'', ''nat'', ''bind''}) device
      \<and> valid_listen protocol (mget device ''listen'')
      \<and> mget (ii_LocalConfig info) (OwnershipKey c) = OwnershipValue device)"

text \<open>The approval of one contract, if the yard has exactly its owned route.\<close>

definition approved_contract :: "ObservedYard \<Rightarrow> string \<Rightarrow> ProxyContract \<Rightarrow> ApprovedIngress list" where
  "approved_contract y ipv4 c =
     (let listen = mget (dget (ii_LocalDevices (oy_InstanceInfo y)) (pc_Device c)) ''listen'' in
      case Cut listen CHR '':'' of (listenProtocol, listenText, _) \<Rightarrow>
        (case ParseAddrPort listenText of
           None \<Rightarrow> []
         | Some endpoint \<Rightarrow>
             (case GuestEndpoint c (int (ap_Port endpoint)) of (protocol, guestPort, valid) \<Rightarrow>
                if \<not> valid \<or> listenProtocol \<noteq> protocol \<or> \<not> pc_OwnershipMetadata c \<or> pc_Profile c = ''''
                   \<or> pc_Resource c = '''' \<or> pc_Device c = '''' \<or> \<not> ownedPublicIngress y ipv4 c protocol guestPort
                then []
                else [\<lparr>ai_Device = pc_Device c, ai_Protocol = (if protocol = ''udp'' then '''' else protocol),
                       ai_Listen = listen, ai_GuestPort = guestPort, ai_legacyFingerprint = None\<rparr>])))"

definition approvedPublicIngress :: "ObservedYard \<Rightarrow> string \<Rightarrow> ApprovedIngress list" where
  "approvedPublicIngress y ipv4 =
     (let info = oy_InstanceInfo y;
          preview = (if ownedPreviewIngress y ipv4
            then [\<lparr>ai_Device = preview_device, ai_Protocol = ''tcp'',
                   ai_Listen = mget (dget (ii_Devices info) preview_device) ''listen'',
                   ai_GuestPort = 8765, ai_legacyFingerprint = None\<rparr>] else []) in
      if \<not> oy_InstanceFound y \<or> ii_Type info \<noteq> YardVM then []
      else if oy_Name y = '''' \<or> oy_Name y = ''default'' then preview
      else sort_key ai_Device (preview @ concat (map (approved_contract y ipv4) (oy_IngressContracts y))))"

definition allow_port :: "ApprovedIngress \<Rightarrow> Rule" where
  "allow_port a =
     \<lparr>ru_Action = ''allow'', ru_State = ''enabled'', ru_Source = '''', ru_Destination = '''',
      ru_Protocol = Transport a, ru_DestinationPort = fmt_d (ai_GuestPort a)\<rparr>"

fun distinct_rules :: "Rule list \<Rightarrow> Rule list \<Rightarrow> Rule list" where
  "distinct_rules rules [] = rules"
| "distinct_rules rules (r # rs) = distinct_rules (if r \<in> set rules then rules else rules @ [r]) rs"

fun keep_order :: "Rule list \<Rightarrow> Rule list \<Rightarrow> Rule list \<Rightarrow> Rule list" where
  "keep_order ordered rules [] = ordered @ rules"
| "keep_order ordered rules (current # rest) =
     (if current \<in> set rules then keep_order (ordered @ [current]) (remove1 current rules) rest
      else keep_order ordered rules rest)"

definition ownedPublicIngressRules :: "ObservedYard \<Rightarrow> string \<Rightarrow> Rule list" where
  "ownedPublicIngressRules y ipv4 =
     keep_order [] (distinct_rules [] (map allow_port (approvedPublicIngress y ipv4))) (ac_Ingress (oy_ACL y))"

section \<open>Checks\<close>

definition sameACL :: "ACL \<Rightarrow> ACL \<Rightarrow> bool" where
  "sameACL a b \<longleftrightarrow>
     ac_Exists a \<and> ac_Config a = ac_Config b \<and> ac_Ingress a = ac_Ingress b \<and> ac_Egress a = ac_Egress b"

definition validateACLOwner :: "ObservedYard \<Rightarrow> plan_error err" where
  "validateACLOwner y =
     (let acl = oy_ACL y in
      if ac_Exists acl \<and> (mget (ac_Config acl) ''user.subyard.managed'' \<noteq> ''true''
           \<or> mget (ac_Config acl) ''user.subyard.yard'' \<noteq> oy_Name y)
      then Some (ForeignACL (oy_Name y)) else None)"

definition bridgePrefix :: "Network \<Rightarrow> Prefix option" where
  "bridgePrefix n =
     (case ParsePrefix (mget (nw_Config n) ''ipv4.address'') of
        None \<Rightarrow> None
      | Some px \<Rightarrow>
          if \<not> nw_Managed n \<or> nw_Type n \<noteq> ''bridge'' \<or> 29 < px_Bits px \<or> mget (nw_Config n) ''ipv4.dhcp'' = ''false''
          then None else Some px)"

text \<open>The fields of the network device that the policy writes.\<close>

definition owned_fields :: "string list" where
  "owned_fields = [''name'', ''hwaddr'', ''ipv4.address'', ''security.mac_filtering'', ''security.ipv4_filtering'',
     ''security.acls'', ''security.acls.default.ingress.action'', ''security.acls.default.egress.action'']"

definition str_Contains :: "string \<Rightarrow> string \<Rightarrow> bool" where
  "str_Contains s sub = sublist sub s"

definition validateYard :: "ObservedYard \<Rightarrow> str_map \<Rightarrow> plan_error err" where
  "validateYard y original =
     (let name = oy_Name y; nic = dget (oy_ProfileDevices y) ''eth0''; info = oy_InstanceInfo y;
          acl = mget nic ''security.acls'';
          path = ''/instances/'' @ y_Instance (oy_Yard y) in
      if mget (oy_ProjectConfig y) ''restricted'' \<noteq> ''true'' then Some (NotRestricted name)
      else if mget nic ''type'' \<noteq> ''nic'' \<or> mget nic ''network'' \<noteq> oy_Network y
         \<or> mget nic ''name'' \<noteq> '''' \<and> mget nic ''name'' \<noteq> ''eth0'' then Some (UnsupportedNIC name)
      else if map_any (\<lambda>k d. mget d ''type'' = ''nic'' \<and> k \<noteq> ''eth0'') (oy_ProfileDevices y) then Some (ExtraProfileNIC name)
      else if map_any (\<lambda>k d. k = ''eth0'' \<or> mget d ''type'' = ''nic'') (ii_LocalDevices info) then Some (LocalNICOverride name)
      else if map_any (\<lambda>k d. mget d ''type'' = ''nic'' \<and> k \<noteq> ''eth0'') (ii_Devices info) then Some (ExtraExpandedNIC name)
      else and_then (validateACLOwner y)
       (if acl \<noteq> '''' \<and> acl \<noteq> ACLName (oy_Yard y) then Some (ForeignNICACLs name)
        else if list_ex (\<lambda>user. \<not> str_Contains user (path @ ''?'') \<and> \<not> HasSuffix user path) (oy_ProfileUsedBy y)
        then Some (SharedProfile name)
        else if map_any (\<lambda>k v. k \<notin> set owned_fields \<and> mget original k \<noteq> v) nic
           \<or> map_any (\<lambda>k v. k \<notin> set owned_fields \<and> mget nic k \<noteq> v) original
        then Some (ProfileChanged name) else None))"

end
