(* ===== verification/Network_Data.thy ===== *)
theory Network_Data
  imports Network_Observed
begin

text \<open>
  The plans of \<open>internal/yardnetwork/planner.go\<close> as data, the JSON texts whose digests identify an
  observation or a plan, and the copies that decoding such a text gives back.  A nil map or slice is
  written as \<open>null\<close>; an empty one is the same value here and is written the same way.
\<close>

section \<open>Plans\<close>

record StoredPolicy =
  sp_Policy :: Policy
  sp_Content :: string
  sp_ETag :: string

record Change =
  ch_Link :: "Link option"
  ch_Unlink :: "Link option"
  ch_Isolation :: "bool option"

definition no_change :: Change where
  "no_change = \<lparr>ch_Link = None, ch_Unlink = None, ch_Isolation = None\<rparr>"

record Update =
  up_Yard :: ObservedYard
  up_NIC :: str_map
  up_Access :: string
  up_ACL :: ACL
  up_RemoveACL :: bool

record Plan =
  pl_Before :: StoredPolicy
  pl_Policy :: Policy
  pl_Updates :: "Update list"
  pl_Changed :: bool
  pl_Physical :: bool
  pl_Fingerprint :: string
  pl_Change :: Change
  pl_Yards :: "Yard list"
  pl_Snapshot :: Snapshot

section \<open>JSON texts\<close>

definition json_list :: "('a \<Rightarrow> json) \<Rightarrow> 'a list \<Rightarrow> json" where
  "json_list f xs = (if xs = [] then JNull else JArray (map f xs))"

definition json_table :: "('a \<Rightarrow> json) \<Rightarrow> (string, 'a) fmap \<Rightarrow> json" where
  "json_table f m =
     (if map_entries m = [] then JNull else JMap (map (\<lambda>(k, v). (k, f v)) (map_entries m)))"

abbreviation strings_table :: "str_map \<Rightarrow> json" where
  "strings_table \<equiv> json_table JString"

definition kind_text :: "YardKind \<Rightarrow> string" where
  "kind_text k = (case k of YardContainer \<Rightarrow> ''container'' | YardVM \<Rightarrow> ''vm'' | OtherYardKind t \<Rightarrow> t)"

definition contract_json :: "ProxyContract \<Rightarrow> json" where
  "contract_json c =
     JStruct [(''Profile'', JString (pc_Profile c)), (''Resource'', JString (pc_Resource c)),
       (''Device'', JString (pc_Device c)), (''AdvertiseHostSetting'', JString (pc_AdvertiseHostSetting c)),
       (''HostPortSetting'', JString (pc_HostPortSetting c)), (''OwnerInterfaceSetting'', JString (pc_OwnerInterfaceSetting c)),
       (''Connect'', JString (pc_Connect c)), (''AddressPolicy'', JString (pc_AddressPolicy c)),
       (''OwnershipMetadata'', JBool (pc_OwnershipMetadata c))]"

definition instance_json :: "InstanceInfo \<Rightarrow> json" where
  "instance_json i =
     JStruct ([(''name'', JString (ii_Name i)), (''project'', JString (ii_Project i)), (''type'', JString (kind_text (ii_Type i))),
        (''status'', JString (ii_Status i)), (''config'', strings_table (ii_Config i)),
        (''devices'', json_table strings_table (ii_Devices i))]
       @ omit_empty (map_entries (ii_LocalConfig i) = []) ''localConfig'' (strings_table (ii_LocalConfig i))
       @ omit_empty (map_entries (ii_LocalDevices i) = []) ''localDevices'' (json_table strings_table (ii_LocalDevices i)))"

definition rule_json :: "Rule \<Rightarrow> json" where
  "rule_json r =
     JStruct ([(''action'', JString (ru_Action r)), (''state'', JString (ru_State r))]
       @ omit_empty (ru_Source r = '''') ''source'' (JString (ru_Source r))
       @ omit_empty (ru_Destination r = '''') ''destination'' (JString (ru_Destination r))
       @ omit_empty (ru_Protocol r = '''') ''protocol'' (JString (ru_Protocol r))
       @ omit_empty (ru_DestinationPort r = '''') ''destinationPort'' (JString (ru_DestinationPort r)))"

definition acl_json :: "ACL \<Rightarrow> json" where
  "acl_json a =
     JStruct [(''Name'', JString (ac_Name a)), (''Exists'', JBool (ac_Exists a)), (''ETag'', JString (ac_ETag a)),
       (''Config'', strings_table (ac_Config a)), (''Ingress'', json_list rule_json (ac_Ingress a)),
       (''Egress'', json_list rule_json (ac_Egress a))]"

definition observed_json :: "ObservedYard \<Rightarrow> json" where
  "observed_json y =
     JStruct [(''name'', JString (oy_Name y)), (''project'', JString (y_Project (oy_Yard y))),
       (''instance'', JString (y_Instance (oy_Yard y))), (''network'', JString (oy_Network y)),
       (''IngressContracts'', json_list contract_json (oy_IngressContracts y)),
       (''ProjectFound'', JBool (oy_ProjectFound y)), (''ProjectETag'', JString (oy_ProjectETag y)),
       (''ProjectConfig'', strings_table (oy_ProjectConfig y)), (''ProfileFound'', JBool (oy_ProfileFound y)),
       (''ProfileETag'', JString (oy_ProfileETag y)), (''ProfileDevices'', json_table strings_table (oy_ProfileDevices y)),
       (''ProfileUsedBy'', json_list JString (oy_ProfileUsedBy y)), (''InstanceFound'', JBool (oy_InstanceFound y)),
       (''InstanceInfo'', instance_json (oy_InstanceInfo y)), (''IPv4'', JString (oy_IPv4 y)), (''MAC'', JString (oy_MAC y)),
       (''ACL'', acl_json (oy_ACL y))]"

definition network_json :: "Network \<Rightarrow> json" where
  "network_json n =
     JStruct [(''Name'', JString (nw_Name n)), (''Type'', JString (nw_Type n)), (''Managed'', JBool (nw_Managed n)),
       (''Config'', strings_table (nw_Config n))]"

definition claim_json :: "ReservationClaim \<Rightarrow> json" where
  "claim_json c =
     JStruct [(''Project'', JString (rc_Project c)), (''Instance'', JString (rc_Instance c)),
       (''Profile'', JString (rc_Profile c)), (''MAC'', JString (rc_MAC c))]"

definition snapshot_json :: "Snapshot \<Rightarrow> json" where
  "snapshot_json s =
     JStruct [(''Firewall'', JString (sn_Firewall s)), (''Clustered'', JBool (sn_Clustered s)),
       (''Yards'', json_list observed_json (sn_Yards s)), (''Networks'', json_table network_json (sn_Networks s)),
       (''ReservationClaims'', json_table (json_table (json_list claim_json)) (sn_ReservationClaims s))]"

definition stored_json :: "StoredPolicy \<Rightarrow> json" where
  "stored_json p =
     JStruct [(''Policy'', policy_json (sp_Policy p)), (''Content'', JString (sp_Content p)), (''ETag'', JString (sp_ETag p))]"

definition change_json :: "Change \<Rightarrow> json" where
  "change_json c =
     (let link = (\<lambda>l. case l of None \<Rightarrow> JNull
        | Some l \<Rightarrow> JStruct [(''a'', JString (lk_A l)), (''b'', JString (lk_B l))]) in
      JStruct [(''Link'', link (ch_Link c)), (''Unlink'', link (ch_Unlink c)),
        (''Isolation'', (case ch_Isolation c of None \<Rightarrow> JNull | Some b \<Rightarrow> JBool b))])"

definition update_json :: "Update \<Rightarrow> json" where
  "update_json u =
     JStruct [(''Yard'', observed_json (up_Yard u)), (''NIC'', strings_table (up_NIC u)), (''Access'', JString (up_Access u)),
       (''ACL'', acl_json (up_ACL u)), (''RemoveACL'', JBool (up_RemoveACL u))]"

definition plan_json :: "Plan \<Rightarrow> json" where
  "plan_json p =
     JStruct [(''Before'', stored_json (pl_Before p)), (''Policy'', policy_json (pl_Policy p)),
       (''Updates'', json_list update_json (pl_Updates p)), (''Changed'', JBool (pl_Changed p)),
       (''Physical'', JBool (pl_Physical p)), (''Fingerprint'', JString (pl_Fingerprint p)),
       (''Change'', change_json (pl_Change p)), (''Yards'', json_list yard_json (pl_Yards p))]"

definition planDigest :: "json \<Rightarrow> string" where
  "planDigest v = sha256_hex (json_render v)"

definition fingerprint :: "StoredPolicy \<Rightarrow> Snapshot \<Rightarrow> Change \<Rightarrow> string" where
  "fingerprint stored s c =
     planDigest (JStruct [(''Stored'', stored_json stored), (''Snapshot'', snapshot_json s), (''Change'', change_json c)])"

section \<open>Copies through JSON\<close>

definition json_table_of :: "('a \<Rightarrow> 'b) \<Rightarrow> (string, 'a) fmap \<Rightarrow> (string, 'b) fmap" where
  "json_table_of f m = fmap_of_list (rev (map (\<lambda>(k, v). (json_text k, f v)) (map_entries m)))"

abbreviation json_devices :: "devices \<Rightarrow> devices" where
  "json_devices \<equiv> json_table_of json_map"

definition json_kind :: "YardKind \<Rightarrow> YardKind" where
  "json_kind k = (case k of OtherYardKind t \<Rightarrow> OtherYardKind (json_text t) | _ \<Rightarrow> k)"

definition json_contract :: "ProxyContract \<Rightarrow> ProxyContract" where
  "json_contract c =
     \<lparr>pc_Profile = json_text (pc_Profile c), pc_Resource = json_text (pc_Resource c), pc_Device = json_text (pc_Device c),
      pc_AdvertiseHostSetting = json_text (pc_AdvertiseHostSetting c), pc_HostPortSetting = json_text (pc_HostPortSetting c),
      pc_OwnerInterfaceSetting = json_text (pc_OwnerInterfaceSetting c), pc_Connect = json_text (pc_Connect c),
      pc_AddressPolicy = json_text (pc_AddressPolicy c), pc_OwnershipMetadata = pc_OwnershipMetadata c\<rparr>"

definition json_instance :: "InstanceInfo \<Rightarrow> InstanceInfo" where
  "json_instance i =
     \<lparr>ii_Name = json_text (ii_Name i), ii_Project = json_text (ii_Project i), ii_Type = json_kind (ii_Type i),
      ii_Status = json_text (ii_Status i), ii_Config = json_map (ii_Config i), ii_Devices = json_devices (ii_Devices i),
      ii_LocalConfig = json_map (ii_LocalConfig i), ii_LocalDevices = json_devices (ii_LocalDevices i)\<rparr>"

definition json_rule :: "Rule \<Rightarrow> Rule" where
  "json_rule r =
     \<lparr>ru_Action = json_text (ru_Action r), ru_State = json_text (ru_State r), ru_Source = json_text (ru_Source r),
      ru_Destination = json_text (ru_Destination r), ru_Protocol = json_text (ru_Protocol r),
      ru_DestinationPort = json_text (ru_DestinationPort r)\<rparr>"

definition json_acl :: "ACL \<Rightarrow> ACL" where
  "json_acl a =
     \<lparr>ac_Name = json_text (ac_Name a), ac_Exists = ac_Exists a, ac_ETag = json_text (ac_ETag a), ac_Config = json_map (ac_Config a),
      ac_Ingress = map json_rule (ac_Ingress a), ac_Egress = map json_rule (ac_Egress a)\<rparr>"

definition json_observed :: "ObservedYard \<Rightarrow> ObservedYard" where
  "json_observed y =
     \<lparr>oy_Yard = json_yard (oy_Yard y), oy_IngressContracts = map json_contract (oy_IngressContracts y),
      oy_ProjectFound = oy_ProjectFound y, oy_ProjectETag = json_text (oy_ProjectETag y),
      oy_ProjectConfig = json_map (oy_ProjectConfig y), oy_ProfileFound = oy_ProfileFound y,
      oy_ProfileETag = json_text (oy_ProfileETag y), oy_ProfileDevices = json_devices (oy_ProfileDevices y),
      oy_ProfileUsedBy = map json_text (oy_ProfileUsedBy y), oy_InstanceFound = oy_InstanceFound y,
      oy_InstanceInfo = json_instance (oy_InstanceInfo y), oy_IPv4 = json_text (oy_IPv4 y), oy_MAC = json_text (oy_MAC y),
      oy_ACL = json_acl (oy_ACL y)\<rparr>"

definition json_network :: "Network \<Rightarrow> Network" where
  "json_network n =
     \<lparr>nw_Name = json_text (nw_Name n), nw_Type = json_text (nw_Type n), nw_Managed = nw_Managed n, nw_Config = json_map (nw_Config n)\<rparr>"

definition json_claim :: "ReservationClaim \<Rightarrow> ReservationClaim" where
  "json_claim c =
     \<lparr>rc_Project = json_text (rc_Project c), rc_Instance = json_text (rc_Instance c),
      rc_Profile = json_text (rc_Profile c), rc_MAC = json_text (rc_MAC c)\<rparr>"

definition json_snapshot :: "Snapshot \<Rightarrow> Snapshot" where
  "json_snapshot s =
     \<lparr>sn_Firewall = json_text (sn_Firewall s), sn_Clustered = sn_Clustered s, sn_Yards = map json_observed (sn_Yards s),
      sn_Networks = json_table_of json_network (sn_Networks s),
      sn_ReservationClaims = json_table_of (json_table_of (map json_claim)) (sn_ReservationClaims s)\<rparr>"

end
