(* ===== verification/Network_Plan.thy ===== *)
theory Network_Plan
  imports Network_Data
begin

text \<open>
  \<open>internal/yardnetwork/planner.go\<close>: from the stored policy, an observation of the host and a requested
  change, the planner fixes the network identity of every yard and computes the network device, the
  project setting and the ACL that each yard needs.
\<close>

section \<open>Network identities\<close>

definition usable :: "Prefix \<Rightarrow> addr \<Rightarrow> bool" where
  "usable px a \<longleftrightarrow> Contains px (Some a) \<and> a \<noteq> px_Addr px \<and> a \<noteq> Masked_Addr px \<and> Contains px (Addr_Next a)"

text \<open>The search for a free address, at most \<open>n\<close> candidates from \<open>candidate\<close> on.\<close>

fun find_address :: "nat \<Rightarrow> Prefix \<Rightarrow> (string \<Rightarrow> bool) \<Rightarrow> addr option \<Rightarrow> string" where
  "find_address n px reserved candidate =
     (if n = 0 then ''''
      else case candidate of
        None \<Rightarrow> ''''
      | Some a \<Rightarrow>
          if \<not> Contains px (Some a) then ''''
          else if a \<noteq> px_Addr px \<and> \<not> reserved (Addr_String a) \<and> Contains px (Addr_Next a) then Addr_String a
          else find_address (n - 1) px reserved (Addr_Next a))"

declare find_address.simps [simp del]

definition is_reserved :: "Snapshot \<Rightarrow> (string \<times> string) list \<Rightarrow> string \<Rightarrow> string \<Rightarrow> bool" where
  "is_reserved s taken net ip \<longleftrightarrow>
     (net, ip) \<in> set taken
     \<or> (case fmlookup (sn_ReservationClaims s) net of None \<Rightarrow> False | Some claims \<Rightarrow> fmlookup claims ip \<noteq> None)"

definition derived_mac :: "Yard \<Rightarrow> string" where
  "derived_mac y =
     (let sum = Sum256 (y_Project y @ ''/'' @ y_Instance y) in
      ''02:'' @ hex2 (sum ! 0) @ '':'' @ hex2 (sum ! 1) @ '':'' @ hex2 (sum ! 2) @ '':'' @ hex2 (sum ! 3) @ '':'' @ hex2 (sum ! 4))"

definition chosen_ip :: "Snapshot \<Rightarrow> (string \<times> string) list \<Rightarrow> Prefix \<Rightarrow> ObservedYard \<Rightarrow> string" where
  "chosen_ip s taken px y =
     (let nic = dget (oy_ProfileDevices y) ''eth0'' in
      if mget nic ''ipv4.address'' \<noteq> '''' then mget nic ''ipv4.address''
      else if oy_IPv4 y \<noteq> '''' then oy_IPv4 y
      else find_address 65536 px (is_reserved s taken (oy_Network y)) (Addr_Next (Masked_Addr px)))"

definition chosen_mac :: "ObservedYard \<Rightarrow> string" where
  "chosen_mac y =
     (let nic = dget (oy_ProfileDevices y) ''eth0'' in
      if mget nic ''hwaddr'' \<noteq> '''' then mget nic ''hwaddr''
      else if oy_MAC y \<noteq> '''' then oy_MAC y
      else derived_mac (oy_Yard y))"

text \<open>The identity of a yard that has none yet.  A MAC that parses is ASCII, so lower case is bytewise.\<close>

definition new_binding ::
  "Snapshot \<Rightarrow> Binding list \<Rightarrow> (string \<times> string) list \<Rightarrow> ObservedYard \<Rightarrow> plan_error + Binding" where
  "new_binding s bindings taken y =
     (let name = oy_Name y; nic = dget (oy_ProfileDevices y) ''eth0'' in
      case bridgePrefix (network_of s (oy_Network y)) of
        None \<Rightarrow> Inl (NoBridge name)
      | Some px \<Rightarrow>
          if \<not> oy_ProfileFound y then Inl (MissingProfile name)
          else if mget nic ''security.acls'' \<noteq> '''' then Inl (ForeignNICACLs name)
          else
            (let ip = chosen_ip s taken px y; mac = chosen_mac y in
             if (case ParseAddr ip of None \<Rightarrow> True | Some a \<Rightarrow> \<not> usable px a) then Inl (NoUsableAddress name)
             else if \<not> unicast_mac mac then Inl (InvalidMAC name)
             else
               (let b = \<lparr>bd_Yard = oy_Yard y, bd_IPv4 = ip, bd_MAC = map ascii_lower mac, bd_OriginalNIC = nic,
                      bd_OriginalAccess = mget (oy_ProjectConfig y) ''restricted.networks.access'',
                      bd_ApprovedIngress = approvedPublicIngress y ip\<rparr> in
                case validateYard y nic of
                  Some e \<Rightarrow> Inl e
                | None \<Rightarrow>
                    (case find_first (\<lambda>other. y_Network (bd_Yard other) = oy_Network y
                        \<and> (bd_IPv4 other = bd_IPv4 b \<or> bd_MAC other = bd_MAC b)) bindings of
                       Some other \<Rightarrow> Inl (IdentityCollision name (y_Name (bd_Yard other)))
                     | None \<Rightarrow> Inr b))))"

definition approve_first :: "ObservedYard \<Rightarrow> string \<Rightarrow> Binding list \<Rightarrow> Binding list" where
  "approve_first y ipv4 bindings =
     (case List.extract (\<lambda>b. bd_Yard b = oy_Yard y) bindings of
        None \<Rightarrow> bindings
      | Some (pre, b, post) \<Rightarrow> pre @ b\<lparr>bd_ApprovedIngress := approvedPublicIngress y ipv4\<rparr> # post)"

definition binding_of :: "Binding list \<Rightarrow> string \<Rightarrow> Binding option" where
  "binding_of bindings name = find_first (\<lambda>b. y_Name (bd_Yard b) = name) (rev bindings)"

definition kept_binding :: "Policy \<Rightarrow> Snapshot \<Rightarrow> ObservedYard \<Rightarrow> Binding \<Rightarrow> plan_error err" where
  "kept_binding p s y b =
     (let name = oy_Name y in
      if bd_Yard b \<noteq> oy_Yard y then Some (IdentityChanged name)
      else if po_Isolation p \<and> name \<notin> set (po_Removing p)
      then (case bridgePrefix (network_of s (oy_Network y)) of
              None \<Rightarrow> Some (NoBridge name)
            | Some px \<Rightarrow>
                (case ParseAddr (bd_IPv4 b) of
                   None \<Rightarrow> Some (AddressOutsideBridge name)
                 | Some a \<Rightarrow> if usable px a then None else Some (AddressOutsideBridge name)))
      else None)"

text \<open>One yard: the bindings so far and the addresses taken are threaded through the loop.\<close>

definition plan_binding ::
  "Policy \<Rightarrow> Snapshot \<Rightarrow> ObservedYard \<Rightarrow> Binding list \<times> (string \<times> string) list
     \<Rightarrow> plan_error + Binding list \<times> (string \<times> string) list" where
  "plan_binding p s y state =
     (case state of (bindings, taken) \<Rightarrow>
        if po_Isolation p \<and> oy_Name y \<notin> set (po_Removing p) \<and> mget (oy_ProjectConfig y) ''features.networks'' = ''true''
        then Inl (ForeignNamespace (oy_Name y))
        else case binding_of (po_Bindings p) (oy_Name y) of
          Some b \<Rightarrow>
            (case kept_binding p s y b of
               Some e \<Rightarrow> Inl e
             | None \<Rightarrow> Inr (approve_first y (bd_IPv4 b) bindings, taken))
        | None \<Rightarrow>
            if \<not> po_Isolation p \<or> \<not> oy_ProjectFound y then Inr state
            else res_bind (new_binding s bindings taken y) (\<lambda>b.
              Inr (bindings @ [b], (oy_Network y, bd_IPv4 b) # taken)))"

definition planBindings :: "Policy \<Rightarrow> Snapshot \<Rightarrow> plan_error + Policy" where
  "planBindings p s =
     res_bind (fold_res (plan_binding p s) (sn_Yards s)
       (po_Bindings p, map (\<lambda>b. (y_Network (bd_Yard b), bd_IPv4 b)) (po_Bindings p))) (\<lambda>(bindings, taken).
     Inr (p\<lparr>po_Bindings := sort_key (y_Name \<circ> bd_Yard) bindings\<rparr>))"

section \<open>The updates of the yards\<close>

definition source_rule :: "string \<Rightarrow> Rule" where
  "source_rule ipv4 =
     \<lparr>ru_Action = ''allow'', ru_State = ''enabled'', ru_Source = ipv4 @ ''/32'', ru_Destination = '''',
      ru_Protocol = '''', ru_DestinationPort = ''''\<rparr>"

definition peer_rules :: "Policy \<Rightarrow> string \<Rightarrow> Rule list" where
  "peer_rules p name =
     concat (map (\<lambda>peer. case binding_of (po_Bindings p) peer of
       Some other \<Rightarrow> [source_rule (bd_IPv4 other)] | None \<Rightarrow> []) (Peers p name))"

text \<open>The address of the bridge; the zero address prints as invalid.\<close>

definition bridge_source :: "Snapshot \<Rightarrow> ObservedYard \<Rightarrow> string" where
  "bridge_source s y =
     (case ParsePrefix (mget (nw_Config (network_of s (oy_Network y))) ''ipv4.address'') of
        Some px \<Rightarrow> Addr_String (px_Addr px) | None \<Rightarrow> ''invalid IP'')"

definition ssh_rule :: "string \<Rightarrow> Rule" where
  "ssh_rule bridge = (source_rule bridge)\<lparr>ru_Protocol := ''tcp'', ru_DestinationPort := ''22''\<rparr>"

definition isolated_nic :: "ObservedYard \<Rightarrow> Binding \<Rightarrow> str_map" where
  "isolated_nic y b =
     fold (\<lambda>(k, v). fmupd k v)
       [(''name'', ''eth0''), (''hwaddr'', bd_MAC b), (''ipv4.address'', bd_IPv4 b), (''security.mac_filtering'', ''true''),
        (''security.ipv4_filtering'', ''true''), (''security.acls'', ACLName (oy_Yard y)),
        (''security.acls.default.ingress.action'', ''drop''), (''security.acls.default.egress.action'', ''allow'')]
       (bd_OriginalNIC b)"

definition isolated_acl :: "Policy \<Rightarrow> Snapshot \<Rightarrow> ObservedYard \<Rightarrow> Binding \<Rightarrow> ACL" where
  "isolated_acl p s y b =
     \<lparr>ac_Name = ACLName (oy_Yard y), ac_Exists = ac_Exists (oy_ACL y), ac_ETag = ac_ETag (oy_ACL y),
      ac_Config = fmap_of_list [(''user.subyard.managed'', ''true''), (''user.subyard.yard'', oy_Name y)],
      ac_Ingress = peer_rules p (oy_Name y) @ ownedPublicIngressRules y (bd_IPv4 b) @ [ssh_rule (bridge_source s y)],
      ac_Egress = [\<lparr>ru_Action = ''allow'', ru_State = ''enabled'', ru_Source = '''', ru_Destination = '''',
        ru_Protocol = '''', ru_DestinationPort = ''''\<rparr>]\<rparr>"

definition yard_update :: "Policy \<Rightarrow> Snapshot \<Rightarrow> ObservedYard \<Rightarrow> Binding \<Rightarrow> Update" where
  "yard_update p s y b =
     (let removing = oy_Name y \<in> set (po_Removing p) in
      if po_Isolation p \<and> \<not> removing
      then \<lparr>up_Yard = y, up_NIC = isolated_nic y b, up_Access = oy_Network y, up_ACL = isolated_acl p s y b,
            up_RemoveACL = False\<rparr>
      else \<lparr>up_Yard = y, up_NIC = bd_OriginalNIC b, up_Access = bd_OriginalAccess b, up_ACL = oy_ACL y,
            up_RemoveACL = True\<rparr>)"

definition needs_update :: "ObservedYard \<Rightarrow> Update \<Rightarrow> bool" where
  "needs_update y u \<longleftrightarrow>
     oy_ProfileFound y \<and> dget (oy_ProfileDevices y) ''eth0'' \<noteq> up_NIC u
     \<or> oy_ProjectFound y \<and> mget (oy_ProjectConfig y) ''restricted.networks.access'' \<noteq> up_Access u
     \<or> \<not> up_RemoveACL u \<and> \<not> sameACL (oy_ACL y) (up_ACL u)
     \<or> up_RemoveACL u \<and> ac_Exists (oy_ACL y)"

definition check_yard :: "Policy \<Rightarrow> ObservedYard \<Rightarrow> Binding \<Rightarrow> plan_error err" where
  "check_yard p y b =
     (let removing = oy_Name y \<in> set (po_Removing p) in
      and_then (validateACLOwner y)
       (if removing \<and> oy_InstanceFound y then Some (TeardownIncomplete (oy_Name y))
        else if (\<not> oy_ProjectFound y \<or> \<not> oy_ProfileFound y) \<and> \<not> removing then Some (MissingProject (oy_Name y))
        else if oy_ProfileFound y then validateYard y (bd_OriginalNIC b)
        else None))"

definition plan_yard :: "Policy \<Rightarrow> Snapshot \<Rightarrow> ObservedYard \<Rightarrow> plan_error + Update list" where
  "plan_yard p s y =
     (case binding_of (po_Bindings p) (oy_Name y) of
        None \<Rightarrow> Inr []
      | Some b \<Rightarrow>
          (case check_yard p y b of
             Some e \<Rightarrow> Inl e
           | None \<Rightarrow>
               (let u = yard_update p s y b in Inr (if needs_update y u then [u] else []))))"

section \<open>The plan\<close>

text \<open>The policy after the requested change; yards being removed lose their links.\<close>

definition apply_change :: "Change \<Rightarrow> string list \<Rightarrow> Policy \<Rightarrow> plan_error + Policy" where
  "apply_change c known p =
     (let unknown = (\<lambda>l. lk_A l \<notin> set known \<or> lk_B l \<notin> set known);
          linked = (case ch_Link c of None \<Rightarrow> Inr p | Some l \<Rightarrow> Policy_Link (lk_A l) (lk_B l) p);
          unlinked = res_bind linked (\<lambda>q. case ch_Unlink c of None \<Rightarrow> Inr q | Some l \<Rightarrow> Policy_Unlink (lk_A l) (lk_B l) q) in
      if (\<exists>l \<in> set_option (ch_Link c) \<union> set_option (ch_Unlink c). unknown l) then Inl EndpointsNotRegistered
      else case unlinked of
        Inl e \<Rightarrow> Inl (PolicyError e)
      | Inr q \<Rightarrow>
          Inr (fold without_links (po_Removing q)
            (case ch_Isolation c of None \<Rightarrow> q | Some b \<Rightarrow> q\<lparr>po_Isolation := b\<rparr>)))"

definition own_claim :: "Binding \<Rightarrow> ReservationClaim \<Rightarrow> bool" where
  "own_claim b c \<longleftrightarrow>
     rc_Project c = y_Project (bd_Yard b)
     \<and> (rc_Instance c = y_Instance (bd_Yard b)
        \<or> rc_Instance c = '''' \<and> rc_Profile c = ''default''
        \<or> rc_Instance c = '''' \<and> rc_Profile c = '''' \<and> rc_MAC c = bd_MAC b)"

fun check_bridge :: "Policy \<Rightarrow> Snapshot \<Rightarrow> string \<Rightarrow> Binding list \<Rightarrow> plan_error err" where
  "check_bridge p s bridge [] = None"
| "check_bridge p s bridge (b # bs) =
     (if y_Name (bd_Yard b) \<in> set (po_Removing p) then check_bridge p s bridge bs
      else if bridge \<noteq> '''' \<and> bridge \<noteq> y_Network (bd_Yard b) then Some DifferentBridges
      else if list_ex (\<lambda>c. \<not> own_claim b c \<or> rc_MAC c \<noteq> '''' \<and> rc_MAC c \<noteq> bd_MAC b)
           (claims_of s (y_Network (bd_Yard b)) (bd_IPv4 b))
      then Some (AddressClaimed (y_Name (bd_Yard b)))
      else check_bridge p s (y_Network (bd_Yard b)) bs)"

definition plan_isolation :: "Policy \<Rightarrow> Snapshot \<Rightarrow> plan_error + Policy \<times> Update list" where
  "plan_isolation p s =
     (if \<not> po_Isolation p \<and> po_Bindings p = [] then Inr (p, [])
      else if sn_Clustered s \<or> sn_Firewall s \<noteq> ''nftables'' then Inl UnsupportedHost
      else res_bind (planBindings p s) (\<lambda>q.
        case (if po_Isolation q then check_bridge q s '''' (po_Bindings q) else None) of
          Some e \<Rightarrow> Inl e
        | None \<Rightarrow> res_bind (map_res (plan_yard q s) (sn_Yards s)) (\<lambda>updates. Inr (q, concat updates))))"

text \<open>\<open>Decode (Encode p)\<close>: the normal form, written and read back.\<close>

definition encoded :: "Policy \<Rightarrow> plan_error + string" where
  "encoded p = (case Encode p of Inl e \<Rightarrow> Inl (PolicyError e) | Inr c \<Rightarrow> Inr c)"

definition reread :: "Policy \<Rightarrow> plan_error + Policy" where
  "reread p =
     (case res_bind (normalize p) (\<lambda>q. Decode (PolicyText (json_policy q))) of
        Inl e \<Rightarrow> Inl (PolicyError e) | Inr q \<Rightarrow> Inr q)"

definition pending_work :: "Policy \<Rightarrow> bool" where
  "pending_work p \<longleftrightarrow>
     po_AppliedRevision p \<noteq> po_Revision p \<or> po_AppliedIsolation p \<noteq> po_Isolation p
     \<or> po_PendingStart p \<noteq> [] \<or> po_Removing p \<noteq> []"

text \<open>The plan once policy and updates are known; \<open>before\<close> and \<open>after\<close> are the two texts of the policy.\<close>

definition finished_plan ::
  "StoredPolicy \<Rightarrow> Snapshot \<Rightarrow> Change \<Rightarrow> Policy \<Rightarrow> Update list \<Rightarrow> string \<Rightarrow> string \<Rightarrow> plan_error + Plan" where
  "finished_plan stored s c p updates before after =
     (let changed = (updates \<noteq> [] \<or> before \<noteq> after \<or> pending_work p);
          revision = (if changed then po_Revision p + 1 else po_Revision p) in
      if changed \<and> revision = 0 then Inl RevisionExhausted
      else Inr \<lparr>pl_Before = stored, pl_Policy = p\<lparr>po_Revision := revision\<rparr>, pl_Updates = updates, pl_Changed = changed,
             pl_Physical = (updates \<noteq> []), pl_Fingerprint = fingerprint stored s c, pl_Change = c,
             pl_Yards = map oy_Yard (sn_Yards s), pl_Snapshot = json_snapshot s\<rparr>)"

definition buildPlan :: "StoredPolicy \<Rightarrow> Snapshot \<Rightarrow> Change \<Rightarrow> plan_error + Plan" where
  "buildPlan stored s c =
     res_bind (encoded (sp_Policy stored)) (\<lambda>before.
     res_bind (reread (sp_Policy stored)) (\<lambda>p0.
     res_bind (apply_change c (map oy_Name (sn_Yards s)) p0) (\<lambda>p1.
     res_bind (plan_isolation p1 s) (\<lambda>(p, updates).
     res_bind (encoded p) (\<lambda>after. finished_plan stored s c p updates before after)))))"

section \<open>A yard as it is before any policy\<close>

definition demo_yard :: "string \<Rightarrow> Yard" where
  "demo_yard name = \<lparr>y_Name = name, y_Project = ''yard-'' @ name, y_Instance = name, y_Network = ''yardbr0''\<rparr>"

definition demo_nic :: str_map where
  "demo_nic = fmap_of_list [(''type'', ''nic''), (''network'', ''yardbr0'')]"

definition demo_observed :: "string \<Rightarrow> ObservedYard" where
  "demo_observed name =
     \<lparr>oy_Yard = demo_yard name, oy_IngressContracts = [], oy_ProjectFound = True, oy_ProjectETag = ''1'',
      oy_ProjectConfig = fmap_of_list [(''restricted'', ''true'')], oy_ProfileFound = True, oy_ProfileETag = ''1'',
      oy_ProfileDevices = fmap_of_list [(''eth0'', demo_nic)], oy_ProfileUsedBy = [], oy_InstanceFound = False,
      oy_InstanceInfo = \<lparr>ii_Name = '''', ii_Project = '''', ii_Type = YardVM, ii_Status = '''', ii_Config = fmempty,
        ii_Devices = fmempty, ii_LocalConfig = fmempty, ii_LocalDevices = fmempty\<rparr>,
      oy_IPv4 = '''', oy_MAC = '''',
      oy_ACL = \<lparr>ac_Name = '''', ac_Exists = False, ac_ETag = '''', ac_Config = fmempty, ac_Ingress = [], ac_Egress = []\<rparr>\<rparr>"

end
