(* ===== verification/Network_Approval.thy ===== *)
theory Network_Approval
  imports Network_Plan Operation_Steps
begin

text \<open>
  \<open>internal/yardnetwork/operation_plan.go\<close>: the comparison of an approved network plan with one that is
  prepared again before it is applied, and the operation steps shown for approval.
\<close>

section \<open>Operations\<close>

datatype stale =
    ObservationChanged
  | DesiredChanged
  | InfrastructureChanged
  | OwnershipChanged
  | FieldsOutsideConvergence
  | ACLOutsideConvergence
  | ACLRevisionChanged
  | TargetRevisionChanged
  | UnapprovedWork

definition normalizedDesiredPolicy :: "Policy \<Rightarrow> Policy" where
  "normalizedDesiredPolicy p =
     (let copy = (json_policy p)\<lparr>po_Revision := 0, po_AppliedRevision := 0, po_AppliedIsolation := False,
            po_PendingStart := [], po_Removing := []\<rparr> in
      if po_Isolation copy then copy else copy\<lparr>po_Bindings := []\<rparr>)"

definition no_acl :: ACL where
  "no_acl = \<lparr>ac_Name = '''', ac_Exists = False, ac_ETag = '''', ac_Config = fmempty, ac_Ingress = [], ac_Egress = []\<rparr>"

definition without_owned :: "devices \<Rightarrow> devices" where
  "without_owned devices =
     (case fmlookup devices ''eth0'' of
        None \<Rightarrow> devices
      | Some nic \<Rightarrow> fmupd ''eth0'' (fold fmdrop owned_fields nic) devices)"

definition guarded_yard :: "ObservedYard \<Rightarrow> ObservedYard" where
  "guarded_yard y =
     (let copy = json_observed y; info = oy_InstanceInfo copy in
      copy\<lparr>oy_ProjectETag := '''', oy_ProfileETag := '''', oy_ACL := no_acl,
        oy_ProjectConfig := fmdrop ''restricted.networks.access'' (oy_ProjectConfig copy),
        oy_ProfileDevices := without_owned (oy_ProfileDevices copy),
        oy_InstanceInfo := info\<lparr>ii_Devices := without_owned (ii_Devices info)\<rparr>\<rparr>)"

definition networkYardGuard :: "ObservedYard \<Rightarrow> string" where
  "networkYardGuard y = planDigest (observed_json (guarded_yard y))"

definition networkMapConverges :: "str_map \<Rightarrow> str_map \<Rightarrow> str_map \<Rightarrow> bool" where
  "networkMapConverges before fresh desired =
     fmpred (\<lambda>k _. fmlookup before k = fmlookup fresh k \<or> fmlookup fresh k = fmlookup desired k) (before ++\<^sub>f fresh)"

text \<open>The last entry of a Go map that is filled from a list.\<close>

definition update_for :: "Update list \<Rightarrow> Yard \<Rightarrow> Update option" where
  "update_for us y = find_first (\<lambda>u. oy_Yard (up_Yard u) = y) (rev us)"

definition observed_for :: "ObservedYard list \<Rightarrow> Yard \<Rightarrow> ObservedYard option" where
  "observed_for ys y = find_first (\<lambda>o'. oy_Yard o' = y) (rev ys)"

definition access_setting :: "ObservedYard \<Rightarrow> string" where
  "access_setting y = mget (oy_ProjectConfig y) ''restricted.networks.access''"

definition profile_nic :: "ObservedYard \<Rightarrow> str_map" where
  "profile_nic y = dget (oy_ProfileDevices y) ''eth0''"

definition expanded_nic :: "ObservedYard \<Rightarrow> str_map" where
  "expanded_nic y = dget (ii_Devices (oy_InstanceInfo y)) ''eth0''"

definition acl_changed :: "ACL \<Rightarrow> ACL \<Rightarrow> bool" where
  "acl_changed a b \<longleftrightarrow>
     ac_Exists a \<noteq> ac_Exists b \<or> ac_Config a \<noteq> ac_Config b \<or> ac_Ingress a \<noteq> ac_Ingress b \<or> ac_Egress a \<noteq> ac_Egress b"

definition check_converging :: "ObservedYard \<Rightarrow> ObservedYard \<Rightarrow> Update \<Rightarrow> stale err" where
  "check_converging old y u =
     (if \<not> networkMapConverges (profile_nic old) (profile_nic y) (up_NIC u)
         \<or> \<not> networkMapConverges (expanded_nic old) (expanded_nic y) (up_NIC u)
         \<or> access_setting old \<noteq> access_setting y \<and> access_setting y \<noteq> up_Access u
      then Some FieldsOutsideConvergence
      else if acl_changed (oy_ACL old) (oy_ACL y) \<and> \<not> (\<not> ac_Exists (oy_ACL y) \<and> up_RemoveACL u)
         \<and> \<not> sameACL (oy_ACL y) (up_ACL u)
      then Some ACLOutsideConvergence
      else if \<not> acl_changed (oy_ACL old) (oy_ACL y) \<and> ac_ETag (oy_ACL old) \<noteq> ac_ETag (oy_ACL y)
      then Some ACLRevisionChanged
      else None)"

definition check_observed :: "Plan \<Rightarrow> ObservedYard \<Rightarrow> stale err" where
  "check_observed approved y =
     (case observed_for (sn_Yards (pl_Snapshot approved)) (oy_Yard y) of
        None \<Rightarrow> Some OwnershipChanged
      | Some old \<Rightarrow>
          if networkYardGuard old \<noteq> networkYardGuard y then Some OwnershipChanged
          else and_then
            (case update_for (pl_Updates approved) (oy_Yard y) of None \<Rightarrow> None | Some u \<Rightarrow> check_converging old y u)
            (if oy_ProfileDevices old = oy_ProfileDevices y \<and> oy_ProfileETag old \<noteq> oy_ProfileETag y
               \<or> oy_ProjectConfig old = oy_ProjectConfig y \<and> oy_ProjectETag old \<noteq> oy_ProjectETag y
             then Some TargetRevisionChanged else None))"

definition same_work :: "Update \<Rightarrow> Update \<Rightarrow> bool" where
  "same_work old u \<longleftrightarrow>
     up_Access old = up_Access u \<and> up_RemoveACL old = up_RemoveACL u \<and> up_NIC old = up_NIC u
     \<and> ac_Config (up_ACL old) = ac_Config (up_ACL u) \<and> ac_Ingress (up_ACL old) = ac_Ingress (up_ACL u)
     \<and> ac_Egress (up_ACL old) = ac_Egress (up_ACL u)"

definition check_work :: "Plan \<Rightarrow> Update \<Rightarrow> stale err" where
  "check_work approved u =
     (case update_for (pl_Updates approved) (oy_Yard (up_Yard u)) of
        None \<Rightarrow> Some UnapprovedWork
      | Some old \<Rightarrow> if same_work old u then None else Some UnapprovedWork)"

definition CheckApproved :: "Plan \<Rightarrow> Plan \<Rightarrow> stale err" where
  "CheckApproved approved fresh =
     (let a = pl_Snapshot approved; f = pl_Snapshot fresh in
      if pl_Fingerprint approved = pl_Fingerprint fresh then None
      else if \<not> pl_Changed approved then Some ObservationChanged
      else if pl_Yards approved \<noteq> pl_Yards fresh
         \<or> normalizedDesiredPolicy (pl_Policy approved) \<noteq> normalizedDesiredPolicy (pl_Policy fresh)
      then Some DesiredChanged
      else if sn_Firewall a \<noteq> sn_Firewall f \<or> sn_Clustered a \<noteq> sn_Clustered f \<or> sn_Networks a \<noteq> sn_Networks f
         \<or> sn_ReservationClaims a \<noteq> sn_ReservationClaims f
      then Some InfrastructureChanged
      else and_then (first_error (check_observed approved) (sn_Yards f)) (first_error (check_work approved) (pl_Updates fresh)))"

section \<open>Operation steps\<close>

definition policy_step :: "Plan \<Rightarrow> Plan \<Rightarrow> OperationStep" where
  "policy_step approved fresh =
     \<lparr>st_ID = ''network.policy'', st_Target = ''owner host registered yard network policy'',
      st_Observed = ''captured native policy revision'',
      st_Desired = ''fingerprint:'' @ planDigest (policy_json (normalizedDesiredPolicy (pl_Policy approved))),
      st_Decision = (if pl_Changed fresh then StepApply else StepSkip),
      st_Preconditions = [''captured native policy, registered yard set, ownership and address claims remain valid''],
      st_DependsOn = [], st_Verify = ''read the saved policy and prove its desired and applied revisions agree'',
      st_Consequence = ''save the approved host network isolation and explicit links''\<rparr>"

definition desired_digest :: "Update \<Rightarrow> string" where
  "desired_digest u =
     planDigest (JStruct [(''NIC'', strings_table (up_NIC u)), (''Access'', JString (up_Access u)),
       (''ACL'', acl_json (no_acl\<lparr>ac_Config := ac_Config (up_ACL u), ac_Ingress := ac_Ingress (up_ACL u),
          ac_Egress := ac_Egress (up_ACL u)\<rparr>)),
       (''Remove'', JBool (up_RemoveACL u))])"

definition yard_step :: "Plan \<Rightarrow> Update \<Rightarrow> OperationStep" where
  "yard_step fresh u =
     (let y = oy_Yard (up_Yard u); status = ii_Status (oy_InstanceInfo (up_Yard u));
          power = (if status = '''' then ''captured power state'' else status) in
      \<lparr>st_ID = ''network.yard.'' @ y_Name y, st_Target = y_Project y @ ''/'' @ y_Instance y,
       st_Observed = ''captured native network and power state'',
       st_Desired = ''network fingerprint:'' @ desired_digest u @ ''; restore '' @ power,
       st_Decision = (if list_ex (\<lambda>v. oy_Yard (up_Yard v) = y) (pl_Updates fresh) then StepApply else StepSkip),
       st_Preconditions = [''native NIC, ACL, project and instance ownership remain valid'', ''host network safety guard passes''],
       st_DependsOn = [''network.policy''],
       st_Verify = ''inspect approved NIC, ACL and project settings and verify original running state is restored'',
       st_Consequence = ''briefly stop and restore '' @ y_Name y
         @ '' while applying its approved network settings; active connections close''\<rparr>)"

definition restart_step :: "Plan \<Rightarrow> string \<Rightarrow> OperationStep" where
  "restart_step fresh name =
     \<lparr>st_ID = ''network.restart.'' @ name, st_Target = ''registered local yard '' @ name,
      st_Observed = ''captured pending native restart'', st_Desired = ''running with approved network policy'',
      st_Decision = (if name \<in> set (po_PendingStart (pl_Policy fresh)) then StepApply else StepSkip),
      st_Preconditions = [''native yard identity and host safety guards pass''], st_DependsOn = [''network.policy''],
      st_Verify = ''inspect actual instance power state'',
      st_Consequence = ''restore pending yard '' @ name @ '' to running''\<rparr>"

definition OperationSteps :: "Plan \<Rightarrow> Plan \<Rightarrow> OperationStep list" where
  "OperationSteps approved fresh =
     policy_step approved fresh # map (yard_step fresh) (pl_Updates approved)
       @ map (restart_step fresh) (po_PendingStart (pl_Policy approved))"

definition StateBinding :: "Plan \<Rightarrow> string" where
  "StateBinding p = planDigest (JStruct [(''Plan'', plan_json p), (''Snapshot'', snapshot_json (pl_Snapshot p))])"

section \<open>A fresh plan stays within the approved one\<close>

lemma update_for_Some: "update_for us y = Some u \<Longrightarrow> u \<in> set us \<and> oy_Yard (up_Yard u) = y"
  unfolding update_for_def by (auto dest: find_first_SomeD)

lemma converges_keeps:
  assumes "networkMapConverges before fresh desired" and "fmlookup fresh k \<noteq> fmlookup before k"
  shows "fmlookup fresh k = fmlookup desired k"
proof -
  obtain v where "fmlookup (before ++\<^sub>f fresh) k = Some v"
    using assms(2) by (cases "fmlookup fresh k"; cases "fmlookup before k") (auto simp: fmlookup_dom_iff)
  then have "fmlookup before k = fmlookup fresh k \<or> fmlookup fresh k = fmlookup desired k"
    using assms(1) unfolding networkMapConverges_def fmpred_iff by blast
  with assms(2) show ?thesis by simp
qed


text \<open>The approved plan creates the access list of a yard; in the fresh observation the list is already there.\<close>

definition demo_acl :: ACL where
  "demo_acl = no_acl\<lparr>ac_Name := ''acl'', ac_Config := fmap_of_list [(''user.subyard.managed'', ''true'')]\<rparr>"

definition demo_plan :: "string \<Rightarrow> ObservedYard \<Rightarrow> Plan" where
  "demo_plan digest y =
     (let p = \<lparr>po_Schema = SchemaVersion, po_Isolation = True, po_Links = [], po_Revision = 2, po_AppliedRevision = 1,
           po_Bindings = [], po_AppliedIsolation = False, po_PendingStart = [], po_Removing = []\<rparr> in
      \<lparr>pl_Before = \<lparr>sp_Policy = p\<lparr>po_Revision := 1\<rparr>, sp_Content = '''', sp_ETag = ''''\<rparr>, pl_Policy = p,
       pl_Updates = [\<lparr>up_Yard = y, up_NIC = demo_nic, up_Access = ''yardbr0'', up_ACL = demo_acl, up_RemoveACL = False\<rparr>],
       pl_Changed = True, pl_Physical = True, pl_Fingerprint = digest, pl_Change = no_change, pl_Yards = [oy_Yard y],
       pl_Snapshot = \<lparr>sn_Firewall = ''nftables'', sn_Clustered = False, sn_Yards = [y], sn_Networks = fmempty,
         sn_ReservationClaims = fmempty\<rparr>\<rparr>)"

definition demo_created :: ObservedYard where
  "demo_created = (demo_observed ''alpha'')\<lparr>oy_ACL := demo_acl\<lparr>ac_Exists := True, ac_ETag := ''1''\<rparr>\<rparr>"

lemma demo_created_guard: "networkYardGuard demo_created = networkYardGuard (demo_observed ''alpha'')"
  by (simp add: networkYardGuard_def guarded_yard_def Let_def json_observed_def demo_created_def)

lemma demo_converges: "networkMapConverges m m d"
  by (simp add: networkMapConverges_def fmpred_iff)

lemma demo_observed_ok: "check_observed (demo_plan ''before'' (demo_observed ''alpha'')) demo_created = None"
proof -
  have "oy_Yard demo_created = oy_Yard (demo_observed ''alpha'')" "profile_nic demo_created = profile_nic (demo_observed ''alpha'')"
    "expanded_nic demo_created = expanded_nic (demo_observed ''alpha'')"
    "access_setting demo_created = access_setting (demo_observed ''alpha'')"
    "oy_ProfileETag demo_created = oy_ProfileETag (demo_observed ''alpha'')"
    "oy_ProjectETag demo_created = oy_ProjectETag (demo_observed ''alpha'')"
    "sameACL (oy_ACL demo_created) demo_acl" "acl_changed (oy_ACL (demo_observed ''alpha'')) (oy_ACL demo_created)"
    by (simp_all add: demo_created_def profile_nic_def expanded_nic_def access_setting_def sameACL_def acl_changed_def)
      (simp add: demo_observed_def)
  then show ?thesis
    by (simp add: check_observed_def check_converging_def demo_plan_def Let_def observed_for_def update_for_def find_first_def
        demo_created_guard demo_converges and_then_def)
qed


end
