(* ===== verification/Network_Service.thy ===== *)
theory Network_Service
  imports Network_Approval Go_Files
begin

text \<open>
  \<open>internal/yardnetwork/service.go\<close> and \<open>boot_conntrack.go\<close>: preparing, applying and checking the network
  policy, starting and removing yards under the host lock, and the cleanup after boot.  The host, its
  lock, the safety guard and the source of resource contracts are arguments: functions that may change
  the state of the host and may fail.
\<close>

section \<open>Interfaces\<close>

record ('s, 'e) Host =
  ho_ReadPolicy :: "('s, 'e, StoredPolicy) io"
  ho_WritePolicy :: "StoredPolicy \<Rightarrow> Policy \<Rightarrow> ('s, 'e, StoredPolicy) io"
  ho_InspectNetwork :: "Yard list \<Rightarrow> ('s, 'e, Snapshot) io"
  ho_WriteNetworkACL :: "ACL \<Rightarrow> ('s, 'e, unit) io"
  ho_DeleteNetworkACL :: "ACL \<Rightarrow> ('s, 'e, unit) io"
  ho_WriteProfileNIC :: "ObservedYard \<Rightarrow> str_map \<Rightarrow> ('s, 'e, unit) io"
  ho_WriteProjectNetworks :: "ObservedYard \<Rightarrow> string \<Rightarrow> ('s, 'e, unit) io"
  ho_NetworkPower :: "Yard \<Rightarrow> string \<Rightarrow> ('s, 'e, unit) io"

record ('s, 'e) Locker =
  lo_Acquire :: "('s, 'e, unit) io"
  lo_Release :: "'s \<Rightarrow> 's"

record ('s, 'e) Service =
  sv_Host :: "('s, 'e) Host"
  sv_Lock :: "('s, 'e) Locker option"
  sv_Guard :: "('s, 'e, unit) io option"
  sv_ContractSource :: "(Yard \<Rightarrow> ('s, 'e, ProxyContract list) io) option"
  sv_UseApprovedIngress :: bool
  sv_ClearStaleUDP :: "(AddrPort \<Rightarrow> ('s, 'e, unit) io) option"

datatype 'e network_error =
    HostError 'e
  | PlanError plan_error
  | PlanStale stale
  | RemovalStale
  | BootWithContracts
  | BootReadOnly
  | BootModeRequired
  | LockRequired
  | GuardRequired
  | InvalidYardIdentity
  | AmbiguousYardName
  | RegistrationDiffers string
  | NotConverged
  | StopFailed string 'e
  | StopNotObserved
  | RestartFailed string 'e
  | RestartNotObserved
  | PendingNotRegistered string
  | ObservationOmitted
  | TeardownDiffers
  | InstanceStillThere
  | RevisionsExhausted
  | CleanerMissing
  | EndpointInvalid

type_synonym ('s, 'e, 'a) net_op = "('s, 'e network_error, 'a) io"

abbreviation on_host :: "('s, 'e, 'a) io \<Rightarrow> ('s, 'e, 'a) net_op" where
  "on_host m \<equiv> io_error HostError m"

definition require :: "'e network_error err \<Rightarrow> ('s, 'e, unit) net_op" where
  "require c = (case c of None \<Rightarrow> io_return () | Some e \<Rightarrow> io_fail e)"

definition io_when :: "bool \<Rightarrow> ('s, 'e, unit) io \<Rightarrow> ('s, 'e, unit) io" where
  "io_when c m = (if c then m else io_return ())"

definition planned :: "plan_error + 'a \<Rightarrow> ('s, 'e, 'a) net_op" where
  "planned r = (case r of Inl e \<Rightarrow> io_fail (PlanError e) | Inr a \<Rightarrow> io_return a)"

definition with_lock :: "('s, 'e) Service \<Rightarrow> ('s, 'e, 'a) net_op \<Rightarrow> ('s, 'e, 'a) net_op" where
  "with_lock sv m =
     (case sv_Lock sv of
        None \<Rightarrow> io_fail LockRequired
      | Some l \<Rightarrow> io_bind (on_host (lo_Acquire l)) (\<lambda>_ s. case m s of (t, r) \<Rightarrow> (lo_Release l t, r)))"

definition run_guard :: "('s, 'e) Service \<Rightarrow> ('s, 'e, unit) net_op" where
  "run_guard sv = (case sv_Guard sv of None \<Rightarrow> io_fail GuardRequired | Some g \<Rightarrow> on_host g)"

section \<open>Preparing\<close>

definition merge_yard :: "'e network_error \<Rightarrow> Yard \<Rightarrow> Yard list \<Rightarrow> 'e network_error + Yard list" where
  "merge_yard e y ys =
     (case find_first (\<lambda>old. y_Name old = y_Name y) ys of
        None \<Rightarrow> Inr (ys @ [y])
      | Some old \<Rightarrow> if old \<noteq> y then Inl e else Inr ys)"

definition safe_yard :: "Yard \<Rightarrow> bool" where
  "safe_yard y \<longleftrightarrow> SafeName (y_Name y) \<and> SafeName (y_Project y) \<and> SafeName (y_Instance y) \<and> SafeName (y_Network y)"

definition mergeYards :: "Yard list \<Rightarrow> Policy \<Rightarrow> 'e network_error + Yard list" where
  "mergeYards yards p =
     res_bind (fold_res (\<lambda>y ys. if \<not> safe_yard y then Inl InvalidYardIdentity else merge_yard AmbiguousYardName y ys) yards [])
       (\<lambda>named. res_bind (fold_res (\<lambda>b. merge_yard (RegistrationDiffers (y_Name (bd_Yard b))) (bd_Yard b)) (po_Bindings p) named)
       (\<lambda>merged. Inr (sort_key y_Name merged)))"

definition inspectNetwork :: "('s, 'e) Service \<Rightarrow> Yard list \<Rightarrow> ('s, 'e, Snapshot) net_op" where
  "inspectNetwork sv yards =
     io_bind (on_host (ho_InspectNetwork (sv_Host sv) yards)) (\<lambda>snapshot.
     case sv_ContractSource sv of
       None \<Rightarrow> io_return snapshot
     | Some source \<Rightarrow>
         io_bind (io_map (\<lambda>y. io_bind (on_host (source (oy_Yard y))) (\<lambda>cs. io_return (y\<lparr>oy_IngressContracts := cs\<rparr>)))
             (sn_Yards snapshot)) (\<lambda>ys.
         io_return (snapshot\<lparr>sn_Yards := ys\<rparr>)))"

definition boot_contract :: "ApprovedIngress \<Rightarrow> ProxyContract" where
  "boot_contract a =
     \<lparr>pc_Profile = ai_Device a, pc_Resource = ai_Device a, pc_Device = ai_Device a, pc_AdvertiseHostSetting = '''',
      pc_HostPortSetting = '''', pc_OwnerInterfaceSetting = '''',
      pc_Connect = Transport a @ '':guest:'' @ fmt_d (ai_GuestPort a), pc_AddressPolicy = ''owner-ipv4-'' @ Transport a,
      pc_OwnershipMetadata = True\<rparr>"

definition approved_unchanged :: "ObservedYard \<Rightarrow> string \<Rightarrow> ApprovedIngress \<Rightarrow> bool" where
  "approved_unchanged y ipv4 a =
     (let info = oy_InstanceInfo y; wanted = proxy a ipv4 in
      if ai_Device a = preview_device
      then Transport a = ''tcp'' \<and> ai_GuestPort a = 8765 \<and> ownedPreviewIngress y ipv4
        \<and> dget (ii_Devices info) (ai_Device a) = wanted
      else oy_InstanceFound y \<and> ii_Type info = YardVM \<and> dget (ii_LocalDevices info) (ai_Device a) = wanted
        \<and> dget (ii_Devices info) (ai_Device a) = wanted
        \<and> mget (ii_LocalConfig info) (''user.subyard.resource.'' @ ai_Device a) = OwnershipValue wanted)"

definition host_ingress :: "string \<Rightarrow> str_map \<Rightarrow> bool" where
  "host_ingress ipv4 device \<longleftrightarrow>
     mget device ''type'' = ''proxy'' \<and> mget device ''bind'' \<noteq> ''instance''
     \<and> (HasPrefix (mget device ''listen'') ''udp:'' \<or> HasPrefix (mget device ''connect'') ''udp:''
        \<or> (mget device ''nat'' = ''true'' \<or> HasPrefix (mget device ''connect'') (''tcp:'' @ ipv4 @ '':''))
          \<and> (HasPrefix (mget device ''listen'') ''tcp:'' \<or> HasPrefix (mget device ''connect'') ''tcp:''))"

text \<open>The binding of the observed yard; a later binding of the same yard would win.\<close>

definition binding_for :: "Binding list \<Rightarrow> Yard \<Rightarrow> Binding option" where
  "binding_for bs y = find_first (\<lambda>b. bd_Yard b = y) (rev bs)"

definition boot_yard :: "Policy \<Rightarrow> ObservedYard \<Rightarrow> 'e network_error + ObservedYard" where
  "boot_yard p y =
     (case binding_for (po_Bindings p) (oy_Yard y) of
        None \<Rightarrow> Inr y
      | Some b \<Rightarrow>
          (let approved = bd_ApprovedIngress b; names = map ai_Device approved;
               preview = dget (ii_Devices (oy_InstanceInfo y)) preview_device in
           if \<not> list_all (approved_unchanged y (bd_IPv4 b)) approved
              \<or> map_len preview \<noteq> 0 \<and> mget preview ''nat'' = ''true'' \<and> preview_device \<notin> set names
              \<or> names \<noteq> [] \<and> map_any (\<lambda>n d. host_ingress (bd_IPv4 b) d \<and> n \<notin> set names) (ii_Devices (oy_InstanceInfo y))
           then Inl NotConverged
           else Inr (y\<lparr>oy_IngressContracts := oy_IngressContracts y
             @ map boot_contract (filter (\<lambda>a. ai_Device a \<noteq> preview_device) approved)\<rparr>)))"

definition applyApprovedBootIngress :: "Snapshot \<Rightarrow> Policy \<Rightarrow> 'e network_error + Snapshot" where
  "applyApprovedBootIngress s p =
     res_bind (map_res (boot_yard p) (sn_Yards s)) (\<lambda>ys. Inr (s\<lparr>sn_Yards := ys\<rparr>))"

definition Prepare :: "('s, 'e) Service \<Rightarrow> Yard list \<Rightarrow> Change \<Rightarrow> ('s, 'e, Plan) net_op" where
  "Prepare sv yards c =
     io_bind (on_host (ho_ReadPolicy (sv_Host sv))) (\<lambda>stored.
     io_bind (io_lift (\<lambda>_. mergeYards yards (sp_Policy stored))) (\<lambda>merged.
     io_bind (inspectNetwork sv merged) (\<lambda>snapshot.
     if sv_UseApprovedIngress sv
     then if sv_ContractSource sv \<noteq> None then io_fail BootWithContracts
       else io_bind (io_lift (\<lambda>_. applyApprovedBootIngress snapshot (sp_Policy stored))) (\<lambda>s. planned (buildPlan stored s c))
     else planned (buildPlan stored snapshot c))))"

record 'e Status =
  ns_Policy :: Policy
  ns_Converged :: bool
  ns_Diagnostic :: "'e network_error option"

definition Service_Status :: "('s, 'e) Service \<Rightarrow> Yard list \<Rightarrow> ('s, 'e, 'e Status) net_op" where
  "Service_Status sv yards s =
     (case Prepare sv yards no_change s of
        (t, Inr plan) \<Rightarrow>
          (t, Inr \<lparr>ns_Policy = sp_Policy (pl_Before plan), ns_Converged = (\<not> pl_Changed plan), ns_Diagnostic = None\<rparr>)
      | (t, Inl e) \<Rightarrow>
          io_bind (on_host (ho_ReadPolicy (sv_Host sv))) (\<lambda>stored.
            io_return \<lparr>ns_Policy = sp_Policy stored, ns_Converged = False, ns_Diagnostic = Some e\<rparr>) t)"

section \<open>Applying\<close>

definition observe :: "('s, 'e) Service \<Rightarrow> Yard \<Rightarrow> ('s, 'e, ObservedYard) net_op" where
  "observe sv y =
     io_bind (on_host (ho_InspectNetwork (sv_Host sv) [y])) (\<lambda>snapshot.
     case find_first (\<lambda>o'. oy_Yard o' = y) (sn_Yards snapshot) of
       None \<Rightarrow> io_fail ObservationOmitted
     | Some observed \<Rightarrow>
         (case validateACLOwner observed of Some e \<Rightarrow> io_fail (PlanError e) | None \<Rightarrow> io_return observed))"

definition is_running :: "ObservedYard \<Rightarrow> bool" where
  "is_running y = EqualFold (ii_Status (oy_InstanceInfo y)) ''running''"

definition is_stopped :: "ObservedYard \<Rightarrow> bool" where
  "is_stopped y = EqualFold (ii_Status (oy_InstanceInfo y)) ''stopped''"

text \<open>The policy that is saved before anything changes: running yards are to be started again.\<close>

fun note_running :: "Update list \<Rightarrow> string list \<Rightarrow> string list" where
  "note_running [] names = names"
| "note_running (u # us) names =
     (let y = up_Yard u in
      note_running us (if oy_InstanceFound y \<and> is_running y \<and> oy_Name y \<notin> set names then names @ [oy_Name y] else names))"

definition intent :: "Plan \<Rightarrow> Policy" where
  "intent plan =
     (let p = pl_Policy plan in
      if pl_Physical plan then p\<lparr>po_PendingStart := sort (note_running (pl_Updates plan) (po_PendingStart p))\<rparr> else p)"

definition guard_live :: "('s, 'e) Service \<Rightarrow> Plan \<Rightarrow> ('s, 'e, unit) net_op" where
  "guard_live sv plan =
     io_when (pl_Physical plan \<and> list_ex (\<lambda>u. oy_InstanceFound (up_Yard u)) (pl_Updates plan)) (run_guard sv)"

definition stop_yard :: "('s, 'e) Service \<Rightarrow> Update \<Rightarrow> ('s, 'e, unit) net_op" where
  "stop_yard sv u =
     (let y = up_Yard u in
      io_when (oy_InstanceFound y \<and> \<not> is_stopped y)
       (io_bind (io_error (StopFailed (oy_Name y)) (ho_NetworkPower (sv_Host sv) (oy_Yard y) ''stop'')) (\<lambda>_.
        io_bind (observe sv (oy_Yard y)) (\<lambda>observed.
        require (if is_stopped observed then None else Some StopNotObserved)))))"

definition detach_acl :: "('s, 'e) Service \<Rightarrow> Update \<Rightarrow> ('s, 'e, unit) net_op" where
  "detach_acl sv u =
     io_bind (observe sv (oy_Yard (up_Yard u))) (\<lambda>observed.
     let nic = dget (oy_ProfileDevices observed) ''eth0'' in
     io_when (mget nic ''security.acls'' \<noteq> '''')
       (on_host (ho_WriteProfileNIC (sv_Host sv) observed (fmdrop ''security.acls'' nic))))"

definition write_yard :: "('s, 'e) Service \<Rightarrow> Update \<Rightarrow> ('s, 'e, unit) net_op" where
  "write_yard sv u =
     (let h = sv_Host sv in
      io_bind (observe sv (oy_Yard (up_Yard u))) (\<lambda>observed.
      io_bind (io_when (\<not> up_RemoveACL u)
        (on_host (ho_WriteNetworkACL h ((up_ACL u)\<lparr>ac_Exists := ac_Exists (oy_ACL observed), ac_ETag := ac_ETag (oy_ACL observed)\<rparr>)))) (\<lambda>_.
      io_bind (io_when (oy_ProjectFound observed \<and> access_setting observed \<noteq> up_Access u)
        (on_host (ho_WriteProjectNetworks h observed (up_Access u)))) (\<lambda>_.
      io_bind (io_when (oy_ProfileFound observed \<and> profile_nic observed \<noteq> up_NIC u)
        (on_host (ho_WriteProfileNIC h observed (up_NIC u)))) (\<lambda>_.
      io_when (up_RemoveACL u \<and> ac_Exists (oy_ACL observed)) (on_host (ho_DeleteNetworkACL h (oy_ACL observed))))))))"

definition apply_updates :: "('s, 'e) Service \<Rightarrow> Plan \<Rightarrow> ('s, 'e, unit) net_op" where
  "apply_updates sv plan =
     io_when (pl_Physical plan)
      (io_bind (io_iter (stop_yard sv) (pl_Updates plan)) (\<lambda>_.
       io_bind (io_iter (detach_acl sv) (pl_Updates plan)) (\<lambda>_.
       io_iter (write_yard sv) (pl_Updates plan))))"

text \<open>The policy once the host has been verified.\<close>

definition applied :: "Policy \<Rightarrow> Policy" where
  "applied p =
     (let q = (fold Forget (po_Removing p)
            (p\<lparr>po_AppliedRevision := po_Revision p, po_AppliedIsolation := po_Isolation p\<rparr>))\<lparr>po_Removing := []\<rparr> in
      if po_Isolation q then q else q\<lparr>po_Bindings := []\<rparr>)"

text \<open>The restart of one pending yard; a guard that fails after the start stops the yard again.\<close>

definition restart_yard :: "('s, 'e) Service \<Rightarrow> Yard list \<Rightarrow> string \<Rightarrow> ('s, 'e, unit) net_op" where
  "restart_yard sv yards name =
     (case (if name = '''' then None else find_first (\<lambda>y. y_Name y = name) yards) of
        None \<Rightarrow> io_fail (PendingNotRegistered name)
      | Some target \<Rightarrow>
          io_bind (run_guard sv) (\<lambda>_.
          io_bind (observe sv target) (\<lambda>observed.
          io_bind (io_when (\<not> is_running observed)
            (io_error (RestartFailed name) (ho_NetworkPower (sv_Host sv) target ''start''))) (\<lambda>_.
          io_bind (observe sv target) (\<lambda>verified.
          io_bind (require (if is_running verified then None else Some RestartNotObserved)) (\<lambda>_ s.
          case run_guard sv s of
            (t, Inr _) \<Rightarrow> (t, Inr ())
          | (t, Inl e) \<Rightarrow> (fst (ho_NetworkPower (sv_Host sv) target ''stop'' t), Inl e)))))))"

fun restart_pending :: "('s, 'e) Service \<Rightarrow> Yard list \<Rightarrow> StoredPolicy \<Rightarrow> Policy \<Rightarrow> string list \<Rightarrow> ('s, 'e, unit) net_op" where
  "restart_pending sv yards stored p [] = io_return ()"
| "restart_pending sv yards stored p (name # names) =
     io_bind (restart_yard sv yards name) (\<lambda>_.
     io_bind (on_host (ho_WritePolicy (sv_Host sv) stored (p\<lparr>po_PendingStart := names\<rparr>))) (\<lambda>stored'.
     restart_pending sv yards stored' (p\<lparr>po_PendingStart := names\<rparr>) names))"

definition applyLocked :: "('s, 'e) Service \<Rightarrow> Plan \<Rightarrow> ('s, 'e, unit) net_op" where
  "applyLocked sv plan =
     (let p = intent plan in
      io_bind (guard_live sv plan) (\<lambda>_.
      io_bind (on_host (ho_WritePolicy (sv_Host sv) (pl_Before plan) p)) (\<lambda>stored.
      io_bind (apply_updates sv plan) (\<lambda>_.
      io_bind (Prepare sv (pl_Yards plan) no_change) (\<lambda>verification.
      io_bind (require (if pl_Physical verification then Some NotConverged else None)) (\<lambda>_.
      io_bind (on_host (ho_WritePolicy (sv_Host sv) stored (applied p))) (\<lambda>stored'.
      restart_pending sv (pl_Yards plan) stored' (applied p) (po_PendingStart (applied p)))))))))"

definition Apply :: "('s, 'e) Service \<Rightarrow> Plan \<Rightarrow> ('s, 'e, unit) net_op" where
  "Apply sv approved =
     (if sv_UseApprovedIngress sv then io_fail BootReadOnly
      else with_lock sv
       (io_bind (Prepare sv (pl_Yards approved) (pl_Change approved)) (\<lambda>current.
        case CheckApproved approved current of
          Some e \<Rightarrow> io_fail (PlanStale e)
        | None \<Rightarrow> io_when (pl_Changed current) (applyLocked sv current))))"

section \<open>Starts\<close>

definition at_rest :: "Policy \<Rightarrow> bool" where
  "at_rest p \<longleftrightarrow>
     \<not> po_Isolation p \<and> \<not> po_AppliedIsolation p \<and> po_AppliedRevision p = po_Revision p
     \<and> po_PendingStart p = [] \<and> po_Removing p = []"

definition Check :: "('s, 'e) Service \<Rightarrow> Yard \<Rightarrow> ('s, 'e, unit) net_op" where
  "Check sv y =
     io_bind (on_host (ho_ReadPolicy (sv_Host sv))) (\<lambda>stored.
     if at_rest (sp_Policy stored) then io_return ()
     else io_bind (Prepare sv [y] no_change) (\<lambda>plan.
       require (if pl_Changed plan \<or> po_PendingStart (pl_Policy plan) \<noteq> [] then Some NotConverged else None)))"

definition Ensure :: "('s, 'e) Service \<Rightarrow> Yard \<Rightarrow> ('s, 'e, unit) net_op" where
  "Ensure sv y =
     io_bind (on_host (ho_ReadPolicy (sv_Host sv))) (\<lambda>stored.
     if at_rest (sp_Policy stored) then io_return ()
     else io_bind (Prepare sv [y] no_change) (Apply sv))"

definition WithStart :: "('s, 'e) Service \<Rightarrow> Yard \<Rightarrow> ('s, 'e, unit) net_op \<Rightarrow> ('s, 'e, unit) net_op" where
  "WithStart sv y start = with_lock sv (io_bind (Check sv y) (\<lambda>_. start))"

section \<open>Removals\<close>

record RemovalPlan =
  rp_Yard :: Yard
  rp_Stored :: StoredPolicy
  rp_Cleanup :: bool
  rp_Consequences :: "string list"

abbreviation rp_Name :: "RemovalPlan \<Rightarrow> string" where
  "rp_Name r \<equiv> y_Name (rp_Yard r)"

definition bound_to :: "Policy \<Rightarrow> string \<Rightarrow> bool" where
  "bound_to p name \<longleftrightarrow> list_ex (\<lambda>b. y_Name (bd_Yard b) = name) (po_Bindings p)"

definition mentions :: "Policy \<Rightarrow> string \<Rightarrow> bool" where
  "mentions p name \<longleftrightarrow> bound_to p name \<or> Peers p name \<noteq> [] \<or> name \<in> set (po_Removing p)"

definition removal_consequences :: "Policy \<Rightarrow> string \<Rightarrow> string list" where
  "removal_consequences p name =
     (let names = filter (\<lambda>n. n \<noteq> name) (map (y_Name \<circ> bd_Yard) (po_Bindings p)) in
      if \<not> mentions p name then []
      else (''remove this yard'' @ [CHR 0x27] @ ''s saved network links and owned ACL'')
        # (if bound_to p name \<and> po_Isolation p \<and> names \<noteq> []
           then [''reconcile network policy and briefly restart affected running yards: '' @ Join names '', ''] else []))"

definition PrepareRemoval :: "('s, 'e) Service \<Rightarrow> Yard \<Rightarrow> ('s, 'e, RemovalPlan) net_op" where
  "PrepareRemoval sv y =
     io_bind (on_host (ho_ReadPolicy (sv_Host sv))) (\<lambda>stored.
     let p = sp_Policy stored in
     if (case find_first (\<lambda>b. y_Name (bd_Yard b) = y_Name y) (po_Bindings p) of None \<Rightarrow> False | Some b \<Rightarrow> bd_Yard b \<noteq> y)
     then io_fail TeardownDiffers
     else io_return \<lparr>rp_Yard = y, rp_Stored = stored, rp_Cleanup = mentions p (y_Name y),
                      rp_Consequences = removal_consequences p (y_Name y)\<rparr>)"

text \<open>The three policies a removal goes through.\<close>

definition removing_policy :: "Policy \<Rightarrow> string list \<Rightarrow> Policy" where
  "removing_policy p targets =
     p\<lparr>po_Removing := sort targets, po_PendingStart := filter (\<lambda>n. n \<notin> set targets) (po_PendingStart p),
       po_Revision := po_Revision p + 1\<rparr>"

definition unlinking_policy :: "Policy \<Rightarrow> string list \<Rightarrow> Policy" where
  "unlinking_policy p targets = (let q = fold without_links targets p in q\<lparr>po_Revision := po_Revision q + 1\<rparr>)"

definition removed_policy :: "Policy \<Rightarrow> string list \<Rightarrow> Policy" where
  "removed_policy p targets =
     (let q = (fold Forget targets p)\<lparr>po_Removing := [], po_PendingStart := []\<rparr>;
          r = (if po_Isolation q then q else q\<lparr>po_Bindings := []\<rparr>) in
      r\<lparr>po_AppliedRevision := po_Revision r, po_AppliedIsolation := po_Isolation r\<rparr>)"

definition removalPolicies :: "Policy \<Rightarrow> string list \<Rightarrow> 'e network_error + Policy \<times> Policy \<times> Policy" where
  "removalPolicies before targets =
     (if \<not> set (po_Removing before) \<subseteq> set targets then Inl RemovalStale
      else if targets = [] then Inr (before, before, before)
      else if po_Revision before > - 1 - 2 then Inl RevisionsExhausted
      else let pending = removing_policy before targets; applying = unlinking_policy pending targets in
        Inr (pending, applying, removed_policy applying targets))"

definition restart_allowed :: "Policy \<Rightarrow> string list \<Rightarrow> string list" where
  "restart_allowed original targets =
     po_PendingStart original
       @ concat (map (\<lambda>l. (if lk_A l \<in> set targets \<and> lk_B l \<notin> set targets then [lk_B l] else [])
                        @ (if lk_B l \<in> set targets \<and> lk_A l \<notin> set targets then [lk_A l] else [])) (po_Links original))"

definition removalProgress :: "Policy \<Rightarrow> Policy \<Rightarrow> Policy \<Rightarrow> Policy \<Rightarrow> Policy \<Rightarrow> string list \<Rightarrow> bool" where
  "removalProgress actual pending applying complete original targets \<longleftrightarrow>
     list_all (\<lambda>n. n \<in> set (restart_allowed original targets) \<and> n \<notin> set targets) (po_PendingStart actual)
     \<and> (case Encode (actual\<lparr>po_PendingStart := []\<rparr>) of
          Inl _ \<Rightarrow> False
        | Inr body \<Rightarrow> list_ex (\<lambda>p. Encode (p\<lparr>po_PendingStart := []\<rparr>) = Inr body) [pending, applying, complete])"

text \<open>The loop over the approved removals: all name the same stored policy and distinct yards.\<close>

definition removal_fits :: "StoredPolicy \<Rightarrow> RemovalPlan \<Rightarrow> bool" where
  "removal_fits before r \<longleftrightarrow>
     sp_Content (rp_Stored r) = sp_Content before \<and> sp_ETag (rp_Stored r) = sp_ETag before
     \<and> list_all (\<lambda>b. y_Name (bd_Yard b) = rp_Name r \<longrightarrow> bd_Yard b = rp_Yard r) (po_Bindings (sp_Policy before))
     \<and> rp_Cleanup r = mentions (sp_Policy before) (rp_Name r)"

definition removal_targets :: "StoredPolicy \<Rightarrow> RemovalPlan list \<Rightarrow> 'e network_error + string list" where
  "removal_targets before approved =
     (if list_all (removal_fits before) approved \<and> distinct (map rp_Name approved)
      then Inr (map rp_Name (filter rp_Cleanup approved)) else Inl RemovalStale)"

definition check_owners :: "Policy \<Rightarrow> RemovalPlan list \<Rightarrow> Snapshot \<Rightarrow> 'e network_error err" where
  "check_owners before approved s =
     map_option PlanError (first_error validateACLOwner
       (filter (\<lambda>o'. oy_Name o' \<in> set (map rp_Name approved) \<or> list_ex (\<lambda>b. bd_Yard b = oy_Yard o') (po_Bindings before))
         (sn_Yards s)))"

definition check_deleted :: "Snapshot \<Rightarrow> RemovalPlan \<Rightarrow> 'e network_error err" where
  "check_deleted s target =
     (let seen = filter (\<lambda>o'. oy_Yard o' = rp_Yard target) (sn_Yards s) in
      case first_error (\<lambda>o'. case validateACLOwner o' of
             Some e \<Rightarrow> Some (PlanError e)
           | None \<Rightarrow> if oy_InstanceFound o' then Some InstanceStillThere else None) seen of
        Some e \<Rightarrow> Some e
      | None \<Rightarrow> if seen = [] then Some ObservationOmitted else None)"

definition inspect_removals :: "('s, 'e) Service \<Rightarrow> RemovalPlan list \<Rightarrow> Policy \<Rightarrow> ('s, 'e, Snapshot) net_op" where
  "inspect_removals sv approved p =
     io_bind (io_lift (\<lambda>_. mergeYards (map rp_Yard approved) p)) (inspectNetwork sv)"

text \<open>What happens after the instances have been deleted.\<close>

definition finish_removals ::
  "('s, 'e) Service \<Rightarrow> RemovalPlan list \<Rightarrow> StoredPolicy \<Rightarrow> StoredPolicy \<Rightarrow> string list \<Rightarrow> Policy \<times> Policy \<times> Policy
    \<Rightarrow> ('s, 'e, unit) net_op" where
  "finish_removals sv approved before current targets policies =
     (case policies of (pending, applying, complete) \<Rightarrow>
      io_bind (inspect_removals sv approved (sp_Policy current)) (\<lambda>snapshot.
      io_bind (require (first_error (check_deleted snapshot) approved)) (\<lambda>_.
      io_bind (if sp_Content current \<noteq> sp_Content before then io_return current
               else on_host (ho_WritePolicy (sv_Host sv) current pending)) (\<lambda>current'.
      io_bind (planned (buildPlan current' snapshot no_change)) (\<lambda>plan.
      let plan' = plan\<lparr>pl_Policy := (pl_Policy plan)\<lparr>po_Revision := po_Revision applying\<rparr>\<rparr> in
      io_bind (require (if removalProgress (pl_Policy plan') pending applying complete (sp_Policy before) targets
                        then None else Some RemovalStale)) (\<lambda>_.
      applyLocked sv plan'))))))"

definition unchanged_or_progress ::
  "StoredPolicy \<Rightarrow> StoredPolicy \<Rightarrow> string list \<Rightarrow> Policy \<times> Policy \<times> Policy \<Rightarrow> bool" where
  "unchanged_or_progress before current targets policies =
     (case policies of (pending, applying, complete) \<Rightarrow>
      if sp_Content current = sp_Content before then sp_ETag current = sp_ETag before
      else targets \<noteq> [] \<and> removalProgress (sp_Policy current) pending applying complete (sp_Policy before) targets)"

definition WithRemovals ::
  "('s, 'e) Service \<Rightarrow> RemovalPlan list \<Rightarrow> ('s, 'e, unit) net_op \<Rightarrow> ('s, 'e, unit) net_op option \<Rightarrow> ('s, 'e, unit) net_op" where
  "WithRemovals sv approved remove after =
     with_lock sv
      (let finish = (case after of None \<Rightarrow> io_return () | Some m \<Rightarrow> m) in
       if approved = [] then io_bind remove (\<lambda>_. finish)
       else let before = rp_Stored (hd approved) in
         io_bind (io_lift (\<lambda>_. removal_targets before approved)) (\<lambda>targets.
         io_bind (on_host (ho_ReadPolicy (sv_Host sv))) (\<lambda>current.
         io_bind (io_lift (\<lambda>_. removalPolicies (sp_Policy before) targets)) (\<lambda>policies.
         io_bind (require (if unchanged_or_progress before current targets policies then None else Some RemovalStale)) (\<lambda>_.
         io_bind (io_when (targets \<noteq> [])
           (io_bind (inspect_removals sv approved (sp_Policy current)) (\<lambda>snapshot.
            require (check_owners (sp_Policy before) approved snapshot)))) (\<lambda>_.
         io_bind remove (\<lambda>_.
         io_bind (io_when (targets \<noteq> []) (finish_removals sv approved before current targets policies)) (\<lambda>_.
         finish))))))))"

definition WithRemoval :: "('s, 'e) Service \<Rightarrow> RemovalPlan \<Rightarrow> ('s, 'e, unit) net_op \<Rightarrow> ('s, 'e, unit) net_op" where
  "WithRemoval sv approved remove = WithRemovals sv [approved] remove None"

section \<open>Boot\<close>

text \<open>The devices of the instance are visited in the order \<open>order\<close> gives.\<close>

definition owned_endpoint :: "InstanceInfo \<Rightarrow> addr \<Rightarrow> string \<Rightarrow> 'e network_error + AddrPort list" where
  "owned_endpoint info guest name =
     (let device = dget (ii_LocalDevices info) name;
          marker = mget (ii_LocalConfig info) (''user.subyard.resource.'' @ name) in
      if mget device ''type'' \<noteq> ''proxy'' \<or> mget device ''bind'' \<noteq> ''host'' \<or> \<not> HasPrefix (mget device ''listen'') ''udp:''
      then Inr []
      else if marker = '''' \<or> HasPrefix marker ''v1:pending:'' then Inr []
      else if map_len device \<noteq> 5 \<or> mget device ''nat'' \<noteq> ''true'' \<or> device \<noteq> dget (ii_Devices info) name
        \<or> marker \<noteq> OwnershipValue device then Inl NotConverged
      else case (ParseAddrPort (TrimPrefix (mget device ''listen'') ''udp:''),
                 ParseAddrPort (TrimPrefix (mget device ''connect'') ''udp:'')) of
        (Some e, Some c) \<Rightarrow>
          if \<not> ExplicitOwnerIPv4 (ap_Addr e) \<or> ap_Port e = 0 \<or> mget device ''listen'' \<noteq> ''udp:'' @ AddrPort_String e
             \<or> ap_Addr c \<noteq> guest \<or> ap_Port c = 0 \<or> mget device ''connect'' \<noteq> ''udp:'' @ AddrPort_String c
          then Inl NotConverged else Inr [e]
      | _ \<Rightarrow> Inl NotConverged)"

definition approved_endpoint :: "ApprovedIngress \<Rightarrow> 'e network_error + AddrPort list" where
  "approved_endpoint a =
     (if Transport a \<noteq> ''udp'' then Inr []
      else case ParseAddrPort (TrimPrefix (ai_Listen a) ''udp:'') of None \<Rightarrow> Inl EndpointInvalid | Some e \<Rightarrow> Inr [e])"

definition boot_endpoints :: "Policy \<Rightarrow> Yard \<Rightarrow> InstanceInfo \<Rightarrow> addr \<Rightarrow> string list \<Rightarrow> 'e network_error + AddrPort list" where
  "boot_endpoints p target info guest names =
     (if po_Isolation p
      then fold_res (\<lambda>b es. if bd_IPv4 b \<noteq> Addr_String guest then Inl NotConverged
             else res_bind (map_res approved_endpoint (bd_ApprovedIngress b)) (\<lambda>new. Inr (es @ concat new)))
           (filter (\<lambda>b. bd_Yard b = target) (po_Bindings p)) []
      else res_bind (map_res (owned_endpoint info guest) names) (\<lambda>es.
           Inr (rev (remdups (rev (concat es))))))"

definition ClearBootStaleUDP ::
  "('s, 'e) Service \<Rightarrow> ((string, str_map) fmap \<Rightarrow> string list) \<Rightarrow> Yard \<Rightarrow> ('s, 'e, unit) net_op" where
  "ClearBootStaleUDP sv order target =
     (if \<not> sv_UseApprovedIngress sv then io_fail BootModeRequired
      else io_bind (on_host (ho_ReadPolicy (sv_Host sv))) (\<lambda>stored.
        let p = sp_Policy stored in
        if pending_work p then io_fail NotConverged
        else io_bind (on_host (ho_InspectNetwork (sv_Host sv) [target])) (\<lambda>snapshot.
          io_bind (io_lift (\<lambda>_. if po_Isolation p then applyApprovedBootIngress snapshot p
                     else if po_Bindings p \<noteq> [] then Inl NotConverged else Inr snapshot)) (\<lambda>s.
          case find_first (\<lambda>o'. oy_Yard o' = target) (sn_Yards s) of
            None \<Rightarrow> io_fail ObservationOmitted
          | Some observed \<Rightarrow>
              (let info = oy_InstanceInfo observed in
               if \<not> oy_InstanceFound observed then io_fail NotConverged
               else if ii_Type info \<noteq> YardVM then io_return ()
               else if \<not> is_running observed then io_fail NotConverged
               else case ParseAddr (mget (dget (ii_Devices info) ''eth0'') ''ipv4.address'') of
                 None \<Rightarrow> if po_Isolation p then io_fail NotConverged else io_return ()
               | Some guest \<Rightarrow>
                   if \<not> IsPrivate guest then if po_Isolation p then io_fail NotConverged else io_return ()
                   else io_bind (io_lift (\<lambda>_. boot_endpoints p target info guest (order (ii_LocalDevices info)))) (\<lambda>endpoints.
                     if endpoints = [] then io_return ()
                     else case sv_ClearStaleUDP sv of
                       None \<Rightarrow> io_fail CleanerMissing
                     | Some clear \<Rightarrow> io_iter (\<lambda>e. on_host (clear e)) endpoints))))))"

end
