(* ===== verification/Network_Trace.thy ===== *)
theory Network_Trace
  imports Network_Service
begin

text \<open>
  The calls that change the host, recorded in the order in which they are made, and a small calculus of
  which event may follow which.
\<close>

section \<open>Recording\<close>

datatype net_event =
    PolicyWrite Policy bool
  | Powered Yard string bool
  | Guarded bool
  | NICWrite Yard str_map
  | ProjectWrite Yard string
  | ACLWrite ACL
  | ACLDelete ACL

type_synonym 's traced = "'s \<times> net_event list"

definition unseen :: "('s, 'e, 'a) io \<Rightarrow> ('s traced, 'e, 'a) io" where
  "unseen m = (\<lambda>(s, l). case m s of (t, r) \<Rightarrow> ((t, l), r))"

definition seen :: "(bool \<Rightarrow> net_event) \<Rightarrow> ('s, 'e, 'a) io \<Rightarrow> ('s traced, 'e, 'a) io" where
  "seen ev m = (\<lambda>(s, l). case m s of (t, r) \<Rightarrow> ((t, l @ [ev (is_ok r)]), r))"

definition traced_host :: "('s, 'e) Host \<Rightarrow> ('s traced, 'e) Host" where
  "traced_host h =
     \<lparr>ho_ReadPolicy = unseen (ho_ReadPolicy h),
      ho_WritePolicy = (\<lambda>stored p. seen (PolicyWrite p) (ho_WritePolicy h stored p)),
      ho_InspectNetwork = (\<lambda>yards. unseen (ho_InspectNetwork h yards)),
      ho_WriteNetworkACL = (\<lambda>acl. seen (\<lambda>_. ACLWrite acl) (ho_WriteNetworkACL h acl)),
      ho_DeleteNetworkACL = (\<lambda>acl. seen (\<lambda>_. ACLDelete acl) (ho_DeleteNetworkACL h acl)),
      ho_WriteProfileNIC = (\<lambda>y nic. seen (\<lambda>_. NICWrite (oy_Yard y) nic) (ho_WriteProfileNIC h y nic)),
      ho_WriteProjectNetworks = (\<lambda>y access. seen (\<lambda>_. ProjectWrite (oy_Yard y) access) (ho_WriteProjectNetworks h y access)),
      ho_NetworkPower = (\<lambda>y power. seen (Powered y power) (ho_NetworkPower h y power))\<rparr>"

definition traced_service :: "('s, 'e) Service \<Rightarrow> ('s traced, 'e) Service" where
  "traced_service sv =
     \<lparr>sv_Host = traced_host (sv_Host sv),
      sv_Lock = map_option (\<lambda>k. \<lparr>lo_Acquire = unseen (lo_Acquire k), lo_Release = (\<lambda>(s, l). (lo_Release k s, l))\<rparr>) (sv_Lock sv),
      sv_Guard = map_option (seen Guarded) (sv_Guard sv),
      sv_ContractSource = map_option (\<lambda>source y. unseen (source y)) (sv_ContractSource sv),
      sv_UseApprovedIngress = sv_UseApprovedIngress sv,
      sv_ClearStaleUDP = map_option (\<lambda>clear e. unseen (clear e)) (sv_ClearStaleUDP sv)\<rparr>"

lemmas traced_defs = traced_service_def traced_host_def

section \<open>Order of events\<close>

text \<open>Every event of the list is allowed by the events before it.\<close>

fun follows :: "(net_event set \<Rightarrow> net_event \<Rightarrow> bool) \<Rightarrow> net_event set \<Rightarrow> net_event list \<Rightarrow> bool" where
  "follows P S [] \<longleftrightarrow> True"
| "follows P S (e # l) \<longleftrightarrow> P S e \<and> follows P (insert e S) l"

lemma follows_append [simp]: "follows P S (l @ k) \<longleftrightarrow> follows P S l \<and> follows P (set l \<union> S) k"
  by (induction l arbitrary: S) auto

definition grows :: "(net_event set \<Rightarrow> net_event \<Rightarrow> bool) \<Rightarrow> bool" where
  "grows P \<longleftrightarrow> (\<forall>S T e. S \<subseteq> T \<longrightarrow> P S e \<longrightarrow> P T e)"

lemma growsD: "grows P \<Longrightarrow> P S e \<Longrightarrow> S \<subseteq> T \<Longrightarrow> P T e"
  by (auto simp: grows_def)

text \<open>If the events \<open>X\<close> have happened, then \<open>m\<close> keeps the order, and when it succeeds \<open>Y\<close> have happened too.\<close>

definition spec :: "(net_event set \<Rightarrow> net_event \<Rightarrow> bool) \<Rightarrow> net_event set
    \<Rightarrow> ('s traced, 'e, 'a) io \<Rightarrow> ('a \<Rightarrow> net_event set) \<Rightarrow> bool" where
  "spec P X m Y \<longleftrightarrow>
     (\<forall>s l t k r. m (s, l) = ((t, k), r) \<longrightarrow> X \<subseteq> set l \<longrightarrow> follows P {} l \<longrightarrow>
        follows P {} k \<and> set l \<subseteq> set k \<and> (\<forall>a. r = Inr a \<longrightarrow> Y a \<subseteq> set k))"

lemma specD:
  assumes "spec P X m Y" and "m (s, l) = ((t, k), r)" and "X \<subseteq> set l" and "follows P {} l"
  shows "follows P {} k" and "set l \<subseteq> set k" and "\<And>a. r = Inr a \<Longrightarrow> Y a \<subseteq> set k"
  using assms unfolding spec_def by blast+

lemma spec_return: "spec P X (io_return a) (\<lambda>_. X)"
  by (simp add: spec_def)

lemma spec_fail: "spec P X (io_fail e) Y"
  by (simp add: spec_def)

lemma spec_lift: "spec P X (io_lift f) (\<lambda>_. {})"
  by (simp add: spec_def)

lemma spec_unseen: "spec P X (unseen m) (\<lambda>_. {})"
  by (auto simp: spec_def unseen_def split: prod.splits)

lemma spec_seen:
  assumes "grows P" and "\<And>ok. P X (ev ok)"
  shows "spec P X (seen ev m) (\<lambda>_. {ev True})"
proof -
  have "P (set l) (ev ok)" if "X \<subseteq> set l" for l ok using growsD [OF assms(1) assms(2) that] .
  then show ?thesis by (auto simp: spec_def seen_def is_ok_def split: prod.splits sum.splits)
qed

lemma spec_error: "spec P X m Y \<Longrightarrow> spec P X (io_error g m) Y"
  unfolding spec_def io_error_def by (fastforce split: prod.splits sum.splits)

lemma spec_bind:
  assumes m: "spec P X m Y" and f: "\<And>a. spec P (X \<union> Y a) (f a) Z"
  shows "spec P X (io_bind m f) Z"
  unfolding spec_def
proof (intro allI impI)
  fix s l t k r assume run: "io_bind m f (s, l) = ((t, k), r)" and X: "X \<subseteq> set l" and l: "follows P {} l"
  obtain t' k' r' where m': "m (s, l) = ((t', k'), r')" by (metis surj_pair)
  note first = specD [OF m m' X l]
  show "follows P {} k \<and> set l \<subseteq> set k \<and> (\<forall>a. r = Inr a \<longrightarrow> Z a \<subseteq> set k)"
  proof (cases r')
    case (Inl e) then show ?thesis using run m' first by (auto simp: io_bind_def)
  next
    case (Inr a)
    have "f a (t', k') = ((t, k), r)" using run m' Inr by (simp add: io_bind_def)
    then show ?thesis using specD [OF f _ _ first(1), of a t' t k r] first(2) first(3) [OF Inr] X by blast
  qed
qed

lemma spec_weaken: "spec P X m Y \<Longrightarrow> (\<And>a. Z a \<subseteq> X \<union> Y a) \<Longrightarrow> spec P X m Z"
  unfolding spec_def by (metis Un_least order_trans)

lemma spec_done: "spec P X (io_return a) (\<lambda>_. {})"
  by (rule spec_weaken [OF spec_return]) simp

lemma spec_more: "spec P X m Y \<Longrightarrow> X \<subseteq> X' \<Longrightarrow> spec P X' m Y"
  unfolding spec_def by (metis order_trans)

lemma spec_iter:
  assumes "\<And>x. x \<in> set xs \<Longrightarrow> spec P X (f x) (\<lambda>_. G x)"
  shows "spec P X (io_iter f xs) (\<lambda>_. \<Union>x \<in> set xs. G x)"
  using assms
proof (induction xs arbitrary: X)
  case Nil show ?case unfolding io_iter.simps list.set UN_empty by (rule spec_done)
next
  case (Cons x xs)
  have "spec P (X \<union> G x) (io_iter f xs) (\<lambda>_. \<Union>x \<in> set xs. G x)"
    by (rule Cons.IH) (rule spec_more [OF Cons.prems], auto)
  then have "spec P (X \<union> G x) (io_iter f xs) (\<lambda>_. \<Union>x \<in> set (x # xs). G x)" by (rule spec_weaken) auto
  then show ?case unfolding io_iter.simps by - (rule spec_bind [OF Cons.prems [of x]], simp_all)
qed

lemma spec_map:
  assumes "\<And>x. spec P X (f x) (\<lambda>_. {})" shows "spec P X (io_map f xs) (\<lambda>_. {})"
  using assms
proof (induction xs)
  case Nil show ?case unfolding io_map.simps by (rule spec_done)
next
  case (Cons x xs)
  have "spec P X (io_map f (x # xs)) (\<lambda>_. {})"
    unfolding io_map.simps by (intro spec_bind [OF Cons.prems] spec_bind [OF spec_more [OF Cons.IH [OF Cons.prems]]] spec_done) simp
  then show ?case .
qed

lemma spec_when: "spec P X m (\<lambda>_. Y) \<Longrightarrow> spec P X (io_when c m) (\<lambda>_. if c then Y else {})"
  by (cases c) (simp_all only: io_when_def if_True if_False spec_done)

lemma spec_require: "spec P X (require c) (\<lambda>_. {})"
  by (cases c) (simp_all only: require_def option.case spec_done spec_fail)

lemma spec_planned: "spec P X (planned r) (\<lambda>_. {})"
  by (cases r) (simp_all only: planned_def sum.case spec_done spec_fail)

lemma spec_none: "spec P X m Y \<Longrightarrow> spec P X m (\<lambda>_. {})"
  by (rule spec_weaken) auto

lemma spec_when_none: "spec P X m (\<lambda>_. {}) \<Longrightarrow> spec P X (io_when c m) (\<lambda>_. {})"
  using spec_when [of P X m "{}" c] by simp

section \<open>Reading operations\<close>

lemma spec_ReadPolicy: "spec P X (ho_ReadPolicy (sv_Host (traced_service sv))) (\<lambda>_. {})"
  by (simp add: traced_defs spec_unseen)

lemma spec_InspectNetwork: "spec P X (ho_InspectNetwork (sv_Host (traced_service sv)) ys) (\<lambda>_. {})"
  by (simp add: traced_defs spec_unseen)

lemma spec_inspectNetwork: "spec P X (inspectNetwork (traced_service sv) ys) (\<lambda>_. {})"
proof -
  have "spec P X (case sv_ContractSource (traced_service sv) of None \<Rightarrow> io_return s
      | Some source \<Rightarrow> io_bind (io_map (\<lambda>y. io_bind (on_host (source (oy_Yard y)))
          (\<lambda>cs. io_return (y\<lparr>oy_IngressContracts := cs\<rparr>))) (sn_Yards s)) (\<lambda>ys. io_return (s\<lparr>sn_Yards := ys\<rparr>)))
      (\<lambda>_. {})" for s
    by (cases "sv_ContractSource sv")
      (auto simp: traced_defs intro!: spec_bind [OF spec_map] spec_bind [OF spec_error [OF spec_unseen]]
        intro: spec_done)
  then show ?thesis unfolding inspectNetwork_def
    by (intro spec_bind [OF spec_error [OF spec_InspectNetwork]]) simp
qed

lemma spec_Prepare: "spec P X (Prepare (traced_service sv) ys c) (\<lambda>_. {})"
  unfolding Prepare_def
  by (intro spec_bind [OF spec_error [OF spec_ReadPolicy]] spec_bind [OF spec_lift] spec_bind [OF spec_inspectNetwork])
    (auto simp: spec_fail spec_planned intro!: spec_bind [OF spec_lift])

lemma spec_observe: "spec P X (observe (traced_service sv) y) (\<lambda>_. {})"
  unfolding observe_def
  by (intro spec_bind [OF spec_error [OF spec_InspectNetwork]])
    (auto simp: spec_fail split: option.split intro: spec_done)

lemma spec_run_guard:
  assumes "grows P" and "\<And>ok. P X (Guarded ok)"
  shows "spec P X (run_guard (traced_service sv)) (\<lambda>_. {Guarded True})"
  by (cases "sv_Guard sv")
    (auto simp: run_guard_def traced_defs spec_fail intro!: spec_error spec_seen assms)

end
