(* ===== verification/Network_Canonical.thy ===== *)
theory Network_Canonical
  imports Network_Policy
begin

text \<open>
  The normal form of a network policy: what it guarantees, that it is stable, and that the JSON text
  of a policy is read back as its normal form.
\<close>

definition canonical :: "Policy \<Rightarrow> bool" where
  "canonical p \<longleftrightarrow>
     po_Schema p = SchemaVersion \<and> po_AppliedRevision p \<le> po_Revision p
     \<and> list_all link_ok (po_Links p) \<and> distinct (po_Links p) \<and> sorted (map link_key (po_Links p))
     \<and> list_all binding_ok (po_Bindings p) \<and> binding_keys_ok (po_Bindings p)
     \<and> sorted (map (y_Name \<circ> bd_Yard) (po_Bindings p))
     \<and> pending_names_ok (po_PendingStart p) \<and> pending_names_ok (po_Removing p)
     \<and> set (po_Removing p) \<inter> set (po_PendingStart p) = {}"

lemma normalize_Inr:
  "normalize p = Inr q \<longleftrightarrow>
     po_Schema p = SchemaVersion \<and> po_AppliedRevision p \<le> po_Revision p
     \<and> pending_names_ok (po_PendingStart p) \<and> pending_names_ok (po_Removing p)
     \<and> set (po_Removing p) \<inter> set (po_PendingStart p) = {}
     \<and> (\<exists>links bindings. link_loop [] (po_Links p) = Inr links \<and> binding_loop [] (po_Bindings p) = Inr bindings
          \<and> q = p\<lparr>po_Links := sortLinks links, po_Bindings := sort_key (y_Name \<circ> bd_Yard) bindings\<rparr>)"
  by (auto simp: normalize_def res_bind_Inr not_less list_ex_iff)

lemma binding_keys_perm:
  assumes "mset bs = mset cs" and "binding_keys_ok bs"
  shows "binding_keys_ok cs"
proof -
  have "distinct (map f cs)" if "distinct (map f bs)" for f :: "Binding \<Rightarrow> string"
    using that assms(1) by (metis mset_eq_imp_distinct_iff mset_map)
  with assms(2) show ?thesis by (simp add: binding_keys_ok_def)
qed

lemma same_bindings_keys: "list_all2 same_binding bs cs \<Longrightarrow> binding_keys_ok cs \<longleftrightarrow> binding_keys_ok bs"
  using same_bindings_maps [of bs cs] by (simp add: binding_keys_ok_def flip: map_map)

lemma normalize_canonical:
  assumes "normalize p = Inr q"
  shows "canonical q"
proof -
  from assms obtain links bindings where links: "link_loop [] (po_Links p) = Inr links"
    and bindings: "binding_loop [] (po_Bindings p) = Inr bindings"
    and q: "q = p\<lparr>po_Links := sortLinks links, po_Bindings := sort_key (y_Name \<circ> bd_Yard) bindings\<rparr>"
    and rest: "po_Schema p = SchemaVersion" "po_AppliedRevision p \<le> po_Revision p" "pending_names_ok (po_PendingStart p)"
      "pending_names_ok (po_Removing p)" "set (po_Removing p) \<inter> set (po_PendingStart p) = {}"
    unfolding normalize_Inr by blast
  from links have "distinct links" and l: "list_all2 (\<lambda>l m. canonicalLink (lk_A l) (lk_B l) = Inr m) (po_Links p) links"
    unfolding link_loop_Inr by blast+
  moreover from l have "list_all link_ok links"
    by (induction rule: list_all2_induct) (auto simp: canonicalLink_Inr)
  moreover have b: "list_all2 same_binding (po_Bindings p) bindings" "list_all binding_ok bindings"
      "binding_keys_ok (po_Bindings p)"
    using binding_loop_Inr [OF bindings] by blast+
  moreover have "binding_keys_ok (sort_key (y_Name \<circ> bd_Yard) bindings)"
    by (rule binding_keys_perm [of bindings]) (use b(3) same_bindings_keys [OF b(1)] in simp_all)
  ultimately show ?thesis
    using rest unfolding canonical_def q by (simp add: sortLinks_def list_all_iff)
qed

lemma canonical_normalize:
  assumes "canonical q"
  shows "normalize q = Inr q"
proof -
  have "link_loop [] (po_Links q) = Inr (po_Links q)"
    using assms by (auto simp: canonical_def link_loop_Inr list_all_iff list_all2_same)
  moreover have "binding_loop [] (po_Bindings q) = Inr (po_Bindings q)"
    using assms by (intro binding_loop_ok) (auto simp: canonical_def)
  ultimately show ?thesis
    using assms by (simp add: normalize_Inr canonical_def sortLinks_def sort_key_id_if_sorted)
qed

lemma normalize_bindings:
  assumes "normalize p = Inr q"
  shows "binding_keys_ok (po_Bindings p)" and "\<forall>b \<in> set (po_Bindings p). valid_binding b"
proof -
  from assms obtain bindings where "binding_loop [] (po_Bindings p) = Inr bindings" unfolding normalize_Inr by blast
  from binding_loop_Inr [OF this] have b: "list_all2 same_binding (po_Bindings p) bindings" "list_all binding_ok bindings"
    "binding_keys_ok (po_Bindings p)" by blast+
  then show "binding_keys_ok (po_Bindings p)" by blast
  from b(1,2) show "\<forall>b \<in> set (po_Bindings p). valid_binding b"
    by (induction rule: list_all2_induct) (auto simp: binding_ok_def same_binding_fields(9))
qed

section \<open>The JSON text\<close>

text \<open>
  The settings copied from the host are the only texts of a canonical policy that can hold characters
  outside ASCII.
\<close>

definition valid_settings :: "Policy \<Rightarrow> bool" where
  "valid_settings p \<longleftrightarrow>
     (\<forall>b \<in> set (po_Bindings p). ValidString (bd_OriginalAccess b)
        \<and> fmpred (\<lambda>k v. ValidString k \<and> ValidString v) (bd_OriginalNIC b))"

lemma json_ingress_ok: "ingress_ok a \<Longrightarrow> json_ingress a = a"
proof -
  assume a: "ingress_ok a"
  then have "Transport a = ''udp'' \<or> Transport a = ''tcp''" by (auto simp: ingress_ok_def Transport_def)
  then have "is_ascii (Transport a)" by (auto simp: byte_def)
  moreover obtain e where "Transport a @ '':'' @ AddrPort_String e = ai_Listen a"
    using a by (auto simp: ingress_ok_def valid_listen_def split: option.splits)
  moreover have "is_ascii '':''" by (simp add: byte_def)
  ultimately have "is_ascii (ai_Listen a)" by (metis is_ascii_simps(3) is_ascii_AddrPort)
  moreover have "is_ascii (ai_Protocol a)" using a by (auto simp: ingress_ok_def byte_def)
  ultimately show ?thesis using a by (cases a) (simp add: json_ingress_def ingress_ok_def SafeName_ascii)
qed

lemma json_binding_ok:
  assumes "binding_ok b" and "ValidString (bd_OriginalAccess b)" and "fmpred (\<lambda>k v. ValidString k \<and> ValidString v) (bd_OriginalNIC b)"
  shows "json_binding b = b"
proof -
  have b: "valid_binding b" using assms by (simp add: binding_ok_def)
  have "is_ascii (bd_IPv4 b)" using b by (auto simp: valid_binding_def ParseAddr_iff)
  moreover have "is_ascii (bd_MAC b)"
    using b ParseMAC_ascii by (auto simp: valid_binding_def unicast_mac_def split: option.splits)
  moreover have "json_yard (bd_Yard b) = bd_Yard b"
    using b by (cases "bd_Yard b") (simp add: json_yard_def valid_binding_def SafeName_ascii)
  moreover have "json_map (bd_OriginalNIC b) = bd_OriginalNIC b"
    using assms(3) by (intro json_map_valid) auto
  moreover have "map json_ingress (bd_ApprovedIngress b) = bd_ApprovedIngress b"
    using assms(1) by (intro map_idI json_ingress_ok) (simp add: binding_ok_def list_all_iff)
  ultimately show ?thesis using assms(2) by (cases b) (simp add: json_binding_def json_text_valid)
qed

lemma json_policy_canonical:
  assumes "canonical p" and "valid_settings p"
  shows "json_policy p = p"
proof -
  have "map (\<lambda>l. \<lparr>lk_A = json_text (lk_A l), lk_B = json_text (lk_B l)\<rparr>) (po_Links p) = po_Links p"
    using assms(1) by (intro map_idI) (auto simp: canonical_def list_all_iff link_ok_def SafeName_ascii)
  moreover have "map json_binding (po_Bindings p) = po_Bindings p"
    using assms by (intro map_idI json_binding_ok) (auto simp: canonical_def list_all_iff valid_settings_def)
  moreover have "map json_text xs = xs" if "pending_names_ok xs" for xs
    using that by (intro map_idI) (auto simp: pending_names_ok_def list_all_iff SafeName_ascii)
  ultimately show ?thesis using assms(1) by (cases p) (simp add: json_policy_def canonical_def)
qed


text \<open>Two links given the wrong way round and out of order.\<close>

definition demo_policy :: "Link list \<Rightarrow> Policy" where
  "demo_policy links = \<lparr>po_Schema = SchemaVersion, po_Isolation = True, po_Links = links, po_Revision = 2,
     po_AppliedRevision = 1, po_Bindings = [], po_AppliedIsolation = False, po_PendingStart = [''alpha''],
     po_Removing = [''gamma'']\<rparr>"

lemma demo_policy_normal:
  "normalize (demo_policy [\<lparr>lk_A = ''gamma'', lk_B = ''alpha''\<rparr>, \<lparr>lk_A = ''beta'', lk_B = ''alpha''\<rparr>])
    = Inr (demo_policy [\<lparr>lk_A = ''alpha'', lk_B = ''beta''\<rparr>, \<lparr>lk_A = ''alpha'', lk_B = ''gamma''\<rparr>])"
  by code_simp


end
