(* ===== verification/Network_Isolation.thy ===== *)
theory Network_Isolation
  imports Network_Plan Network_Canonical
begin

text \<open>
  What a plan achieves: every isolated yard gets an address of its own inside its bridge, and its ACL
  admits another yard exactly if the two are linked.  The lemmas follow the planner from the change to
  the bindings, the bridge check and the update of one yard.
\<close>

section \<open>Bindings\<close>

lemma same_binding_refl [simp]: "same_binding b b"
  unfolding same_binding_def by (rule exI [of _ "bd_ApprovedIngress b"]) simp

lemma same_binding_trans: "same_binding a b \<Longrightarrow> same_binding b c \<Longrightarrow> same_binding a c"
  by (auto simp: same_binding_def)

lemma same_bindings_trans:
  "list_all2 same_binding as bs \<Longrightarrow> list_all2 same_binding bs cs \<Longrightarrow> list_all2 same_binding as cs"
  by (rule list_all2_trans) (rule same_binding_trans)

lemma approve_first_same: "list_all2 same_binding bs (approve_first y ipv4 bs)"
proof (cases "List.extract (\<lambda>b. bd_Yard b = oy_Yard y) bs")
  case None
  then show ?thesis by (simp add: approve_first_def list_all2_same)
next
  case (Some r)
  obtain pre b post where r: "r = (pre, b, post)" by (cases r)
  then have bs: "bs = pre @ b # post" using Some by (simp add: extract_Some_iff)
  have "same_binding b (b\<lparr>bd_ApprovedIngress := a\<rparr>)" for a by (auto simp: same_binding_def)
  then show ?thesis
    using Some unfolding r approve_first_def bs
    by (auto intro!: list_all2_appendI simp: list_all2_same)
qed

lemma binding_of_unique:
  assumes "distinct (map (y_Name \<circ> bd_Yard) bs)" and "b \<in> set bs" and "y_Name (bd_Yard b) = name"
  shows "binding_of bs name = Some b"
proof -
  have "distinct (map (y_Name \<circ> bd_Yard) (rev bs))" using assms(1) by (simp add: rev_map [symmetric])
  then show ?thesis
    using find_first_unique [of "y_Name \<circ> bd_Yard" "rev bs" b] assms(2,3) by (simp add: binding_of_def)
qed

lemma binding_of_Some: "binding_of bs name = Some b \<Longrightarrow> b \<in> set bs \<and> y_Name (bd_Yard b) = name"
  unfolding binding_of_def by (auto dest: find_first_SomeD)

definition on_bridge :: "Snapshot \<Rightarrow> Binding \<Rightarrow> bool" where
  "on_bridge s b \<longleftrightarrow>
     (\<exists>px a. bridgePrefix (network_of s (y_Network (bd_Yard b))) = Some px \<and> bd_IPv4 b = Addr_String a \<and> usable px a)"

definition fresh_binding :: "Policy \<Rightarrow> Snapshot \<Rightarrow> Binding \<Rightarrow> bool" where
  "fresh_binding p s b \<longleftrightarrow>
     (\<exists>y \<in> set (sn_Yards s). bd_Yard b = oy_Yard y \<and> binding_of (po_Bindings p) (oy_Name y) = None)
     \<and> po_Isolation p \<and> on_bridge s b"

lemma fresh_binding_same: "fresh_binding p s b \<Longrightarrow> same_binding b c \<Longrightarrow> fresh_binding p s c"
  by (auto simp: fresh_binding_def on_bridge_def same_binding_fields)

lemma new_binding_Inr:
  assumes "new_binding s bindings taken y = Inr b"
  shows "bd_Yard b = oy_Yard y" and "on_bridge s b"
proof -
  from assms obtain px where px: "bridgePrefix (network_of s (oy_Network y)) = Some px"
    by (auto simp: new_binding_def Let_def split: option.splits)
  from assms px show y: "bd_Yard b = oy_Yard y"
    by (auto simp: new_binding_def Let_def split: option.splits)
  from assms px obtain a where "ParseAddr (bd_IPv4 b) = Some a" "usable px a"
    by (auto simp: new_binding_def Let_def split: option.splits)
  with px y show "on_bridge s b" by (auto simp: on_bridge_def ParseAddr_iff)
qed

definition bindings_inv :: "Policy \<Rightarrow> Snapshot \<Rightarrow> Binding list \<Rightarrow> bool" where
  "bindings_inv p s bs \<longleftrightarrow>
     (\<exists>kept news. bs = kept @ news \<and> list_all2 same_binding (po_Bindings p) kept \<and> list_all (fresh_binding p s) news)"

lemma bindings_inv_same:
  assumes "bindings_inv p s bs" and "list_all2 same_binding bs cs"
  shows "bindings_inv p s cs"
proof -
  obtain kept news where bs: "bs = kept @ news" "list_all2 same_binding (po_Bindings p) kept" "list_all (fresh_binding p s) news"
    using assms(1) by (auto simp: bindings_inv_def)
  obtain kept' news' where cs: "cs = kept' @ news'" "list_all2 same_binding kept kept'" "list_all2 same_binding news news'"
    using assms(2) unfolding bs(1) list_all2_append1 by blast
  have "list_all (fresh_binding p s) news'"
    using cs(3) bs(3) by (induction rule: list_all2_induct) (auto intro: fresh_binding_same)
  with bs(2) cs show ?thesis unfolding bindings_inv_def by (blast intro: same_bindings_trans)
qed

lemma plan_binding_inv:
  assumes y: "y \<in> set (sn_Yards s)" and inv: "bindings_inv p s (fst st)" and step: "plan_binding p s y st = Inr st'"
  shows "bindings_inv p s (fst st')"
proof -
  obtain bs taken where st: "st = (bs, taken)" by (cases st)
  show ?thesis
  proof (cases "binding_of (po_Bindings p) (oy_Name y)")
    case (Some b)
    then have "fst st' = approve_first y (bd_IPv4 b) bs"
      using step by (auto simp: st plan_binding_def split: option.splits if_splits)
    then show ?thesis using bindings_inv_same [OF inv] approve_first_same by (simp add: st)
  next
    case None
    consider "fst st' = bs" | b where "new_binding s bs taken y = Inr b" "fst st' = bs @ [b]" "po_Isolation p"
      using step None by (auto simp: st plan_binding_def res_bind_Inr split: if_splits)
    then show ?thesis
    proof cases
      case 1
      then show ?thesis using inv by (simp add: st)
    next
      case 2
      have "fresh_binding p s b" using new_binding_Inr [OF 2(1)] y None 2(3) by (auto simp: fresh_binding_def)
      moreover obtain kept news where "bs = kept @ news" "list_all2 same_binding (po_Bindings p) kept"
        "list_all (fresh_binding p s) news"
        using inv by (auto simp: bindings_inv_def st)
      ultimately show ?thesis
        unfolding bindings_inv_def 2(2) by (intro exI [of _ kept] exI [of _ "news @ [b]"]) simp
    qed
  qed
qed

lemma fold_res_all: "fold_res f xs s = Inr s' \<Longrightarrow> x \<in> set xs \<Longrightarrow> \<exists>t t'. f x t = Inr t'"
  by (induction xs arbitrary: s) (auto split: sum.splits)

lemma planBindings_Inr:
  assumes "planBindings p s = Inr q"
  shows "\<exists>bs. q = p\<lparr>po_Bindings := sort_key (y_Name \<circ> bd_Yard) bs\<rparr> \<and> bindings_inv p s bs"
    and "\<forall>y \<in> set (sn_Yards s). \<forall>b. binding_of (po_Bindings p) (oy_Name y) = Some b \<longrightarrow> kept_binding p s y b = None"
proof -
  let ?start = "(po_Bindings p, map (\<lambda>b. (y_Network (bd_Yard b), bd_IPv4 b)) (po_Bindings p))"
  from assms obtain bs taken where run: "fold_res (plan_binding p s) (sn_Yards s) ?start = Inr (bs, taken)"
    and q: "q = p\<lparr>po_Bindings := sort_key (y_Name \<circ> bd_Yard) bs\<rparr>"
    by (auto simp: planBindings_def res_bind_Inr)
  have "bindings_inv p s (fst ?start)"
    unfolding bindings_inv_def by (intro exI [of _ "po_Bindings p"] exI [of _ "[]"]) (simp add: list_all2_same)
  with run have "bindings_inv p s (fst (bs, taken))"
    by (rule fold_res_inv [where I = "\<lambda>st. bindings_inv p s (fst st)"]) (rule plan_binding_inv)
  with q show "\<exists>bs. q = p\<lparr>po_Bindings := sort_key (y_Name \<circ> bd_Yard) bs\<rparr> \<and> bindings_inv p s bs" by auto
  show "\<forall>y \<in> set (sn_Yards s). \<forall>b. binding_of (po_Bindings p) (oy_Name y) = Some b \<longrightarrow> kept_binding p s y b = None"
  proof (intro ballI allI impI)
    fix y b assume y: "y \<in> set (sn_Yards s)" and b: "binding_of (po_Bindings p) (oy_Name y) = Some b"
    obtain st st' where "plan_binding p s y st = Inr st'" using fold_res_all [OF run y] by blast
    with b show "kept_binding p s y b = None" by (auto simp: plan_binding_def split: prod.splits if_splits option.splits)
  qed
qed

lemma observed_on_bridge:
  assumes plan: "planBindings p s = Inr q" and keys: "binding_keys_ok (po_Bindings p)" and iso: "po_Isolation p"
    and y: "y \<in> set (sn_Yards s)" "oy_Name y \<notin> set (po_Removing p)" and b: "b \<in> set (po_Bindings q)" "bd_Yard b = oy_Yard y"
  shows "on_bridge s b"
proof -
  obtain kept news where "set (po_Bindings q) = set (kept @ news)" and kept: "list_all2 same_binding (po_Bindings p) kept"
    and news: "list_all (fresh_binding p s) news"
    using planBindings_Inr(1) [OF plan] by (auto simp: bindings_inv_def)
  with b(1) consider "b \<in> set kept" | "b \<in> set news" by auto
  then show ?thesis
  proof cases
    case 1
    then obtain c where c: "c \<in> set (po_Bindings p)" "same_binding c b"
      using kept by (metis in_set_conv_nth list_all2_conv_all_nth)
    note f = same_binding_fields [OF c(2)]
    have "binding_of (po_Bindings p) (oy_Name y) = Some c"
      using keys c(1) b(2) f(1) by (intro binding_of_unique) (auto simp: binding_keys_ok_def)
    then have "kept_binding p s y c = None" using planBindings_Inr(2) [OF plan] y(1) by blast
    then show ?thesis
      using iso y(2) b(2) f(1,2)
      by (auto simp: kept_binding_def on_bridge_def Let_def ParseAddr_iff split: option.splits if_splits)
  next
    case 2
    then show ?thesis using news by (auto simp: list_all_iff fresh_binding_def)
  qed
qed

section \<open>Links, the bridge and the updates\<close>

definition linked :: "Policy \<Rightarrow> string \<Rightarrow> string \<Rightarrow> bool" where
  "linked p a b \<longleftrightarrow> (\<exists>l \<in> set (po_Links p). {lk_A l, lk_B l} = {a, b})"

lemma Peers_linked: "a \<noteq> b \<Longrightarrow> b \<in> set (Peers p a) \<longleftrightarrow> linked p a b"
  by (auto simp: Peers_def linked_def doubleton_eq_iff split: if_splits)

lemma without_links_fields [simp]:
  "po_Bindings (fold without_links ns p) = po_Bindings p" "po_Removing (fold without_links ns p) = po_Removing p"
  "po_Isolation (fold without_links ns p) = po_Isolation p"
  "set (po_Links (fold without_links ns p)) = {l \<in> set (po_Links p). lk_A l \<notin> set ns \<and> lk_B l \<notin> set ns}"
  by (induction ns arbitrary: p) (auto simp: without_links_def)

lemma apply_change_Inr:
  assumes "apply_change c known p = Inr q"
  shows "po_Bindings q = po_Bindings p" and "po_Removing q = po_Removing p"
    and "\<forall>l \<in> set (po_Links q). lk_A l \<notin> set (po_Removing q) \<and> lk_B l \<notin> set (po_Removing q)"
proof -
  have "po_Bindings r = po_Bindings u \<and> po_Removing r = po_Removing u" if "Policy_Link a b u = Inr r" for a b u r
    using that by (auto simp: Policy_Link_def split: sum.splits if_splits)
  moreover have "po_Bindings r = po_Bindings u \<and> po_Removing r = po_Removing u" if "Policy_Unlink a b u = Inr r" for a b u r
    using that by (auto simp: Policy_Unlink_def split: sum.splits)
  ultimately show "po_Bindings q = po_Bindings p" and "po_Removing q = po_Removing p"
    and "\<forall>l \<in> set (po_Links q). lk_A l \<notin> set (po_Removing q) \<and> lk_B l \<notin> set (po_Removing q)"
    using assms by (auto simp: apply_change_def Let_def res_bind_Inr split: sum.splits option.splits if_splits)
qed

lemma check_bridge_fixed:
  "check_bridge p s bridge bs = None \<Longrightarrow> bridge \<noteq> '''' \<Longrightarrow> b \<in> set bs \<Longrightarrow> y_Name (bd_Yard b) \<notin> set (po_Removing p)
     \<Longrightarrow> y_Network (bd_Yard b) = bridge"
  by (induction bs) (auto split: if_splits)

lemma check_bridge_same:
  "check_bridge p s bridge bs = None \<Longrightarrow> \<forall>b \<in> set bs. y_Network (bd_Yard b) \<noteq> ''''
     \<Longrightarrow> b \<in> set bs \<Longrightarrow> y_Name (bd_Yard b) \<notin> set (po_Removing p)
     \<Longrightarrow> c \<in> set bs \<Longrightarrow> y_Name (bd_Yard c) \<notin> set (po_Removing p)
     \<Longrightarrow> y_Network (bd_Yard b) = y_Network (bd_Yard c)"
proof (induction bs arbitrary: bridge)
  case (Cons d bs)
  then show ?case
    using check_bridge_fixed [of p s "y_Network (bd_Yard d)" bs] by (auto split: if_splits)
qed simp

lemma plan_isolation_Inr:
  assumes "plan_isolation p s = Inr (q, updates)" and "po_Isolation q"
  obtains us where "planBindings p s = Inr q" "check_bridge q s '''' (po_Bindings q) = None"
    "map_res (plan_yard q s) (sn_Yards s) = Inr us" "updates = concat us" "po_Isolation p"
proof (cases "po_Isolation p")
  case True
  then obtain us where "planBindings p s = Inr q" "check_bridge q s '''' (po_Bindings q) = None"
      "map_res (plan_yard q s) (sn_Yards s) = Inr us" "updates = concat us"
    using assms by (auto simp: plan_isolation_def res_bind_Inr split: if_splits option.splits)
  with True show thesis by (rule that [rotated -1])
next
  case False
  moreover have "po_Isolation q = po_Isolation p"
    using assms planBindings_Inr(1) [of p s q]
    by (auto simp: plan_isolation_def res_bind_Inr split: if_splits option.splits)
  ultimately show thesis using assms(2) by simp
qed

lemma plan_yard_Inr:
  "plan_yard q s y = Inr v \<Longrightarrow> u \<in> set v \<Longrightarrow>
     \<exists>b. binding_of (po_Bindings q) (oy_Name y) = Some b \<and> u = yard_update q s y b \<and> needs_update y u"
  by (auto simp: plan_yard_def Let_def split: option.splits if_splits)

lemma planned_update:
  assumes run: "map_res (plan_yard q s) (sn_Yards s) = Inr us" and y: "y \<in> set (sn_Yards s)"
    and b: "binding_of (po_Bindings q) (oy_Name y) = Some b"
  shows "check_yard q y b = None"
    and "find_first (\<lambda>u. up_Yard u = y) (concat us)
      = (if needs_update y (yard_update q s y b) then Some (yard_update q s y b) else None)"
proof -
  have run': "list_all2 (\<lambda>y u. plan_yard q s y = Inr u) (sn_Yards s) us" using run by (simp add: map_res_Inr)
  obtain i where "i < length (sn_Yards s)" "sn_Yards s ! i = y" using y by (auto simp: in_set_conv_nth)
  with run' have i: "i < length us" "plan_yard q s y = Inr (us ! i)" by (auto simp: list_all2_conv_all_nth)
  then show "check_yard q y b = None" using b by (auto simp: plan_yard_def Let_def split: option.splits)
  with i b have ui: "us ! i = (if needs_update y (yard_update q s y b) then [yard_update q s y b] else [])"
    by (simp add: plan_yard_def Let_def split: if_splits)
  have all: "u = yard_update q s y b \<and> needs_update y u" if u: "u \<in> set (concat us)" "up_Yard u = y" for u
  proof -
    obtain v where v: "v \<in> set us" "u \<in> set v" using u(1) by auto
    then obtain j where j: "j < length us" "u \<in> set (us ! j)" by (metis in_set_conv_nth)
    then have pj: "plan_yard q s (sn_Yards s ! j) = Inr (us ! j)" using run' by (simp add: list_all2_conv_all_nth)
    obtain d where d: "binding_of (po_Bindings q) (oy_Name (sn_Yards s ! j)) = Some d"
      "u = yard_update q s (sn_Yards s ! j) d" "needs_update (sn_Yards s ! j) u"
      using plan_yard_Inr [OF pj j(2)] by blast
    moreover from d(2) have "sn_Yards s ! j = y" using u(2) by (simp add: yard_update_def Let_def split: if_splits)
    ultimately show ?thesis using b by simp
  qed
  show "find_first (\<lambda>u. up_Yard u = y) (concat us)
      = (if needs_update y (yard_update q s y b) then Some (yard_update q s y b) else None)"
  proof (cases "needs_update y (yard_update q s y b)")
    case True
    then have "yard_update q s y b \<in> set (us ! i)" using ui by simp
    then have "yard_update q s y b \<in> set (concat us)" using nth_mem [OF i(1)] by auto
    moreover have "up_Yard (yard_update q s y b) = y" by (simp add: yard_update_def Let_def)
    ultimately have "find_first (\<lambda>u. up_Yard u = y) (concat us) \<noteq> None" unfolding find_first_None by blast
    then obtain u where u: "find_first (\<lambda>u. up_Yard u = y) (concat us) = Some u" by blast
    then have "u = yard_update q s y b" using all find_first_SomeD [OF u] by blast
    with u True show ?thesis by simp
  next
    case False
    then have "find_first (\<lambda>u. up_Yard u = y) (concat us) = None" unfolding find_first_None using all by metis
    with False show ?thesis by simp
  qed
qed

section \<open>What an ACL admits\<close>

record packet =
  pk_Source :: addr
  pk_Protocol :: string
  pk_Port :: nat

definition matches :: "Rule \<Rightarrow> packet \<Rightarrow> bool" where
  "matches r pk \<longleftrightarrow>
     ru_State r = ''enabled'' \<and> (ru_Source r = '''' \<or> ru_Source r = Addr_String (pk_Source pk) @ ''/32'')
     \<and> (ru_Protocol r = '''' \<or> ru_Protocol r = pk_Protocol pk)
     \<and> (ru_DestinationPort r = '''' \<or> ru_DestinationPort r = dec (pk_Port pk))"

text \<open>The devices drop what no rule allows, so a packet enters exactly if some rule allows it.\<close>

definition admits :: "ACL \<Rightarrow> packet \<Rightarrow> bool" where
  "admits acl pk \<longleftrightarrow> (\<exists>r \<in> set (ac_Ingress acl). ru_Action r = ''allow'' \<and> matches r pk)"

definition public_port :: "ObservedYard \<Rightarrow> string \<Rightarrow> packet \<Rightarrow> bool" where
  "public_port y ipv4 pk \<longleftrightarrow>
     (\<exists>a \<in> set (approvedPublicIngress y ipv4). Transport a = pk_Protocol pk \<and> ai_GuestPort a = int (pk_Port pk))"

text \<open>The ACL and network device of a yard once the plan is carried out.\<close>

definition planned_ACL :: "Plan \<Rightarrow> ObservedYard \<Rightarrow> ACL" where
  "planned_ACL plan y =
     (case find_first (\<lambda>u. up_Yard u = y) (pl_Updates plan) of Some u \<Rightarrow> up_ACL u | None \<Rightarrow> oy_ACL y)"

definition planned_NIC :: "Plan \<Rightarrow> ObservedYard \<Rightarrow> str_map" where
  "planned_NIC plan y =
     (case find_first (\<lambda>u. up_Yard u = y) (pl_Updates plan) of
        Some u \<Rightarrow> up_NIC u | None \<Rightarrow> dget (oy_ProfileDevices y) ''eth0'')"

lemma set_distinct_rules: "set (distinct_rules rules rs) = set rules \<union> set rs"
  by (induction rules rs rule: distinct_rules.induct) auto

lemma distinct_distinct_rules: "distinct rules \<Longrightarrow> distinct (distinct_rules rules rs)"
  by (induction rules rs rule: distinct_rules.induct) auto

lemma set_keep_order: "distinct rules \<Longrightarrow> set (keep_order ordered rules rs) = set ordered \<union> set rules"
  by (induction ordered rules rs rule: keep_order.induct) auto

lemma set_public_rules: "set (ownedPublicIngressRules y ipv4) = allow_port ` set (approvedPublicIngress y ipv4)"
  by (simp add: ownedPublicIngressRules_def set_keep_order distinct_distinct_rules set_distinct_rules)

lemma Transport_nonempty: "Transport a \<noteq> ''''"
  by (simp add: Transport_def)

lemma GuestEndpoint_valid: "GuestEndpoint c n = (protocol, port, True) \<Longrightarrow> valid_port port"
  by (auto simp: GuestEndpoint_def Let_def split: if_splits option.splits)

lemma approved_contract_port:
  assumes "a \<in> set (approved_contract y ipv4 c)"
  shows "valid_port (ai_GuestPort a)"
proof -
  obtain lp lt lf where cut: "Cut (mget (dget (ii_LocalDevices (oy_InstanceInfo y)) (pc_Device c)) ''listen'') CHR '':'' = (lp, lt, lf)"
    by (metis prod.exhaust)
  show ?thesis
  proof (cases "ParseAddrPort lt")
    case None
    then show ?thesis using assms cut by (simp add: approved_contract_def)
  next
    case (Some e)
    obtain protocol port valid where g: "GuestEndpoint c (int (ap_Port e)) = (protocol, port, valid)" by (metis prod.exhaust)
    have "valid \<and> ai_GuestPort a = port"
      using assms cut Some g by (auto simp: approved_contract_def split: if_split_asm)
    with g GuestEndpoint_valid show ?thesis by simp
  qed
qed

lemma approved_ports:
  assumes "a \<in> set (approvedPublicIngress y ipv4)"
  shows "valid_port (ai_GuestPort a)"
proof -
  from assms have "ai_GuestPort a = 8765 \<or> (\<exists>c. a \<in> set (approved_contract y ipv4 c))"
    unfolding approvedPublicIngress_def Let_def by (auto split: if_split_asm)
  then show ?thesis by (auto simp: valid_port_def dest: approved_contract_port [unfolded valid_port_def])
qed

lemma dec_neq_Nil_fmt: "valid_port n \<Longrightarrow> fmt_d n = dec k \<longleftrightarrow> n = int k"
  by (auto simp: valid_port_def fmt_d_def dec_inj)

lemma fmt_d_nonempty: "fmt_d n \<noteq> ''''"
  by (simp add: fmt_d_def)

lemma matches_public:
  assumes "a \<in> set (approvedPublicIngress y ipv4)"
  shows "matches (allow_port a) pk \<longleftrightarrow> Transport a = pk_Protocol pk \<and> ai_GuestPort a = int (pk_Port pk)"
  using approved_ports [OF assms] Transport_nonempty [of a]
  by (auto simp: matches_def allow_port_def dec_neq_Nil_fmt fmt_d_nonempty)

lemma matches_source:
  "matches (source_rule ip) pk \<longleftrightarrow> ip = Addr_String (pk_Source pk)"
  by (auto simp: matches_def source_rule_def)

lemma matches_ssh: "matches (ssh_rule ip) pk \<Longrightarrow> ip = Addr_String (pk_Source pk)"
  by (auto simp: matches_def ssh_rule_def source_rule_def)

lemma set_peer_rules:
  "r \<in> set (peer_rules p name) \<longleftrightarrow>
     (\<exists>peer \<in> set (Peers p name). \<exists>c. binding_of (po_Bindings p) peer = Some c \<and> r = source_rule (bd_IPv4 c))"
proof -
  have "r \<in> set (case found of Some c \<Rightarrow> [source_rule (bd_IPv4 c)] | None \<Rightarrow> [])
      \<longleftrightarrow> (\<exists>c. found = Some c \<and> r = source_rule (bd_IPv4 c))" for found
    by (cases found) auto
  then show ?thesis unfolding peer_rules_def set_concat set_map UN_iff image_iff Bex_def by metis
qed

lemma admits_isolated:
  "admits (isolated_acl p s y b) pk \<longleftrightarrow>
     (\<exists>peer \<in> set (Peers p (oy_Name y)). \<exists>c. binding_of (po_Bindings p) peer = Some c \<and> bd_IPv4 c = Addr_String (pk_Source pk))
     \<or> public_port y (bd_IPv4 b) pk \<or> matches (ssh_rule (bridge_source s y)) pk"
proof -
  have peers: "(\<exists>r \<in> set (peer_rules p name). ru_Action r = ''allow'' \<and> matches r pk) \<longleftrightarrow>
     (\<exists>peer \<in> set (Peers p name). \<exists>c. binding_of (po_Bindings p) peer = Some c \<and> bd_IPv4 c = Addr_String (pk_Source pk))" for name
  proof -
    have "ru_Action (source_rule ip) = ''allow''" for ip by (simp add: source_rule_def)
    then show ?thesis unfolding Bex_def set_peer_rules using matches_source by metis
  qed
  have public: "(\<exists>r \<in> set (ownedPublicIngressRules y (bd_IPv4 b)). ru_Action r = ''allow'' \<and> matches r pk)
     \<longleftrightarrow> public_port y (bd_IPv4 b) pk"
    by (auto simp: set_public_rules public_port_def matches_public) (auto simp: allow_port_def)
  have ssh: "ru_Action (ssh_rule x) = ''allow''" for x by (simp add: ssh_rule_def source_rule_def)
  show ?thesis
    unfolding admits_def isolated_acl_def using peers [of "oy_Name y"] public ssh by auto
qed

section \<open>Isolation\<close>

lemma encoded_Inr: "encoded p = Inr content \<Longrightarrow> \<exists>q. normalize p = Inr q"
  by (auto simp: encoded_def Encode_def res_bind_Inr split: sum.splits)

lemma reread_Inr: "reread p = Inr q \<Longrightarrow> canonical q"
  by (auto simp: reread_def Decode_def res_bind_Inr dest: normalize_canonical split: sum.splits)

lemma buildPlan_Inr:
  assumes "buildPlan stored s c = Inr plan"
  obtains p0 p q updates before after where "reread (sp_Policy stored) = Inr p0"
    "apply_change c (map oy_Name (sn_Yards s)) p0 = Inr p" "plan_isolation p s = Inr (q, updates)"
    "encoded q = Inr after" "finished_plan stored s c q updates before after = Inr plan"
proof -
  have run: "\<exists>before p0 p q updates after. reread (sp_Policy stored) = Inr p0
      \<and> apply_change c (map oy_Name (sn_Yards s)) p0 = Inr p \<and> plan_isolation p s = Inr (q, updates)
      \<and> encoded q = Inr after \<and> finished_plan stored s c q updates before after = Inr plan"
    using assms unfolding buildPlan_def res_bind_Inr by (auto simp: res_bind_Inr)
  then show thesis using that by blast
qed

lemma finished_plan_Inr:
  assumes "finished_plan stored s c q updates before after = Inr plan"
  shows "\<exists>revision. pl_Policy plan = q\<lparr>po_Revision := revision\<rparr>
      \<and> revision = (if pl_Changed plan then po_Revision q + 1 else po_Revision q) \<and> (pl_Changed plan \<longrightarrow> revision \<noteq> 0)"
    and "pl_Updates plan = updates" "pl_Physical plan \<longleftrightarrow> updates \<noteq> []"
    "pl_Changed plan \<longleftrightarrow> updates \<noteq> [] \<or> before \<noteq> after \<or> pending_work q"
    "pl_Before plan = stored" "pl_Yards plan = map oy_Yard (sn_Yards s)"
  using assms unfolding finished_plan_def Let_def guard_Inr by auto

text \<open>What a plan with isolation guarantees of its policy.\<close>

definition separated :: "Snapshot \<Rightarrow> Policy \<Rightarrow> bool" where
  "separated s q \<longleftrightarrow>
     check_bridge q s '''' (po_Bindings q) = None \<and> binding_keys_ok (po_Bindings q)
     \<and> (\<forall>b \<in> set (po_Bindings q). valid_binding b)
     \<and> (\<forall>l \<in> set (po_Links q). lk_A l \<notin> set (po_Removing q) \<and> lk_B l \<notin> set (po_Removing q))"

lemma buildPlan_isolated:
  assumes "buildPlan stored s c = Inr plan" and "po_Isolation (pl_Policy plan)"
  obtains p q us revision where "binding_keys_ok (po_Bindings p)" "planBindings p s = Inr q" "po_Isolation p"
    "map_res (plan_yard q s) (sn_Yards s) = Inr us" "pl_Updates plan = concat us" "separated s q"
    "pl_Policy plan = q\<lparr>po_Revision := revision\<rparr>" "po_Removing q = po_Removing p"
proof -
  obtain p0 p q updates before content where p: "reread (sp_Policy stored) = Inr p0"
    "apply_change c (map oy_Name (sn_Yards s)) p0 = Inr p" "plan_isolation p s = Inr (q, updates)"
    "encoded q = Inr content" and fin: "finished_plan stored s c q updates before content = Inr plan"
    by (rule buildPlan_Inr [OF assms(1)])
  obtain revision where rev: "pl_Policy plan = q\<lparr>po_Revision := revision\<rparr>" using finished_plan_Inr(1) [OF fin] by blast
  have iso: "po_Isolation q" using assms(2) rev by simp
  obtain us where us: "planBindings p s = Inr q" "check_bridge q s '''' (po_Bindings q) = None"
    "map_res (plan_yard q s) (sn_Yards s) = Inr us" "updates = concat us" "po_Isolation p"
    by (rule plan_isolation_Inr [OF p(3) iso])
  have keys: "binding_keys_ok (po_Bindings p)"
    using reread_Inr [OF p(1)] apply_change_Inr(1) [OF p(2)] by (simp add: canonical_def)
  obtain n where n: "normalize q = Inr n" using encoded_Inr [OF p(4)] by blast
  obtain bs where q: "q = p\<lparr>po_Bindings := sort_key (y_Name \<circ> bd_Yard) bs\<rparr>" using planBindings_Inr(1) [OF us(1)] by blast
  have "separated s q"
    using us(2) normalize_bindings [OF n] apply_change_Inr(3) [OF p(2)] q by (simp add: separated_def)
  then show thesis
    using that [OF keys us(1,5,3) _ _ rev] finished_plan_Inr(2) [OF fin] us(4) q by simp
qed

lemma separated_networks:
  assumes "separated s q" and "b \<in> set (po_Bindings q)" "y_Name (bd_Yard b) \<notin> set (po_Removing q)"
    and "d \<in> set (po_Bindings q)" "y_Name (bd_Yard d) \<notin> set (po_Removing q)"
  shows "y_Network (bd_Yard b) = y_Network (bd_Yard d)"
proof -
  have "\<forall>b \<in> set (po_Bindings q). y_Network (bd_Yard b) \<noteq> ''''"
    using assms(1) by (auto simp: separated_def valid_binding_def SafeName_bytes)
  moreover have "check_bridge q s '''' (po_Bindings q) = None" using assms(1) by (simp add: separated_def)
  ultimately show ?thesis using check_bridge_same assms(2-5) by blast
qed

lemma separated_addresses:
  assumes "separated s q" and "b \<in> set (po_Bindings q)" "y_Name (bd_Yard b) \<notin> set (po_Removing q)"
    and "d \<in> set (po_Bindings q)" "y_Name (bd_Yard d) \<notin> set (po_Removing q)" and "bd_IPv4 b = bd_IPv4 d"
  shows "b = d"
proof -
  have "address_key b = address_key d" using separated_networks [OF assms(1-5)] assms(6) by (simp add: address_key_def)
  moreover have "distinct (map address_key (po_Bindings q))" using assms(1) by (simp add: separated_def binding_keys_ok_def)
  ultimately show ?thesis using assms(2,4) by (auto simp: distinct_map inj_on_def)
qed

lemma Peers_removing:
  assumes "separated s q" and "peer \<in> set (Peers q name)"
  shows "peer \<notin> set (po_Removing q)"
  using assms by (auto simp: separated_def Peers_def split: if_splits)

lemma peers_with_address:
  assumes sep: "separated s q" and d: "binding_of (po_Bindings q) other = Some d" "other \<notin> set (po_Removing q)"
    and neq: "name \<noteq> other"
  shows "(\<exists>peer \<in> set (Peers q name). \<exists>e. binding_of (po_Bindings q) peer = Some e \<and> bd_IPv4 e = bd_IPv4 d)
    \<longleftrightarrow> linked q name other"
proof
  assume "\<exists>peer \<in> set (Peers q name). \<exists>e. binding_of (po_Bindings q) peer = Some e \<and> bd_IPv4 e = bd_IPv4 d"
  then obtain peer e where peer: "peer \<in> set (Peers q name)" "binding_of (po_Bindings q) peer = Some e" "bd_IPv4 e = bd_IPv4 d"
    by blast
  have "e = d"
    using separated_addresses [OF sep _ _ _ _ peer(3)] binding_of_Some [OF peer(2)] binding_of_Some [OF d(1)]
      Peers_removing [OF sep peer(1)] d(2) by blast
  then have "peer = other" using binding_of_Some [OF peer(2)] binding_of_Some [OF d(1)] by simp
  with peer(1) neq Peers_linked show "linked q name other" by blast
next
  assume "linked q name other"
  then show "\<exists>peer \<in> set (Peers q name). \<exists>e. binding_of (po_Bindings q) peer = Some e \<and> bd_IPv4 e = bd_IPv4 d"
    using Peers_linked [OF neq] d(1) by blast
qed

lemma isolated_update:
  assumes us: "map_res (plan_yard q s) (sn_Yards s) = Inr us" "pl_Updates plan = concat us"
    and y: "y \<in> set (sn_Yards s)" "binding_of (po_Bindings q) (oy_Name y) = Some b" "oy_Name y \<notin> set (po_Removing q)"
    and iso: "po_Isolation q"
  shows "ac_Ingress (planned_ACL plan y) = ac_Ingress (isolated_acl q s y b)" and "planned_NIC plan y = isolated_nic y b"
proof -
  have update: "yard_update q s y b = \<lparr>up_Yard = y, up_NIC = isolated_nic y b, up_Access = oy_Network y,
      up_ACL = isolated_acl q s y b, up_RemoveACL = False\<rparr>"
    using y(3) iso by (simp add: yard_update_def)
  note found = planned_update(2) [OF us(1) y(1,2)]
  have profile: "oy_ProfileFound y"
    using planned_update(1) [OF us(1) y(1,2)] y(3) by (auto simp: check_yard_def)
  show "ac_Ingress (planned_ACL plan y) = ac_Ingress (isolated_acl q s y b)"
    using found update by (auto simp: planned_ACL_def us(2) needs_update_def sameACL_def split: if_splits)
  show "planned_NIC plan y = isolated_nic y b"
    using found update profile by (auto simp: planned_NIC_def us(2) needs_update_def split: if_splits)
qed

lemma bridge_is_no_yard:
  assumes "on_bridge s d" and "oy_Network y = y_Network (bd_Yard d)" and "bd_IPv4 d = Addr_String (pk_Source pk)"
  shows "\<not> matches (ssh_rule (bridge_source s y)) pk"
  using assms
  by (auto simp: on_bridge_def usable_def bridge_source_def bridgePrefix_def dest!: matches_ssh split: option.splits if_splits)

text \<open>
  C4: with isolation on, a plan separates the yards: once it is carried out, the ACL of a yard admits a
  packet from the fixed address of another yard exactly if the two yards are linked or the packet goes
  to a port that the yard publishes by an owned route; the yard's device drops everything else and
  filters its own address, whatever links, bindings and observations the plan started from.
\<close>

theorem isolated_yards_meet_only_over_links:
  assumes plan: "buildPlan stored s c = Inr plan" and p: "p = pl_Policy plan" and iso: "po_Isolation p"
    and y: "y \<in> set (sn_Yards s)" "b \<in> set (po_Bindings p)" "bd_Yard b = oy_Yard y" "oy_Name y \<notin> set (po_Removing p)"
    and z: "z \<in> set (sn_Yards s)" "d \<in> set (po_Bindings p)" "bd_Yard d = oy_Yard z" "oy_Name z \<notin> set (po_Removing p)"
    and neq: "oy_Name y \<noteq> oy_Name z" and pk: "bd_IPv4 d = Addr_String (pk_Source pk)"
  shows "(admits (planned_ACL plan y) pk \<longleftrightarrow> linked p (oy_Name y) (oy_Name z) \<or> public_port y (bd_IPv4 b) pk)
    \<and> mget (planned_NIC plan y) ''security.acls'' = ACLName (oy_Yard y)
    \<and> mget (planned_NIC plan y) ''security.acls.default.ingress.action'' = ''drop''
    \<and> mget (planned_NIC plan y) ''ipv4.address'' = bd_IPv4 b
    \<and> mget (planned_NIC plan y) ''security.ipv4_filtering'' = ''true''"
proof -
  obtain p0 q us revision where keys0: "binding_keys_ok (po_Bindings p0)" and bindings: "planBindings p0 s = Inr q"
    and iso0: "po_Isolation p0" and us: "map_res (plan_yard q s) (sn_Yards s) = Inr us" "pl_Updates plan = concat us"
    and sep: "separated s q" and q: "pl_Policy plan = q\<lparr>po_Revision := revision\<rparr>" and removing: "po_Removing q = po_Removing p0"
    by (rule buildPlan_isolated [OF plan iso [unfolded p]])
  have q_eq: "po_Bindings p = po_Bindings q" "po_Removing p = po_Removing q" "po_Links p = po_Links q" "po_Isolation q"
    using q p iso by simp_all
  have b: "b \<in> set (po_Bindings q)" "oy_Name y \<notin> set (po_Removing q)"
    and d: "d \<in> set (po_Bindings q)" "oy_Name z \<notin> set (po_Removing q)" using y z q_eq by simp_all
  have "distinct (map (y_Name \<circ> bd_Yard) (po_Bindings q))" using sep by (simp add: separated_def binding_keys_ok_def)
  then have by_name: "binding_of (po_Bindings q) (oy_Name y) = Some b" "binding_of (po_Bindings q) (oy_Name z) = Some d"
    using binding_of_unique b(1) d(1) y(3) z(3) by auto
  note planned = isolated_update [OF us y(1) by_name(1) b(2) q_eq(4)]
  have "on_bridge s d" using observed_on_bridge [OF bindings keys0 iso0 z(1) _ d(1) z(3)] d(2) removing by simp
  moreover have "oy_Network y = y_Network (bd_Yard d)" using separated_networks [OF sep b(1) _ d(1)] b(2) d(2) y(3) z(3) by simp
  ultimately have ssh: "\<not> matches (ssh_rule (bridge_source s y)) pk" using pk by (rule bridge_is_no_yard)
  have "admits (planned_ACL plan y) pk \<longleftrightarrow> admits (isolated_acl q s y b) pk" using planned(1) by (simp add: admits_def)
  also have "\<dots> \<longleftrightarrow> linked p (oy_Name y) (oy_Name z) \<or> public_port y (bd_IPv4 b) pk"
    using peers_with_address [OF sep by_name(2) d(2) neq] ssh
    unfolding admits_isolated pk [symmetric] by (simp add: linked_def q_eq)
  finally have acl: "admits (planned_ACL plan y) pk \<longleftrightarrow> linked p (oy_Name y) (oy_Name z) \<or> public_port y (bd_IPv4 b) pk" .
  have "mget (isolated_nic y b) ''security.acls'' = ACLName (oy_Yard y)"
    "mget (isolated_nic y b) ''security.acls.default.ingress.action'' = ''drop''"
    "mget (isolated_nic y b) ''ipv4.address'' = bd_IPv4 b" "mget (isolated_nic y b) ''security.ipv4_filtering'' = ''true''"
    by (simp_all add: isolated_nic_def)
  with acl show ?thesis unfolding planned(2) by blast
qed

section \<open>An example: three yards, two of them linked\<close>

definition demo_snapshot :: Snapshot where
  "demo_snapshot =
     \<lparr>sn_Firewall = ''nftables'', sn_Clustered = False, sn_Yards = map demo_observed [''alpha'', ''beta'', ''gamma''],
      sn_Networks = fmap_of_list [(''yardbr0'', \<lparr>nw_Name = ''yardbr0'', nw_Type = ''bridge'', nw_Managed = True,
        nw_Config = fmap_of_list [(''ipv4.address'', ''10.0.0.1/24'')]\<rparr>)],
      sn_ReservationClaims = fmempty\<rparr>"

definition demo_binding :: "string \<Rightarrow> char \<Rightarrow> Binding" where
  "demo_binding name c =
     \<lparr>bd_Yard = demo_yard name, bd_IPv4 = ''10.0.0.'' @ [c], bd_MAC = ''02:00:00:00:00:0'' @ [c], bd_OriginalNIC = demo_nic,
      bd_OriginalAccess = '''', bd_ApprovedIngress = []\<rparr>"

definition demo_stored :: StoredPolicy where
  "demo_stored =
     \<lparr>sp_Policy = \<lparr>po_Schema = SchemaVersion, po_Isolation = True, po_Links = [\<lparr>lk_A = ''alpha'', lk_B = ''beta''\<rparr>],
        po_Revision = 1, po_AppliedRevision = 0,
        po_Bindings = [demo_binding ''alpha'' CHR ''2'', demo_binding ''beta'' CHR ''3'', demo_binding ''gamma'' CHR ''4''],
        po_AppliedIsolation = False, po_PendingStart = [], po_Removing = []\<rparr>,
      sp_Content = '''', sp_ETag = ''''\<rparr>"

abbreviation demo_pol :: Policy where
  "demo_pol \<equiv> sp_Policy demo_stored"

lemma demo_dec: "dec 10 = ''10''" "dec 0 = ''0''" "dec (Suc 0) = ''1''" "dec 2 = ''2''" "dec 3 = ''3''" "dec 4 = ''4''"
  by code_simp+

lemma demo_addrs: "ParseAddr ''10.0.0.1'' = Some 167772161" "ParseAddr ''10.0.0.2'' = Some 167772162"
  "ParseAddr ''10.0.0.3'' = Some 167772163" "ParseAddr ''10.0.0.4'' = Some 167772164"
  unfolding ParseAddr_iff by (simp_all add: Addr_String_def As4_def demo_dec)

lemma demo_prefix: "ParsePrefix ''10.0.0.1/24'' = Some \<lparr>px_Addr = 167772161, px_Bits = 24\<rparr>"
proof -
  have "cut_last ''10.0.0.1/24'' slash = Some (''10.0.0.1'', ''24'')" "Atoi ''24'' = Some 24" "49 \<le> byte CHR ''2'' \<and> byte CHR ''2'' \<le> 57" by code_simp+
  then show ?thesis by (simp add: ParsePrefix_def demo_addrs)
qed

lemma demo_mac: "unicast_mac ''02:00:00:00:00:02''" "unicast_mac ''02:00:00:00:00:03''" "unicast_mac ''02:00:00:00:00:04''"
  by code_simp+

lemma demo_mac_keys: "distinct (map mac_key (po_Bindings demo_pol))" by code_simp

lemma demo_keys: "distinct (map (y_Name \<circ> bd_Yard) (po_Bindings demo_pol))" "distinct (map identity_key (po_Bindings demo_pol))"
   "distinct (map address_key (po_Bindings demo_pol))"
 by code_simp+

lemma demo_sorted: "sorted (map (y_Name \<circ> bd_Yard) (po_Bindings demo_pol))" "sorted (map link_key (po_Links demo_pol))" 
  "list_all link_ok (po_Links demo_pol)" by code_simp+

lemma demo_names: "list_all (\<lambda>b. SafeName (y_Name (bd_Yard b)) \<and> SafeName (y_Project (bd_Yard b)) \<and> SafeName (y_Instance (bd_Yard b))
     \<and> SafeName (y_Network (bd_Yard b)) \<and> mget (bd_OriginalNIC b) ''type'' = ''nic'' \<and> mget (bd_OriginalNIC b) ''network'' = y_Network (bd_Yard b)) (po_Bindings demo_pol)" by code_simp

lemma demo_binding_ok: "list_all binding_ok (po_Bindings demo_pol)"
  using demo_names demo_mac by (simp add: binding_ok_def valid_binding_def demo_stored_def demo_binding_def demo_addrs demo_yard_def)

lemma demo_canonical: "canonical demo_pol"
  unfolding canonical_def binding_keys_ok_def
  using demo_keys demo_mac_keys demo_sorted demo_binding_ok by (simp add: demo_stored_def pending_names_ok_def)

lemma demo_nic_entries: "map_entries demo_nic = [(''network'', ''yardbr0''), (''type'', ''nic'')]" by code_simp

lemma demo_nic_lookup: "fmlookup demo_nic k = (if k = ''type'' then Some ''nic'' else if k = ''network'' then Some ''yardbr0'' else None)"
  by (simp add: demo_nic_def fmlookup_of_list)

lemma demo_ascii: "is_ascii ''type''" "is_ascii ''nic''" "is_ascii ''network''" "is_ascii ''yardbr0''" "is_ascii ''''"
  by code_simp+

lemma demo_settings: "valid_settings demo_pol" 
  by (auto simp: valid_settings_def demo_stored_def demo_binding_def fmpred_iff demo_nic_lookup demo_ascii [THEN ValidString_ascii] split: if_splits)

lemma demo_order: "''network'' \<le> ''type''" by code_simp

lemma demo_size: "length (json_render (policy_json demo_pol)) \<le> 1500"
  by (simp add: policy_json_def demo_stored_def demo_binding_def demo_yard_def binding_json_def yard_json_def strings_json_def
    demo_nic_entries omit_empty_def json_object_def json_array_def demo_order fmt_d_def demo_dec SchemaVersion_def
    json_string_plain json_plain_def byte_def)

lemma demo_bridge: "bridgePrefix (network_of demo_snapshot ''yardbr0'') = Some \<lparr>px_Addr = 167772161, px_Bits = 24\<rparr>"
  by (simp add: bridgePrefix_def network_of_def demo_snapshot_def demo_prefix mget_def)

lemma demo_usable: "usable \<lparr>px_Addr = 167772161, px_Bits = 24\<rparr> a" if "a \<in> {167772162, 167772163, 167772164}"
  using that by (auto simp: usable_def Contains_def Masked_Addr_def Addr_Next_def)

lemma approve_first_id:
  "\<forall>b \<in> set bs. bd_ApprovedIngress b = approvedPublicIngress y ipv4 \<Longrightarrow> approve_first y ipv4 bs = bs"
  by (auto simp: approve_first_def split: option.split dest!: extract_SomeE)

lemma demo_ingress: "approvedPublicIngress (demo_observed name) ip = []"
  by (simp add: approvedPublicIngress_def demo_observed_def Let_def)

lemma demo_find: "binding_of (po_Bindings demo_pol) ''alpha'' = Some (demo_binding ''alpha'' CHR ''2'')"
  "binding_of (po_Bindings demo_pol) ''beta'' = Some (demo_binding ''beta'' CHR ''3'')"
  "binding_of (po_Bindings demo_pol) ''gamma'' = Some (demo_binding ''gamma'' CHR ''4'')"
  by (simp_all add: binding_of_def find_first_def demo_stored_def demo_binding_def demo_yard_def)

lemma demo_kept:
  assumes "binding_of (po_Bindings demo_pol) name = Some (demo_binding name c)" and "c \<in> {CHR ''2'', CHR ''3'', CHR ''4''}"
  shows "plan_binding demo_pol demo_snapshot (demo_observed name) (po_Bindings demo_pol, taken) = Inr (po_Bindings demo_pol, taken)"
proof -
  have same: "approve_first (demo_observed name) ip (po_Bindings demo_pol) = po_Bindings demo_pol" for ip
    by (rule approve_first_id) (simp add: demo_ingress demo_stored_def demo_binding_def)
  have addr: "\<exists>a. ParseAddr (bd_IPv4 (demo_binding name c)) = Some a \<and> usable \<lparr>px_Addr = 167772161, px_Bits = 24\<rparr> a"
    using assms(2) demo_usable by (auto simp: demo_binding_def demo_addrs)
  have fields: "bd_Yard (demo_binding name c) = oy_Yard (demo_observed name)" "oy_Name (demo_observed name) = name"
    "oy_Network (demo_observed name) = ''yardbr0''" "mget (oy_ProjectConfig (demo_observed name)) ''features.networks'' \<noteq> ''true''"
    by (simp_all add: demo_binding_def demo_observed_def demo_yard_def mget_def)
  then have "kept_binding demo_pol demo_snapshot (demo_observed name) (demo_binding name c) = None"
    using addr by (auto simp: kept_binding_def Let_def demo_bridge)
  then show ?thesis using fields assms(1) same by (simp add: plan_binding_def)
qed

lemma demo_bindings: "planBindings demo_pol demo_snapshot = Inr demo_pol"
proof -
  have yards: "sn_Yards demo_snapshot = [demo_observed ''alpha'', demo_observed ''beta'', demo_observed ''gamma'']"
    by (simp add: demo_snapshot_def)
  have "sort_key (y_Name \<circ> bd_Yard) (po_Bindings demo_pol) = po_Bindings demo_pol" using demo_sorted(1) by (rule sort_key_id_if_sorted)
  then show ?thesis
    unfolding planBindings_def yards
    by (simp add: demo_kept [OF demo_find(1)] demo_kept [OF demo_find(2)] demo_kept [OF demo_find(3)] res_bind_def)
qed

lemma demo_check: "check_bridge demo_pol demo_snapshot '''' (po_Bindings demo_pol) = None"
  by (simp add: demo_stored_def demo_binding_def demo_yard_def claims_of_def demo_snapshot_def)

lemma demo_valid: "validateYard (demo_observed name) demo_nic = None"
  by (auto simp: validateYard_def Let_def demo_observed_def demo_yard_def mget_def dget_def demo_nic_lookup map_any_iff
      validateACLOwner_def and_then_def split: if_splits)

lemma demo_plan_yard:
  assumes "binding_of (po_Bindings demo_pol) name = Some (demo_binding name c)"
  shows "\<exists>us. plan_yard demo_pol demo_snapshot (demo_observed name) = Inr us"
proof -
  have "check_yard demo_pol (demo_observed name) (demo_binding name c) = None"
    using demo_valid [of name]
    by (simp add: check_yard_def Let_def validateACLOwner_def and_then_def demo_binding_def) (simp add: demo_observed_def demo_stored_def)
  moreover have "oy_Name (demo_observed name) = name" by (simp add: demo_observed_def demo_yard_def)
  ultimately show ?thesis using assms by (simp add: plan_yard_def Let_def)
qed

lemma demo_buildPlan:
  "\<exists>plan. buildPlan demo_stored demo_snapshot no_change = Inr plan \<and> pl_Policy plan = demo_pol\<lparr>po_Revision := 2\<rparr>"
proof -
  have enc: "\<exists>content. encoded demo_pol = Inr content"
    using canonical_normalize [OF demo_canonical] demo_size by (simp add: encoded_def Encode_def Let_def MaxPolicySize_def)
  have reread: "reread demo_pol = Inr demo_pol"
    using canonical_normalize [OF demo_canonical] json_policy_canonical [OF demo_canonical demo_settings]
    by (simp add: reread_def Decode_def)
  have change: "apply_change no_change ns demo_pol = Inr demo_pol" for ns
    by (simp add: apply_change_def no_change_def demo_stored_def)
  have yards: "sn_Yards demo_snapshot = map demo_observed [''alpha'', ''beta'', ''gamma'']" by (simp add: demo_snapshot_def)
  obtain us where us: "map_res (plan_yard demo_pol demo_snapshot) (sn_Yards demo_snapshot) = Inr us"
    using demo_plan_yard [OF demo_find(1)] demo_plan_yard [OF demo_find(2)] demo_plan_yard [OF demo_find(3)]
    unfolding yards by (auto simp: res_bind_def)
  have host: "\<not> sn_Clustered demo_snapshot" "sn_Firewall demo_snapshot = ''nftables''" "po_Isolation demo_pol" "po_Revision demo_pol = 1"
    "pending_work demo_pol"
    by (simp_all add: demo_snapshot_def demo_stored_def pending_work_def)
  have "plan_isolation demo_pol demo_snapshot = Inr (demo_pol, concat us)"
    using us demo_bindings demo_check host by (simp add: plan_isolation_def)
  then show ?thesis using enc reread change host
    by (auto simp: buildPlan_def finished_plan_def Let_def)
qed

definition demo_packet :: "addr \<Rightarrow> packet" where
  "demo_packet a = \<lparr>pk_Source = a, pk_Protocol = ''tcp'', pk_Port = 80\<rparr>"

theorem isolated_yards_meet_only_over_links_witness:
  "\<exists>plan. buildPlan demo_stored demo_snapshot no_change = Inr plan
    \<and> admits (planned_ACL plan (demo_observed ''alpha'')) (demo_packet 167772163)
    \<and> \<not> admits (planned_ACL plan (demo_observed ''alpha'')) (demo_packet 167772164)"
proof -
  obtain plan where plan: "buildPlan demo_stored demo_snapshot no_change = Inr plan"
    and p: "pl_Policy plan = demo_pol\<lparr>po_Revision := 2\<rparr>"
    using demo_buildPlan by blast
  have iso: "po_Isolation (pl_Policy plan)" and none: "po_Removing (pl_Policy plan) = []" and
    bs: "po_Bindings (pl_Policy plan) = [demo_binding ''alpha'' CHR ''2'', demo_binding ''beta'' CHR ''3'', demo_binding ''gamma'' CHR ''4'']"
    and ls: "po_Links (pl_Policy plan) = [\<lparr>lk_A = ''alpha'', lk_B = ''beta''\<rparr>]"
    unfolding p by (simp_all add: demo_stored_def)
  have ys: "demo_observed ''alpha'' \<in> set (sn_Yards demo_snapshot)" "demo_observed ''beta'' \<in> set (sn_Yards demo_snapshot)"
    "demo_observed ''gamma'' \<in> set (sn_Yards demo_snapshot)"
    by (simp_all add: demo_snapshot_def)
  have yard: "bd_Yard (demo_binding name c) = oy_Yard (demo_observed name)" "oy_Name (demo_observed name) = name" for name c
    by (simp_all add: demo_binding_def demo_observed_def demo_yard_def)
  have addr: "bd_IPv4 (demo_binding ''beta'' CHR ''3'') = Addr_String (pk_Source (demo_packet 167772163))"
    "bd_IPv4 (demo_binding ''gamma'' CHR ''4'') = Addr_String (pk_Source (demo_packet 167772164))"
    using demo_addrs unfolding ParseAddr_iff by (simp_all add: demo_binding_def demo_packet_def)
  note apply_to = isolated_yards_meet_only_over_links [OF plan refl iso ys(1) _ yard(1) _ _ _ yard(1)]
  have "admits (planned_ACL plan (demo_observed ''alpha'')) (demo_packet 167772163) \<longleftrightarrow>
      linked (pl_Policy plan) ''alpha'' ''beta''"
    using apply_to [OF _ _ ys(2) _ _ _ addr(1), of "CHR ''2''"] none bs demo_ingress by (simp add: yard public_port_def)
  moreover have "admits (planned_ACL plan (demo_observed ''alpha'')) (demo_packet 167772164) \<longleftrightarrow>
      linked (pl_Policy plan) ''alpha'' ''gamma''"
    using apply_to [OF _ _ ys(3) _ _ _ addr(2), of "CHR ''2''"] none bs demo_ingress by (simp add: yard public_port_def)
  ultimately show ?thesis using plan ls by (auto simp: linked_def doubleton_eq_iff)
qed

end
