(* ===== verification/Network_Safety.thy ===== *)
theory Network_Safety
  imports Network_Trace Network_Isolation
begin

text \<open>
  What applying a network policy promises whatever the host answers: the order of its steps, what a
  failure leaves behind, that unfinished work stops every managed start, and what a removal forgets.
\<close>

section \<open>The order of an apply\<close>

definition live_change :: "Plan \<Rightarrow> bool" where
  "live_change plan \<longleftrightarrow> pl_Physical plan \<and> list_ex (\<lambda>u. oy_InstanceFound (up_Yard u)) (pl_Updates plan)"

definition must_stop :: "Update \<Rightarrow> bool" where
  "must_stop u \<longleftrightarrow> oy_InstanceFound (up_Yard u) \<and> \<not> is_stopped (up_Yard u)"

definition stopped_in :: "net_event set \<Rightarrow> Plan \<Rightarrow> bool" where
  "stopped_in S plan \<longleftrightarrow>
     list_all (\<lambda>u. Powered (oy_Yard (up_Yard u)) ''stop'' True \<in> S) (filter must_stop (pl_Updates plan))"

text \<open>What must have happened before each event of the application of \<open>plan\<close>.\<close>

fun step_allowed :: "Plan \<Rightarrow> net_event set \<Rightarrow> net_event \<Rightarrow> bool" where
  "step_allowed plan S (Guarded _) \<longleftrightarrow> True"
| "step_allowed plan S (PolicyWrite p _) \<longleftrightarrow>
     p = intent plan \<and> (live_change plan \<longrightarrow> Guarded True \<in> S) \<or> PolicyWrite (intent plan) True \<in> S"
| "step_allowed plan S (Powered _ act _) \<longleftrightarrow>
     PolicyWrite (intent plan) True \<in> S
     \<and> (act \<noteq> ''stop'' \<longrightarrow> PolicyWrite (applied (intent plan)) True \<in> S \<and> Guarded True \<in> S)"
| "step_allowed plan S (NICWrite _ _) \<longleftrightarrow> PolicyWrite (intent plan) True \<in> S \<and> stopped_in S plan"
| "step_allowed plan S (ProjectWrite _ _) \<longleftrightarrow> PolicyWrite (intent plan) True \<in> S \<and> stopped_in S plan"
| "step_allowed plan S (ACLWrite _) \<longleftrightarrow> PolicyWrite (intent plan) True \<in> S \<and> stopped_in S plan"
| "step_allowed plan S (ACLDelete _) \<longleftrightarrow> PolicyWrite (intent plan) True \<in> S \<and> stopped_in S plan"

lemma stopped_in_mono: "stopped_in S plan \<Longrightarrow> S \<subseteq> T \<Longrightarrow> stopped_in T plan"
  by (auto simp: stopped_in_def list_all_iff)

lemma step_allowed_grows: "grows (step_allowed plan)"
  unfolding grows_def
proof (intro allI impI)
  fix S T e assume "S \<subseteq> T" "step_allowed plan S e"
  then show "step_allowed plan T e" using stopped_in_mono by (cases e) (auto split: if_splits)
qed

abbreviation ordered_spec :: "Plan \<Rightarrow> net_event set \<Rightarrow> ('s traced, 'e, 'a) io \<Rightarrow> ('a \<Rightarrow> net_event set) \<Rightarrow> bool" where
  "ordered_spec plan \<equiv> spec (step_allowed plan)"

lemma ordered_guard: "ordered_spec plan X (run_guard (traced_service sv)) (\<lambda>_. {Guarded True})"
  by (rule spec_run_guard [OF step_allowed_grows]) simp

lemma ordered_seen:
  "(\<And>ok. step_allowed plan X (ev ok)) \<Longrightarrow> ordered_spec plan X (seen ev m) (\<lambda>_. {ev True})"
  by (rule spec_seen [OF step_allowed_grows])

text \<open>The operations of the host, each under what it needs.\<close>

lemma ordered_NIC:
  "PolicyWrite (intent plan) True \<in> X \<Longrightarrow> stopped_in X plan
    \<Longrightarrow> ordered_spec plan X (ho_WriteProfileNIC (sv_Host (traced_service sv)) y nic) (\<lambda>_. {})"
  unfolding traced_defs by (simp, rule spec_none, rule ordered_seen) simp

lemma ordered_Project:
  "PolicyWrite (intent plan) True \<in> X \<Longrightarrow> stopped_in X plan
    \<Longrightarrow> ordered_spec plan X (ho_WriteProjectNetworks (sv_Host (traced_service sv)) y access) (\<lambda>_. {})"
  unfolding traced_defs by (simp, rule spec_none, rule ordered_seen) simp

lemma ordered_ACL:
  "PolicyWrite (intent plan) True \<in> X \<Longrightarrow> stopped_in X plan
    \<Longrightarrow> ordered_spec plan X (ho_WriteNetworkACL (sv_Host (traced_service sv)) acl) (\<lambda>_. {})"
  unfolding traced_defs by (simp, rule spec_none, rule ordered_seen) simp

lemma ordered_ACLDelete:
  "PolicyWrite (intent plan) True \<in> X \<Longrightarrow> stopped_in X plan
    \<Longrightarrow> ordered_spec plan X (ho_DeleteNetworkACL (sv_Host (traced_service sv)) acl) (\<lambda>_. {})"
  unfolding traced_defs by (simp, rule spec_none, rule ordered_seen) simp

lemma ordered_Policy:
  "(p = intent plan \<and> (live_change plan \<longrightarrow> Guarded True \<in> X)) \<or> PolicyWrite (intent plan) True \<in> X
    \<Longrightarrow> ordered_spec plan X (ho_WritePolicy (sv_Host (traced_service sv)) stored p) (\<lambda>_. {PolicyWrite p True})"
  unfolding traced_defs by (simp, rule ordered_seen) auto

lemma ordered_Power:
  "PolicyWrite (intent plan) True \<in> X
    \<Longrightarrow> act = ''stop'' \<or> PolicyWrite (applied (intent plan)) True \<in> X \<and> Guarded True \<in> X
    \<Longrightarrow> ordered_spec plan X (ho_NetworkPower (sv_Host (traced_service sv)) y act) (\<lambda>_. {Powered y act True})"
  unfolding traced_defs by (simp, rule ordered_seen) auto

text \<open>The loops of \<^const>\<open>apply_updates\<close>.\<close>

lemma ordered_stop_yard:
  assumes "PolicyWrite (intent plan) True \<in> X"
  shows "ordered_spec plan X (stop_yard (traced_service sv) u)
    (\<lambda>_. if must_stop u then {Powered (oy_Yard (up_Yard u)) ''stop'' True} else {})"
proof -
  let ?y = "oy_Yard (up_Yard u)" and ?sv = "traced_service sv"
  let ?E = "{Powered ?y ''stop'' True}"
  have rest: "ordered_spec plan (X \<union> ?E) (io_bind (observe ?sv ?y)
      (\<lambda>o'. require (if is_stopped o' then None else Some StopNotObserved))) (\<lambda>_. ?E)"
    by (rule spec_weaken [where Y = "\<lambda>_. {}"]) (intro spec_bind [OF spec_observe] spec_require, simp)
  show ?thesis
    unfolding stop_yard_def Let_def must_stop_def
    by (intro spec_when spec_bind [OF spec_error [OF ordered_Power]] rest) (simp_all add: assms)
qed

lemma ordered_detach_acl:
  assumes "PolicyWrite (intent plan) True \<in> X" and "stopped_in X plan"
  shows "ordered_spec plan X (detach_acl (traced_service sv) u) (\<lambda>_. {})"
  unfolding detach_acl_def Let_def
  by (intro spec_bind [OF spec_observe] spec_when_none spec_error ordered_NIC) (use assms in simp_all)

lemma ordered_write_yard:
  assumes "PolicyWrite (intent plan) True \<in> X" and "stopped_in X plan"
  shows "ordered_spec plan X (write_yard (traced_service sv) u) (\<lambda>_. {})"
  unfolding write_yard_def Let_def
  by (intro spec_bind [OF spec_observe] spec_bind [OF spec_when_none [OF spec_error]]
      spec_when_none [OF spec_error] ordered_NIC ordered_ACL ordered_ACLDelete ordered_Project)
    (use assms in simp_all)

lemma stopped_in_Union:
  "stopped_in (X \<union> (\<Union>u \<in> set (pl_Updates plan).
     if must_stop u then {Powered (oy_Yard (up_Yard u)) ''stop'' True} else {})) plan"
  by (auto simp: stopped_in_def list_all_iff)

lemma ordered_apply_updates:
  assumes "PolicyWrite (intent plan) True \<in> X"
  shows "ordered_spec plan X (apply_updates (traced_service sv) plan) (\<lambda>_. {})"
proof -
  let ?stops = "\<Union>u \<in> set (pl_Updates plan). if must_stop u then {Powered (oy_Yard (up_Yard u)) ''stop'' True} else {}"
  have stop: "ordered_spec plan X (io_iter (stop_yard (traced_service sv)) (pl_Updates plan)) (\<lambda>_. ?stops)"
    by (rule spec_iter) (rule ordered_stop_yard [OF assms])
  have written: "PolicyWrite (intent plan) True \<in> X \<union> ?stops" using assms by simp
  have detach: "ordered_spec plan (X \<union> ?stops) (io_iter (detach_acl (traced_service sv)) (pl_Updates plan)) (\<lambda>_. {})"
    by (rule spec_none [OF spec_iter]) (rule ordered_detach_acl [OF written stopped_in_Union])
  have change: "ordered_spec plan (X \<union> ?stops \<union> {}) (io_iter (write_yard (traced_service sv)) (pl_Updates plan)) (\<lambda>_. {})"
    unfolding Un_empty_right
    by (rule spec_none [OF spec_iter]) (rule ordered_write_yard [OF written stopped_in_Union])
  show ?thesis
    unfolding apply_updates_def by (rule spec_when_none) (intro spec_bind [OF stop] spec_bind [OF detach] change)
qed
text \<open>Restarts: a guard that fails afterwards stops the yard again.\<close>

lemma spec_recover:
  assumes m: "spec P X m Y" and n: "spec P X n Z"
  shows "spec P X (\<lambda>s. case m s of (t, Inr _) \<Rightarrow> (t, Inr ()) | (t, Inl e) \<Rightarrow> (fst (n t), Inl e)) (\<lambda>_. {})"
  unfolding spec_def
proof (intro allI impI)
  fix s l t k r
  assume run: "(case m (s, l) of (t, Inr _) \<Rightarrow> (t, Inr ()) | (t, Inl e) \<Rightarrow> (fst (n t), Inl e)) = ((t, k), r)"
    and X: "X \<subseteq> set l" and l: "follows P {} l"
  obtain t' k' r' where m': "m (s, l) = ((t', k'), r')" by (metis surj_pair)
  obtain u j q where n': "n (t', k') = ((u, j), q)" by (metis surj_pair)
  note first = specD [OF m m' X l]
  note second = specD [OF n n' order_trans [OF X first(2)] first(1)]
  show "follows P {} k \<and> set l \<subseteq> set k \<and> (\<forall>a. r = Inr a \<longrightarrow> {} \<subseteq> set k)"
    using run m' n' first(1,2) second(1,2) by (cases r') auto
qed

lemma ordered_restart_yard:
  assumes X: "PolicyWrite (intent plan) True \<in> X" "PolicyWrite (applied (intent plan)) True \<in> X"
  shows "ordered_spec plan X (restart_yard (traced_service sv) yards name) (\<lambda>_. {})"
proof -
  let ?sv = "traced_service sv"
  have go: "ordered_spec plan X
      (io_bind (run_guard ?sv) (\<lambda>_. io_bind (observe ?sv target) (\<lambda>observed.
        io_bind (io_when (\<not> is_running observed)
          (io_error (RestartFailed name) (ho_NetworkPower (sv_Host ?sv) target ''start''))) (\<lambda>_.
        io_bind (observe ?sv target) (\<lambda>verified.
        io_bind (require (if is_running verified then None else Some RestartNotObserved)) (\<lambda>_ s.
        case run_guard ?sv s of (t, Inr _) \<Rightarrow> (t, Inr ())
        | (t, Inl e) \<Rightarrow> (fst (ho_NetworkPower (sv_Host ?sv) target ''stop'' t), Inl e)))))))
      (\<lambda>_. {})" for target
    by (intro spec_bind [OF ordered_guard] spec_bind [OF spec_observe] spec_bind [OF spec_require]
        spec_bind [OF spec_when_none [OF spec_error [OF spec_none [OF ordered_Power]]]]
        spec_recover [OF ordered_guard spec_none [OF ordered_Power]]) (use X in simp_all)
  show ?thesis
    unfolding restart_yard_def
    by (cases "if name = '''' then None else find_first (\<lambda>y. y_Name y = name) yards")
      (simp_all only: option.case spec_fail go)
qed

lemma ordered_restart_pending:
  assumes X: "PolicyWrite (intent plan) True \<in> X" "PolicyWrite (applied (intent plan)) True \<in> X"
  shows "ordered_spec plan X (restart_pending (traced_service sv) yards stored p names) (\<lambda>_. {})"
  using X
proof (induction names arbitrary: stored p X)
  case Nil show ?case unfolding restart_pending.simps by (rule spec_done)
next
  case (Cons name names)
  show ?case
    unfolding restart_pending.simps
    by (intro spec_bind [OF ordered_restart_yard] spec_bind [OF spec_error [OF ordered_Policy]] Cons.IH)
      (use Cons.prems in simp_all)
qed

lemma ordered_applyLocked: "ordered_spec plan {} (applyLocked (traced_service sv) plan) (\<lambda>_. {})"
proof -
  let ?live = "if live_change plan then {Guarded True} else {}"
  have guard: "ordered_spec plan {} (guard_live (traced_service sv) plan) (\<lambda>_. ?live)"
    unfolding guard_live_def live_change_def by (rule spec_when [OF ordered_guard])
  show ?thesis
    unfolding applyLocked_def Let_def
    by (intro spec_bind [OF guard] spec_bind [OF spec_error [OF ordered_Policy]] spec_bind [OF ordered_apply_updates]
        spec_bind [OF spec_Prepare] spec_bind [OF spec_require] ordered_restart_pending) simp_all
qed

lemma traced_fields [simp]:
  "sv_Lock (traced_service sv) =
     map_option (\<lambda>k. \<lparr>lo_Acquire = unseen (lo_Acquire k), lo_Release = (\<lambda>(s, l). (lo_Release k s, l))\<rparr>) (sv_Lock sv)"
  "sv_UseApprovedIngress (traced_service sv) = sv_UseApprovedIngress sv"
  by (simp_all add: traced_service_def)

lemma follows_never: "follows (\<lambda>_ _. False) S l \<longleftrightarrow> l = []"
  by (cases l) auto

lemma Prepare_unseen:
  assumes "Prepare (traced_service sv) ys c (s, []) = ((t, k), r)" shows "k = []"
proof -
  have "follows (\<lambda>_ _. False) {} k"
    by (rule specD(1) [OF spec_Prepare [where X = "{}"] assms]) simp_all
  then show ?thesis by (simp add: follows_never)
qed

text \<open>\<^const>\<open>Apply\<close> either fails before any change, or applies a plan it has checked.\<close>

lemma Apply_cases:
  assumes run: "Apply (traced_service sv) approved (s, []) = ((t, log), r)"
  obtains (untouched) "log = []"
  | (locked) current u v where "CheckApproved approved current = None" "pl_Changed current"
      "Prepare (traced_service sv) (pl_Yards approved) (pl_Change approved) (u, []) = ((v, []), Inr current)"
      "snd (fst (applyLocked (traced_service sv) current (v, []))) = log"
      "snd (applyLocked (traced_service sv) current (v, [])) = r"
proof (cases "sv_Lock sv")
  case None
  then have "log = []" using run by (auto simp: Apply_def with_lock_def split: if_splits)
  then show thesis by (rule untouched)
next
  case (Some k)
  let ?prepare = "Prepare (traced_service sv) (pl_Yards approved) (pl_Change approved)"
  obtain u a where acq: "lo_Acquire k s = (u, a)" by (metis surj_pair)
  obtain v l q where prep: "?prepare (u, []) = ((v, l), q)" by (metis surj_pair)
  then have l: "l = []" by (rule Prepare_unseen)
  note defs = Apply_def with_lock_def unseen_def io_bind_def io_error_def io_when_def
  consider "log = []" | current where "q = Inr current" "CheckApproved approved current = None" "pl_Changed current"
      "snd (fst (applyLocked (traced_service sv) current (v, []))) = log"
      "snd (applyLocked (traced_service sv) current (v, [])) = r"
    using run acq prep Some unfolding l
    by (cases a; cases q) (auto simp: defs split: if_splits option.splits prod.splits)
  then show thesis
  proof cases
    case 1 then show thesis by (rule untouched)
  next
    case 2 then show thesis using locked prep l by simp
  qed
qed


section \<open>What a failed apply leaves behind\<close>

fun saved_by :: "net_event \<Rightarrow> Policy list" where
  "saved_by (PolicyWrite p ok) = (if ok then [p] else [])"
| "saved_by _ = []"

text \<open>The policy of the last write that the host confirmed.\<close>

definition last_saved :: "net_event list \<Rightarrow> Policy option" where
  "last_saved l = (let ps = concat (map saved_by l) in if ps = [] then None else Some (last ps))"

lemma last_saved_Nil [simp]: "last_saved [] = None"
  by (simp add: last_saved_def)

lemma last_saved_snoc:
  "last_saved (l @ [e]) = (case saved_by e of [] \<Rightarrow> last_saved l | _ \<Rightarrow> Some (last (saved_by e)))"
  by (simp add: last_saved_def Let_def split: list.split)

definition same_saved :: "'s traced \<Rightarrow> 's traced \<Rightarrow> bool" where
  "same_saved s t \<longleftrightarrow> last_saved (snd t) = last_saved (snd s)"

abbreviation quiet :: "('s traced, 'e, 'a) io \<Rightarrow> bool" where
  "quiet \<equiv> keeps same_saved"

lemma same_saved_order [simp]: "reflp same_saved" "transp same_saved"
  by (auto simp: same_saved_def reflp_def transp_def)

lemmas quiet_bind = keeps_bind [OF same_saved_order(2)]

lemma quiet_return: "quiet (io_return a)"
  by (rule keeps_return) simp

lemma quiet_fail: "quiet (io_fail e)"
  by (rule keeps_fail) simp

lemma quiet_lift: "quiet (io_lift f)"
  by (rule keeps_lift) simp

lemma quiet_unseen: "quiet (unseen m)"
  by (auto simp: keeps_def same_saved_def unseen_def split: prod.split)

lemma quiet_seen: "(\<And>ok. saved_by (ev ok) = []) \<Longrightarrow> quiet (seen ev m)"
  by (auto simp: keeps_def same_saved_def seen_def last_saved_snoc split: prod.split)

lemma quiet_error: "quiet m \<Longrightarrow> quiet (io_error g m)"
  by (simp add: keeps_def)

lemma quiet_when: "quiet m \<Longrightarrow> quiet (io_when c m)"
  by (cases c) (simp_all only: io_when_def if_True if_False quiet_return)

lemma quiet_require: "quiet (require c)"
  by (cases c) (simp_all only: require_def option.case quiet_return quiet_fail)

lemma quiet_planned: "quiet (planned r)"
  by (cases r) (simp_all only: planned_def sum.case quiet_return quiet_fail)

lemma quiet_iter: "(\<And>x. quiet (f x)) \<Longrightarrow> quiet (io_iter f xs)"
  by (induction xs) (simp_all only: io_iter.simps quiet_return quiet_bind)

lemma quiet_map: "(\<And>x. quiet (f x)) \<Longrightarrow> quiet (io_map f xs)"
  by (induction xs) (simp_all only: io_map.simps quiet_return quiet_bind)

lemmas quiet_rules = quiet_bind quiet_return quiet_fail quiet_lift quiet_unseen quiet_error quiet_when quiet_require
  quiet_planned quiet_iter quiet_map

lemma quiet_host:
  "quiet (ho_ReadPolicy (sv_Host (traced_service sv)))" "quiet (ho_InspectNetwork (sv_Host (traced_service sv)) ys)"
  "quiet (ho_WriteNetworkACL (sv_Host (traced_service sv)) acl)" "quiet (ho_DeleteNetworkACL (sv_Host (traced_service sv)) acl)"
  "quiet (ho_WriteProfileNIC (sv_Host (traced_service sv)) y nic)"
  "quiet (ho_WriteProjectNetworks (sv_Host (traced_service sv)) y access)"
  "quiet (ho_NetworkPower (sv_Host (traced_service sv)) yard act)"
  by (simp_all add: traced_defs quiet_unseen quiet_seen)

lemma quiet_run_guard: "quiet (run_guard (traced_service sv))"
  by (cases "sv_Guard sv") (auto simp: run_guard_def traced_defs quiet_fail intro!: quiet_error quiet_seen)

lemma quiet_observe: "quiet (observe (traced_service sv) y)"
  unfolding observe_def by (intro quiet_rules quiet_host) (auto split: option.split intro: quiet_rules)

lemma quiet_inspectNetwork: "quiet (inspectNetwork (traced_service sv) ys)"
  unfolding inspectNetwork_def
  by (intro quiet_bind quiet_error quiet_host, cases "sv_ContractSource sv")
    (auto simp: traced_service_def intro!: quiet_rules)

lemma quiet_Prepare: "quiet (Prepare (traced_service sv) ys c)"
  unfolding Prepare_def
  by (intro quiet_bind quiet_error quiet_host quiet_lift quiet_inspectNetwork) (auto intro!: quiet_rules)

lemma quiet_apply_updates: "quiet (apply_updates (traced_service sv) plan)"
  unfolding apply_updates_def stop_yard_def detach_acl_def write_yard_def Let_def
  by (intro quiet_rules quiet_host quiet_observe)

lemma quiet_guard_live: "quiet (guard_live (traced_service sv) plan)"
  unfolding guard_live_def by (intro quiet_when quiet_run_guard)

lemma quiet_recover:
  "quiet m \<Longrightarrow> quiet n \<Longrightarrow> quiet (\<lambda>s. case m s of (t, Inr _) \<Rightarrow> (t, Inr ()) | (t, Inl e) \<Rightarrow> (fst (n t), Inl e))"
  by (auto simp: keeps_def same_saved_def split: prod.split sum.split) (metis fst_conv snd_conv)+

lemma quiet_restart_yard: "quiet (restart_yard (traced_service sv) yards name)"
  unfolding restart_yard_def
  by (cases "if name = '''' then None else find_first (\<lambda>y. y_Name y = name) yards")
    (simp_all only: option.case quiet_fail,
     intro quiet_bind quiet_run_guard quiet_observe quiet_when quiet_error quiet_host quiet_require quiet_recover)

lemma WritePolicy_saved:
  assumes "on_host (ho_WritePolicy (sv_Host (traced_service sv)) stored p) (s, l) = ((t, k), r)"
  shows "last_saved k = (if is_ok r then Some p else last_saved l)"
  using assms
  by (auto simp: traced_defs io_error_def seen_def last_saved_snoc is_ok_def split: prod.splits sum.splits)

lemma quietD: "quiet m \<Longrightarrow> m (s, l) = ((t, k), r) \<Longrightarrow> last_saved k = last_saved l"
  using keepsD [of same_saved m "(s, l)" "(t, k)" r] by (simp add: same_saved_def)

text \<open>Every restart is acknowledged by a write; the yards that are still to be started remain in the saved policy.\<close>

lemma restart_pending_saved:
  assumes "restart_pending (traced_service sv) yards stored p (po_PendingStart p) (s, l) = ((t, k), r)"
    and "last_saved l = Some p"
  shows "\<exists>names. last_saved k = Some (p\<lparr>po_PendingStart := names\<rparr>) \<and> (is_ok r \<longleftrightarrow> names = [])"
  using assms
proof (induction "po_PendingStart p" arbitrary: p stored s l)
  case Nil
  have "p\<lparr>po_PendingStart := []\<rparr> = p" using Nil.hyps by simp
  then show ?case using Nil by (auto simp: is_ok_def)
next
  case (Cons name names)
  let ?sv = "traced_service sv" and ?q = "p\<lparr>po_PendingStart := names\<rparr>"
  have same: "p\<lparr>po_PendingStart := name # names\<rparr> = p" using Cons.hyps(2) by simp
  have run: "io_bind (restart_yard ?sv yards name) (\<lambda>_. io_bind (on_host (ho_WritePolicy (sv_Host ?sv) stored ?q))
      (\<lambda>stored'. restart_pending ?sv yards stored' ?q names)) (s, l) = ((t, k), r)"
    using Cons.prems(1) unfolding Cons.hyps(2) [symmetric] by simp
  obtain u j x where one: "restart_yard ?sv yards name (s, l) = ((u, j), x)" by (metis surj_pair)
  have j: "last_saved j = Some p" using quietD [OF quiet_restart_yard one] Cons.prems(2) by simp
  obtain v i y where two: "on_host (ho_WritePolicy (sv_Host ?sv) stored ?q) (u, j) = ((v, i), y)" by (metis surj_pair)
  note i = WritePolicy_saved [OF two]
  consider "k = j" "\<not> is_ok r" | "k = i" "\<not> is_ok r" "\<not> is_ok y"
    | stored' where "is_ok y" "restart_pending ?sv yards stored' ?q names (v, i) = ((t, k), r)"
    using run one two by (cases x; cases y) (auto simp: io_bind_def is_ok_def)
  then show ?case
  proof cases
    case 3
    then show ?thesis using Cons.hyps(1) [of ?q stored' v i] i by simp
  qed (use same i j in \<open>auto intro!: exI [of _ "name # names"]\<close>)
qed

lemma fold_Forget_fields [simp]:
  "po_Revision (fold Forget names p) = po_Revision p" "po_AppliedRevision (fold Forget names p) = po_AppliedRevision p"
  "po_Isolation (fold Forget names p) = po_Isolation p" "po_AppliedIsolation (fold Forget names p) = po_AppliedIsolation p"
  "po_PendingStart (fold Forget names p) = po_PendingStart p" "po_Removing (fold Forget names p) = po_Removing p"
  by (induction names arbitrary: p) (simp_all add: Forget_def without_links_def)

lemma applied_pending: "pending_work ((applied p)\<lparr>po_PendingStart := names\<rparr>) \<longleftrightarrow> names \<noteq> []"
  by (simp add: applied_def Let_def pending_work_def)

lemma intent_fields [simp]:
  "po_Revision (intent plan) = po_Revision (pl_Policy plan)"
  "po_AppliedRevision (intent plan) = po_AppliedRevision (pl_Policy plan)"
  by (simp_all add: intent_def Let_def)

lemma applyLocked_saved:
  assumes run: "applyLocked (traced_service sv) plan (s, []) = ((t, k), r)"
    and unapplied: "po_AppliedRevision (pl_Policy plan) \<noteq> po_Revision (pl_Policy plan)"
  shows "pred_option (\<lambda>p. pending_work p = (\<not> is_ok r)) (last_saved k)"
proof -
  let ?sv = "traced_service sv" and ?p = "intent plan"
  have pending: "pending_work ?p" using unapplied by (simp add: pending_work_def)
  let ?check = "\<lambda>v. require (if pl_Physical v then Some NotConverged else None)"
  let ?middle = "io_bind (apply_updates ?sv plan) (\<lambda>_. io_bind (Prepare ?sv (pl_Yards plan) no_change) ?check)"
  have run': "io_bind (guard_live ?sv plan) (\<lambda>_. io_bind (on_host (ho_WritePolicy (sv_Host ?sv) (pl_Before plan) ?p)) (\<lambda>stored.
      io_bind ?middle (\<lambda>_. io_bind (on_host (ho_WritePolicy (sv_Host ?sv) stored (applied ?p))) (\<lambda>stored'.
      restart_pending ?sv (pl_Yards plan) stored' (applied ?p) (po_PendingStart (applied ?p)))))) (s, []) = ((t, k), r)"
    using run by (simp add: applyLocked_def Let_def io_bind_assoc)
  obtain t1 k1 r1 where m1: "guard_live ?sv plan (s, []) = ((t1, k1), r1)" by (metis surj_pair)
  obtain t2 k2 r2 where m2: "on_host (ho_WritePolicy (sv_Host ?sv) (pl_Before plan) ?p) (t1, k1) = ((t2, k2), r2)" by (metis surj_pair)
  obtain t3 k3 r3 where m3: "?middle (t2, k2) = ((t3, k3), r3)" by (metis surj_pair)
  have k1: "last_saved k1 = None" using quietD [OF quiet_guard_live m1] by simp
  have k2: "last_saved k2 = (if is_ok r2 then Some ?p else None)" using WritePolicy_saved [OF m2] k1 by simp
  have "quiet ?middle" by (intro quiet_bind quiet_apply_updates quiet_Prepare quiet_require)
  then have k3: "last_saved k3 = last_saved k2" using m3 by (rule quietD)
  consider "k = k1 \<or> k = k2 \<and> \<not> is_ok r2" | "k = k3" "is_ok r2" "\<not> is_ok r"
    | stored where "is_ok r2" "io_bind (on_host (ho_WritePolicy (sv_Host ?sv) stored (applied ?p))) (\<lambda>stored'.
      restart_pending ?sv (pl_Yards plan) stored' (applied ?p) (po_PendingStart (applied ?p))) (t3, k3) = ((t, k), r)"
    using run' m1 m2 m3 by (cases r1; cases r2; cases r3) (auto simp: io_bind_ok io_bind_err is_ok_def)
  then show ?thesis
  proof cases
    case (3 stored)
    obtain t4 k4 r4 where m4: "on_host (ho_WritePolicy (sv_Host ?sv) stored (applied ?p)) (t3, k3) = ((t4, k4), r4)"
      by (metis surj_pair)
    show ?thesis
    proof (cases r4)
      case (Inl e) then show ?thesis using 3 m4 WritePolicy_saved [OF m4] k2 k3 pending by (auto simp: io_bind_err is_ok_def)
    next
      case (Inr stored')
      obtain names where "last_saved k = Some ((applied ?p)\<lparr>po_PendingStart := names\<rparr>)" "is_ok r \<longleftrightarrow> names = []"
        using restart_pending_saved [of sv "pl_Yards plan" stored' "applied ?p" t4 k4 t k r]
          3(2) m4 Inr WritePolicy_saved [OF m4] by (auto simp: io_bind_ok is_ok_def)
      then show ?thesis by (simp add: applied_pending)
    qed
  qed (use k1 k2 k3 pending in auto)
qed

text \<open>The fields of the policy that record progress, through planning.\<close>

definition progress :: "Policy \<Rightarrow> 64 word \<times> 64 word \<times> bool \<times> string list \<times> string list" where
  "progress p = (po_Revision p, po_AppliedRevision p, po_AppliedIsolation p, po_PendingStart p, po_Removing p)"

lemma without_links_progress: "progress (fold without_links names p) = progress p"
    "po_Isolation (fold without_links names p) = po_Isolation p"
  by (induction names arbitrary: p) (simp_all add: without_links_def progress_def)

lemma Policy_Link_progress: "Policy_Link a b p = Inr q \<Longrightarrow> progress q = progress p"
  by (auto simp: Policy_Link_def progress_def split: sum.splits if_splits)

lemma Policy_Unlink_progress: "Policy_Unlink a b p = Inr q \<Longrightarrow> progress q = progress p"
  by (auto simp: Policy_Unlink_def progress_def split: sum.splits if_splits)

lemma apply_change_progress: "apply_change c known p = Inr q \<Longrightarrow> progress q = progress p"
  by (auto simp: apply_change_def Let_def res_bind_Inr without_links_progress
      dest!: Policy_Link_progress Policy_Unlink_progress split: sum.splits option.splits if_splits)
    (simp_all add: progress_def)

lemma plan_isolation_progress:
  "plan_isolation p s = Inr (q, updates) \<Longrightarrow> progress q = progress p \<and> po_Isolation q = po_Isolation p"
  using planBindings_Inr(1) [of p s q]
  by (auto simp: plan_isolation_def res_bind_Inr progress_def split: if_splits option.splits)

lemma buildPlan_unapplied:
  assumes "buildPlan stored s c = Inr plan" and "pl_Changed plan"
  shows "po_AppliedRevision (pl_Policy plan) \<noteq> po_Revision (pl_Policy plan)"
proof -
  obtain p0 p q updates before content where p: "reread (sp_Policy stored) = Inr p0"
    "apply_change c (map oy_Name (sn_Yards s)) p0 = Inr p" "plan_isolation p s = Inr (q, updates)"
    "encoded q = Inr content" and fin: "finished_plan stored s c q updates before content = Inr plan"
    by (rule buildPlan_Inr [OF assms(1)])
  have "progress q = progress p0" using apply_change_progress [OF p(2)] plan_isolation_progress [OF p(3)] by simp
  moreover have "po_AppliedRevision p0 \<le> po_Revision p0" using reread_Inr [OF p(1)] by (simp add: canonical_def)
  ultimately have le: "po_AppliedRevision q \<le> po_Revision q" by (simp add: progress_def)
  have rev: "po_Revision (pl_Policy plan) = po_Revision q + 1" "po_AppliedRevision (pl_Policy plan) = po_AppliedRevision q"
    "po_Revision q + 1 \<noteq> 0"
    using finished_plan_Inr(1) [OF fin] assms(2) by auto
  have "po_Revision q < po_Revision q + 1" using rev(3) unatSuc [of "po_Revision q"] by (simp add: word_less_nat_alt add.commute)
  then show ?thesis using le rev by auto
qed

lemma Prepare_Inr:
  assumes "Prepare sv ys c s = (t, Inr plan)"
  obtains stored u snapshot where "ho_ReadPolicy (sv_Host sv) s = (u, Inr stored)" "buildPlan stored snapshot c = Inr plan"
proof -
  have "\<exists>u stored snapshot. ho_ReadPolicy (sv_Host sv) s = (u, Inr stored) \<and> buildPlan stored snapshot c = Inr plan"
    using assms unfolding Prepare_def
    by (auto elim!: io_bind_InrE simp: planned_def split: if_splits sum.splits) blast+
  then show thesis using that by blast
qed

text \<open>C5: Whatever the host answers and wherever an apply stops, the last policy it is known to have saved records
  unfinished work exactly when the apply failed.\<close>

theorem failed_apply_leaves_pending_work:
  "case Apply (traced_service sv) approved (s, []) of
     ((t, log), r) \<Rightarrow> pred_option (\<lambda>p. pending_work p = (\<not> is_ok r)) (last_saved log)"
proof -
  obtain t log r where run: "Apply (traced_service sv) approved (s, []) = ((t, log), r)" by (metis surj_pair)
  then have "pred_option (\<lambda>p. pending_work p = (\<not> is_ok r)) (last_saved log)"
  proof (cases rule: Apply_cases)
    case (locked current u v)
    obtain w where lock: "applyLocked (traced_service sv) current (v, []) = ((w, log), r)"
      using locked(4,5) by (metis surj_pair prod.collapse)
    obtain stored snapshot where "buildPlan stored snapshot (pl_Change approved) = Inr current"
      using Prepare_Inr [OF locked(3)] by blast
    then show ?thesis using applyLocked_saved [OF lock] buildPlan_unapplied locked(2) by blast
  qed simp
  then show ?thesis using run by simp
qed

section \<open>Unfinished work stops managed starts\<close>

lemma reread_pending:
  assumes "reread p = Inr q" shows "pending_work q \<longleftrightarrow> pending_work p"
proof -
  obtain n where n: "normalize p = Inr n" "normalize (json_policy n) = Inr q"
    using assms by (auto simp: reread_def Decode_def res_bind_Inr split: sum.splits)
  have "pending_work (json_policy n) \<longleftrightarrow> pending_work n" by (simp add: pending_work_def json_policy_def)
  moreover have "pending_work u \<longleftrightarrow> pending_work v" if "normalize v = Inr u" for u v
    using that by (auto simp: normalize_Inr pending_work_def)
  ultimately show ?thesis using n by blast
qed

lemma no_change_keeps:
  assumes "apply_change no_change known p = Inr q"
  shows "progress q = progress p" and "po_Isolation q = po_Isolation p"
  using assms by (auto simp: apply_change_def no_change_def without_links_progress)

lemma buildPlan_pending:
  assumes "buildPlan stored s no_change = Inr plan" and "pending_work (sp_Policy stored)"
  shows "pl_Changed plan"
proof -
  obtain p0 p q updates before content where p: "reread (sp_Policy stored) = Inr p0"
    "apply_change no_change (map oy_Name (sn_Yards s)) p0 = Inr p" "plan_isolation p s = Inr (q, updates)"
    "encoded q = Inr content" and fin: "finished_plan stored s no_change q updates before content = Inr plan"
    by (rule buildPlan_Inr [OF assms(1)])
  have "pending_work p0" using reread_pending [OF p(1)] assms(2) by simp
  moreover have "progress q = progress p0" "po_Isolation q = po_Isolation p0"
    using no_change_keeps [OF p(2)] plan_isolation_progress [OF p(3)] by simp_all
  ultimately have "pending_work q" by (simp add: pending_work_def progress_def)
  then show ?thesis using finished_plan_Inr(4) [OF fin] by simp
qed

lemma at_rest_pending: "at_rest p \<Longrightarrow> \<not> pending_work p"
  by (auto simp: at_rest_def pending_work_def)

lemma Check_pending:
  assumes "pending_work p" and "\<And>t u stored. ho_ReadPolicy (sv_Host sv) t = (u, Inr stored) \<Longrightarrow> sp_Policy stored = p"
  shows "\<not> is_ok (snd (Check sv y s))"
proof
  assume "is_ok (snd (Check sv y s))"
  then obtain t where run: "Check sv y s = (t, Inr ())" by (cases "Check sv y s") (auto simp: is_ok_iff)
  have "\<not> at_rest p" using assms(1) at_rest_pending by blast
  then have "\<exists>u v plan. Prepare sv [y] no_change u = (v, Inr plan) \<and> \<not> pl_Changed plan"
    using run assms(2) unfolding Check_def
    by (auto elim!: io_bind_InrE simp: require_def split: if_splits option.splits) blast
  then obtain u v plan where prep: "Prepare sv [y] no_change u = (v, Inr plan)" and "\<not> pl_Changed plan" by blast
  obtain w stored snapshot where "ho_ReadPolicy (sv_Host sv) u = (w, Inr stored)" "buildPlan stored snapshot no_change = Inr plan"
    by (rule Prepare_Inr [OF prep])
  with \<open>\<not> pl_Changed plan\<close> show False using buildPlan_pending assms by metis
qed

text \<open>C12: As long as the stored policy records unfinished work, a managed start fails before the start action runs:
  the outcome does not depend on that action.\<close>

theorem unfinished_policy_blocks_starts:
  assumes "pending_work p"
    and "\<And>t u stored. ho_ReadPolicy (sv_Host sv) t = (u, Inr stored) \<Longrightarrow> sp_Policy stored = p"
  shows "\<not> is_ok (snd (WithStart sv y start s)) \<and> WithStart sv y start s = WithStart sv y other s"
proof -
  have fails: "\<not> is_ok (snd (Check sv y u))" for u
    by (rule Check_pending [OF assms(1)]) (rule assms(2))
  have "io_bind (Check sv y) (\<lambda>_. m) u = Check sv y u" for m u
    using fails [of u] by (cases "Check sv y u"; cases "snd (Check sv y u)") (auto simp: io_bind_err)
  then have "WithStart sv y m = with_lock sv (Check sv y)" for m unfolding WithStart_def by metis
  moreover have "\<not> is_ok (snd (with_lock sv (Check sv y) s))"
    using fails by (auto simp: with_lock_def io_bind_def io_error_def is_ok_iff split: option.splits prod.splits sum.splits)
      (metis sndI)
  ultimately show ?thesis by simp
qed

text \<open>A host that only holds a policy with unfinished work.\<close>

definition demo_service :: "(unit, unit) Service" where
  "demo_service =
     \<lparr>sv_Host = \<lparr>ho_ReadPolicy = io_return demo_stored, ho_WritePolicy = (\<lambda>_ _. io_fail ()), ho_InspectNetwork = (\<lambda>_. io_fail ()),
        ho_WriteNetworkACL = (\<lambda>_. io_fail ()), ho_DeleteNetworkACL = (\<lambda>_. io_fail ()), ho_WriteProfileNIC = (\<lambda>_ _. io_fail ()),
        ho_WriteProjectNetworks = (\<lambda>_ _. io_fail ()), ho_NetworkPower = (\<lambda>_ _. io_fail ())\<rparr>,
      sv_Lock = Some \<lparr>lo_Acquire = io_return (), lo_Release = id\<rparr>, sv_Guard = Some (io_return ()), sv_ContractSource = None,
      sv_UseApprovedIngress = False, sv_ClearStaleUDP = None\<rparr>"

theorem unfinished_policy_blocks_starts_witness:
  "pending_work demo_pol \<and> \<not> is_ok (snd (WithStart demo_service (demo_yard ''alpha'') (io_return ()) ()))
    \<and> WithStart demo_service (demo_yard ''alpha'') (io_return ()) () = WithStart demo_service (demo_yard ''alpha'') (io_fail NotConverged) ()"
proof -
  have pending: "pending_work demo_pol" by (simp add: demo_stored_def pending_work_def)
  have reads: "sp_Policy stored = demo_pol" if "ho_ReadPolicy (sv_Host demo_service) t = (u, Inr stored)" for t u stored
    using that by (simp add: demo_service_def)
  have "\<not> is_ok (snd (WithStart demo_service (demo_yard ''alpha'') (io_return ()) ()))
      \<and> WithStart demo_service (demo_yard ''alpha'') (io_return ()) () = WithStart demo_service (demo_yard ''alpha'') (io_fail NotConverged) ()"
    by (rule unfinished_policy_blocks_starts [OF pending]) (rule reads)
  with pending show ?thesis by blast
qed

section \<open>What a removal forgets\<close>

lemma fold_without_links:
  "fold without_links names p =
     p\<lparr>po_Links := filter (\<lambda>l. lk_A l \<notin> set names \<and> lk_B l \<notin> set names) (po_Links p)\<rparr>"
  by (induction names arbitrary: p) (auto simp: without_links_def conj_ac intro!: filter_cong)

lemma fold_Forget:
  "fold Forget names p =
     p\<lparr>po_Links := filter (\<lambda>l. lk_A l \<notin> set names \<and> lk_B l \<notin> set names) (po_Links p),
       po_Bindings := filter (\<lambda>b. y_Name (bd_Yard b) \<notin> set names) (po_Bindings p)\<rparr>"
  by (induction names arbitrary: p) (auto simp: Forget_def without_links_def conj_ac intro!: filter_cong)

lemma Peers_empty: "Peers p name = [] \<longleftrightarrow> (\<forall>l \<in> set (po_Links p). lk_A l \<noteq> name \<and> lk_B l \<noteq> name)"
proof -
  have empty: "sort xs = [] \<longleftrightarrow> xs = []" for xs :: "string list" by (metis length_0_conv length_sort)
  have each: "concat (map f ls) = [] \<longleftrightarrow> (\<forall>l \<in> set ls. f l = [])" for f :: "Link \<Rightarrow> string list" and ls by simp
  show ?thesis unfolding Peers_def empty each by (intro ball_cong refl) auto
qed

lemma two_more:
  fixes r :: "64 word" assumes "\<not> r > - 1 - 2" shows "r < r + 1" and "r + 1 < r + 2"
proof -
  have "(- 1 - 2 :: 64 word) = 18446744073709551613" by simp
  then have "r \<le> 18446744073709551613" using assms by (metis not_less)
  then have "unat r \<le> 18446744073709551613" by (simp add: word_le_nat_alt)
  then have "unat (r + 1) = unat r + 1" "unat (r + 2) = unat r + 2" by (simp_all add: unat_word_ariths)
  then show "r < r + 1" "r + 1 < r + 2" by (simp_all add: word_less_nat_alt)
qed



end
