(* ===== verification/Spec2Isabelle.thy ===== *)
theory Spec2Isabelle
  imports Orchestrator Lease_Durability Credential_History Credential_Sync Project_Renaming Network_Safety
begin

text \<open>
  Verification of the control plane of \<open>subyard\<close>, the Go program under \<open>src/internal\<close> that runs
  development yards (containers and virtual machines) on an owner's host.

  \<^bold>\<open>The program.\<close>  A command enters through the application orchestrator, which prepares a plan of an
  action, asks for consent where the action policy requires it, rechecks the plan and lets an adapter run
  it, with audit records around the run.  The adapters and services behind it keep state of their own:
  the project store (which project lives in which yard under which name), the lease broker (which client
  holds which test machine), the credential ledger (signed revisions that peers exchange) and the yard
  network (which yard may reach which).  Each of these parts is a group of theories; they share the
  identifier classes of \<open>Identity\<close> and the language layer.

  \<^bold>\<open>Language layer.\<close>  \<open>Go_Lib\<close> (results, loops, integers, clocks), \<open>Go_Strings\<close>, \<open>Go_Format\<close>, \<open>Go_Json\<close>,
  \<open>Go_Sha256\<close>, \<open>Go_Net\<close> (IPv4 addresses, prefixes, hardware addresses, maps) and \<open>Go_Files\<close> (files written
  as a whole, and functions on a state that may fail) say how Go and its standard library are read.
  An \<open>error\<close> is an option, a pair \<open>(T, error)\<close> a sum, a struct a record with prefixed fields, an enumeration a
  datatype, a map an association list or finite map; where the order of a map iteration can matter it
  is an argument.  \<open>int64\<close> arithmetic wraps, revisions of the network policy are \<open>64 word\<close>, times are
  nanoseconds.  \<open>Machines\<close> holds the locales of invariants over sequences of calls, interpreted by the
  stateful components.  Answers from outside the program are arguments: file contents and write outcomes,
  clocks, random bytes, signature checks, the Unicode lower-case table, the parse of JSON and RFC 3339
  texts, the host.

  \<^bold>\<open>Domain\<close> (\<open>internal/domain\<close>).  \<open>Identity\<close>: names, yard references, selectors, project records, the
  command context.  \<open>Action_Policy\<close>: registry, assessment, policy table and refusals.  \<open>Operation_Steps\<close>:
  validation of step lists, rechecks and progress; validation accepts exactly the ordered lists, and no
  chain of rechecks widens what was approved.

  \<^bold>\<open>Orchestrator\<close> (\<open>internal/application/orchestrator.go\<close>).  \<open>Orchestrator\<close> models routing, preparation,
  prompts, recheck, run and audit.  An adapter runs only with consent for the plan it runs; audit revisions
  have no gaps; a run stands between an accepted start record and a finish record.

  \<^bold>\<open>Lease broker\<close> (\<open>internal/adapters/testvmsruntime\<close>).  \<open>Lease_Text\<close>: identifiers and texts.  \<open>Lease_Pool\<close>: the
  operations on the pool.  \<open>Lease_Store\<close>: pool file and recovery journal with the outcome of every write.
  \<open>Lease_Lifecycle\<close> is the abstract state machine of a slot, which \<open>Lease_Fencing\<close> shows the files to follow;
  outdated grants are refused and fenced pools admit nobody.  \<open>Lease_Safety\<close>: the files stay readable.
  \<open>Lease_Durability\<close>: written pools read back, interrupted writes leave the old or the new state, and two
  operations write a journal that no later load accepts.

  \<^bold>\<open>Credential ledger\<close> (\<open>internal/credential/policy.go\<close>).  \<open>Credential_Ledger\<close> and \<open>Credential_Sync\<close> are the
  definitions, \<open>Credential_History\<close> the theory of histories: validation by depth-first search equals a
  declarative predicate, the authority of an exclusive credential is fixed, peers only append, merge
  decisions do not depend on order.

  \<^bold>\<open>Project state\<close> (\<open>internal/state\<close>).  \<open>Project_Files\<close>, \<open>Project_Names\<close>, \<open>Project_Store\<close>, \<open>Project_Admission\<close>,
  \<open>Project_Migration\<close> and \<open>Project_Service\<close> follow the Go files.  \<open>Project_View\<close> and \<open>Project_Laws\<close> show that the file
  store implements a map from projects to records, the contract (a locale) on which the service and the
  resolver rest.  \<open>Project_Integrity\<close>: names stay apart.  \<open>Project_Promise\<close>: a reservation can be finalized.
  \<open>Project_Renaming\<close>: the migration ends and makes names unique.

  \<^bold>\<open>Yard network\<close> (\<open>internal/yardnetwork\<close>).
  \<^item> \<open>Network_Policy\<close> (\<open>policy.go\<close>) and \<open>Network_Canonical\<close>: the host-wide policy with links, fixed identities
    and approved routes; its text decodes to its normal form.
  \<^item> \<open>Network_Observed\<close>, \<open>Network_Data\<close>, \<open>Network_Plan\<close> (\<open>host.go\<close>, \<open>planner.go\<close> and the parts of
    \<open>resource/registry.go\<close> and \<open>previewroute/route.go\<close> it calls): the observation of the host and the plan.
    \<open>Network_Isolation\<close>: with isolation on, yards meet exactly over links and published ports.
  \<^item> \<open>Network_Approval\<close> (\<open>operation_plan.go\<close>): a fresh plan is accepted only within the approved one.
  \<^item> \<open>Network_Service\<close> (\<open>service.go\<close>, \<open>boot_conntrack.go\<close>): preparing, applying, checking, starting, removing, over
    any host.  \<open>Network_Trace\<close> records the calls that change the host and gives rules for their order;
    \<open>Network_Safety\<close> shows the order of an apply, that a failure leaves a policy with unfinished work,
    that such a policy stops every managed start, and what a removal forgets.

  \<^bold>\<open>Bounds and fuel.\<close>  Loops are structural or have a termination proof, with these exceptions.  The search
  for a free address makes at most 65536 attempts, as in the code.  The search for a free project name
  may run forever in principle and is an option-valued partial function; it is shown to return as long as
  fewer names are taken than its counter can count.  The
  depth-first search of the ledger runs on the set of identifiers still to visit.  SHA-256 follows FIPS 180-4
  on whole messages.

  \<^bold>\<open>Assumptions of the models.\<close>  Addresses are IPv4: a text that only parses as IPv6 counts as not parsed, which
  every caller treats alike.  Nil and empty maps and slices are identified.  Error values keep their
  kind and the names they carry, not their message text.  Sorting is stable where Go leaves the order of
  equal keys open.  Locks exclude other processes that use them; calls are served one after another.

  \<^bold>\<open>Not modelled.\<close>  Command line, rendering, remote calls, SSH files, system units and the desktop client are
  input and output around the parts above.  The adapters (Incus, SOPS, Git, processes, virtual
  machines) call programs outside the repository; the models that use them take their answers as
  arguments.  Configuration, profiles, release changes, owner publication and one-time migrations read
  and write files of external formats step by step.  The activation of resource routes
  (\<open>resource_ingress.go\<close>) works on device state owned by the resource runtime.  Of \<open>testvmsruntime\<close>, the event
  store, the configuration loader and the work on machines are left out.  Timeouts and cancellation of
  contexts appear only as failures of the call they interrupt.
\<close>

end
